(* ===== verification/Prelude.thy ===== *)
theory Prelude
  imports Complex_Main "HOL-Library.State_Monad" "HOL-Library.Word"
begin

text \<open>
  Shared foundations of the development: the 32-bit and 64-bit integers of Go as
  integers with the wrap-around written out, panics as values, nil-able slices and
  maps, the observable-effect monad every component runs in, and the small logic
  (\<open>does\<close>) in which the effects of an operation are specified.

  An operation runs against an arbitrary environment of type \<open>'e\<close> (the API server,
  the pods, the network) and appends every request it makes, with the answer it got,
  to a trace. \<open>does m \<Phi>\<close> says that every run of \<open>m\<close>, from every environment and
  trace, returns some \<open>r\<close> and emits some list of events \<open>evs\<close> with \<open>\<Phi> r evs\<close>.
\<close>

section \<open>Collections of rules\<close>

named_theorems does_rules \<open>rules that run an operation symbolically\<close>
named_theorems go_simps \<open>equations of the Go standard library that the components use\<close>

section \<open>Machine integers\<close>

definition wrap32 :: "int \<Rightarrow> int" where
  "wrap32 x = (x + 2147483648) mod 4294967296 - 2147483648"

definition wrap64 :: "int \<Rightarrow> int" where
  "wrap64 x = (x + 9223372036854775808) mod 18446744073709551616 - 9223372036854775808"

definition in_int32 :: "int \<Rightarrow> bool" where
  "in_int32 x \<longleftrightarrow> - 2147483648 \<le> x \<and> x \<le> 2147483647"

definition in_int64 :: "int \<Rightarrow> bool" where
  "in_int64 x \<longleftrightarrow> - 9223372036854775808 \<le> x \<and> x \<le> 9223372036854775807"

section \<open>Panics\<close>

text \<open>A nil dereference, an index out of range or a write to a nil map panics.\<close>

datatype 'a outcome = Ret 'a | Panic

section \<open>Slices and maps that may be nil\<close>

type_synonym 'a slice = "'a list option"
type_synonym strmap = "string \<rightharpoonup> string"

fun elems :: "'a slice \<Rightarrow> 'a list" where
  "elems None = []"
| "elems (Some xs) = xs"

definition slice_append :: "'a slice \<Rightarrow> 'a \<Rightarrow> 'a slice" where
  "slice_append xs x = Some (elems xs @ [x])"

text \<open>Reading a key of a possibly nil \<open>map[string]string\<close>: the empty string where absent.\<close>

fun map_get :: "strmap option \<Rightarrow> string \<Rightarrow> string" where
  "map_get None k = ''''"
| "map_get (Some m) k = (case m k of None \<Rightarrow> '''' | Some v \<Rightarrow> v)"

section \<open>The effect monad\<close>

type_synonym ('e, 'v, 'a) op = "('e \<times> 'v list, 'a) state"

abbreviation ret :: "'a \<Rightarrow> ('s, 'a) state" where
  "ret x \<equiv> State_Monad.return x"

text \<open>A request to the environment: the answer is returned and the event recorded.\<close>

definition call :: "('e \<Rightarrow> 'a \<times> 'e) \<Rightarrow> ('a \<Rightarrow> 'v) \<Rightarrow> ('e, 'v, 'a) op" where
  "call f ev = State (\<lambda>(e, tr). case f e of (r, e') \<Rightarrow> (r, (e', tr @ [ev r])))"

text \<open>An observable action without an answer, such as an event sent to the recorder.\<close>

definition emit :: "'v \<Rightarrow> ('e, 'v, unit) op" where
  "emit v = State (\<lambda>(e, tr). ((), (e, tr @ [v])))"

definition does :: "('e, 'v, 'a) op \<Rightarrow> ('a \<Rightarrow> 'v list \<Rightarrow> bool) \<Rightarrow> bool" where
  "does m \<Phi> \<longleftrightarrow>
     (\<forall>s. \<exists>evs. snd (snd (run_state m s)) = snd s @ evs \<and> \<Phi> (fst (run_state m s)) evs)"

text \<open>All the events an operation emits satisfy \<open>P\<close>.\<close>

definition emits_only :: "('v \<Rightarrow> bool) \<Rightarrow> ('e, 'v, 'a) op \<Rightarrow> bool" where
  "emits_only P m \<longleftrightarrow> does m (\<lambda>r evs. list_all P evs)"

section \<open>Lemmas on machine integers\<close>

lemma wrap32_in_int32 [simp]: "in_int32 (wrap32 x)"
proof -
  have "0 \<le> (x + 2147483648) mod 4294967296" and "(x + 2147483648) mod 4294967296 < 4294967296"
    by simp_all
  then show ?thesis by (simp add: wrap32_def in_int32_def)
qed

lemma wrap32_id [simp]: "in_int32 x \<Longrightarrow> wrap32 x = x"
  by (simp add: wrap32_def in_int32_def)

lemma wrap64_id [simp]: "in_int64 x \<Longrightarrow> wrap64 x = x"
  by (simp add: wrap64_def in_int64_def)

lemma wrap32_word: "wrap32 x = sint (word_of_int x :: 32 word)"
  by (simp add: wrap32_def signed_of_int signed_take_bit_eq_take_bit_shift take_bit_eq_mod)

lemma in_int32_in_int64: "in_int32 x \<Longrightarrow> in_int64 x"
  by (simp add: in_int32_def in_int64_def)

section \<open>Lemmas on slices and maps\<close>

lemma elems_slice_append [simp]: "elems (slice_append xs x) = elems xs @ [x]"
  by (simp add: slice_append_def)

lemma map_get_upd [simp]:
  "map_get (Some (m(k \<mapsto> v))) k' = (if k' = k then v else map_get (Some m) k')"
  by simp

section \<open>Running operations\<close>

lemma run_call [simp]:
  "run_state (call f ev) (e, tr) = (case f e of (r, e') \<Rightarrow> (r, (e', tr @ [ev r])))"
  by (simp add: call_def)

lemma run_emit [simp]: "run_state (emit v) (e, tr) = ((), (e, tr @ [v]))"
  by (simp add: emit_def)

lemma run_if [simp]:
  "run_state (if b then m else n) s = (if b then run_state m s else run_state n s)"
  by simp

section \<open>The logic of effects\<close>

lemma doesD:
  assumes "does m \<Phi>" and "run_state m s = (r, s')"
  obtains evs where "snd s' = snd s @ evs" and "\<Phi> r evs"
proof -
  have "\<exists>evs. snd (snd (run_state m s)) = snd s @ evs \<and> \<Phi> (fst (run_state m s)) evs"
    using assms(1) unfolding does_def by blast
  with assms(2) that show thesis by auto
qed

lemma does_run: "does m \<Phi> \<Longrightarrow> run_state m (e, []) = (r, e', evs) \<Longrightarrow> \<Phi> r evs"
  by (erule (1) doesD) simp

lemma does_return [does_rules]: "\<Phi> x [] \<Longrightarrow> does (ret x) \<Phi>"
  by (simp add: does_def)

lemma does_call [does_rules]: "(\<And>r. \<Phi> r [ev r]) \<Longrightarrow> does (call f ev) \<Phi>"
  by (auto simp: does_def call_def split: prod.splits)

lemma does_emit [does_rules]: "\<Phi> () [v] \<Longrightarrow> does (emit v) \<Phi>"
  by (auto simp: does_def emit_def)

lemma does_mono: "does m \<Phi> \<Longrightarrow> (\<And>r evs. \<Phi> r evs \<Longrightarrow> \<Psi> r evs) \<Longrightarrow> does m \<Psi>"
  unfolding does_def by blast

lemma does_bind:
  assumes "does m \<Phi>"
    and "\<And>x evs. \<Phi> x evs \<Longrightarrow> does (f x) (\<lambda>r evs'. \<Psi> r (evs @ evs'))"
  shows "does (m \<bind> f) \<Psi>"
  unfolding does_def
proof (intro allI)
  fix s
  obtain x s1 where m: "run_state m s = (x, s1)" by (cases "run_state m s")
  then obtain evs where e1: "snd s1 = snd s @ evs" and "\<Phi> x evs"
    using doesD[OF assms(1) m] by blast
  obtain r s2 where f: "run_state (f x) s1 = (r, s2)" by (cases "run_state (f x) s1")
  then obtain evs' where "snd s2 = snd s1 @ evs'" and "\<Psi> r (evs @ evs')"
    using doesD[OF assms(2)[OF \<open>\<Phi> x evs\<close>] f] by blast
  with m f e1 show "\<exists>evs. snd (snd (run_state (m \<bind> f) s)) = snd s @ evs
      \<and> \<Psi> (fst (run_state (m \<bind> f) s)) evs"
    by auto
qed

text \<open>The trace of a run is unique, so two specifications hold together.\<close>

lemma does_conj:
  assumes "does m \<Phi>" and "does m \<Psi>"
  shows "does m (\<lambda>r evs. \<Phi> r evs \<and> \<Psi> r evs)"
  unfolding does_def
proof (intro allI)
  fix s
  obtain evs where "snd (snd (run_state m s)) = snd s @ evs" and "\<Phi> (fst (run_state m s)) evs"
    using assms(1) unfolding does_def by blast
  moreover obtain evs' where "snd (snd (run_state m s)) = snd s @ evs'" and "\<Psi> (fst (run_state m s)) evs'"
    using assms(2) unfolding does_def by blast
  ultimately show "\<exists>evs. snd (snd (run_state m s)) = snd s @ evs \<and>
      \<Phi> (fst (run_state m s)) evs \<and> \<Psi> (fst (run_state m s)) evs"
    by auto
qed

text \<open>A hypothesis about values known before the run may stand in the postcondition.\<close>

lemma does_imp:
  assumes "does m \<Psi>" and "P \<Longrightarrow> does m \<Phi>"
  shows "does m (\<lambda>r evs. P \<longrightarrow> \<Phi> r evs)"
proof (cases P)
  case False
  then show ?thesis by (intro does_mono[OF assms(1)]) simp
qed (use assms(2) in simp)

text \<open>The same as a weakest precondition: the rest of the run is the postcondition of \<open>m\<close>.\<close>

lemma does_bindI [does_rules]:
  "does m (\<lambda>x evs. does (f x) (\<lambda>r evs'. \<Phi> r (evs @ evs'))) \<Longrightarrow> does (m \<bind> f) \<Phi>"
  by (erule does_bind)

lemma does_if [does_rules]:
  "(b \<Longrightarrow> does m \<Phi>) \<Longrightarrow> (\<not> b \<Longrightarrow> does n \<Phi>) \<Longrightarrow> does (if b then m else n) \<Phi>"
  by simp

lemma does_case_sum [does_rules]:
  "(\<And>e. x = Inl e \<Longrightarrow> does (f e) \<Phi>) \<Longrightarrow> (\<And>y. x = Inr y \<Longrightarrow> does (g y) \<Phi>) \<Longrightarrow>
   does (case x of Inl e \<Rightarrow> f e | Inr y \<Rightarrow> g y) \<Phi>"
  by (simp split: sum.split)

lemma does_case_option [does_rules]:
  "(x = None \<Longrightarrow> does f \<Phi>) \<Longrightarrow> (\<And>y. x = Some y \<Longrightarrow> does (g y) \<Phi>) \<Longrightarrow>
   does (case x of None \<Rightarrow> f | Some y \<Rightarrow> g y) \<Phi>"
  by (simp split: option.split)

lemma does_case_outcome [does_rules]:
  "(\<And>y. x = Ret y \<Longrightarrow> does (f y) \<Phi>) \<Longrightarrow> (x = Panic \<Longrightarrow> does g \<Phi>) \<Longrightarrow>
   does (case x of Ret y \<Rightarrow> f y | Panic \<Rightarrow> g) \<Phi>"
  by (simp split: outcome.split)

lemma does_case_prod [does_rules]:
  "(\<And>a b. x = (a, b) \<Longrightarrow> does (f a b) \<Phi>) \<Longrightarrow> does (case x of (a, b) \<Rightarrow> f a b) \<Phi>"
  by (simp split: prod.split)

text \<open>A nested tuple pattern leaves a case distinction with an argument.\<close>

lemma does_case_prod_app [does_rules]:
  "(\<And>a b. x = (a, b) \<Longrightarrow> does (f a b z) \<Phi>) \<Longrightarrow> does ((case x of (a, b) \<Rightarrow> f a b) z) \<Phi>"
  by (simp split: prod.split)

lemma does_case_list [does_rules]:
  "(x = [] \<Longrightarrow> does f \<Phi>) \<Longrightarrow> (\<And>y ys. x = y # ys \<Longrightarrow> does (g y ys) \<Phi>) \<Longrightarrow>
   does (case x of [] \<Rightarrow> f | y # ys \<Rightarrow> g y ys) \<Phi>"
  by (simp split: list.split)

lemma does_let [does_rules]: "(\<And>y. y = x \<Longrightarrow> does (f y) \<Phi>) \<Longrightarrow> does (let y = x in f y) \<Phi>"
  by simp

text \<open>The events alone: a congruence over the structure of the operation.\<close>

lemma emits_only_return [intro]: "emits_only P (ret x)"
  by (simp add: emits_only_def does_return)

lemma emits_only_bind [intro]:
  "emits_only P m \<Longrightarrow> (\<And>x. emits_only P (f x)) \<Longrightarrow> emits_only P (m \<bind> f)"
  unfolding emits_only_def by (rule does_bind, assumption) (rule does_mono, assumption, simp)

lemma emits_only_call [intro]: "(\<And>r. P (ev r)) \<Longrightarrow> emits_only P (call f ev)"
  unfolding emits_only_def by (rule does_call) simp

lemma emits_only_emit [intro]: "P v \<Longrightarrow> emits_only P (emit v)"
  unfolding emits_only_def by (rule does_emit) simp

lemma emits_onlyD:
  assumes "emits_only P m" and "run_state m s = (r, s')"
  obtains evs where "snd s' = snd s @ evs" and "list_all P evs"
  using assms unfolding emits_only_def by (rule doesD)

end
