(* ===== verification/Go_Strings.thy ===== *)
theory Go_Strings
  imports Prelude
begin

text \<open>
  The parts of Go's standard library on strings that the operator uses: \<open>strconv\<close>
  (decimal integers and booleans), \<open>strings\<close>, the four fixed regular expressions of
  the source as matchers, and \<open>path.Join\<close>/\<open>path.Clean\<close>. Strings are lists of bytes
  as in Go; lower-casing is that of ASCII, the only case the names of Kubernetes
  objects allow.
\<close>

section \<open>strconv\<close>

definition digit_char :: "nat \<Rightarrow> char" where
  "digit_char d = char_of (48 + d)"

definition is_digit :: "char \<Rightarrow> bool" where
  "is_digit c \<longleftrightarrow> 48 \<le> (of_char c :: nat) \<and> (of_char c :: nat) \<le> 57"

definition digit_val :: "char \<Rightarrow> int" where
  "digit_val c = int (of_char c) - 48"

text \<open>The decimal digits of a non-negative integer.\<close>

function format_nat :: "int \<Rightarrow> string" where
  "format_nat n = (if n < 10 then [digit_char (nat n)]
     else format_nat (n div 10) @ [digit_char (nat (n mod 10))])"
  by pat_completeness auto
termination
  by (relation "measure nat") auto

declare format_nat.simps [simp del]

definition FormatInt :: "int \<Rightarrow> string" where
  "FormatInt i = (if i < 0 then ''-'' @ format_nat (- i) else format_nat i)"

fun parse_digits :: "int \<Rightarrow> string \<Rightarrow> int option" where
  "parse_digits acc [] = Some acc"
| "parse_digits acc (c # cs) =
     (if is_digit c then parse_digits (acc * 10 + digit_val c) cs else None)"

text \<open>
  \<open>ParseInt bits s\<close> is \<open>strconv.ParseInt(s, 10, bits)\<close>: \<open>None\<close> is a syntax or a range
  error. \<open>Atoi\<close> is the same on 64 bits.
\<close>

definition parse_sign :: "string \<Rightarrow> bool \<times> string" where
  "parse_sign s = (case s of [] \<Rightarrow> (False, [])
     | c # cs \<Rightarrow> if c = CHR ''-'' then (True, cs) else if c = CHR ''+'' then (False, cs) else (False, s))"

definition ParseInt :: "nat \<Rightarrow> string \<Rightarrow> int option" where
  "ParseInt bits s = (case parse_sign s of (neg, ds) \<Rightarrow>
     (if ds = [] then None
      else case parse_digits 0 ds of
        None \<Rightarrow> None
      | Some n \<Rightarrow>
          if neg then (if n \<le> 2 ^ (bits - 1) then Some (- n) else None)
          else (if n < 2 ^ (bits - 1) then Some n else None)))"

definition Atoi :: "string \<Rightarrow> int option" where
  "Atoi s = ParseInt 64 s"

definition FormatBool :: "bool \<Rightarrow> string" where
  "FormatBool b = (if b then ''true'' else ''false'')"

definition ParseBool :: "string \<Rightarrow> bool option" where
  "ParseBool s =
     (if s \<in> set [''1'', ''t'', ''T'', ''true'', ''TRUE'', ''True''] then Some True
      else if s \<in> set [''0'', ''f'', ''F'', ''false'', ''FALSE'', ''False''] then Some False
      else None)"

section \<open>strings\<close>

definition HasPrefix :: "string \<Rightarrow> string \<Rightarrow> bool" where
  "HasPrefix s p \<longleftrightarrow> take (length p) s = p"

definition lower_char :: "char \<Rightarrow> char" where
  "lower_char c = (if 65 \<le> (of_char c :: nat) \<and> (of_char c :: nat) \<le> 90
     then char_of (of_char c + 32 :: nat) else c)"

definition ToLower :: "string \<Rightarrow> string" where
  "ToLower s = map lower_char s"

definition Trim_dash :: "string \<Rightarrow> string" where
  "Trim_dash s = rev (dropWhile (\<lambda>c. c = CHR ''-'') (rev (dropWhile (\<lambda>c. c = CHR ''-'') s)))"

fun Index :: "char \<Rightarrow> string \<Rightarrow> int" where
  "Index c [] = - 1"
| "Index c (x # xs) = (if x = c then 0 else (let i = Index c xs in if i < 0 then - 1 else i + 1))"

definition LastIndex :: "char \<Rightarrow> string \<Rightarrow> int" where
  "LastIndex c s = (let i = Index c (rev s) in if i < 0 then - 1 else int (length s) - 1 - i)"

fun Join :: "string \<Rightarrow> string list \<Rightarrow> string" where
  "Join sep [] = []"
| "Join sep [x] = x"
| "Join sep (x # y # ys) = x @ sep @ Join sep (y # ys)"

fun split_on :: "char \<Rightarrow> string \<Rightarrow> string list" where
  "split_on c [] = [[]]"
| "split_on c (x # xs) =
     (if x = c then [] # split_on c xs
      else case split_on c xs of [] \<Rightarrow> [[x]] | y # ys \<Rightarrow> (x # y) # ys)"

section \<open>Regular expressions\<close>

text \<open>\<open>[0-9]+$\<close>: the leftmost match is the longest suffix of digits.\<close>

definition match_trailing_number :: "string \<Rightarrow> string option" where
  "match_trailing_number s = (let ds = rev (takeWhile is_digit (rev s))
     in if ds = [] then None else Some ds)"

definition dns1123_char :: "char \<Rightarrow> bool" where
  "dns1123_char c \<longleftrightarrow> c = CHR ''-'' \<or> is_digit c \<or> 97 \<le> (of_char c :: nat) \<and> (of_char c :: nat) \<le> 122"

text \<open>\<open>[^-a-z0-9]+\<close>, every match replaced by a dash.\<close>

fun replace_invalid :: "bool \<Rightarrow> string \<Rightarrow> string" where
  "replace_invalid in_match [] = []"
| "replace_invalid in_match (c # cs) =
     (if dns1123_char c then c # replace_invalid False cs
      else if in_match then replace_invalid True cs
      else CHR ''-'' # replace_invalid True cs)"

fun is_substring :: "string \<Rightarrow> string \<Rightarrow> bool" where
  "is_substring p [] = (p = [])"
| "is_substring p (c # cs) = (HasPrefix (c # cs) p \<or> is_substring p cs)"

text \<open>\<open>ERROR.*Periodic Recovery\<close> on one line of the log (a line has no newline).\<close>

fun match_recovery_error :: "string \<Rightarrow> bool" where
  "match_recovery_error [] = False"
| "match_recovery_error (c # cs) =
     (HasPrefix (c # cs) ''ERROR'' \<and> is_substring ''Periodic Recovery'' (drop 5 (c # cs))
      \<or> match_recovery_error cs)"

section \<open>path\<close>

definition clean_step :: "bool \<Rightarrow> string \<Rightarrow> string list \<Rightarrow> string list" where
  "clean_step rooted c out =
     (if c = '''' \<or> c = ''.'' then out
      else if c = ''..'' then
        (case out of
           [] \<Rightarrow> (if rooted then [] else [c])
         | t # ts \<Rightarrow> (if t = ''..'' then c # out else ts))
      else c # out)"

definition path_Clean :: "string \<Rightarrow> string" where
  "path_Clean p =
     (let rooted = (HasPrefix p ''/'');
          out = rev (fold (clean_step rooted) (split_on CHR ''/'' p) []);
          res = (if rooted then ''/'' else '''') @ Join ''/'' out
      in if res = '''' then ''.'' else res)"

definition path_Join :: "string list \<Rightarrow> string" where
  "path_Join es = (let es' = filter (\<lambda>e. e \<noteq> '''') es
     in if es' = [] then '''' else path_Clean (Join ''/'' es'))"

section \<open>Round trip of decimal integers\<close>

text \<open>What the users of \<open>strconv\<close> rely on: what is printed parses back.\<close>

locale decimal_codec =
  fixes fmt :: "int \<Rightarrow> string" and parse :: "string \<Rightarrow> int option" and ok :: "int \<Rightarrow> bool"
  assumes parse_fmt: "ok n \<Longrightarrow> parse (fmt n) = Some n"
begin

lemma fmt_inject: "ok m \<Longrightarrow> ok n \<Longrightarrow> fmt m = fmt n \<longleftrightarrow> m = n"
  by (metis option.inject parse_fmt)

lemma parse_fmt_eq_iff: "ok m \<Longrightarrow> (parse (fmt m) = Some n) \<longleftrightarrow> m = n"
  by (simp add: parse_fmt)

end

lemma is_digit_digit_char [simp]: "d < 10 \<Longrightarrow> is_digit (digit_char d)"
  by (simp add: is_digit_def digit_char_def)

lemma digit_val_digit_char [simp]: "d < 10 \<Longrightarrow> digit_val (digit_char d) = int d"
  by (simp add: digit_val_def digit_char_def)

lemma parse_digits_append:
  "parse_digits acc (xs @ ys) =
     (case parse_digits acc xs of None \<Rightarrow> None | Some n \<Rightarrow> parse_digits n ys)"
  by (induction xs arbitrary: acc) auto

lemma parse_digits_format_nat: "0 \<le> n \<Longrightarrow> parse_digits 0 (format_nat n) = Some n"
proof (induction n rule: format_nat.induct)
  case (1 n)
  show ?case
  proof (cases "n < 10")
    case True
    with 1 show ?thesis by (simp add: format_nat.simps[of n])
  next
    case False
    with 1 have "parse_digits 0 (format_nat (n div 10)) = Some (n div 10)" by simp
    with False show ?thesis
      by (simp add: format_nat.simps[of n] parse_digits_append nat_less_iff)
  qed
qed

lemma format_nat_nonempty [simp]: "format_nat n \<noteq> []"
  by (subst format_nat.simps) simp

lemma format_nat_digits: "0 \<le> n \<Longrightarrow> list_all is_digit (format_nat n)"
proof (induction n rule: format_nat.induct)
  case (1 n)
  then show ?case
    by (cases "n < 10") (simp_all add: format_nat.simps[of n] nat_less_iff)
qed

lemma digit_not_sign [simp]:
  "\<not> is_digit CHR ''-''" "\<not> is_digit CHR ''+''"
  by (simp_all add: is_digit_def)

lemma parse_sign_digits: "list_all is_digit s \<Longrightarrow> parse_sign s = (False, s)"
  by (cases s) (auto simp: parse_sign_def)

lemma ParseInt_FormatInt:
  assumes "- (2 ^ (bits - 1)) \<le> n" and "n < 2 ^ (bits - 1)"
  shows "ParseInt bits (FormatInt n) = Some n"
proof (cases "n < 0")
  case True
  then show ?thesis using assms
    by (simp add: FormatInt_def ParseInt_def parse_digits_format_nat parse_sign_def)
next
  case False
  then show ?thesis using assms
    by (simp add: FormatInt_def ParseInt_def parse_digits_format_nat parse_sign_digits format_nat_digits)
qed

interpretation dec64: decimal_codec FormatInt "ParseInt 64" in_int64
  by unfold_locales (simp add: ParseInt_FormatInt in_int64_def)

interpretation atoi: decimal_codec FormatInt Atoi in_int64
  by unfold_locales (simp add: Atoi_def dec64.parse_fmt)

interpretation dec32: decimal_codec FormatInt "ParseInt 32" in_int32
  by unfold_locales (simp add: ParseInt_FormatInt in_int32_def)

end
