(* ===== verification/Api_Types.thy ===== *)
theory Api_Types
  imports Go_Strings
begin

text \<open>
  The data the operator works on. The types of \<open>api/v1alpha1/wildflyserver_types.go\<close>
  are modelled field by field. Of the Kubernetes types (which are not the repository's
  own) only the fields the operator reads or writes are kept; values it only copies from
  one object to another (security contexts, environment sources, header lists, volume
  sources, label selectors of claims) are an \<open>opaque\<close> payload. A pointer is an
  \<open>option\<close>; a slice or map whose nil-ness the code can observe is an \<open>option\<close> as well.
\<close>

section \<open>Errors\<close>

datatype api_reason = NotFound | AlreadyExists | Invalid | Conflict | OtherReason

text \<open>
  Go errors: a status error of the API machinery, a failed conversion of \<open>strconv\<close>, or
  a message built by \<open>fmt.Errorf\<close> (the format, its string arguments, the wrapped errors).
\<close>

datatype error =
    ApiError api_reason string
  | NumError string
  | Errorf string "string list" "error list"

fun IsNotFound :: "error option \<Rightarrow> bool" where
  "IsNotFound (Some (ApiError NotFound _)) = True"
| "IsNotFound _ = False"

fun IsAlreadyExists :: "error \<Rightarrow> bool" where
  "IsAlreadyExists (ApiError AlreadyExists _) = True"
| "IsAlreadyExists _ = False"

fun IsInvalid :: "error \<Rightarrow> bool" where
  "IsInvalid (ApiError Invalid _) = True"
| "IsInvalid _ = False"

section \<open>Kubernetes objects\<close>

datatype opaque = Opaque string

datatype IntOrString = FromInt int | FromString string

record ObjectMeta =
  om_Name :: string
  om_Namespace :: string
  om_Labels :: "strmap option"
  om_Annotations :: "strmap option"
  om_Generation :: int
  om_OwnerReferences :: "string list"

text \<open>A resource list keeps its entries in key order, so list equality is \<open>DeepEqual\<close>.\<close>

record ResourceRequirements =
  rr_Limits :: "(string \<times> string) list option"
  rr_Requests :: "(string \<times> string) list option"

record HTTPGetAction =
  hg_Path :: string
  hg_Port :: IntOrString
  hg_Host :: string
  hg_Scheme :: string
  hg_HTTPHeaders :: opaque

text \<open>\<open>ExecAction\<close> has one field, the command.\<close>

record ProbeHandler =
  ph_Exec :: "string list option"
  ph_HTTPGet :: "HTTPGetAction option"

record Probe =
  pr_Handler :: ProbeHandler
  pr_InitialDelaySeconds :: int
  pr_TimeoutSeconds :: int
  pr_PeriodSeconds :: int
  pr_SuccessThreshold :: int
  pr_FailureThreshold :: int

datatype EnvValue = EnvLiteral string | EnvFieldRef string string | EnvOther opaque

record EnvVar =
  ev_Name :: string
  ev_Value :: EnvValue

record VolumeMount =
  vm_Name :: string
  vm_ReadOnly :: bool
  vm_MountPath :: string
  vm_SubPath :: string

datatype VolumeSource =
    EmptyDirSource opaque
  | ConfigMapSource string "(string \<times> string) list"
  | SecretSource string

record Volume =
  vol_Name :: string
  vol_Source :: VolumeSource

record Container =
  c_Name :: string
  c_Image :: string
  c_Ports :: "(string \<times> int) list"
  c_LivenessProbe :: "Probe option"
  c_ReadinessProbe :: "Probe option"
  c_StartupProbe :: "Probe option"
  c_Resources :: ResourceRequirements
  c_SecurityContext :: "opaque option"
  c_EnvFrom :: "opaque list"
  c_Env :: "EnvVar list"
  c_VolumeMounts :: "VolumeMount list"

record PersistentVolumeClaim =
  pvc_Name :: string
  pvc_AccessModes :: "string list"
  pvc_Resources :: ResourceRequirements
  pvc_Selector :: "opaque option"
  pvc_Rest :: opaque

record PodTemplateSpec =
  pt_Labels :: "strmap option"
  pt_Annotations :: "strmap option"
  pt_SeccompProfile :: string
  pt_Containers :: "Container list"
  pt_ServiceAccountName :: string
  pt_Volumes :: "Volume list"

record Pod =
  pod_Meta :: ObjectMeta
  pod_Containers :: "Container list"
  pod_Phase :: string
  pod_PodIP :: string

record StatefulSet =
  sts_Meta :: ObjectMeta
  sts_Replicas :: "int option"
  sts_ServiceName :: string
  sts_PodManagementPolicy :: string
  sts_Selector :: "strmap option"
  sts_Template :: PodTemplateSpec
  sts_VolumeClaimTemplates :: "PersistentVolumeClaim list"
  sts_StatusReplicas :: int

record Service =
  svc_Meta :: ObjectMeta
  svc_Type :: string
  svc_Selector :: "strmap option"
  svc_ClusterIP :: string
  svc_SessionAffinity :: string
  svc_Ports :: "(string \<times> int) list"

record Route =
  rt_Meta :: ObjectMeta
  rt_ToKind :: string
  rt_ToName :: string
  rt_Weight :: "int option"
  rt_TargetPort :: "IntOrString option"
  rt_IngressHosts :: "string list"

record ServiceMonitor =
  sm_Meta :: ObjectMeta
  sm_EndpointPorts :: "string list"
  sm_MatchLabels :: "strmap option"

section \<open>The custom resource (api/v1alpha1)\<close>

record ProbeSpec =
  pb_Handler :: ProbeHandler
  pb_InitialDelaySeconds :: "int option"
  pb_TimeoutSeconds :: int
  pb_PeriodSeconds :: int
  pb_SuccessThreshold :: int
  pb_FailureThreshold :: int

record StandaloneConfigMapSpec =
  scm_Name :: string
  scm_Key :: string

record StorageSpec =
  sg_EmptyDir :: "opaque option"
  sg_VolumeClaimTemplate :: PersistentVolumeClaim

record WildFlyServerSpec =
  sp_ApplicationImage :: string
  sp_BootableJar :: bool
  sp_Replicas :: int
  sp_SessionAffinity :: bool
  sp_DisableHTTPRoute :: bool
  sp_DeactivateTransactionRecovery :: bool
  sp_StandaloneConfigMap :: "StandaloneConfigMapSpec option"
  sp_Storage :: "StorageSpec option"
  sp_ServiceAccountName :: string
  sp_EnvFrom :: "opaque list"
  sp_Env :: "EnvVar list"
  sp_Secrets :: "string list"
  sp_ConfigMaps :: "string list"
  sp_Resources :: "ResourceRequirements option"
  sp_SecurityContext :: "opaque option"
  sp_LivenessProbe :: "ProbeSpec option"
  sp_ReadinessProbe :: "ProbeSpec option"
  sp_StartupProbe :: "ProbeSpec option"

text \<open>
  The state of a pod is a string restricted by an enumeration in the CRD; the five
  constants are the constructors.
\<close>

datatype PodState =
    PodStateActive
  | PodStateScalingDownRecoveryInvestigation
  | PodStateScalingDownRecoveryProcessing
  | PodStateScalingDownRecoveryHeuristic
  | PodStateScalingDownClean

record PodStatus =
  ps_Name :: string
  ps_PodIP :: string
  ps_State :: PodState
  ps_RecoveryCounter :: int

record WildFlyServerStatus =
  st_Replicas :: int
  st_Pods :: "PodStatus slice"
  st_Hosts :: "string slice"
  st_ScalingdownPods :: int
  st_Selector :: string

record WildFlyServer =
  wf_Meta :: ObjectMeta
  wf_Spec :: WildFlyServerSpec
  wf_Status :: WildFlyServerStatus

abbreviation wf_Name :: "WildFlyServer \<Rightarrow> string" where
  "wf_Name w \<equiv> om_Name (wf_Meta w)"

abbreviation wf_Namespace :: "WildFlyServer \<Rightarrow> string" where
  "wf_Namespace w \<equiv> om_Namespace (wf_Meta w)"

abbreviation wf_Generation :: "WildFlyServer \<Rightarrow> int" where
  "wf_Generation w \<equiv> om_Generation (wf_Meta w)"

abbreviation wf_Pods :: "WildFlyServer \<Rightarrow> PodStatus list" where
  "wf_Pods w \<equiv> elems (st_Pods (wf_Status w))"

abbreviation pod_Name :: "Pod \<Rightarrow> string" where
  "pod_Name p \<equiv> om_Name (pod_Meta p)"

section \<open>Zero values\<close>

definition zero_ObjectMeta :: ObjectMeta where
  "zero_ObjectMeta = \<lparr>om_Name = '''', om_Namespace = '''', om_Labels = None,
     om_Annotations = None, om_Generation = 0, om_OwnerReferences = []\<rparr>"

definition zero_PodTemplateSpec :: PodTemplateSpec where
  "zero_PodTemplateSpec = \<lparr>pt_Labels = None, pt_Annotations = None, pt_SeccompProfile = '''',
     pt_Containers = [], pt_ServiceAccountName = '''', pt_Volumes = []\<rparr>"

definition zero_StatefulSet :: StatefulSet where
  "zero_StatefulSet = \<lparr>sts_Meta = zero_ObjectMeta, sts_Replicas = None, sts_ServiceName = '''',
     sts_PodManagementPolicy = '''', sts_Selector = None, sts_Template = zero_PodTemplateSpec,
     sts_VolumeClaimTemplates = [], sts_StatusReplicas = 0\<rparr>"

definition zero_Route :: Route where
  "zero_Route = \<lparr>rt_Meta = zero_ObjectMeta, rt_ToKind = '''', rt_ToName = '''', rt_Weight = None,
     rt_TargetPort = None, rt_IngressHosts = []\<rparr>"

definition zero_ServiceMonitor :: ServiceMonitor where
  "zero_ServiceMonitor = \<lparr>sm_Meta = zero_ObjectMeta, sm_EndpointPorts = [], sm_MatchLabels = None\<rparr>"

definition zero_ProbeHandler :: ProbeHandler where
  "zero_ProbeHandler = \<lparr>ph_Exec = None, ph_HTTPGet = None\<rparr>"

definition zero_ProbeSpec :: ProbeSpec where
  "zero_ProbeSpec = \<lparr>pb_Handler = zero_ProbeHandler, pb_InitialDelaySeconds = None,
     pb_TimeoutSeconds = 0, pb_PeriodSeconds = 0, pb_SuccessThreshold = 0, pb_FailureThreshold = 0\<rparr>"

section \<open>client.Object\<close>

text \<open>The objects the generic operations of \<open>pkg/resources/actions.go\<close> are applied to.\<close>

datatype Object =
    ObjStatefulSet StatefulSet
  | ObjService Service
  | ObjRoute Route
  | ObjServiceMonitor ServiceMonitor
  | ObjPod Pod

fun obj_Meta :: "Object \<Rightarrow> ObjectMeta" where
  "obj_Meta (ObjStatefulSet x) = sts_Meta x"
| "obj_Meta (ObjService x) = svc_Meta x"
| "obj_Meta (ObjRoute x) = rt_Meta x"
| "obj_Meta (ObjServiceMonitor x) = sm_Meta x"
| "obj_Meta (ObjPod x) = pod_Meta x"

fun obj_set_Meta :: "ObjectMeta \<Rightarrow> Object \<Rightarrow> Object" where
  "obj_set_Meta m (ObjStatefulSet x) = ObjStatefulSet (x\<lparr>sts_Meta := m\<rparr>)"
| "obj_set_Meta m (ObjService x) = ObjService (x\<lparr>svc_Meta := m\<rparr>)"
| "obj_set_Meta m (ObjRoute x) = ObjRoute (x\<lparr>rt_Meta := m\<rparr>)"
| "obj_set_Meta m (ObjServiceMonitor x) = ObjServiceMonitor (x\<lparr>sm_Meta := m\<rparr>)"
| "obj_set_Meta m (ObjPod x) = ObjPod (x\<lparr>pod_Meta := m\<rparr>)"

lemma obj_Meta_set [simp]: "obj_Meta (obj_set_Meta m x) = m"
  by (cases x) simp_all

lemma obj_set_Meta_same [simp]: "obj_set_Meta (obj_Meta x) x = x"
  by (cases x) simp_all

section \<open>A sample resource\<close>

text \<open>The WildFlyServer \<open>quickstart\<close> with default settings, used by the concrete instances.\<close>

definition sample_meta :: ObjectMeta where
  "sample_meta = \<lparr>om_Name = ''quickstart'', om_Namespace = ''ns'', om_Labels = None,
     om_Annotations = None, om_Generation = 1, om_OwnerReferences = []\<rparr>"

definition sample_spec :: WildFlyServerSpec where
  "sample_spec = \<lparr>sp_ApplicationImage = ''image'', sp_BootableJar = False, sp_Replicas = 1,
     sp_SessionAffinity = False, sp_DisableHTTPRoute = False,
     sp_DeactivateTransactionRecovery = False, sp_StandaloneConfigMap = None, sp_Storage = None,
     sp_ServiceAccountName = '''', sp_EnvFrom = [], sp_Env = [], sp_Secrets = [],
     sp_ConfigMaps = [], sp_Resources = None, sp_SecurityContext = None,
     sp_LivenessProbe = None, sp_ReadinessProbe = None, sp_StartupProbe = None\<rparr>"

definition sample_status :: WildFlyServerStatus where
  "sample_status = \<lparr>st_Replicas = 0, st_Pods = None, st_Hosts = None, st_ScalingdownPods = 0,
     st_Selector = ''''\<rparr>"

definition sample_server :: WildFlyServer where
  "sample_server = \<lparr>wf_Meta = sample_meta, wf_Spec = sample_spec, wf_Status = sample_status\<rparr>"

end
