(* ===== verification/Go_Utilities.thy ===== *)
theory Go_Utilities
  imports Api_Types "HOL-Library.Multiset"
begin

text \<open>
  \<open>pkg/util/go_utilities.go\<close>: list and map helpers, the order of the pods, environment
  variables, the conversions of \<open>interface{}\<close> values and the names of volumes.
\<close>

section \<open>Values of type interface{}\<close>

text \<open>
  The dynamic values the conversions switch on. A floating-point value is the rational
  it denotes (JSON has no NaN and no infinity); \<open>VMap\<close> holds the entries of a
  \<open>map[string]interface{}\<close>.
\<close>

datatype GoValue =
    VNil
  | VBool bool
  | VString string
  | VInt int
  | VInt32 int
  | VInt64 int
  | VFloat64 rat
  | VFloat32 rat
  | VStrings "string list"
  | VArray "GoValue list"
  | VMap "(string \<times> GoValue) list"

type_synonym json = "(string \<times> GoValue) list"

definition trunc_rat :: "rat \<Rightarrow> int" where
  "trunc_rat v = (if 0 \<le> v then \<lfloor>v\<rfloor> else \<lceil>v\<rceil>)"

definition round_half_even :: "rat \<Rightarrow> int" where
  "round_half_even v =
     (let f = \<lfloor>v\<rfloor>; d = v - of_int f
      in if d < 1 / 2 then f else if d > 1 / 2 then f + 1 else if even f then f else f + 1)"

text \<open>\<open>fmt.Sprintf("%f", v)\<close>: six digits after the point.\<close>

definition Sprintf_f :: "rat \<Rightarrow> string" where
  "Sprintf_f v =
     (let n = (round_half_even (\<bar>v\<bar> * 1000000)); frac = format_nat (n mod 1000000)
      in (if v < 0 then ''-'' else '''') @ format_nat (n div 1000000) @ ''.''
         @ replicate (6 - length frac) CHR ''0'' @ frac)"

section \<open>Lists and maps\<close>

definition ContainsInMap :: "(string \<times> string) list \<Rightarrow> string list \<Rightarrow> bool" where
  "ContainsInMap m vals = list_ex (\<lambda>(k, x). list_ex (\<lambda>v. x = v) vals) m"

fun ContainsInList :: "string list \<Rightarrow> string \<Rightarrow> bool" where
  "ContainsInList [] s = False"
| "ContainsInList (v # vs) s = (if v = s then True else ContainsInList vs s)"

text \<open>
  The loop of \<open>RemoveFromList\<close> ranges over the slice as it was at the start, while
  \<open>append(list[:i], list[i+1:]...)\<close> shifts the elements of the shared array \<open>arr\<close> and
  shortens \<open>list\<close> to \<open>n\<close> elements; \<open>list[i+1:]\<close> panics when \<open>i+1\<close> exceeds that length.
\<close>

function RemoveFromList_loop :: "string list \<Rightarrow> nat \<Rightarrow> nat \<Rightarrow> string \<Rightarrow> string list outcome" where
  "RemoveFromList_loop arr n i s =
     (if i \<ge> length arr then Ret (take n arr)
      else if arr ! i = s then
        (if i + 1 > n then Panic
         else RemoveFromList_loop (take i arr @ drop (i + 1) (take n arr) @ drop (n - 1) arr)
                (n - 1) (i + 1) s)
      else RemoveFromList_loop arr n (i + 1) s)"
  by pat_completeness auto
termination
  by (relation "measure (\<lambda>(arr, n, i, s). length arr - i)") auto

declare RemoveFromList_loop.simps [simp del]

definition RemoveFromList :: "string list \<Rightarrow> string \<Rightarrow> string list outcome" where
  "RemoveFromList xs s = RemoveFromList_loop xs (length xs) 0 s"

definition MapMerge :: "strmap option \<Rightarrow> strmap option \<Rightarrow> strmap" where
  "MapMerge m1 m2 =
     (case m1 of None \<Rightarrow> Map.empty | Some f \<Rightarrow> f) ++ (case m2 of None \<Rightarrow> Map.empty | Some g \<Rightarrow> g)"

definition CopyMap :: "strmap option \<Rightarrow> strmap" where
  "CopyMap m = MapMerge m None"

section \<open>The order of the pods\<close>

text \<open>The number a pod name ends with: \<open>None\<close> where the comparison gives up.\<close>

definition name_number :: "string \<Rightarrow> int option" where
  "name_number s = (case match_trailing_number s of None \<Rightarrow> None | Some ds \<Rightarrow> Atoi ds)"

definition pod_less :: "Pod \<Rightarrow> Pod \<Rightarrow> bool" where
  "pod_less p q =
     (case name_number (pod_Name p) of
        None \<Rightarrow> False
      | Some number1 \<Rightarrow>
          (case name_number (pod_Name q) of None \<Rightarrow> False | Some number2 \<Rightarrow> number1 < number2))"

text \<open>
  \<open>sort.SliceStable\<close> is insertion sort on blocks of twenty elements, stably merged: each
  element moves down past the elements it is less than. The sorted part is kept in reverse,
  so \<open>sink\<close> meets its last element first. Where every name carries a number the comparison
  is a strict weak order and the stable result does not depend on the blocks.
\<close>

fun sink :: "('a \<Rightarrow> 'a \<Rightarrow> bool) \<Rightarrow> 'a \<Rightarrow> 'a list \<Rightarrow> 'a list" where
  "sink lt x [] = [x]"
| "sink lt x (y # ys) = (if lt x y then y # sink lt x ys else x # y # ys)"

definition SliceStable :: "('a \<Rightarrow> 'a \<Rightarrow> bool) \<Rightarrow> 'a list \<Rightarrow> 'a list" where
  "SliceStable lt xs = rev (fold (sink lt) xs [])"

definition SortPodListByName :: "Pod list \<Rightarrow> Pod list" where
  "SortPodListByName items = SliceStable pod_less items"

section \<open>Environment variables\<close>

definition Getenv :: "strmap \<Rightarrow> string \<Rightarrow> string" where
  "Getenv env k = map_get (Some env) k"

definition GetEnvAsInt :: "strmap \<Rightarrow> string \<Rightarrow> int \<Rightarrow> int" where
  "GetEnvAsInt env key fallback =
     (case env key of
        None \<Rightarrow> fallback
      | Some valueStr \<Rightarrow> (case ParseInt 64 valueStr of None \<Rightarrow> fallback | Some v \<Rightarrow> v))"

definition GetEnvAsDuration :: "strmap \<Rightarrow> string \<Rightarrow> int \<Rightarrow> int \<Rightarrow> int" where
  "GetEnvAsDuration env key fallback durationType =
     wrap64 (GetEnvAsInt env key fallback * durationType)"

section \<open>Conversions\<close>

definition stringToInt32 :: "string \<Rightarrow> error + int" where
  "stringToInt32 s = (case ParseInt 32 s of None \<Rightarrow> Inl (NumError s) | Some v \<Rightarrow> Inr v)"

fun ConvertToInt :: "GoValue \<Rightarrow> error + int" where
  "ConvertToInt (VInt32 v) = Inr v"
| "ConvertToInt (VInt v) = Inr (wrap32 v)"
| "ConvertToInt (VFloat64 v) = Inr (wrap32 (trunc_rat v))"
| "ConvertToInt (VFloat32 v) = Inr (wrap32 (trunc_rat v))"
| "ConvertToInt (VString v) = stringToInt32 v"
| "ConvertToInt (VStrings []) = Inr 0"
| "ConvertToInt (VStrings [v]) = stringToInt32 v"
| "ConvertToInt (VStrings vs) =
     Inl (Errorf ''The passed type is []string of legth bigger than 1 which cannot be converted to int32'' [] [])"
| "ConvertToInt VNil = Inl (Errorf ''The passed value is nil and cannot be converted to int32'' [] [])"
| "ConvertToInt _ = Inl (Errorf ''Un-expected type of passed value'' [] [])"

fun ConvertToString :: "GoValue \<Rightarrow> error + string" where
  "ConvertToString (VString v) = Inr v"
| "ConvertToString (VInt v) = Inr (FormatInt v)"
| "ConvertToString (VInt32 v) = Inr (FormatInt v)"
| "ConvertToString (VInt64 v) = Inr (FormatInt v)"
| "ConvertToString (VFloat64 v) = Inr (Sprintf_f v)"
| "ConvertToString (VFloat32 v) = Inr (Sprintf_f v)"
| "ConvertToString (VBool v) = Inr (FormatBool v)"
| "ConvertToString (VStrings v) = Inr (Join '','' v)"
| "ConvertToString VNil = Inl (Errorf ''The passed value is nil and cannot be converted to string'' [] [])"
| "ConvertToString _ = Inl (Errorf ''Un-expected type of passed value'' [] [])"

text \<open>The string of a conversion whose error is ignored: empty on an error.\<close>

definition ConvertToString_ignoring :: "GoValue \<Rightarrow> string" where
  "ConvertToString_ignoring v = (case ConvertToString v of Inl _ \<Rightarrow> '''' | Inr s \<Rightarrow> s)"

text \<open>\<open>fmt.Sprint\<close> of a string is the string; for the other values it is \<open>sprint\<close>.\<close>

fun Sprint :: "(GoValue \<Rightarrow> string) \<Rightarrow> GoValue \<Rightarrow> string" where
  "Sprint sprint (VString s) = s"
| "Sprint sprint (VBool b) = FormatBool b"
| "Sprint sprint VNil = ''<nil>''"
| "Sprint sprint v = sprint v"

fun ConvertToArrayString :: "(GoValue \<Rightarrow> string) \<Rightarrow> GoValue \<Rightarrow> error + string list" where
  "ConvertToArrayString sprint (VString v) = Inr [v]"
| "ConvertToArrayString sprint (VInt v) = Inr [FormatInt v]"
| "ConvertToArrayString sprint (VInt32 v) = Inr [FormatInt v]"
| "ConvertToArrayString sprint (VInt64 v) = Inr [FormatInt v]"
| "ConvertToArrayString sprint (VFloat64 v) = Inr [Sprintf_f v]"
| "ConvertToArrayString sprint (VFloat32 v) = Inr [Sprintf_f v]"
| "ConvertToArrayString sprint (VBool v) = Inr [FormatBool v]"
| "ConvertToArrayString sprint (VStrings v) = Inr v"
| "ConvertToArrayString sprint (VArray v) = Inr (map (Sprint sprint) v)"
| "ConvertToArrayString sprint VNil =
     Inl (Errorf ''The passed value is nil and cannot be converted to []string'' [] [])"
| "ConvertToArrayString sprint (VMap v) = Inl (Errorf ''Un-expected type of passed value'' [] [])"

section \<open>Volume names\<close>

definition DNS1123LabelMaxLength :: nat where
  "DNS1123LabelMaxLength = 63"

definition SanitizeVolumeName :: "string \<Rightarrow> string" where
  "SanitizeVolumeName name =
     (let name1 = ToLower name;
          name2 = replace_invalid False name1;
          name3 = (if length name2 > DNS1123LabelMaxLength then take DNS1123LabelMaxLength name2
                   else name2)
      in Trim_dash name3)"

text \<open>What Kubernetes accepts as a DNS-1123 label.\<close>

definition valid_dns1123_label :: "string \<Rightarrow> bool" where
  "valid_dns1123_label s \<longleftrightarrow> s \<noteq> [] \<and> length s \<le> 63 \<and> list_all dns1123_char s \<and>
     hd s \<noteq> CHR ''-'' \<and> last s \<noteq> CHR ''-''"

section \<open>Sorting is stable sorting by the number\<close>

lemma set_sink [simp]: "set (sink lt x ys) = insert x (set ys)"
  by (induction ys) auto

lemma mset_sink [simp]: "mset (sink lt x ys) = add_mset x (mset ys)"
  by (induction ys) auto

lemma mset_fold_sink: "mset (fold (sink lt) xs ys) = mset xs + mset ys"
  by (induction xs arbitrary: ys) auto

lemma mset_SliceStable [simp]: "mset (SliceStable lt xs) = mset xs"
  by (simp add: SliceStable_def mset_fold_sink)

lemma length_SliceStable [simp]: "length (SliceStable lt xs) = length xs"
  by (metis mset_SliceStable size_mset)

lemma set_SliceStable [simp]: "set (SliceStable lt xs) = set xs"
  by (metis mset_SliceStable set_mset_mset)

text \<open>A comparison that compares a key, on the elements that have one.\<close>

locale key_order =
  fixes lt :: "'a \<Rightarrow> 'a \<Rightarrow> bool" and key :: "'a \<Rightarrow> 'k::linorder" and ok :: "'a \<Rightarrow> bool"
  assumes lt_key: "ok x \<Longrightarrow> ok y \<Longrightarrow> lt x y \<longleftrightarrow> key x < key y"
begin

lemma sink_sorted:
  assumes "ok x" and "list_all ok ys" and "sorted_wrt (\<lambda>a b. key b \<le> key a) ys"
  shows "sorted_wrt (\<lambda>a b. key b \<le> key a) (sink lt x ys)"
  using assms
proof (induction ys)
  case (Cons y ys)
  have "key z \<le> key y" if "z \<in> set ys" for z using Cons.prems(3) that by simp
  moreover have "lt x y \<longleftrightarrow> key x < key y" using Cons.prems by (simp add: lt_key)
  ultimately show ?case using Cons by (fastforce simp: not_less)
qed simp

lemma sink_filter:
  assumes "ok x" and "list_all ok ys"
  shows "filter (\<lambda>z. key z = k) (sink lt x ys) = filter (\<lambda>z. key z = k) [x] @ filter (\<lambda>z. key z = k) ys"
  using assms
proof (induction ys)
  case (Cons y ys)
  have "lt x y \<longleftrightarrow> key x < key y" using Cons.prems by (simp add: lt_key)
  with Cons show ?case by auto
qed simp

lemma fold_sink:
  assumes "list_all ok xs" and "list_all ok ys" and "sorted_wrt (\<lambda>a b. key b \<le> key a) ys"
  shows "sorted_wrt (\<lambda>a b. key b \<le> key a) (fold (sink lt) xs ys) \<and>
    filter (\<lambda>z. key z = k) (fold (sink lt) xs ys)
      = filter (\<lambda>z. key z = k) (rev xs) @ filter (\<lambda>z. key z = k) ys"
  using assms
proof (induction xs arbitrary: ys)
  case (Cons x xs)
  have "list_all ok (sink lt x ys)"
    using Cons.prems by (simp add: list_all_iff)
  with Cons show ?case by (simp add: sink_sorted sink_filter)
qed simp

theorem SliceStable_sort_key: "list_all ok xs \<Longrightarrow> SliceStable lt xs = sort_key key xs"
proof (rule properties_for_sort_key [symmetric])
  assume ok: "list_all ok xs"
  have eq: "(\<lambda>x. key z = key x) = (\<lambda>x. key x = key z)" for z by auto
  show "filter (\<lambda>x. key z = key x) (SliceStable lt xs) = filter (\<lambda>x. key z = key x) xs" for z
    using fold_sink[OF ok, of "[]" "key z"]
    by (simp add: SliceStable_def eq flip: rev_filter)
  show "sorted (map key (SliceStable lt xs))"
    using fold_sink[OF ok, of "[]"] by (simp add: SliceStable_def sorted_wrt_rev sorted_map)
qed simp

end

definition has_number :: "Pod \<Rightarrow> bool" where
  "has_number p \<longleftrightarrow> name_number (pod_Name p) \<noteq> None"

definition pod_number :: "Pod \<Rightarrow> int" where
  "pod_number p = the (name_number (pod_Name p))"

interpretation pods: key_order pod_less pod_number has_number
  by unfold_locales (auto simp: pod_less_def has_number_def pod_number_def)

lemma match_trailing_number_suffix:
  assumes "list_all is_digit ds" and "ds \<noteq> []" and "\<not> is_digit c"
  shows "match_trailing_number (base @ [c] @ ds) = Some ds"
proof -
  have "takeWhile is_digit (rev ds @ c # rev base) = rev ds"
    using assms by (simp add: takeWhile_append list_all_iff)
  with assms(2) show ?thesis by (simp add: match_trailing_number_def)
qed

text \<open>The name of the i-th pod of a StatefulSet.\<close>

definition ordinal_name :: "string \<Rightarrow> int \<Rightarrow> string" where
  "ordinal_name base i = base @ ''-'' @ FormatInt i"

lemma name_number_ordinal:
  assumes "0 \<le> i" and "in_int64 i"
  shows "name_number (ordinal_name base i) = Some i"
proof -
  have "match_trailing_number (base @ [CHR ''-''] @ format_nat i) = Some (format_nat i)"
    using assms(1) by (intro match_trailing_number_suffix format_nat_digits) auto
  moreover have "Atoi (format_nat i) = Some i"
    using atoi.parse_fmt[OF assms(2)] assms(1) by (simp add: FormatInt_def)
  ultimately show ?thesis using assms(1)
    by (simp add: name_number_def ordinal_name_def FormatInt_def)
qed

text \<open>
  C25: Whatever order the API server lists the pods of a StatefulSet in, sorting them by
  name gives the pods in the order of their ordinals, so the last pods of the list are
  the ones the StatefulSet controller removes first.
\<close>

theorem SortPodListByName_ordinals:
  assumes "mset (map pod_Name items) = mset (map (\<lambda>i. ordinal_name base (int i)) [0..<n])"
    and "in_int64 (int n)"
  shows "map pod_Name (SortPodListByName items) = map (\<lambda>i. ordinal_name base (int i)) [0..<n]"
proof -
  let ?names = "map (\<lambda>i. ordinal_name base (int i)) [0..<n]"
  have num: "name_number (ordinal_name base (int i)) = Some (int i)" if "i < n" for i
    using that assms(2) by (intro name_number_ordinal) (auto simp: in_int64_def)
  have sub: "pod_Name p \<in> set ?names" if "p \<in> set items" for p
    by (metis assms(1) image_eqI list.set_map set_mset_mset that)
  then have ok: "list_all has_number items"
    using num by (fastforce simp: list_all_iff has_number_def)
  have sorted: "sorted (map pod_number (SortPodListByName items))"
    by (simp add: SortPodListByName_def pods.SliceStable_sort_key[OF ok])
  have key: "pod_number = (\<lambda>p. the (name_number (pod_Name p)))"
    by (rule ext) (simp add: pod_number_def)
  have inj: "inj_on (\<lambda>s. the (name_number s)) (set ?names)"
    using num by (auto simp: inj_on_def)
  have m: "mset (map pod_Name (SortPodListByName items)) = mset ?names"
    using assms(1) by (simp add: SortPodListByName_def)
  have "map (\<lambda>s. the (name_number s)) (map pod_Name (SortPodListByName items))
      = map (\<lambda>s. the (name_number s)) ?names"
  proof (rule properties_for_sort[THEN trans[OF sym]])
    show "mset (map (\<lambda>s. the (name_number s)) (map pod_Name (SortPodListByName items)))
        = mset (map (\<lambda>s. the (name_number s)) ?names)"
      using m by (metis mset_map)
    show "sorted (map (\<lambda>s. the (name_number s)) (map pod_Name (SortPodListByName items)))"
      using sorted by (simp add: key comp_def)
    show "sort (map (\<lambda>s. the (name_number s)) ?names) = map (\<lambda>s. the (name_number s)) ?names"
      using num by (intro sort_key_id_if_sorted) (simp add: sorted_iff_nth_mono)
  qed
  moreover have "set (map pod_Name (SortPodListByName items)) \<union> set ?names = set ?names"
    using m by (metis Un_absorb set_mset_mset)
  ultimately show ?thesis using inj by (metis map_inj_on)
qed

definition named_pod :: "string \<Rightarrow> Pod" where
  "named_pod s = \<lparr>pod_Meta = zero_ObjectMeta\<lparr>om_Name := s\<rparr>, pod_Containers = [],
     pod_Phase = ''Running'', pod_PodIP = ''10.0.0.1''\<rparr>"

theorem SortPodListByName_ordinals_witness:
  "map pod_Name (SortPodListByName [named_pod ''wf-2'', named_pod ''wf-0'', named_pod ''wf-1''])
    = [''wf-0'', ''wf-1'', ''wf-2'']"
proof -
  have names: "map (\<lambda>i. ordinal_name ''wf'' (int i)) [0..<3] = [''wf-0'', ''wf-1'', ''wf-2'']"
    by code_simp
  have "map pod_Name (SortPodListByName [named_pod ''wf-2'', named_pod ''wf-0'', named_pod ''wf-1''])
      = map (\<lambda>i. ordinal_name ''wf'' (int i)) [0..<3]"
    by (rule SortPodListByName_ordinals)
       (simp only: names, simp_all add: named_pod_def in_int64_def)
  then show ?thesis by (simp only: names)
qed

section \<open>Volume names are DNS labels\<close>

lemma dns1123_dash [simp]: "dns1123_char CHR ''-''"
  by (simp add: dns1123_char_def)

lemma replace_invalid_chars: "list_all dns1123_char (replace_invalid b s)"
  by (induction b s rule: replace_invalid.induct) auto

lemma replace_invalid_id: "list_all dns1123_char s \<Longrightarrow> replace_invalid b s = s"
  by (induction s arbitrary: b) auto

lemma Trim_dash_split: "\<exists>k j. Trim_dash s = take k (drop j s)"
proof -
  have "dropWhile P (rev t) = drop (length (takeWhile P (rev t))) (rev t)" for P and t :: string
    by (simp add: dropWhile_eq_drop)
  then show ?thesis
    by (metis Trim_dash_def dropWhile_eq_drop rev_drop rev_rev_ident)
qed

lemma set_Trim_dash: "set (Trim_dash s) \<subseteq> set s"
  using Trim_dash_split[of s] set_take_subset set_drop_subset by (metis subset_trans)

lemma length_Trim_dash: "length (Trim_dash s) \<le> length s"
  using Trim_dash_split[of s] by auto

lemma last_Trim_dash: "Trim_dash s \<noteq> [] \<Longrightarrow> last (Trim_dash s) \<noteq> CHR ''-''"
  using hd_dropWhile[of "\<lambda>c. c = CHR ''-''" "rev (dropWhile (\<lambda>c. c = CHR ''-'') s)"]
  by (simp add: Trim_dash_def last_rev)

lemma hd_Trim_dash:
  assumes "Trim_dash s \<noteq> []"
  shows "hd (Trim_dash s) \<noteq> CHR ''-''"
proof -
  let ?P = "\<lambda>c. c = CHR ''-''" and ?t = "dropWhile (\<lambda>c. c = CHR ''-'') s"
  have t: "?t = Trim_dash s @ rev (takeWhile ?P (rev ?t))"
    unfolding Trim_dash_def rev_append[symmetric] takeWhile_dropWhile_id by simp
  have "?t \<noteq> []" by (subst t) (simp add: assms)
  then have "hd ?t \<noteq> CHR ''-''" using hd_dropWhile[of ?P s] by simp
  moreover have "hd ?t = hd (Trim_dash s)" using t assms by (metis hd_append2)
  ultimately show ?thesis by simp
qed

lemma Trim_dash_id: "s \<noteq> [] \<Longrightarrow> hd s \<noteq> CHR ''-'' \<Longrightarrow> last s \<noteq> CHR ''-'' \<Longrightarrow> Trim_dash s = s"
proof -
  assume "s \<noteq> []" "hd s \<noteq> CHR ''-''" "last s \<noteq> CHR ''-''"
  moreover from this have "dropWhile (\<lambda>c. c = CHR ''-'') s = s" by (cases s) auto
  moreover have "dropWhile (\<lambda>c. c = CHR ''-'') (rev s) = rev s"
    using calculation by (cases "rev s") (auto simp: hd_rev [symmetric])
  ultimately show ?thesis by (simp add: Trim_dash_def)
qed

lemma Trim_dash_nonempty: "s \<noteq> [] \<Longrightarrow> hd s \<noteq> CHR ''-'' \<Longrightarrow> Trim_dash s \<noteq> []"
  unfolding Trim_dash_def
  by (cases s) (auto simp: dropWhile_append dropWhile_eq_Nil_conv)

lemma lower_char_lower: "dns1123_char c \<Longrightarrow> lower_char c = c"
  by (auto simp: lower_char_def dns1123_char_def is_digit_def)

lemma ToLower_id: "list_all dns1123_char s \<Longrightarrow> ToLower s = s"
  by (induction s) (auto simp: ToLower_def lower_char_lower)

lemma Sanitize_label_or_empty:
  "SanitizeVolumeName s \<noteq> [] \<Longrightarrow> valid_dns1123_label (SanitizeVolumeName s)"
proof -
  assume ne: "SanitizeVolumeName s \<noteq> []"
  let ?t = "take 63 (replace_invalid False (ToLower s))"
  have eq: "SanitizeVolumeName s = Trim_dash ?t"
    by (simp add: SanitizeVolumeName_def DNS1123LabelMaxLength_def Let_def)
  have "list_all dns1123_char ?t"
    using replace_invalid_chars[of False "ToLower s"] by (auto simp: list_all_iff dest: in_set_takeD)
  then have "list_all dns1123_char (Trim_dash ?t)" using set_Trim_dash by (auto simp: list_all_iff)
  moreover have "length (Trim_dash ?t) \<le> 63"
    using length_Trim_dash[of ?t] by simp
  ultimately show ?thesis
    using ne eq hd_Trim_dash[of ?t] last_Trim_dash[of ?t] by (simp add: valid_dns1123_label_def)
qed

lemma Sanitize_prefix_nonempty:
  assumes "list_all dns1123_char p" and "p \<noteq> []" and "hd p \<noteq> CHR ''-''"
  shows "SanitizeVolumeName (p @ s) \<noteq> []"
proof -
  have "replace_invalid False (p @ r) = p @ replace_invalid False r" for r
    using assms(1) by (induction p) auto
  moreover have "ToLower (p @ s) = p @ ToLower s"
    using ToLower_id[OF assms(1)] by (simp add: ToLower_def)
  ultimately have "SanitizeVolumeName (p @ s) = Trim_dash (take 63 (p @ replace_invalid False (ToLower s)))"
    by (simp add: SanitizeVolumeName_def DNS1123LabelMaxLength_def Let_def)
  moreover have "hd (take 63 (p @ r)) = hd p" and "take 63 (p @ r) \<noteq> []" for r
    using assms(2) by (cases p, simp_all)+
  ultimately show ?thesis using assms(3) Trim_dash_nonempty by metis
qed



section \<open>Removing from a list\<close>

lemma RemoveFromList_loop_absent:
  "s \<notin> set (drop i arr) \<Longrightarrow> RemoveFromList_loop arr n i s = Ret (take n arr)"
proof (induction arr n i s rule: RemoveFromList_loop.induct)
  case (1 arr n i s)
  show ?case
  proof (cases "i < length arr")
    case True
    then have split: "drop i arr = arr ! i # drop (i + 1) arr" by (simp add: Cons_nth_drop_Suc)
    with "1.prems" have "arr ! i \<noteq> s" "s \<notin> set (drop (i + 1) arr)" by auto
    with True "1.IH"(2) show ?thesis by (subst RemoveFromList_loop.simps) simp
  qed (subst RemoveFromList_loop.simps, simp)
qed

lemma RemoveFromList_loop_skip:
  assumes "i \<le> j" and "j < length arr" and "\<And>k. i \<le> k \<Longrightarrow> k < j \<Longrightarrow> arr ! k \<noteq> s"
  shows "RemoveFromList_loop arr n i s = RemoveFromList_loop arr n j s"
  using assms
proof (induction "j - i" arbitrary: i)
  case (Suc d)
  then have "i < j" and "arr ! i \<noteq> s" by auto
  then have "RemoveFromList_loop arr n i s = RemoveFromList_loop arr n (i + 1) s"
    using Suc.prems(2) by (subst RemoveFromList_loop.simps) simp
  also have "\<dots> = RemoveFromList_loop arr n j s" using Suc \<open>i < j\<close> by (intro Suc.hyps(1)) auto
  finally show ?case .
qed simp

lemma RemoveFromList_once:
  assumes "s \<notin> set a" and "s \<notin> set b"
  shows "RemoveFromList (a @ s # b) s = Ret (a @ b)"
proof -
  let ?xs = "a @ s # b" and ?i = "length a"
  let ?arr = "a @ b @ [last ?xs]"
  have "RemoveFromList ?xs s = RemoveFromList_loop ?xs (length ?xs) ?i s"
    unfolding RemoveFromList_def using assms(1)
    by (intro RemoveFromList_loop_skip) (auto simp: nth_append)
  also have "\<dots> = RemoveFromList_loop ?arr (length ?xs - 1) (?i + 1) s"
  proof -
    have "drop (length ?xs - 1) ?xs = [last ?xs]" by (cases b rule: rev_cases) auto
    then show ?thesis by (subst RemoveFromList_loop.simps) simp
  qed
  also have "\<dots> = Ret (take (length ?xs - 1) ?arr)"
    using assms(2) by (intro RemoveFromList_loop_absent) (cases b, auto dest: in_set_dropD)
  finally show ?thesis by simp
qed

text \<open>
  C36: \<open>RemoveFromList\<close> removes the string when it occurs at most once in the list. With two
  occurrences it does not do what its comment says: it panics when the last two elements
  are occurrences, and leaves one in place when the first two are.
\<close>

theorem RemoveFromList_correct:
  "(count_list xs s \<le> 1 \<longrightarrow> RemoveFromList xs s = Ret (removeAll s xs)) \<and>
   RemoveFromList [''a'', ''s'', ''s''] ''s'' = Panic \<and>
   RemoveFromList [''s'', ''s'', ''a''] ''s'' = Ret [''s'', ''a'']"
proof (intro conjI impI)
  assume c: "count_list xs s \<le> 1"
  show "RemoveFromList xs s = Ret (removeAll s xs)"
  proof (cases "s \<in> set xs")
    case False
    then show ?thesis by (simp add: RemoveFromList_def RemoveFromList_loop_absent)
  next
    case True
    then obtain a b where xs: "xs = a @ s # b" and "s \<notin> set a" by (metis split_list_first)
    moreover from this c have "s \<notin> set b" by (auto simp: count_list_0_iff)
    ultimately show ?thesis by (simp add: RemoveFromList_once)
  qed
qed (simp_all add: RemoveFromList_def RemoveFromList_loop.simps)

theorem RemoveFromList_correct_witness:
  "RemoveFromList [''a'', ''s''] ''s'' = Ret [''a'']"
  using RemoveFromList_correct[of "[''a'', ''s'']" "''s''"] by simp

section \<open>Maps, lists and environment\<close>

lemma ContainsInList_iff [simp]: "ContainsInList xs s \<longleftrightarrow> s \<in> set xs"
  by (induction xs) auto

lemma MapMerge_apply:
  "MapMerge m1 m2 k = (case m2 of Some g \<Rightarrow> (case g k of Some v \<Rightarrow> Some v | None \<Rightarrow>
       (case m1 of Some f \<Rightarrow> f k | None \<Rightarrow> None))
     | None \<Rightarrow> (case m1 of Some f \<Rightarrow> f k | None \<Rightarrow> None))"
  by (auto simp: MapMerge_def map_add_def split: option.splits)

lemma CopyMap_same [simp]: "CopyMap (Some f) = f"
  by (simp add: CopyMap_def MapMerge_def)

lemma MapMerge_singleton [simp]:
  "MapMerge m (Some [k \<mapsto> v]) = (case m of None \<Rightarrow> Map.empty | Some f \<Rightarrow> f)(k \<mapsto> v)"
  by (simp add: MapMerge_def)

end
