(* ===== verification/Client.thy ===== *)
theory Client
  imports Go_Utilities
begin

text \<open>
  The boundary of the program, and \<open>pkg/resources\<close> (\<open>actions.go\<close>, \<open>generation.go\<close>,
  \<open>constants.go\<close>). Everything outside the repository is a field of \<open>Kube\<close>: the API
  server behind the controller-runtime client, discovery, the exec/log/socket channels to
  the pods, the process environment, JSON and time parsing, the order in which the runtime
  schedules goroutines. Its fields are arbitrary
  functions of an arbitrary state \<open>'e\<close>; nothing is assumed about them in the definitions.
  Every request is recorded as an \<open>event\<close> together with the answer.
\<close>

section \<open>The environment of the operator\<close>

record LogOptions =
  lo_TailLines :: "int option"
  lo_Timestamps :: bool
  lo_SinceTime :: "int option"

text \<open>
  A scheme gives the Go type of a group, version and kind. The options of the manager that
  \<open>main\<close> sets, and the watches a controller is built with.
\<close>

type_synonym gvk = "string \<times> string \<times> string"
type_synonym scheme = "gvk \<rightharpoonup> string"

record ManagerOptions =
  mo_Scheme :: scheme
  mo_MetricsBindAddress :: string
  mo_Port :: int
  mo_Namespace :: string
  mo_HealthProbeBindAddress :: string
  mo_LeaderElection :: bool
  mo_LeaderElectionID :: string
  mo_LeaseSeconds :: int
  mo_RenewSeconds :: int

datatype watch = For string | Owns string | Watches string bool

record 'e Kube =
  k_Env :: strmap
  k_GetWildFlyServer :: "string \<Rightarrow> string \<Rightarrow> 'e \<Rightarrow> (error + WildFlyServer) \<times> 'e"
  k_GetStatefulSet :: "string \<Rightarrow> string \<Rightarrow> 'e \<Rightarrow> (error + StatefulSet) \<times> 'e"
  k_GetService :: "string \<Rightarrow> string \<Rightarrow> 'e \<Rightarrow> (error + Service) \<times> 'e"
  k_GetRoute :: "string \<Rightarrow> string \<Rightarrow> 'e \<Rightarrow> (error + Route) \<times> 'e"
  k_GetServiceMonitor :: "string \<Rightarrow> string \<Rightarrow> 'e \<Rightarrow> (error + ServiceMonitor) \<times> 'e"
  k_ListPods :: "string \<Rightarrow> strmap \<Rightarrow> 'e \<Rightarrow> (error + Pod list) \<times> 'e"
  k_Create :: "Object \<Rightarrow> 'e \<Rightarrow> error option \<times> 'e"
  k_Update :: "Object \<Rightarrow> 'e \<Rightarrow> error option \<times> 'e"
  k_Delete :: "Object \<Rightarrow> 'e \<Rightarrow> error option \<times> 'e"
  k_PatchPod :: "Pod \<Rightarrow> Pod \<Rightarrow> 'e \<Rightarrow> (error + Pod) \<times> 'e"
  k_UpdateStatus :: "WildFlyServer \<Rightarrow> 'e \<Rightarrow> (error + WildFlyServer) \<times> 'e"
  k_UpdateObjectStatus :: "Object \<Rightarrow> 'e \<Rightarrow> error option \<times> 'e"
  k_PatchStatus :: "WildFlyServer \<Rightarrow> WildFlyServer \<Rightarrow> 'e \<Rightarrow> (error + WildFlyServer) \<times> 'e"
  k_SetOwnerReference :: "WildFlyServer \<Rightarrow> ObjectMeta \<Rightarrow> error + ObjectMeta"
  k_SelectorString :: "strmap \<Rightarrow> string"
  k_GetConfig :: "'e \<Rightarrow> error option \<times> 'e"
  k_NewDiscoveryClient :: "'e \<Rightarrow> error option \<times> 'e"
  k_ServerResources :: "string \<Rightarrow> 'e \<Rightarrow> (error + string list) \<times> 'e"
  k_ClientConfig :: "'e \<Rightarrow> error option \<times> 'e"
  k_CoreClient :: "'e \<Rightarrow> error option \<times> 'e"
  k_SPDYExecutor :: "'e \<Rightarrow> error option \<times> 'e"
  k_Stream :: "string \<Rightarrow> string \<Rightarrow> string \<Rightarrow> string list \<Rightarrow> 'e \<Rightarrow> (string \<times> string \<times> error option) \<times> 'e"
  k_Dial :: "string \<Rightarrow> int \<Rightarrow> 'e \<Rightarrow> error option \<times> 'e"
  k_Exchange :: "string \<Rightarrow> int \<Rightarrow> string \<Rightarrow> 'e \<Rightarrow> (error + string) \<times> 'e"
  k_Logs :: "string \<Rightarrow> string \<Rightarrow> LogOptions \<Rightarrow> 'e \<Rightarrow> (error + string \<times> error option) \<times> 'e"
  k_ParseTime :: "string \<Rightarrow> string \<Rightarrow> error + int"
  k_DecodeJSON :: "string \<Rightarrow> error + json"
  k_DecodeLabels :: "string \<Rightarrow> error + strmap"
  k_Sprint :: "GoValue \<Rightarrow> string"
  k_Schedule :: "Pod list \<Rightarrow> Pod list"
  k_NewManager :: "ManagerOptions \<Rightarrow> 'e \<Rightarrow> error option \<times> 'e"
  k_IsOpenShift :: "'e \<Rightarrow> (error + bool) \<times> 'e"
  k_Complete :: "watch list \<Rightarrow> 'e \<Rightarrow> error option \<times> 'e"
  k_AddHealthzCheck :: "string \<Rightarrow> 'e \<Rightarrow> error option \<times> 'e"
  k_AddReadyzCheck :: "string \<Rightarrow> 'e \<Rightarrow> error option \<times> 'e"
  k_Start :: "'e \<Rightarrow> error option \<times> 'e"

datatype event =
    EvGetWildFlyServer string string "error + WildFlyServer"
  | EvGetStatefulSet string string "error + StatefulSet"
  | EvGetService string string "error + Service"
  | EvGetRoute string string "error + Route"
  | EvGetServiceMonitor string string "error + ServiceMonitor"
  | EvListPods string strmap "error + Pod list"
  | EvCreate Object "error option"
  | EvUpdate Object "error option"
  | EvDelete Object "error option"
  | EvPatchPod Pod Pod "error + Pod"
  | EvUpdateStatus WildFlyServer "error + WildFlyServer"
  | EvUpdateObjectStatus Object "error option"
  | EvPatchStatus WildFlyServer WildFlyServer "error + WildFlyServer"
  | EvConfig string "error option"
  | EvServerResources string "error + string list"
  | EvStream string string string "string list" "string \<times> string \<times> error option"
  | EvDial string int "error option"
  | EvExchange string string "error + string"
  | EvLogs string string LogOptions "error + string \<times> error option"
  | EvRecord string string string
  | EvNewManager ManagerOptions "error option"
  | EvPlatform "error + bool"
  | EvComplete "watch list" "error option"

type_synonym ('e, 'a) kop = "('e, event, 'a) op"

text \<open>The requests that change an object of the cluster.\<close>

fun is_write :: "event \<Rightarrow> bool" where
  "is_write (EvCreate _ _) = True"
| "is_write (EvUpdate _ _) = True"
| "is_write (EvDelete _ _) = True"
| "is_write (EvPatchPod _ _ _) = True"
| "is_write (EvUpdateStatus _ _) = True"
| "is_write (EvUpdateObjectStatus _ _) = True"
| "is_write (EvPatchStatus _ _ _) = True"
| "is_write _ = False"

fun is_object_write :: "event \<Rightarrow> bool" where
  "is_object_write (EvCreate _ _) = True"
| "is_object_write (EvUpdate _ _) = True"
| "is_object_write (EvDelete _ _) = True"
| "is_object_write _ = False"

section \<open>constants.go\<close>

definition HTTPApplicationPort :: int where "HTTPApplicationPort = 8080"
definition HTTPManagementPort :: int where "HTTPManagementPort = 9990"
definition MarkerServiceActive :: string where "MarkerServiceActive = ''active''"
definition MarkerOperatedByLoadbalancer :: string where
  "MarkerOperatedByLoadbalancer = ''wildfly.org/operated-by-loadbalancer''"
definition MarkerOperatedByHeadless :: string where
  "MarkerOperatedByHeadless = ''wildfly.org/operated-by-headless''"
definition MarkerImageType :: string where "MarkerImageType = ''wildfly.org/server-type''"
definition ImageTypeGeneric :: string where "ImageTypeGeneric = ''generic''"
definition ImageTypeBootable :: string where "ImageTypeBootable = ''bootable-jar''"
definition SecretsDir :: string where "SecretsDir = ''/etc/secrets/''"
definition ConfigMapsDir :: string where "ConfigMapsDir = ''/etc/configmaps/''"
definition StatefuleSetTemplateLabelsEnvVarName :: string where
  "StatefuleSetTemplateLabelsEnvVarName = ''STATEFULSET_TEMPLATE_LABELS''"
definition StandaloneServerDataDirRelativePath :: string where
  "StandaloneServerDataDirRelativePath = ''standalone/data''"

definition JBossHome :: "strmap \<Rightarrow> bool \<Rightarrow> string" where
  "JBossHome env bootable =
     (if bootable then Getenv env ''JBOSS_BOOTABLE_HOME'' else Getenv env ''JBOSS_HOME'')"

definition JBossHomeDataDir :: "strmap \<Rightarrow> bool \<Rightarrow> string" where
  "JBossHomeDataDir env bootable =
     (if bootable then Getenv env ''JBOSS_BOOTABLE_DATA_DIR'' else Getenv env ''JBOSS_HOME'')"

section \<open>generation.go\<close>

definition MarkerServerGeneration :: string where
  "MarkerServerGeneration = ''wildfly.org/wildfly-server-generation''"

definition IsCurrentGeneration :: "WildFlyServer \<Rightarrow> ObjectMeta \<Rightarrow> bool" where
  "IsCurrentGeneration w meta =
     (case om_Annotations meta of
        None \<Rightarrow> False
      | Some m \<Rightarrow>
          (case m MarkerServerGeneration of
             None \<Rightarrow> False
           | Some generationStr \<Rightarrow>
               (case ParseInt 64 generationStr of
                  None \<Rightarrow> False
                | Some generation \<Rightarrow> generation = wf_Generation w)))"

definition MarkServerGeneration :: "WildFlyServer \<Rightarrow> ObjectMeta \<Rightarrow> ObjectMeta" where
  "MarkServerGeneration w meta =
     (let annotations = (case om_Annotations meta of None \<Rightarrow> Map.empty | Some m \<Rightarrow> m)
      in meta\<lparr>om_Annotations :=
           Some (annotations(MarkerServerGeneration \<mapsto> FormatInt (wf_Generation w)))\<rparr>)"

section \<open>actions.go\<close>

definition mark_object :: "WildFlyServer \<Rightarrow> Object \<Rightarrow> Object" where
  "mark_object w x = obj_set_Meta (MarkServerGeneration w (obj_Meta x)) x"

definition Create :: "'e Kube \<Rightarrow> WildFlyServer \<Rightarrow> Object \<Rightarrow> ('e, error option) kop" where
  "Create K w x =
     (let x1 = mark_object w x
      in case k_SetOwnerReference K w (obj_Meta x1) of
           Inl err \<Rightarrow> ret (Some err)
         | Inr meta \<Rightarrow> (let x2 = obj_set_Meta meta x1 in call (k_Create K x2) (EvCreate x2)))"

definition Update :: "'e Kube \<Rightarrow> WildFlyServer \<Rightarrow> Object \<Rightarrow> ('e, error option) kop" where
  "Update K w x = (let x1 = mark_object w x in call (k_Update K x1) (EvUpdate x1))"

text \<open>
  \<open>Patch\<close> is only called on pods. \<open>base\<close> is the copy \<open>client.MergeFrom\<close> was given; on
  success the pod is what the server returned.
\<close>

definition Patch :: "'e Kube \<Rightarrow> WildFlyServer \<Rightarrow> Pod \<Rightarrow> Pod \<Rightarrow> ('e, error option \<times> Pod) kop" where
  "Patch K w pod base =
     (let pod1 = pod\<lparr>pod_Meta := MarkServerGeneration w (pod_Meta pod)\<rparr>
      in do { r \<leftarrow> call (k_PatchPod K base pod1) (EvPatchPod base pod1);
              case r of Inl err \<Rightarrow> ret (Some err, pod1) | Inr pod2 \<Rightarrow> ret (None, pod2) })"

text \<open>The status of any other object; nothing in the operator calls it.\<close>

definition UpdateStatus :: "'e Kube \<Rightarrow> WildFlyServer \<Rightarrow> Object \<Rightarrow> ('e, error option) kop" where
  "UpdateStatus K w x = call (k_UpdateObjectStatus K x) (EvUpdateObjectStatus x)"

text \<open>On success the server's answer replaces the object in memory.\<close>

definition UpdateWildFlyServerStatus ::
  "'e Kube \<Rightarrow> WildFlyServer \<Rightarrow> ('e, error option \<times> WildFlyServer) kop" where
  "UpdateWildFlyServerStatus K w =
     do { r \<leftarrow> call (k_UpdateStatus K w) (EvUpdateStatus w);
          case r of Inl err \<Rightarrow> ret (Some err, w) | Inr w' \<Rightarrow> ret (None, w') }"

definition Delete :: "'e Kube \<Rightarrow> WildFlyServer \<Rightarrow> Object \<Rightarrow> ('e, error option) kop" where
  "Delete K w x = call (k_Delete K x) (EvDelete x)"

definition CustomResourceDefinitionExists ::
  "'e Kube \<Rightarrow> string \<Rightarrow> string \<Rightarrow> ('e, bool) kop" where
  "CustomResourceDefinitionExists K groupVersion kind =
     do { err1 \<leftarrow> call (k_GetConfig K) (EvConfig ''GetConfig'');
          if err1 \<noteq> None then ret False else
          do { err2 \<leftarrow> call (k_NewDiscoveryClient K) (EvConfig ''NewDiscoveryClientForConfig'');
               if err2 \<noteq> None then ret False else
               do { api \<leftarrow> call (k_ServerResources K groupVersion) (EvServerResources groupVersion);
                    case api of Inl _ \<Rightarrow> ret False | Inr kinds \<Rightarrow> ret (list_ex (\<lambda>a. a = kind) kinds) }}}"

text \<open>\<open>Get\<close> for each kind of object; the log lines have no effect.\<close>

definition GetStatefulSet :: "'e Kube \<Rightarrow> WildFlyServer \<Rightarrow> string \<Rightarrow> ('e, error + StatefulSet) kop" where
  "GetStatefulSet K w name =
     call (k_GetStatefulSet K (wf_Namespace w) name) (EvGetStatefulSet (wf_Namespace w) name)"

definition GetService :: "'e Kube \<Rightarrow> WildFlyServer \<Rightarrow> string \<Rightarrow> ('e, error + Service) kop" where
  "GetService K w name =
     call (k_GetService K (wf_Namespace w) name) (EvGetService (wf_Namespace w) name)"

definition GetRoute :: "'e Kube \<Rightarrow> WildFlyServer \<Rightarrow> string \<Rightarrow> ('e, error + Route) kop" where
  "GetRoute K w name =
     call (k_GetRoute K (wf_Namespace w) name) (EvGetRoute (wf_Namespace w) name)"

definition GetServiceMonitor ::
  "'e Kube \<Rightarrow> WildFlyServer \<Rightarrow> string \<Rightarrow> ('e, error + ServiceMonitor) kop" where
  "GetServiceMonitor K w name =
     call (k_GetServiceMonitor K (wf_Namespace w) name) (EvGetServiceMonitor (wf_Namespace w) name)"

definition RecordEvent :: "string \<Rightarrow> string \<Rightarrow> string \<Rightarrow> ('e, unit) kop" where
  "RecordEvent eventtype reason message = emit (EvRecord eventtype reason message)"

section \<open>Generations\<close>

lemma IsCurrentGeneration_Mark_iff:
  assumes "in_int64 (wf_Generation w)"
  shows "IsCurrentGeneration w' (MarkServerGeneration w meta) \<longleftrightarrow> wf_Generation w = wf_Generation w'"
  using assms by (simp add: IsCurrentGeneration_def MarkServerGeneration_def Let_def dec64.parse_fmt)

text \<open>
  C34: An object marked with the generation of a WildFlyServer is current for exactly the
  WildFlyServers of that generation, and marking changes no annotation but the marker and
  no other field of the metadata.
\<close>

theorem generation_roundtrip:
  assumes "in_int64 (wf_Generation w)"
  shows "(IsCurrentGeneration w' (MarkServerGeneration w meta)
            \<longleftrightarrow> wf_Generation w' = wf_Generation w) \<and>
         (\<forall>k. map_get (om_Annotations (MarkServerGeneration w meta)) k =
            (if k = MarkerServerGeneration then FormatInt (wf_Generation w)
             else map_get (om_Annotations meta) k)) \<and>
         (MarkServerGeneration w meta)\<lparr>om_Annotations := om_Annotations meta\<rparr> = meta"
proof (intro conjI allI)
  show "IsCurrentGeneration w' (MarkServerGeneration w meta) \<longleftrightarrow> wf_Generation w' = wf_Generation w"
    using assms by (auto simp: IsCurrentGeneration_Mark_iff)
  show "map_get (om_Annotations (MarkServerGeneration w meta)) k =
      (if k = MarkerServerGeneration then FormatInt (wf_Generation w)
       else map_get (om_Annotations meta) k)" for k
    by (cases "om_Annotations meta") (simp_all add: MarkServerGeneration_def Let_def)
  show "(MarkServerGeneration w meta)\<lparr>om_Annotations := om_Annotations meta\<rparr> = meta"
    by (simp add: MarkServerGeneration_def Let_def)
qed

theorem generation_roundtrip_witness:
  "IsCurrentGeneration sample_server (MarkServerGeneration sample_server zero_ObjectMeta)"
  using generation_roundtrip[of sample_server sample_server zero_ObjectMeta]
  by (simp add: sample_server_def sample_meta_def in_int64_def)

lemma Mark_simps [simp]:
  "om_Name (MarkServerGeneration w m) = om_Name m"
  "om_Namespace (MarkServerGeneration w m) = om_Namespace m"
  "om_Labels (MarkServerGeneration w m) = om_Labels m"
  "om_OwnerReferences (MarkServerGeneration w m) = om_OwnerReferences m"
  by (simp_all add: MarkServerGeneration_def Let_def)

section \<open>Effects of the actions\<close>

lemmas action_defs = Create_def Update_def Patch_def UpdateWildFlyServerStatus_def Delete_def
  GetStatefulSet_def GetService_def GetRoute_def GetServiceMonitor_def RecordEvent_def

lemma does_Create [does_rules]:
  "(\<And>err. k_SetOwnerReference K w (obj_Meta (mark_object w x)) = Inl err \<Longrightarrow> \<Phi> (Some err) []) \<Longrightarrow>
   (\<And>meta r. k_SetOwnerReference K w (obj_Meta (mark_object w x)) = Inr meta \<Longrightarrow>
      \<Phi> r [EvCreate (obj_set_Meta meta (mark_object w x)) r]) \<Longrightarrow> does (Create K w x) \<Phi>"
  by (simp add: Create_def Let_def does_return does_call split: sum.split)

lemma does_Update [does_rules]:
  "(\<And>r. \<Phi> r [EvUpdate (mark_object w x) r]) \<Longrightarrow> does (Update K w x) \<Phi>"
  by (simp add: Update_def Let_def does_call)

lemma does_Delete [does_rules]: "(\<And>r. \<Phi> r [EvDelete x r]) \<Longrightarrow> does (Delete K w x) \<Phi>"
  by (simp add: Delete_def does_call)

lemma does_Patch [does_rules]:
  "(\<And>err pod1. pod1 = pod\<lparr>pod_Meta := MarkServerGeneration w (pod_Meta pod)\<rparr> \<Longrightarrow>
      \<Phi> (Some err, pod1) [EvPatchPod base pod1 (Inl err)]) \<Longrightarrow>
   (\<And>pod1 pod2. pod1 = pod\<lparr>pod_Meta := MarkServerGeneration w (pod_Meta pod)\<rparr> \<Longrightarrow>
      \<Phi> (None, pod2) [EvPatchPod base pod1 (Inr pod2)]) \<Longrightarrow>
   does (Patch K w pod base) \<Phi>"
  unfolding Patch_def Let_def by (intro does_bindI does_call does_case_sum does_return) simp_all

lemma does_UpdateWildFlyServerStatus [does_rules]:
  "(\<And>err. \<Phi> (Some err, w) [EvUpdateStatus w (Inl err)]) \<Longrightarrow>
   (\<And>w'. \<Phi> (None, w') [EvUpdateStatus w (Inr w')]) \<Longrightarrow>
   does (UpdateWildFlyServerStatus K w) \<Phi>"
  unfolding UpdateWildFlyServerStatus_def
  by (rule does_bind[where \<Phi> = "\<lambda>r evs. evs = [EvUpdateStatus w r]"])
     (auto intro!: does_call does_return split: sum.split)

lemma does_GetStatefulSet [does_rules]:
  "(\<And>r. \<Phi> r [EvGetStatefulSet (wf_Namespace w) name r]) \<Longrightarrow> does (GetStatefulSet K w name) \<Phi>"
  by (simp add: GetStatefulSet_def does_call)

lemma does_GetService [does_rules]:
  "(\<And>r. \<Phi> r [EvGetService (wf_Namespace w) name r]) \<Longrightarrow> does (GetService K w name) \<Phi>"
  by (simp add: GetService_def does_call)

lemma does_GetRoute [does_rules]:
  "(\<And>r. \<Phi> r [EvGetRoute (wf_Namespace w) name r]) \<Longrightarrow> does (GetRoute K w name) \<Phi>"
  by (simp add: GetRoute_def does_call)

lemma does_GetServiceMonitor [does_rules]:
  "(\<And>r. \<Phi> r [EvGetServiceMonitor (wf_Namespace w) name r]) \<Longrightarrow> does (GetServiceMonitor K w name) \<Phi>"
  by (simp add: GetServiceMonitor_def does_call)

lemma does_RecordEvent [does_rules]: "\<Phi> () [EvRecord t r m] \<Longrightarrow> does (RecordEvent t r m) \<Phi>"
  by (simp add: RecordEvent_def does_emit)

end
