(* ===== verification/Fake_Client.thy ===== *)
theory Fake_Client
  imports Client
begin

text \<open>
  A concrete environment, in the manner of the fake client the repository's tests run the
  reconciler on: the objects of one namespace in memory, without admission or defaulting.
  It instantiates the \<open>Kube\<close> parameter wherever a theorem is applied at a concrete input;
  no definition of the operator depends on it.
\<close>

record Cluster =
  cl_Servers :: "WildFlyServer list"
  cl_StatefulSets :: "StatefulSet list"
  cl_Services :: "Service list"
  cl_Routes :: "Route list"
  cl_ServiceMonitors :: "ServiceMonitor list"
  cl_Pods :: "Pod list"
  cl_Kinds :: "string list"
  cl_Exec :: "string \<Rightarrow> string list \<Rightarrow> string"
  cl_Log :: string

definition find_named :: "('a \<Rightarrow> ObjectMeta) \<Rightarrow> string \<Rightarrow> 'a list \<Rightarrow> error + 'a" where
  "find_named meta name xs =
     (case find (\<lambda>x. om_Name (meta x) = name) xs of
        None \<Rightarrow> Inl (ApiError NotFound name) | Some x \<Rightarrow> Inr x)"

definition replace_named :: "('a \<Rightarrow> ObjectMeta) \<Rightarrow> 'a \<Rightarrow> 'a list \<Rightarrow> 'a list" where
  "replace_named meta x xs = map (\<lambda>y. if om_Name (meta y) = om_Name (meta x) then x else y) xs"

definition remove_named :: "('a \<Rightarrow> ObjectMeta) \<Rightarrow> 'a \<Rightarrow> 'a list \<Rightarrow> 'a list" where
  "remove_named meta x xs = filter (\<lambda>y. om_Name (meta y) \<noteq> om_Name (meta x)) xs"

fun fake_create :: "Object \<Rightarrow> Cluster \<Rightarrow> error option \<times> Cluster" where
  "fake_create (ObjStatefulSet x) c = (None, c\<lparr>cl_StatefulSets := cl_StatefulSets c @ [x]\<rparr>)"
| "fake_create (ObjService x) c = (None, c\<lparr>cl_Services := cl_Services c @ [x]\<rparr>)"
| "fake_create (ObjRoute x) c = (None, c\<lparr>cl_Routes := cl_Routes c @ [x]\<rparr>)"
| "fake_create (ObjServiceMonitor x) c = (None, c\<lparr>cl_ServiceMonitors := cl_ServiceMonitors c @ [x]\<rparr>)"
| "fake_create (ObjPod x) c = (None, c\<lparr>cl_Pods := cl_Pods c @ [x]\<rparr>)"

fun fake_update :: "Object \<Rightarrow> Cluster \<Rightarrow> error option \<times> Cluster" where
  "fake_update (ObjStatefulSet x) c =
     (None, c\<lparr>cl_StatefulSets := replace_named sts_Meta x (cl_StatefulSets c)\<rparr>)"
| "fake_update (ObjService x) c = (None, c\<lparr>cl_Services := replace_named svc_Meta x (cl_Services c)\<rparr>)"
| "fake_update (ObjRoute x) c = (None, c\<lparr>cl_Routes := replace_named rt_Meta x (cl_Routes c)\<rparr>)"
| "fake_update (ObjServiceMonitor x) c =
     (None, c\<lparr>cl_ServiceMonitors := replace_named sm_Meta x (cl_ServiceMonitors c)\<rparr>)"
| "fake_update (ObjPod x) c = (None, c\<lparr>cl_Pods := replace_named pod_Meta x (cl_Pods c)\<rparr>)"

fun fake_delete :: "Object \<Rightarrow> Cluster \<Rightarrow> error option \<times> Cluster" where
  "fake_delete (ObjStatefulSet x) c =
     (None, c\<lparr>cl_StatefulSets := remove_named sts_Meta x (cl_StatefulSets c)\<rparr>)"
| "fake_delete (ObjService x) c = (None, c\<lparr>cl_Services := remove_named svc_Meta x (cl_Services c)\<rparr>)"
| "fake_delete (ObjRoute x) c = (None, c\<lparr>cl_Routes := remove_named rt_Meta x (cl_Routes c)\<rparr>)"
| "fake_delete (ObjServiceMonitor x) c =
     (None, c\<lparr>cl_ServiceMonitors := remove_named sm_Meta x (cl_ServiceMonitors c)\<rparr>)"
| "fake_delete (ObjPod x) c = (None, c\<lparr>cl_Pods := remove_named pod_Meta x (cl_Pods c)\<rparr>)"

definition fake_status :: "WildFlyServer \<Rightarrow> Cluster \<Rightarrow> (error + WildFlyServer) \<times> Cluster" where
  "fake_status w c = (Inr w, c\<lparr>cl_Servers := replace_named wf_Meta w (cl_Servers c)\<rparr>)"

text \<open>
  The text a command prints is taken as the \<open>result\<close> of a successful operation: \<open>{}\<close> is the
  empty object, \<open>{txn}\<close> an object with one entry, every other text a string.
\<close>

definition fake_decode :: "string \<Rightarrow> error + json" where
  "fake_decode s = Inr [(''outcome'', VString ''success''),
     (''result'', if s = ''{}'' then VMap [] else if s = ''{txn}'' then VMap [(''txn'', VNil)] else VString s)]"

definition fake_kube :: "Cluster Kube" where
  "fake_kube = \<lparr>
     k_Env = Map.empty,
     k_GetWildFlyServer = (\<lambda>ns n c. (find_named wf_Meta n (cl_Servers c), c)),
     k_GetStatefulSet = (\<lambda>ns n c. (find_named sts_Meta n (cl_StatefulSets c), c)),
     k_GetService = (\<lambda>ns n c. (find_named svc_Meta n (cl_Services c), c)),
     k_GetRoute = (\<lambda>ns n c. (find_named rt_Meta n (cl_Routes c), c)),
     k_GetServiceMonitor = (\<lambda>ns n c. (find_named sm_Meta n (cl_ServiceMonitors c), c)),
     k_ListPods = (\<lambda>ns l c. (Inr (cl_Pods c), c)),
     k_Create = fake_create,
     k_Update = fake_update,
     k_Delete = fake_delete,
     k_PatchPod = (\<lambda>base p c. (Inr p, c\<lparr>cl_Pods := replace_named pod_Meta p (cl_Pods c)\<rparr>)),
     k_UpdateStatus = fake_status,
     k_UpdateObjectStatus = fake_update,
     k_PatchStatus = (\<lambda>base. fake_status),
     k_SetOwnerReference = (\<lambda>w m. Inr (m\<lparr>om_OwnerReferences := [om_Name (wf_Meta w)]\<rparr>)),
     k_SelectorString = (\<lambda>l. ''''),
     k_GetConfig = (\<lambda>c. (None, c)),
     k_NewDiscoveryClient = (\<lambda>c. (None, c)),
     k_ServerResources = (\<lambda>gv c. (Inr (cl_Kinds c), c)),
     k_ClientConfig = (\<lambda>c. (None, c)),
     k_CoreClient = (\<lambda>c. (None, c)),
     k_SPDYExecutor = (\<lambda>c. (None, c)),
     k_Stream = (\<lambda>ns n cont cmd c. ((cl_Exec c n cmd, '''', None), c)),
     k_Dial = (\<lambda>addr timeout c. (None, c)),
     k_Exchange = (\<lambda>addr deadline msg c. (Inr ''DONE'', c)),
     k_Logs = (\<lambda>ns n lo c. (Inr (cl_Log c, None), c)),
     k_ParseTime = (\<lambda>layout s. Inr 0),
     k_DecodeJSON = fake_decode,
     k_DecodeLabels = (\<lambda>s. Inr Map.empty),
     k_Sprint = (\<lambda>v. ''''),
     k_Schedule = (\<lambda>ps. ps),
     k_NewManager = (\<lambda>opts c. (None, c)),
     k_IsOpenShift = (\<lambda>c. (Inr (list_ex (\<lambda>k. k = ''Route'') (cl_Kinds c)), c)),
     k_Complete = (\<lambda>ws c. (None, c)),
     k_AddHealthzCheck = (\<lambda>n c. (None, c)),
     k_AddReadyzCheck = (\<lambda>n c. (None, c)),
     k_Start = (\<lambda>c. (None, c))\<rparr>"

definition empty_cluster :: Cluster where
  "empty_cluster = \<lparr>cl_Servers = [], cl_StatefulSets = [], cl_Services = [], cl_Routes = [],
     cl_ServiceMonitors = [], cl_Pods = [], cl_Kinds = [], cl_Exec = (\<lambda>n cmd. ''''), cl_Log = ''''\<rparr>"

lemma fake_kube_simps [simp]:
  "k_Env fake_kube = Map.empty"
  "k_GetWildFlyServer fake_kube ns n c = (find_named wf_Meta n (cl_Servers c), c)"
  "k_GetStatefulSet fake_kube ns n c = (find_named sts_Meta n (cl_StatefulSets c), c)"
  "k_GetService fake_kube ns n c = (find_named svc_Meta n (cl_Services c), c)"
  "k_GetRoute fake_kube ns n c = (find_named rt_Meta n (cl_Routes c), c)"
  "k_GetServiceMonitor fake_kube ns n c = (find_named sm_Meta n (cl_ServiceMonitors c), c)"
  "k_ListPods fake_kube ns l c = (Inr (cl_Pods c), c)"
  "k_Create fake_kube = fake_create"
  "k_Update fake_kube = fake_update"
  "k_Delete fake_kube = fake_delete"
  "k_PatchPod fake_kube base p c = (Inr p, c\<lparr>cl_Pods := replace_named pod_Meta p (cl_Pods c)\<rparr>)"
  "k_UpdateStatus fake_kube = fake_status"
  "k_PatchStatus fake_kube old = fake_status"
  "k_SetOwnerReference fake_kube w m = Inr (m\<lparr>om_OwnerReferences := [om_Name (wf_Meta w)]\<rparr>)"
  "k_GetConfig fake_kube c = (None, c)"
  "k_NewDiscoveryClient fake_kube c = (None, c)"
  "k_ServerResources fake_kube gv c = (Inr (cl_Kinds c), c)"
  "k_ClientConfig fake_kube c = (None, c)"
  "k_CoreClient fake_kube c = (None, c)"
  "k_SPDYExecutor fake_kube c = (None, c)"
  "k_Stream fake_kube ns n cont cmd c = ((cl_Exec c n cmd, '''', None), c)"
  "k_Dial fake_kube addr t c = (None, c)"
  "k_Exchange fake_kube addr d msg c = (Inr ''DONE'', c)"
  "k_Logs fake_kube ns n lo c = (Inr (cl_Log c, None), c)"
  "k_ParseTime fake_kube layout s = Inr 0"
  "k_DecodeJSON fake_kube = fake_decode"
  "k_DecodeLabels fake_kube s = Inr Map.empty"
  "k_Schedule fake_kube ps = ps"
  "k_NewManager fake_kube opts c = (None, c)"
  "k_IsOpenShift fake_kube c = (Inr (list_ex (\<lambda>k. k = ''Route'') (cl_Kinds c)), c)"
  "k_Complete fake_kube ws c = (None, c)"
  "k_AddHealthzCheck fake_kube n c = (None, c)"
  "k_AddReadyzCheck fake_kube n c = (None, c)"
  "k_Start fake_kube c = (None, c)"
  by (simp_all add: fake_kube_def)

end
