(* ===== verification/Services.thy ===== *)
theory Services
  imports Fake_Client
begin

text \<open>
  \<open>pkg/resources/services/service.go\<close>: the cluster, headless and admin services. The
  labels map is shared between the caller, the object's labels and its selector, and the
  creators write to it, so a creator returns the service together with the map as it left it.
\<close>

section \<open>Names\<close>

definition HeadlessServiceName :: "WildFlyServer \<Rightarrow> string" where
  "HeadlessServiceName w = wf_Name w @ ''-headless''"

definition AdminServiceName :: "WildFlyServer \<Rightarrow> string" where
  "AdminServiceName w = wf_Name w @ ''-admin''"

definition ClusterServiceName :: "WildFlyServer \<Rightarrow> string" where
  "ClusterServiceName w = wf_Name w @ ''-loadbalancer''"

section \<open>The service objects\<close>

definition service_meta :: "WildFlyServer \<Rightarrow> string \<Rightarrow> strmap \<Rightarrow> ObjectMeta" where
  "service_meta w name labels = zero_ObjectMeta\<lparr>om_Name := name, om_Namespace := wf_Namespace w,
     om_Labels := Some labels\<rparr>"

definition newHeadlessService :: "WildFlyServer \<Rightarrow> strmap \<Rightarrow> Service \<times> strmap" where
  "newHeadlessService w labels =
     (let labels = labels(MarkerOperatedByHeadless \<mapsto> MarkerServiceActive)
      in (\<lparr>svc_Meta = service_meta w (HeadlessServiceName w) labels,
           svc_Type = ''ClusterIP'', svc_Selector = Some labels, svc_ClusterIP = ''None'',
           svc_SessionAffinity = '''', svc_Ports = [(''http'', HTTPApplicationPort)]\<rparr>, labels))"

definition newAdminService :: "WildFlyServer \<Rightarrow> strmap \<Rightarrow> Service \<times> strmap" where
  "newAdminService w labels =
     (\<lparr>svc_Meta = service_meta w (AdminServiceName w) labels,
       svc_Type = ''ClusterIP'', svc_Selector = Some labels, svc_ClusterIP = ''None'',
       svc_SessionAffinity = '''', svc_Ports = [(''admin'', HTTPManagementPort)]\<rparr>, labels)"

definition newClusterService :: "WildFlyServer \<Rightarrow> strmap \<Rightarrow> Service \<times> strmap" where
  "newClusterService w labels =
     (let labels = labels(MarkerOperatedByLoadbalancer \<mapsto> MarkerServiceActive);
          sessionAffinity = (if sp_SessionAffinity (wf_Spec w) then ''ClientIP'' else ''None'')
      in (\<lparr>svc_Meta = service_meta w (ClusterServiceName w) labels,
           svc_Type = ''ClusterIP'', svc_Selector = Some labels, svc_ClusterIP = '''',
           svc_SessionAffinity = sessionAffinity,
           svc_Ports = [(''http'', HTTPApplicationPort)]\<rparr>, labels))"

section \<open>Create or update\<close>

text \<open>\<open>Inr None\<close> is \<open>nil, nil\<close>: the caller reconciles again.\<close>

definition createOrUpdateService ::
  "'e Kube \<Rightarrow> WildFlyServer \<Rightarrow> strmap \<Rightarrow> string \<Rightarrow>
   (WildFlyServer \<Rightarrow> strmap \<Rightarrow> Service \<times> strmap) \<Rightarrow> ('e, error + Service option) kop" where
  "createOrUpdateService K w labels0 serviceName serviceCreator =
     (let labels = labels0(MarkerOperatedByHeadless \<mapsto> MarkerServiceActive) in
      do { found \<leftarrow> GetService K w serviceName;
           case found of
             Inl err \<Rightarrow>
               (if IsNotFound (Some err) then
                  do { r \<leftarrow> Create K w (ObjService (fst (serviceCreator w labels)));
                       case r of
                         None \<Rightarrow> ret (Inr None)
                       | Some err \<Rightarrow> if IsAlreadyExists err then ret (Inr None) else ret (Inl err) }
                else ret (Inl err))
           | Inr service \<Rightarrow>
               (if \<not> IsCurrentGeneration w (svc_Meta service) then
                  (case serviceCreator w labels of
                     (newService, labels') \<Rightarrow>
                       let updated = newService\<lparr>
                             svc_ClusterIP := svc_ClusterIP service,
                             svc_Meta := (svc_Meta service)\<lparr>om_Labels := Some labels'\<rparr>\<rparr>
                       in do { r \<leftarrow> Update K w (ObjService updated);
                               case r of
                                 None \<Rightarrow> ret (Inr None)
                               | Some err \<Rightarrow>
                                   if IsInvalid err then
                                     do { d \<leftarrow> Delete K w (ObjService (updated\<lparr>svc_Meta :=
                                              MarkServerGeneration w (svc_Meta updated)\<rparr>));
                                          case d of None \<Rightarrow> ret (Inr None) | Some err \<Rightarrow> ret (Inl err) }
                                   else ret (Inl err) })
                else ret (Inr (Some service))) })"

definition CreateOrUpdateAdminService ::
  "'e Kube \<Rightarrow> WildFlyServer \<Rightarrow> strmap \<Rightarrow> ('e, error + Service option) kop" where
  "CreateOrUpdateAdminService K w labels =
     createOrUpdateService K w labels (AdminServiceName w) newAdminService"

definition CreateOrUpdateHeadlessService ::
  "'e Kube \<Rightarrow> WildFlyServer \<Rightarrow> strmap \<Rightarrow> ('e, error + Service option) kop" where
  "CreateOrUpdateHeadlessService K w labels =
     createOrUpdateService K w labels (HeadlessServiceName w) newHeadlessService"

definition CreateOrUpdateClusterService ::
  "'e Kube \<Rightarrow> WildFlyServer \<Rightarrow> strmap \<Rightarrow> ('e, error + Service option) kop" where
  "CreateOrUpdateClusterService K w labels =
     createOrUpdateService K w labels (ClusterServiceName w) newClusterService"

section \<open>What a service selects\<close>

definition selects :: "strmap option \<Rightarrow> strmap option \<Rightarrow> bool" where
  "selects sel labels \<longleftrightarrow> (case sel of None \<Rightarrow> False | Some s \<Rightarrow>
     (case labels of None \<Rightarrow> s = Map.empty | Some l \<Rightarrow> s \<subseteq>\<^sub>m l))"

section \<open>The contract of a stage of the reconcile loop\<close>

text \<open>
  \<open>Reconcile\<close> runs a sequence of stages, each of which brings one object up to date. A
  stage that returns the object has changed nothing, and a stage never touches the status
  of the WildFlyServer, so at most one stage of a pass changes the cluster.
\<close>

definition settled :: "error + 'x option \<Rightarrow> bool" where
  "settled r \<longleftrightarrow> (case r of Inr (Some _) \<Rightarrow> True | _ \<Rightarrow> False)"

locale reconcile_stage =
  fixes stage :: "('e, error + 'x option) kop"
  assumes settled_no_write: "does stage (\<lambda>r evs. settled r \<longrightarrow> \<not> list_ex is_write evs)"
    and only_object_writes: "does stage (\<lambda>r evs. list_all (\<lambda>e. is_write e \<longrightarrow> is_object_write e) evs)"
begin

lemma stage_spec:
  "does stage (\<lambda>r evs. (settled r \<longrightarrow> \<not> list_ex is_write evs) \<and>
     list_all (\<lambda>e. is_write e \<longrightarrow> is_object_write e) evs)"
  by (rule does_conj[OF settled_no_write only_object_writes])

text \<open>Running a stage and continuing only when it is settled.\<close>

lemma stage_then:
  assumes "\<And>err evs. list_all (\<lambda>e. is_write e \<longrightarrow> is_object_write e) evs \<Longrightarrow>
      does (failed err) (\<lambda>r evs'. \<Phi> r (evs @ evs'))"
    and "\<And>evs. list_all (\<lambda>e. is_write e \<longrightarrow> is_object_write e) evs \<Longrightarrow>
      does again (\<lambda>r evs'. \<Phi> r (evs @ evs'))"
    and "\<And>x evs. \<not> list_ex is_write evs \<Longrightarrow> does (next x) (\<lambda>r evs'. \<Phi> r (evs @ evs'))"
  shows "does (stage \<bind> (\<lambda>r. case r of
      Inl err \<Rightarrow> failed err
    | Inr x \<Rightarrow> (case x of None \<Rightarrow> again | Some y \<Rightarrow> next y))) \<Phi>"
  by (rule does_bind[OF stage_spec])
     (use assms in \<open>auto simp: settled_def split: sum.splits option.splits\<close>)

end

section \<open>The services are stages\<close>

lemma createOrUpdateService_stage:
  "reconcile_stage (createOrUpdateService K w labels name creator)"
  unfolding createOrUpdateService_def
  by unfold_locales (intro does_rules; simp add: settled_def)+

interpretation admin_service: reconcile_stage "CreateOrUpdateAdminService K w labels" for K w labels
  unfolding CreateOrUpdateAdminService_def by (rule createOrUpdateService_stage)

interpretation headless_service: reconcile_stage "CreateOrUpdateHeadlessService K w labels" for K w labels
  unfolding CreateOrUpdateHeadlessService_def by (rule createOrUpdateService_stage)

interpretation cluster_service: reconcile_stage "CreateOrUpdateClusterService K w labels" for K w labels
  unfolding CreateOrUpdateClusterService_def by (rule createOrUpdateService_stage)

section \<open>Correctness of the services\<close>

text \<open>Documented behaviour of \<open>controllerutil.SetOwnerReference\<close>: it only sets the owners.\<close>

definition owner_ref_only :: "'e Kube \<Rightarrow> bool" where
  "owner_ref_only K \<longleftrightarrow> (\<forall>w m m'. k_SetOwnerReference K w m = Inr m' \<longrightarrow>
     m'\<lparr>om_OwnerReferences := om_OwnerReferences m\<rparr> = m)"

lemma owner_ref_onlyD:
  assumes "owner_ref_only K" and "k_SetOwnerReference K w m = Inr m'"
  shows "om_Name m' = om_Name m" "om_Namespace m' = om_Namespace m" "om_Labels m' = om_Labels m"
    "om_Annotations m' = om_Annotations m" "om_Generation m' = om_Generation m"
proof -
  have "m'\<lparr>om_OwnerReferences := om_OwnerReferences m\<rparr> = m"
    using assms unfolding owner_ref_only_def by blast
  then show "om_Name m' = om_Name m" "om_Namespace m' = om_Namespace m" "om_Labels m' = om_Labels m"
    "om_Annotations m' = om_Annotations m" "om_Generation m' = om_Generation m"
    by (cases m; cases m'; simp)+
qed

lemma IsCurrentGeneration_annotations:
  "om_Annotations m = om_Annotations m' \<Longrightarrow> IsCurrentGeneration w m = IsCurrentGeneration w m'"
  by (simp add: IsCurrentGeneration_def)

text \<open>The service a write sends, if any.\<close>

fun written_service :: "event \<Rightarrow> Service option" where
  "written_service (EvCreate (ObjService s) _) = Some s"
| "written_service (EvUpdate (ObjService s) _) = Some s"
| "written_service _ = None"

text \<open>
  C27: Creating or updating a service converges: every service sent to the API server has
  the current generation and the selector, ports and labels the creator computes for the
  current WildFlyServer, so it is settled when it is read back; a settled result is a
  current service and the pass has then only read it.
\<close>

theorem createOrUpdateService_converges:
  fixes labels :: strmap and creator :: "WildFlyServer \<Rightarrow> strmap \<Rightarrow> Service \<times> strmap"
    and w :: WildFlyServer
  assumes "in_int64 (wf_Generation w)" and "owner_ref_only K"
  defines "wanted \<equiv> creator w (labels(MarkerOperatedByHeadless \<mapsto> MarkerServiceActive))"
  shows "does (createOrUpdateService K w labels name creator) (\<lambda>r evs.
     list_all (\<lambda>e. case written_service e of None \<Rightarrow> True | Some s \<Rightarrow>
        IsCurrentGeneration w (svc_Meta s) \<and> svc_Selector s = svc_Selector (fst wanted) \<and>
        svc_Ports s = svc_Ports (fst wanted) \<and>
        om_Labels (svc_Meta s) \<in> {om_Labels (svc_Meta (fst wanted)), Some (snd wanted)}) evs \<and>
     (\<forall>s. r = Inr (Some s) \<longrightarrow> IsCurrentGeneration w (svc_Meta s) \<and>
        evs = [EvGetService (wf_Namespace w) name (Inr s)]))"
proof -
  have cur: "IsCurrentGeneration w (MarkServerGeneration w m)" for m
    using assms(1) by (simp add: IsCurrentGeneration_Mark_iff)
  have cur': "IsCurrentGeneration w m'"
    if "k_SetOwnerReference K w (MarkServerGeneration w m) = Inr m'" for m m'
    using IsCurrentGeneration_annotations[OF owner_ref_onlyD(4)[OF assms(2) that]] cur by simp
  note owner = owner_ref_onlyD(3)[OF assms(2)]
  show ?thesis
    unfolding createOrUpdateService_def wanted_def
    by (intro does_rules; auto simp: mark_object_def cur cur' owner)
qed

text \<open>
  C26: A pod that carries the labels of the server and is active for the headless service is
  selected by the headless and admin services; the cluster service selects it only while
  its loadbalancer label is active, so relabelling it as disabled takes it out of the load
  balancing but keeps it reachable for transaction recovery.
\<close>

theorem services_drain:
  fixes labels pod_labels :: strmap and w :: WildFlyServer
  assumes "labels MarkerOperatedByLoadbalancer = None" and "labels \<subseteq>\<^sub>m pod_labels"
    and "pod_labels MarkerOperatedByHeadless = Some MarkerServiceActive"
  defines "l \<equiv> labels(MarkerOperatedByHeadless \<mapsto> MarkerServiceActive)"
  shows "selects (svc_Selector (fst (newHeadlessService w l))) (Some pod_labels) \<and>
    selects (svc_Selector (fst (newAdminService w l))) (Some pod_labels) \<and>
    (selects (svc_Selector (fst (newClusterService w l))) (Some pod_labels)
       \<longleftrightarrow> pod_labels MarkerOperatedByLoadbalancer = Some MarkerServiceActive)"
proof -
  have "l \<subseteq>\<^sub>m pod_labels"
    using assms(2,3) by (auto simp: l_def map_le_def)
  moreover have "l MarkerOperatedByLoadbalancer = None"
    using assms(1)
    by (simp add: l_def MarkerOperatedByLoadbalancer_def MarkerOperatedByHeadless_def)
  ultimately have "l(MarkerOperatedByLoadbalancer \<mapsto> MarkerServiceActive) \<subseteq>\<^sub>m pod_labels
      \<longleftrightarrow> pod_labels MarkerOperatedByLoadbalancer = Some MarkerServiceActive"
    by (auto simp: map_le_def)
  with \<open>l \<subseteq>\<^sub>m pod_labels\<close> show ?thesis
    by (simp add: newHeadlessService_def newAdminService_def newClusterService_def Let_def
        selects_def) (simp add: l_def)
qed

definition sample_labels :: strmap where
  "sample_labels = [''app.kubernetes.io/name'' \<mapsto> ''quickstart'']"

theorem services_drain_witness:
  "\<not> selects (svc_Selector (fst (newClusterService sample_server
        (sample_labels(MarkerOperatedByHeadless \<mapsto> MarkerServiceActive)))))
      (Some (sample_labels(MarkerOperatedByHeadless \<mapsto> MarkerServiceActive,
         MarkerOperatedByLoadbalancer \<mapsto> ''disabled'')))"
  using services_drain[of sample_labels
      "sample_labels(MarkerOperatedByHeadless \<mapsto> MarkerServiceActive,
         MarkerOperatedByLoadbalancer \<mapsto> ''disabled'')" sample_server]
  by (simp add: sample_labels_def MarkerOperatedByHeadless_def MarkerOperatedByLoadbalancer_def
      MarkerServiceActive_def map_le_def)

lemma owner_ref_only_fake [simp]: "owner_ref_only fake_kube"
  by (simp add: owner_ref_only_def)

theorem createOrUpdateService_converges_witness:
  "owner_ref_only fake_kube \<and> in_int64 (wf_Generation sample_server) \<and>
   does (createOrUpdateService fake_kube sample_server sample_labels ''quickstart-admin'' newAdminService)
     (\<lambda>r evs. \<forall>s. r = Inr (Some s) \<longrightarrow> IsCurrentGeneration sample_server (svc_Meta s))"
proof (intro conjI)
  show gen: "in_int64 (wf_Generation sample_server)"
    by (simp add: sample_server_def sample_meta_def in_int64_def)
  show "does (createOrUpdateService fake_kube sample_server sample_labels ''quickstart-admin'' newAdminService)
     (\<lambda>r evs. \<forall>s. r = Inr (Some s) \<longrightarrow> IsCurrentGeneration sample_server (svc_Meta s))"
    by (rule does_mono[OF createOrUpdateService_converges[OF gen owner_ref_only_fake]]) blast
qed simp

end
