(* ===== verification/Stateful_Sets.thy ===== *)
theory Stateful_Sets
  imports Services
begin

text \<open>
  \<open>pkg/resources/statefulsets/statefulset.go\<close>: the StatefulSet the operator builds from a
  WildFlyServer, its probes, volumes and environment. \<open>NewStatefulSet\<close> also fills in the
  missing probe sections of the WildFlyServer in memory, so it returns both.
\<close>

section \<open>Resources and probes\<close>

definition createResources :: "ResourceRequirements option \<Rightarrow> ResourceRequirements" where
  "createResources r =
     (let nonempty = (\<lambda>m. case m of None \<Rightarrow> None | Some [] \<Rightarrow> None | Some (e # es) \<Rightarrow> Some (e # es))
      in case r of
           None \<Rightarrow> \<lparr>rr_Limits = None, rr_Requests = None\<rparr>
         | Some r \<Rightarrow> \<lparr>rr_Limits = nonempty (rr_Limits r), rr_Requests = nonempty (rr_Requests r)\<rparr>)"

definition createCommonProbe ::
  "strmap \<Rightarrow> bool \<Rightarrow> bool \<Rightarrow> string \<Rightarrow> int \<Rightarrow> int \<Rightarrow> int \<Rightarrow> int \<Rightarrow> int \<Rightarrow> ProbeHandler \<Rightarrow> string \<Rightarrow> string
   \<Rightarrow> Probe" where
  "createCommonProbe env scriptDefined bootableJar probeScript initialDelaySeconds timeoutSeconds
     periodSeconds successThreshold failureThreshold probeHandler endPoint fallbackEnvProbe =
     (let action =
        (case ph_Exec probeHandler of
           Some command \<Rightarrow> \<lparr>ph_Exec = Some command, ph_HTTPGet = None\<rparr>
         | None \<Rightarrow>
             (case ph_HTTPGet probeHandler of
                Some h \<Rightarrow> \<lparr>ph_Exec = None, ph_HTTPGet = Some h\<rparr>
              | None \<Rightarrow>
                  if scriptDefined \<and> \<not> bootableJar then
                    (let fallback = (case env fallbackEnvProbe of
                           Some s \<Rightarrow> s
                         | None \<Rightarrow> ''curl --fail http://127.0.0.1:'' @ FormatInt HTTPManagementPort @ endPoint);
                         script = ''if [ -f '' @ [CHR 0x27] @ probeScript @ [CHR 0x27] @ '' ]; then ''
                           @ probeScript @ ''; else '' @ fallback @ ''; fi''
                     in \<lparr>ph_Exec = Some [''/bin/bash'', ''-c'', script], ph_HTTPGet = None\<rparr>)
                  else \<lparr>ph_Exec = None, ph_HTTPGet = Some \<lparr>hg_Path = endPoint,
                         hg_Port = FromString ''admin'', hg_Host = '''', hg_Scheme = '''',
                         hg_HTTPHeaders = Opaque ''''\<rparr>\<rparr>))
      in \<lparr>pr_Handler = action, pr_InitialDelaySeconds = initialDelaySeconds,
          pr_TimeoutSeconds = timeoutSeconds, pr_PeriodSeconds = periodSeconds,
          pr_SuccessThreshold = successThreshold, pr_FailureThreshold = failureThreshold\<rparr>)"

definition nonzero_or :: "int \<Rightarrow> int \<Rightarrow> int" where
  "nonzero_or v dflt = (if v \<noteq> 0 then v else dflt)"

definition createLivenessProbe :: "strmap \<Rightarrow> WildFlyServer \<Rightarrow> Probe \<times> WildFlyServer" where
  "createLivenessProbe env w =
     (let probe = (case sp_LivenessProbe (wf_Spec w) of None \<Rightarrow> zero_ProbeSpec | Some p \<Rightarrow> p);
          initialDelay = (case pb_InitialDelaySeconds probe of None \<Rightarrow> 0 | Some d \<Rightarrow> d)
      in (createCommonProbe env (env ''SERVER_LIVENESS_SCRIPT'' \<noteq> None) (sp_BootableJar (wf_Spec w))
            (Getenv env ''SERVER_LIVENESS_SCRIPT'') initialDelay
            (nonzero_or (pb_TimeoutSeconds probe) 1) (nonzero_or (pb_PeriodSeconds probe) 10)
            (nonzero_or (pb_SuccessThreshold probe) 1) (nonzero_or (pb_FailureThreshold probe) 3)
            (pb_Handler probe) ''/health/live'' ''SERVER_LIVENESS_SCRIPT_FALLBACK'',
          w\<lparr>wf_Spec := (wf_Spec w)\<lparr>sp_LivenessProbe := Some probe\<rparr>\<rparr>))"

definition createReadinessProbe :: "strmap \<Rightarrow> WildFlyServer \<Rightarrow> Probe \<times> WildFlyServer" where
  "createReadinessProbe env w =
     (let probe = (case sp_ReadinessProbe (wf_Spec w) of None \<Rightarrow> zero_ProbeSpec | Some p \<Rightarrow> p);
          initialDelay = (case pb_InitialDelaySeconds probe of None \<Rightarrow> 10 | Some d \<Rightarrow> d)
      in (createCommonProbe env (env ''SERVER_READINESS_SCRIPT'' \<noteq> None) (sp_BootableJar (wf_Spec w))
            (Getenv env ''SERVER_READINESS_SCRIPT'') initialDelay
            (nonzero_or (pb_TimeoutSeconds probe) 1) (nonzero_or (pb_PeriodSeconds probe) 10)
            (nonzero_or (pb_SuccessThreshold probe) 1) (nonzero_or (pb_FailureThreshold probe) 3)
            (pb_Handler probe) ''/health/ready'' ''SERVER_READINESS_SCRIPT_FALLBACK'',
          w\<lparr>wf_Spec := (wf_Spec w)\<lparr>sp_ReadinessProbe := Some probe\<rparr>\<rparr>))"

definition createStartupProbe :: "strmap \<Rightarrow> WildFlyServer \<Rightarrow> Probe \<times> WildFlyServer" where
  "createStartupProbe env w =
     (let probe = (case sp_StartupProbe (wf_Spec w) of None \<Rightarrow> zero_ProbeSpec | Some p \<Rightarrow> p);
          initialDelay = (case pb_InitialDelaySeconds probe of None \<Rightarrow> 10 | Some d \<Rightarrow> d)
      in (createCommonProbe env (env ''SERVER_LIVENESS_SCRIPT'' \<noteq> None) (sp_BootableJar (wf_Spec w))
            (Getenv env ''SERVER_LIVENESS_SCRIPT'') initialDelay
            (nonzero_or (pb_TimeoutSeconds probe) 1) (nonzero_or (pb_PeriodSeconds probe) 10)
            (nonzero_or (pb_SuccessThreshold probe) 1) (nonzero_or (pb_FailureThreshold probe) 11)
            (pb_Handler probe) ''/health/live'' ''SERVER_LIVENESS_SCRIPT_FALLBACK'',
          w\<lparr>wf_Spec := (wf_Spec w)\<lparr>sp_StartupProbe := Some probe\<rparr>\<rparr>))"

section \<open>Environment of the container and labels of the pods\<close>

definition envForClustering :: "string \<Rightarrow> EnvVar list" where
  "envForClustering labels =
     [\<lparr>ev_Name = ''KUBERNETES_NAMESPACE'', ev_Value = EnvFieldRef ''v1'' ''metadata.namespace''\<rparr>,
      \<lparr>ev_Name = ''KUBERNETES_LABELS'', ev_Value = EnvLiteral labels\<rparr>]"

definition envForEJBRecovery :: "WildFlyServer \<Rightarrow> EnvVar list" where
  "envForEJBRecovery w =
     [\<lparr>ev_Name = ''STATEFULSET_HEADLESS_SERVICE_NAME'', ev_Value = EnvLiteral (HeadlessServiceName w)\<rparr>]"

definition envArgsForBootableJAR :: "strmap \<Rightarrow> string \<Rightarrow> EnvVar list" where
  "envArgsForBootableJAR env defaultDataDir =
     [\<lparr>ev_Name = ''JAVA_ARGS'',
       ev_Value = EnvLiteral (''-Djboss.server.data.dir='' @
         path_Join [JBossHomeDataDir env True, defaultDataDir] @ '' --install-dir='' @ JBossHome env True)\<rparr>,
      \<lparr>ev_Name = ''JBOSS_HOME'', ev_Value = EnvLiteral (JBossHome env True)\<rparr>]"

definition applyLabels :: "'e Kube \<Rightarrow> string \<Rightarrow> strmap \<Rightarrow> strmap" where
  "applyLabels K envvar labels =
     (let labelsFromEnv = Getenv (k_Env K) envvar
      in if labelsFromEnv = '''' then labels
         else case k_DecodeLabels K labelsFromEnv of
                Inl _ \<Rightarrow> labels
              | Inr labelMap \<Rightarrow> labels ++ labelMap)"

definition podTemplateLabels :: "'e Kube \<Rightarrow> strmap \<Rightarrow> strmap" where
  "podTemplateLabels K labels =
     applyLabels K StatefuleSetTemplateLabelsEnvVarName
       ((CopyMap (Some labels))(MarkerOperatedByHeadless \<mapsto> MarkerServiceActive,
          MarkerOperatedByLoadbalancer \<mapsto> MarkerServiceActive))"

definition podTemplateAnnotations :: "WildFlyServer \<Rightarrow> bool \<Rightarrow> strmap" where
  "podTemplateAnnotations w isOpenShift =
     (let m = [MarkerImageType \<mapsto> (if sp_BootableJar (wf_Spec w) then ImageTypeBootable else ImageTypeGeneric)]
      in if isOpenShift then m(''alpha.image.policy.openshift.io/resolve-names'' \<mapsto> ''*'') else m)"

section \<open>Volumes\<close>

definition standaloneDataVolumeName :: "WildFlyServer \<Rightarrow> string" where
  "standaloneDataVolumeName w = wf_Name w @ ''-volume''"

text \<open>The data volume: an EmptyDir volume, or a claim template that is named if it has no name.\<close>

definition storageVolumes :: "WildFlyServer \<Rightarrow> Volume list \<times> PersistentVolumeClaim list" where
  "storageVolumes w =
     (case sp_Storage (wf_Spec w) of
        None \<Rightarrow> ([\<lparr>vol_Name = standaloneDataVolumeName w, vol_Source = EmptyDirSource (Opaque '''')\<rparr>], [])
      | Some storageSpec \<Rightarrow>
          (case sg_EmptyDir storageSpec of
             Some emptyDir \<Rightarrow>
               ([\<lparr>vol_Name = standaloneDataVolumeName w, vol_Source = EmptyDirSource emptyDir\<rparr>], [])
           | None \<Rightarrow>
               (let t = sg_VolumeClaimTemplate storageSpec
                in ([], [t\<lparr>pvc_Name := (if pvc_Name t = '''' then standaloneDataVolumeName w else pvc_Name t),
                          pvc_AccessModes := [''ReadWriteOnce''],
                          pvc_Resources := createResources (Some (pvc_Resources t)),
                          pvc_Selector := pvc_Selector t\<rparr>]))))"

definition standaloneDataMount :: "strmap \<Rightarrow> WildFlyServer \<Rightarrow> VolumeMount" where
  "standaloneDataMount env w =
     \<lparr>vm_Name = standaloneDataVolumeName w, vm_ReadOnly = False,
      vm_MountPath = path_Join [JBossHomeDataDir env (sp_BootableJar (wf_Spec w)),
        StandaloneServerDataDirRelativePath], vm_SubPath = ''''\<rparr>"

definition configVolumes :: "strmap \<Rightarrow> WildFlyServer \<Rightarrow> (Volume \<times> VolumeMount) list" where
  "configVolumes env w =
     (case sp_StandaloneConfigMap (wf_Spec w) of
        None \<Rightarrow> []
      | Some cm \<Rightarrow>
          (let key = (if scm_Key cm = '''' then ''standalone.xml'' else scm_Key cm)
           in [(\<lparr>vol_Name = ''standalone-config-volume'',
                 vol_Source = ConfigMapSource (scm_Name cm) [(key, ''standalone.xml'')]\<rparr>,
                \<lparr>vm_Name = ''standalone-config-volume'', vm_ReadOnly = False,
                 vm_MountPath = path_Join [JBossHome env (sp_BootableJar (wf_Spec w)),
                   ''standalone/configuration/standalone.xml''],
                 vm_SubPath = ''standalone.xml''\<rparr>)]))"

definition secretVolume :: "string \<Rightarrow> Volume \<times> VolumeMount" where
  "secretVolume s =
     (let volumeName = SanitizeVolumeName (''secret-'' @ s)
      in (\<lparr>vol_Name = volumeName, vol_Source = SecretSource s\<rparr>,
          \<lparr>vm_Name = volumeName, vm_ReadOnly = True, vm_MountPath = path_Join [SecretsDir, s],
           vm_SubPath = ''''\<rparr>))"

definition configMapVolume :: "string \<Rightarrow> Volume \<times> VolumeMount" where
  "configMapVolume cm =
     (let volumeName = SanitizeVolumeName (''configmap-'' @ cm)
      in (\<lparr>vol_Name = volumeName, vol_Source = ConfigMapSource cm []\<rparr>,
          \<lparr>vm_Name = volumeName, vm_ReadOnly = True, vm_MountPath = path_Join [ConfigMapsDir, cm],
           vm_SubPath = ''''\<rparr>))"

text \<open>The volumes and mounts after the data volume, in the order they are appended.\<close>

definition mountedVolumes :: "strmap \<Rightarrow> WildFlyServer \<Rightarrow> (Volume \<times> VolumeMount) list" where
  "mountedVolumes env w = configVolumes env w @ map secretVolume (sp_Secrets (wf_Spec w))
     @ map configMapVolume (sp_ConfigMaps (wf_Spec w))"

section \<open>The StatefulSet\<close>

definition imageTriggers :: "WildFlyServer \<Rightarrow> string" where
  "imageTriggers w =
     ''[{ \"from\": { \"kind\":\"ImageStreamTag\", \"name\":\"'' @ sp_ApplicationImage (wf_Spec w) @
     ''\"}, \"fieldPath\": \"spec.template.spec.containers[?(@.name=='' @ [CHR 0x5C] @ ''\"'' @ wf_Name w @
     [CHR 0x5C] @ ''\")].image\"}]''"

definition NewStatefulSet ::
  "'e Kube \<Rightarrow> WildFlyServer \<Rightarrow> strmap \<Rightarrow> int \<Rightarrow> bool \<Rightarrow> StatefulSet \<times> WildFlyServer" where
  "NewStatefulSet K w labels desiredReplicaSize isOpenShift =
     (let env = k_Env K;
          (liveness, w1) = createLivenessProbe env w;
          (readiness, w2) = createReadinessProbe env w1;
          (startup, w3) = createStartupProbe env w2;
          spec = wf_Spec w;
          (dataVolumes, claims) = storageVolumes w;
          mounted = mountedVolumes env w;
          container = \<lparr>c_Name = wf_Name w, c_Image = sp_ApplicationImage spec,
            c_Ports = [(''http'', HTTPApplicationPort), (''admin'', HTTPManagementPort)],
            c_LivenessProbe = Some liveness, c_ReadinessProbe = Some readiness,
            c_StartupProbe = Some startup,
            c_Resources = (case sp_Resources spec of
               None \<Rightarrow> createResources (sp_Resources spec) | Some r \<Rightarrow> r),
            c_SecurityContext = sp_SecurityContext spec,
            c_EnvFrom = sp_EnvFrom spec,
            c_Env = sp_Env spec @ envForClustering (k_SelectorString K labels) @ envForEJBRecovery w
              @ (if sp_BootableJar spec
                 then envArgsForBootableJAR env StandaloneServerDataDirRelativePath else []),
            c_VolumeMounts = standaloneDataMount env w # map snd mounted\<rparr>
      in (\<lparr>sts_Meta = zero_ObjectMeta\<lparr>om_Name := wf_Name w, om_Namespace := wf_Namespace w,
             om_Labels := Some labels,
             om_Annotations := Some [''image.openshift.io/triggers'' \<mapsto> imageTriggers w]\<rparr>,
           sts_Replicas = Some desiredReplicaSize,
           sts_ServiceName = HeadlessServiceName w,
           sts_PodManagementPolicy = ''Parallel'',
           sts_Selector = Some labels,
           sts_Template = \<lparr>pt_Labels = Some (podTemplateLabels K labels),
             pt_Annotations = Some (podTemplateAnnotations w isOpenShift),
             pt_SeccompProfile = ''RuntimeDefault'',
             pt_Containers = [container],
             pt_ServiceAccountName = sp_ServiceAccountName spec,
             pt_Volumes = dataVolumes @ map fst mounted\<rparr>,
           sts_VolumeClaimTemplates = claims,
           sts_StatusReplicas = 0\<rparr>, w3))"

text \<open>An error other than \<open>NotFound\<close> is dropped and the empty StatefulSet is returned.\<close>

definition GetOrCreateNewStatefulSet ::
  "'e Kube \<Rightarrow> WildFlyServer \<Rightarrow> strmap \<Rightarrow> int \<Rightarrow> bool \<Rightarrow> ('e, error + StatefulSet option) kop" where
  "GetOrCreateNewStatefulSet K w labels desiredReplicaSize isOpenShift =
     do { found \<leftarrow> GetStatefulSet K w (wf_Name w);
          case found of
            Inl err \<Rightarrow>
              (if IsNotFound (Some err) then
                 (case NewStatefulSet K w labels desiredReplicaSize isOpenShift of
                    (statefulSet, w') \<Rightarrow>
                      do { r \<leftarrow> Create K w' (ObjStatefulSet statefulSet);
                           case r of None \<Rightarrow> ret (Inr None) | Some err \<Rightarrow> ret (Inl err) })
               else ret (Inr (Some zero_StatefulSet)))
          | Inr statefulSet \<Rightarrow> ret (Inr (Some statefulSet)) }"

interpretation stateful_set:
  reconcile_stage "GetOrCreateNewStatefulSet K w labels n openshift" for K w labels n openshift
  unfolding GetOrCreateNewStatefulSet_def
  by unfold_locales (intro does_rules; simp add: settled_def)+

section \<open>Mounts refer to volumes\<close>

definition mounts_resolve :: "StatefulSet \<Rightarrow> bool" where
  "mounts_resolve sts \<longleftrightarrow> list_all (\<lambda>c. list_all (\<lambda>m.
     vm_Name m \<in> set (map vol_Name (pt_Volumes (sts_Template sts)))
       \<union> set (map pvc_Name (sts_VolumeClaimTemplates sts))) (c_VolumeMounts c))
     (pt_Containers (sts_Template sts))"

lemmas probe_defs = createLivenessProbe_def createReadinessProbe_def createStartupProbe_def

lemma mountedVolumes_named: "(v, m) \<in> set (mountedVolumes env w) \<Longrightarrow> vm_Name m = vol_Name v"
  by (auto simp: mountedVolumes_def configVolumes_def secretVolume_def configMapVolume_def Let_def
      split: option.splits)

lemma NewStatefulSet_mounts:
  "mounts_resolve (fst (NewStatefulSet K w labels n openshift)) \<longleftrightarrow>
     standaloneDataVolumeName w \<in> set (map vol_Name (fst (storageVolumes w)))
       \<union> set (map pvc_Name (snd (storageVolumes w)))
       \<union> set (map (vol_Name \<circ> fst) (mountedVolumes (k_Env K) w))"
proof -
  have "vm_Name m \<in> vol_Name ` fst ` set (mountedVolumes (k_Env K) w)"
    if "m \<in> snd ` set (mountedVolumes (k_Env K) w)" for m
    using that by (force dest: mountedVolumes_named)
  then show ?thesis
    by (auto simp: mounts_resolve_def NewStatefulSet_def Let_def probe_defs standaloneDataMount_def
        list_all_iff image_Un image_comp split: prod.splits)
qed

text \<open>A claim template without a name of its own, or with the default one.\<close>

definition default_claim_name :: "WildFlyServer \<Rightarrow> bool" where
  "default_claim_name w \<longleftrightarrow> (case sp_Storage (wf_Spec w) of None \<Rightarrow> True
     | Some sg \<Rightarrow> sg_EmptyDir sg \<noteq> None \<or>
         pvc_Name (sg_VolumeClaimTemplate sg) \<in> {'''', standaloneDataVolumeName w})"

definition named_claim_server :: WildFlyServer where
  "named_claim_server = sample_server\<lparr>wf_Spec := sample_spec\<lparr>sp_Storage := Some
     \<lparr>sg_EmptyDir = None, sg_VolumeClaimTemplate = \<lparr>pvc_Name = ''data'', pvc_AccessModes = [],
        pvc_Resources = \<lparr>rr_Limits = None, rr_Requests = None\<rparr>, pvc_Selector = None,
        pvc_Rest = Opaque ''''\<rparr>\<rparr>\<rparr>\<rparr>"



section \<open>Probes\<close>

text \<open>
  C31: The action of a probe: an \<open>exec\<close> action of the user wins over an \<open>httpGet\<close> action, which
  wins over the defaults; by default a script is executed only when its variable is set and
  the image is not a bootable JAR, and otherwise the endpoint is queried on the admin port.
  Exactly one of the two actions is set.
\<close>

theorem createCommonProbe_action:
  "let a = pr_Handler (createCommonProbe env defined bootable script i t p s f h endPoint fallback)
   in (ph_Exec a = None \<longleftrightarrow> ph_HTTPGet a \<noteq> None) \<and>
      (ph_Exec h \<noteq> None \<longrightarrow> ph_Exec a = ph_Exec h) \<and>
      (ph_Exec h = None \<and> ph_HTTPGet h \<noteq> None \<longrightarrow> ph_HTTPGet a = ph_HTTPGet h) \<and>
      (ph_Exec h = None \<and> ph_HTTPGet h = None \<longrightarrow> (ph_Exec a \<noteq> None \<longleftrightarrow> defined \<and> \<not> bootable)) \<and>
      (ph_Exec h = None \<and> ph_HTTPGet h = None \<and> ph_HTTPGet a \<noteq> None \<longrightarrow>
         map_option hg_Path (ph_HTTPGet a) = Some endPoint \<and>
         map_option hg_Port (ph_HTTPGet a) = Some (FromString ''admin''))"
  by (auto simp: createCommonProbe_def Let_def split: option.splits)

theorem createCommonProbe_action_witness:
  "ph_Exec (pr_Handler (createCommonProbe Map.empty True True ''/probe.sh'' 0 1 10 1 3
      zero_ProbeHandler ''/health/live'' ''FALLBACK'')) = None"
  using createCommonProbe_action[of Map.empty True True "''/probe.sh''" 0 1 10 1 3
      zero_ProbeHandler "''/health/live''" "''FALLBACK''"]
  by (simp add: zero_ProbeHandler_def Let_def)

text \<open>
  C32: Filling in the missing probe sections of the WildFlyServer in memory does not change
  the StatefulSet that is built from it, and touches nothing but these sections.
\<close>

theorem NewStatefulSet_probe_defaults_stable:
  "fst (NewStatefulSet K (snd (NewStatefulSet K w labels n openshift)) labels n openshift)
     = fst (NewStatefulSet K w labels n openshift) \<and>
   (let w' = snd (NewStatefulSet K w labels n openshift)
    in w'\<lparr>wf_Spec := (wf_Spec w')\<lparr>sp_LivenessProbe := sp_LivenessProbe (wf_Spec w),
         sp_ReadinessProbe := sp_ReadinessProbe (wf_Spec w),
         sp_StartupProbe := sp_StartupProbe (wf_Spec w)\<rparr>\<rparr> = w)"
proof -
  define fill where "fill p = Some (case p of None \<Rightarrow> zero_ProbeSpec | Some p \<Rightarrow> p)" for p
  define w' where "w' = w\<lparr>wf_Spec := (wf_Spec w)\<lparr>
      sp_LivenessProbe := fill (sp_LivenessProbe (wf_Spec w)),
      sp_ReadinessProbe := fill (sp_ReadinessProbe (wf_Spec w)),
      sp_StartupProbe := fill (sp_StartupProbe (wf_Spec w))\<rparr>\<rparr>"
  have snd: "snd (NewStatefulSet K w labels n openshift) = w'"
    by (simp add: NewStatefulSet_def Let_def probe_defs w'_def fill_def split: prod.splits)
  have eqs: "storageVolumes w' = storageVolumes w" "mountedVolumes env w' = mountedVolumes env w"
      "standaloneDataMount env w' = standaloneDataMount env w" "imageTriggers w' = imageTriggers w"
      "envForEJBRecovery w' = envForEJBRecovery w" "HeadlessServiceName w' = HeadlessServiceName w"
      "podTemplateAnnotations w' openshift = podTemplateAnnotations w openshift" for env
    by (simp_all add: w'_def storageVolumes_def mountedVolumes_def configVolumes_def
        standaloneDataMount_def standaloneDataVolumeName_def envForEJBRecovery_def
        HeadlessServiceName_def podTemplateAnnotations_def imageTriggers_def Let_def
        split: option.split)
  have probes: "fst (createLivenessProbe env w') = fst (createLivenessProbe env w)"
      "fst (createReadinessProbe env (snd (createLivenessProbe env w')))
         = fst (createReadinessProbe env (snd (createLivenessProbe env w)))"
      "fst (createStartupProbe env (snd (createReadinessProbe env (snd (createLivenessProbe env w')))))
         = fst (createStartupProbe env (snd (createReadinessProbe env (snd (createLivenessProbe env w)))))"
    for env by (simp_all add: probe_defs Let_def w'_def fill_def)
  have spec: "wf_Meta w' = wf_Meta w" "sp_ApplicationImage (wf_Spec w') = sp_ApplicationImage (wf_Spec w)"
      "sp_Resources (wf_Spec w') = sp_Resources (wf_Spec w)" "sp_Env (wf_Spec w') = sp_Env (wf_Spec w)"
      "sp_SecurityContext (wf_Spec w') = sp_SecurityContext (wf_Spec w)"
      "sp_EnvFrom (wf_Spec w') = sp_EnvFrom (wf_Spec w)"
      "sp_BootableJar (wf_Spec w') = sp_BootableJar (wf_Spec w)"
      "sp_ServiceAccountName (wf_Spec w') = sp_ServiceAccountName (wf_Spec w)"
    by (simp_all add: w'_def)
  have "fst (NewStatefulSet K w' labels n openshift) = fst (NewStatefulSet K w labels n openshift)"
    using probes
    by (simp add: NewStatefulSet_def Let_def case_prod_beta eqs spec split: option.split)
  moreover have "w'\<lparr>wf_Spec := (wf_Spec w')\<lparr>sp_LivenessProbe := sp_LivenessProbe (wf_Spec w),
         sp_ReadinessProbe := sp_ReadinessProbe (wf_Spec w),
         sp_StartupProbe := sp_StartupProbe (wf_Spec w)\<rparr>\<rparr> = w"
    by (rule WildFlyServer.equality) (simp_all add: w'_def)
  ultimately show ?thesis by (simp add: snd Let_def)
qed

section \<open>Pods of the template are selected\<close>

text \<open>The labels of \<open>STATEFULSET_TEMPLATE_LABELS\<close>, if any, are new ones.\<close>

definition template_labels_fresh :: "'e Kube \<Rightarrow> strmap \<Rightarrow> bool" where
  "template_labels_fresh K labels \<longleftrightarrow>
     (case k_DecodeLabels K (Getenv (k_Env K) StatefuleSetTemplateLabelsEnvVarName) of
        Inl _ \<Rightarrow> True
      | Inr m \<Rightarrow> dom m \<inter> (dom labels \<union> {MarkerOperatedByHeadless, MarkerOperatedByLoadbalancer}) = {})"

lemma podTemplateLabels_extends:
  assumes "template_labels_fresh K labels"
  shows "labels(MarkerOperatedByHeadless \<mapsto> MarkerServiceActive,
    MarkerOperatedByLoadbalancer \<mapsto> MarkerServiceActive) \<subseteq>\<^sub>m podTemplateLabels K labels"
proof -
  let ?l = "labels(MarkerOperatedByHeadless \<mapsto> MarkerServiceActive,
    MarkerOperatedByLoadbalancer \<mapsto> MarkerServiceActive)"
  have "?l \<subseteq>\<^sub>m ?l ++ m" if "dom m \<inter> dom ?l = {}" for m
    using that map_add_comm[of m ?l] map_le_map_add by metis
  then show ?thesis using assms
    by (auto simp: podTemplateLabels_def applyLabels_def template_labels_fresh_def Let_def
        split: sum.splits)
qed



section \<open>Where secrets and config maps are mounted\<close>

lemma split_on_absent: "c \<notin> set s \<Longrightarrow> split_on c s = [s]"
  by (induction s) auto

definition plain_component :: "string \<Rightarrow> bool" where
  "plain_component s \<longleftrightarrow> CHR ''/'' \<notin> set s \<and> s \<notin> set ['''', ''.'', ''..'']"

lemma path_Join_SecretsDir: "plain_component s \<Longrightarrow> path_Join [SecretsDir, s] = SecretsDir @ s"
  by (simp add: path_Join_def path_Clean_def SecretsDir_def plain_component_def HasPrefix_def
      split_on_absent clean_step_def Let_def)

lemma path_Join_ConfigMapsDir: "plain_component s \<Longrightarrow> path_Join [ConfigMapsDir, s] = ConfigMapsDir @ s"
  by (simp add: path_Join_def path_Clean_def ConfigMapsDir_def plain_component_def HasPrefix_def
      split_on_absent clean_step_def Let_def)

lemma sanitize_valid_label:
  "valid_dns1123_label s \<Longrightarrow> SanitizeVolumeName s = s"
  by (simp add: valid_dns1123_label_def SanitizeVolumeName_def DNS1123LabelMaxLength_def
        Let_def ToLower_id replace_invalid_id Trim_dash_id)

lemma valid_label_absent: "valid_dns1123_label s \<Longrightarrow> \<not> dns1123_char c \<Longrightarrow> c \<notin> set s"
  by (auto simp: valid_dns1123_label_def list_all_iff)

lemma valid_label_plain:
  assumes "valid_dns1123_label s"
  shows "plain_component s"
proof -
  have "CHR ''/'' \<notin> set s" "CHR ''.'' \<notin> set s"
    by (rule valid_label_absent[OF assms], simp add: dns1123_char_def is_digit_def)+
  moreover have "s \<noteq> []" using assms by (simp add: valid_dns1123_label_def)
  ultimately show ?thesis by (auto simp: plain_component_def)
qed

lemma sanitize_short:
  assumes "valid_dns1123_label s" and "length s \<le> 53" and "p \<in> {''secret-'', ''configmap-''}"
  shows "SanitizeVolumeName (p @ s) = p @ s"
proof (rule sanitize_valid_label)
  show "valid_dns1123_label (p @ s)"
    using assms by (auto simp: valid_dns1123_label_def dns1123_char_def)
qed



end
