(* ===== verification/Routes.thy ===== *)
theory Routes
  imports Services
begin

text \<open>
  \<open>pkg/resources/routes/route.go\<close> and \<open>pkg/resources/servicemonitors/servicemonitor.go\<close>:
  the HTTP route of the application (OpenShift) and the Prometheus ServiceMonitor.
\<close>

section \<open>Routes\<close>

definition routeServiceName :: "WildFlyServer \<Rightarrow> string" where
  "routeServiceName w = wf_Name w @ ''-route''"

definition newRoute :: "WildFlyServer \<Rightarrow> strmap \<Rightarrow> Route" where
  "newRoute w labels = \<lparr>rt_Meta = zero_ObjectMeta\<lparr>om_Name := routeServiceName w,
       om_Namespace := wf_Namespace w, om_Labels := Some labels\<rparr>,
     rt_ToKind = ''Service'', rt_ToName = ClusterServiceName w, rt_Weight = Some 100,
     rt_TargetPort = Some (FromString ''http''), rt_IngressHosts = []\<rparr>"

text \<open>An error other than \<open>NotFound\<close> is dropped and the empty route is returned.\<close>

definition GetOrCreateNewRoute ::
  "'e Kube \<Rightarrow> WildFlyServer \<Rightarrow> strmap \<Rightarrow> ('e, error + Route option) kop" where
  "GetOrCreateNewRoute K w labels =
     do { found \<leftarrow> GetRoute K w (routeServiceName w);
          case found of
            Inl err \<Rightarrow>
              (if IsNotFound (Some err) then
                 do { r \<leftarrow> Create K w (ObjRoute (newRoute w labels));
                      case r of
                        None \<Rightarrow> ret (Inr None)
                      | Some err \<Rightarrow> if IsAlreadyExists err then ret (Inr None) else ret (Inl err) }
               else ret (Inr (Some zero_Route)))
          | Inr route \<Rightarrow> ret (Inr (Some route)) }"

definition DeleteExistingRoute :: "'e Kube \<Rightarrow> WildFlyServer \<Rightarrow> ('e, bool \<times> error option) kop" where
  "DeleteExistingRoute K w =
     do { found \<leftarrow> GetRoute K w (routeServiceName w);
          case found of
            Inl err \<Rightarrow> if IsNotFound (Some err) then ret (False, None) else ret (False, Some err)
          | Inr route \<Rightarrow>
              do { r \<leftarrow> Delete K w (ObjRoute route);
                   case r of Some err \<Rightarrow> ret (True, Some err) | None \<Rightarrow> ret (False, None) }}"

section \<open>ServiceMonitors\<close>

definition newServiceMonitor :: "WildFlyServer \<Rightarrow> strmap \<Rightarrow> ServiceMonitor" where
  "newServiceMonitor w labels = \<lparr>sm_Meta = zero_ObjectMeta\<lparr>om_Name := wf_Name w,
       om_Namespace := wf_Namespace w, om_Labels := Some labels\<rparr>,
     sm_EndpointPorts = [''admin''], sm_MatchLabels = Some labels\<rparr>"

definition GetOrCreateNewServiceMonitor ::
  "'e Kube \<Rightarrow> WildFlyServer \<Rightarrow> strmap \<Rightarrow> ('e, error + ServiceMonitor option) kop" where
  "GetOrCreateNewServiceMonitor K w labels =
     do { found \<leftarrow> GetServiceMonitor K w (wf_Name w);
          case found of
            Inl err \<Rightarrow>
              (if IsNotFound (Some err) then
                 do { r \<leftarrow> Create K w (ObjServiceMonitor (newServiceMonitor w labels));
                      case r of
                        None \<Rightarrow> ret (Inr None)
                      | Some err \<Rightarrow> if IsAlreadyExists err then ret (Inr None) else ret (Inl err) }
               else ret (Inr (Some zero_ServiceMonitor)))
          | Inr serviceMonitor \<Rightarrow> ret (Inr (Some serviceMonitor)) }"

section \<open>Both are stages\<close>

interpretation route: reconcile_stage "GetOrCreateNewRoute K w labels" for K w labels
  unfolding GetOrCreateNewRoute_def by unfold_locales (intro does_rules; simp add: settled_def)+

interpretation service_monitor:
  reconcile_stage "GetOrCreateNewServiceMonitor K w labels" for K w labels
  unfolding GetOrCreateNewServiceMonitor_def
  by unfold_locales (intro does_rules; simp add: settled_def)+

section \<open>Deleting the route\<close>

text \<open>
  \<open>DeleteExistingRoute\<close> issues a delete exactly when the route exists. Its boolean is
  true only together with an error of that delete: a route that was deleted is reported as
  \<open>false\<close>, although the comment of the function says that it returns true if the route is
  deleted, so the caller never returns early after the deletion.
\<close>

theorem DeleteExistingRoute_reports:
  "does (DeleteExistingRoute K w) (\<lambda>r evs.
     (\<forall>rt. evs \<noteq> [] \<and> hd evs = EvGetRoute (wf_Namespace w) (routeServiceName w) (Inr rt) \<longrightarrow>
        (\<exists>e. evs = [EvGetRoute (wf_Namespace w) (routeServiceName w) (Inr rt),
                    EvDelete (ObjRoute rt) e] \<and> r = (e \<noteq> None, e))) \<and>
     (\<forall>err. evs \<noteq> [] \<and> hd evs = EvGetRoute (wf_Namespace w) (routeServiceName w) (Inl err) \<longrightarrow>
        length evs = 1 \<and> r = (False, if IsNotFound (Some err) then None else Some err)) \<and>
     r \<noteq> (True, None))"
  unfolding DeleteExistingRoute_def by (intro does_rules; simp)

theorem DeleteExistingRoute_reports_witness:
  "run_state (DeleteExistingRoute fake_kube sample_server)
     (empty_cluster\<lparr>cl_Routes := [newRoute sample_server sample_labels]\<rparr>, [])
   = ((False, None), (empty_cluster,
       [EvGetRoute ''ns'' ''quickstart-route'' (Inr (newRoute sample_server sample_labels)),
        EvDelete (ObjRoute (newRoute sample_server sample_labels)) None]))
   \<and> does (DeleteExistingRoute fake_kube sample_server) (\<lambda>r evs. r \<noteq> (True, None))"
proof
  show "run_state (DeleteExistingRoute fake_kube sample_server)
     (empty_cluster\<lparr>cl_Routes := [newRoute sample_server sample_labels]\<rparr>, [])
   = ((False, None), (empty_cluster,
       [EvGetRoute ''ns'' ''quickstart-route'' (Inr (newRoute sample_server sample_labels)),
        EvDelete (ObjRoute (newRoute sample_server sample_labels)) None]))"
    by (simp add: DeleteExistingRoute_def GetRoute_def Delete_def find_named_def remove_named_def
        empty_cluster_def routeServiceName_def newRoute_def sample_server_def sample_meta_def
        zero_ObjectMeta_def)
  show "does (DeleteExistingRoute fake_kube sample_server) (\<lambda>r evs. r \<noteq> (True, None))"
    by (rule does_mono[OF DeleteExistingRoute_reports]) simp
qed

end
