(* ===== verification/Remote_Ops.thy ===== *)
theory Remote_Ops
  imports Fake_Client
begin

text \<open>
  \<open>pkg/util/remote_ops.go\<close> and \<open>pkg/util/wildfly_mgmt.go\<close>: executing commands in a pod,
  the recovery socket, the log of a pod, and the WildFly management operations that go
  through \<open>jboss-cli.sh\<close>. \<open>RemoteOps\<close> is its production value, \<open>RemoteOperationsStruct\<close>.
\<close>

section \<open>Remote operations\<close>

definition getKubeRestConfig :: "'e Kube \<Rightarrow> ('e, error option) kop" where
  "getKubeRestConfig K =
     do { err \<leftarrow> call (k_ClientConfig K) (EvConfig ''ClientConfig'');
          ret (map_option (\<lambda>e. Errorf ''Cannot create ClientConfig for kube config'' [] [e]) err) }"

definition getKubeCoreClient :: "'e Kube \<Rightarrow> ('e, error option) kop" where
  "getKubeCoreClient K =
     do { err \<leftarrow> call (k_CoreClient K) (EvConfig ''NewForConfig'');
          ret (map_option (\<lambda>e. Errorf ''Cannot get Kube core/v1 client for rest config'' [] [e]) err) }"

definition Execute :: "'e Kube \<Rightarrow> Pod \<Rightarrow> string list \<Rightarrow> ('e, string \<times> error option) kop" where
  "Execute K pod command =
     do { err1 \<leftarrow> getKubeRestConfig K;
          if err1 \<noteq> None then ret ('''', err1) else
     do { err2 \<leftarrow> getKubeCoreClient K;
          if err2 \<noteq> None then ret ('''', err2) else
          (case pod_Containers pod of
             [] \<Rightarrow> ret ('''', Some (Errorf ''No containers to execute the shell command for pod'' [pod_Name pod] []))
           | container # _ \<Rightarrow>
     do { err3 \<leftarrow> call (k_SPDYExecutor K) (EvConfig ''NewSPDYExecutor'');
          if err3 \<noteq> None then ret ('''', err3) else
     do { out \<leftarrow> call (k_Stream K (om_Namespace (pod_Meta pod)) (pod_Name pod) (c_Name container) command)
                (EvStream (om_Namespace (pod_Meta pod)) (pod_Name pod) (c_Name container) command);
          (case out of (execOut, execErr, err) \<Rightarrow>
            (case err of
               Some e \<Rightarrow> ret (execOut, Some (Errorf ''error on execution'' command [e]))
             | None \<Rightarrow>
                 if length execErr > 0
                 then ret (execOut, Some (Errorf ''command execution got stderr'' (command @ [execErr]) []))
                 else ret (execOut, None))) }})}}"

definition time_Second :: int where
  "time_Second = 1000000000"

definition socketDialTimeout :: "strmap \<Rightarrow> int" where
  "socketDialTimeout env = GetEnvAsDuration env ''SOCKET_DIAL_TIMEOUT'' 30 time_Second"

definition socketDeadTimeout :: "strmap \<Rightarrow> int" where
  "socketDeadTimeout env = GetEnvAsDuration env ''SOCKET_DEAD_TIMEOUT'' (10 * 60) time_Second"

definition SocketConnect :: "'e Kube \<Rightarrow> string \<Rightarrow> int \<Rightarrow> string \<Rightarrow> ('e, error + string) kop" where
  "SocketConnect K hostname port command =
     (let toConnectTo = hostname @ '':'' @ FormatInt port in
      do { err \<leftarrow> call (k_Dial K toConnectTo (socketDialTimeout (k_Env K)))
                 (EvDial toConnectTo (socketDialTimeout (k_Env K)));
           (case err of
              Some e \<Rightarrow> ret (Inl (Errorf ''Cannot process TCP connection to'' [toConnectTo] [e]))
            | None \<Rightarrow>
      do { message \<leftarrow> call (k_Exchange K toConnectTo (socketDeadTimeout (k_Env K)) (command @ [CHR 0x0A]))
                  (EvExchange toConnectTo (command @ [CHR 0x0A]));
           (case message of
              Inl e \<Rightarrow> ret (Inl (Errorf ''Error to get response for command'' [command, hostname, FormatInt port] [e]))
            | Inr m \<Rightarrow> ret (Inr m)) })})"

text \<open>\<open>readPodLog\<close>, its reader given as the text it delivers and the error it ends with, if any.\<close>

definition readPodLog :: "'e Kube \<Rightarrow> Pod \<Rightarrow> LogOptions \<Rightarrow> ('e, error + string \<times> error option) kop" where
  "readPodLog K pod logOptions =
     do { err1 \<leftarrow> getKubeRestConfig K;
          (case err1 of Some e \<Rightarrow> ret (Inl e) | None \<Rightarrow>
     do { err2 \<leftarrow> getKubeCoreClient K;
          (case err2 of Some e \<Rightarrow> ret (Inl e) | None \<Rightarrow>
            call (k_Logs K (om_Namespace (pod_Meta pod)) (pod_Name pod) logOptions)
              (EvLogs (om_Namespace (pod_Meta pod)) (pod_Name pod) logOptions)) })}"

definition tailOneLineLogOptions :: LogOptions where
  "tailOneLineLogOptions = \<lparr>lo_TailLines = Some 1, lo_Timestamps = True, lo_SinceTime = None\<rparr>"

text \<open>\<open>^[0-9]{4}-[0-9]{2}-[0-9]{2}[^ ]+\<close>: the match, empty where there is none.\<close>

definition timestampFromLogLine :: "string \<Rightarrow> string" where
  "timestampFromLogLine s =
     (let date = take 10 s; rest = takeWhile (\<lambda>c. c \<noteq> CHR '' '') (drop 10 s)
      in if length date = 10 \<and> list_all is_digit (take 4 date) \<and> date ! 4 = CHR ''-''
            \<and> list_all is_digit (take 2 (drop 5 date)) \<and> date ! 7 = CHR ''-''
            \<and> list_all is_digit (drop 8 date) \<and> rest \<noteq> []
         then date @ rest else '''')"

definition startOfTheTimeTimestamp :: int where
  "startOfTheTimeTimestamp = 0"

definition ObtainLogLatestTimestamp :: "'e Kube \<Rightarrow> Pod \<Rightarrow> ('e, error + int) kop" where
  "ObtainLogLatestTimestamp K pod =
     do { reader \<leftarrow> readPodLog K pod tailOneLineLogOptions;
          (case reader of
             Inl e \<Rightarrow> ret (Inl (Errorf ''Cannot read log from pod'' [pod_Name pod] [e]))
           | Inr (line, Some e) \<Rightarrow>
               ret (Inl (Errorf ''Cannot read string from the reader log from pod'' [pod_Name pod] [e]))
           | Inr (line, None) \<Rightarrow>
               if line = '''' then ret (Inr startOfTheTimeTimestamp)
               else if timestampFromLogLine line = ''''
               then ret (Inl (Errorf ''It was not succesful to parse the log line to get time stamp'' [line] []))
               else (case k_ParseTime K ''RFC3339'' (timestampFromLogLine line) of
                   Inr t \<Rightarrow> ret (Inr t)
                 | Inl _ \<Rightarrow>
                     (case k_ParseTime K ''RFC3339Nano'' (timestampFromLogLine line) of
                        Inr t \<Rightarrow> ret (Inr t)
                      | Inl e \<Rightarrow> ret (Inl (Errorf ''Error on converting time stamp''
                          [timestampFromLogLine line] [e]))))) }"

text \<open>
  \<open>bufio.Scanner\<close> on lines: a carriage return before the newline is dropped, a last line
  without a newline counts, and a line that does not fit the buffer of 64 KiB is an error.
\<close>

definition dropCR :: "string \<Rightarrow> string" where
  "dropCR l = (if l \<noteq> [] \<and> last l = CHR 0x0D then butlast l else l)"

definition log_lines :: "string \<Rightarrow> string list" where
  "log_lines s = (let ls = split_on CHR 0x0A s in if last ls = [] then butlast ls else ls)"

fun scan_lines :: "(string \<Rightarrow> bool) \<Rightarrow> string list \<Rightarrow> error option \<Rightarrow> error + string" where
  "scan_lines p [] err = (case err of None \<Rightarrow> Inr '''' | Some e \<Rightarrow> Inl e)"
| "scan_lines p (l # ls) err =
     (if length l \<ge> 65536 then Inl (Errorf ''bufio.Scanner: token too long'' [] [])
      else if p (dropCR l) then Inr (dropCR l)
      else scan_lines p ls err)"

definition VerifyLogContainsRegexp ::
  "'e Kube \<Rightarrow> Pod \<Rightarrow> int option \<Rightarrow> (string \<Rightarrow> bool) \<Rightarrow> ('e, error + string) kop" where
  "VerifyLogContainsRegexp K pod logFromTime regexpLineCheck =
     do { reader \<leftarrow> readPodLog K pod \<lparr>lo_TailLines = None, lo_Timestamps = False, lo_SinceTime = logFromTime\<rparr>;
          (case reader of
             Inl e \<Rightarrow> ret (Inl (Errorf ''Cannot read log from pod'' [pod_Name pod] [e]))
           | Inr (text, err) \<Rightarrow>
               (case scan_lines regexpLineCheck (log_lines text) err of
                  Inl e \<Rightarrow> ret (Inl (Errorf ''Failed to finish reading log from pod name'' [pod_Name pod] [e]))
                | Inr line \<Rightarrow> ret (Inr line))) }"

section \<open>Management operations\<close>

definition MgmtOpServerStateRead :: string where
  "MgmtOpServerStateRead = '':read-attribute(name=server-state)''"
definition MgmtOpListSubsystems :: string where
  "MgmtOpListSubsystems = '':read-children-names(child-type=subsystem)''"
definition MgmtOpRestart :: string where
  "MgmtOpRestart = '':shutdown(restart=true)''"
definition MgmtOpTxnCheckJdbcStore :: string where
  "MgmtOpTxnCheckJdbcStore = ''/subsystem=transactions:read-attribute(name=use-jdbc-store)''"
definition MgmtOpTxnCheckRecoveryListener :: string where
  "MgmtOpTxnCheckRecoveryListener = ''/subsystem=transactions:read-attribute(name=recovery-listener)''"
definition MgmtOpTxnProbe :: string where
  "MgmtOpTxnProbe = ''/subsystem=transactions/log-store=log-store:probe()''"
definition MgmtOpTxnRead :: string where
  "MgmtOpTxnRead = ''/subsystem=transactions/log-store=log-store:read-children-resources(child-type=transactions,recursive=true,include-runtime=true)''"
definition MgmtOpTxnReadHeuristicPattern :: "string \<Rightarrow> string" where
  "MgmtOpTxnReadHeuristicPattern s =
     ''/subsystem=transactions/log-store=log-store/transactions=*/participants=*:query(where={\"status\"=\"'' @ s @ ''\"}''"
definition MgmtOpTxnRecoverySocketBindingRead :: string where
  "MgmtOpTxnRecoverySocketBindingRead = ''/subsystem=transactions:read-attribute(name=socket-binding)''"
definition MgmtOpSocketBindingRead :: string where
  "MgmtOpSocketBindingRead = ''/socket-binding-group=standard-sockets:read-resource(recursive=true,resolve-expressions=true,include-runtime=true)''"
definition MgmtOpSystemPropertyRecoveryBackoffPeriod :: "string \<Rightarrow> string" where
  "MgmtOpSystemPropertyRecoveryBackoffPeriod v =
     ''/system-property=com.arjuna.ats.arjuna.common.RecoveryEnvironmentBean.recoveryBackoffPeriod:add(value='' @ v @ '')''"
definition MgmtOpSystemPropertyOrphanSafetyInterval :: "string \<Rightarrow> string" where
  "MgmtOpSystemPropertyOrphanSafetyInterval v =
     ''/system-property=com.arjuna.ats.jta.common.JTAEnvironmentBean.orphanSafetyInterval:add(value='' @ v @ '')''"
definition MgmtOpSystemPropertyTransactionManagerDisabled :: "string \<Rightarrow> string" where
  "MgmtOpSystemPropertyTransactionManagerDisabled v =
     ''/system-property=com.arjuna.ats.arjuna.common.CoordinatorEnvironmentBean.startDisabled:add(value='' @ v @ '')''"

fun ReadJSONDataByIndex :: "GoValue \<Rightarrow> string list \<Rightarrow> GoValue" where
  "ReadJSONDataByIndex v [] = v"
| "ReadJSONDataByIndex (VMap m) (i # is) =
     ReadJSONDataByIndex (case map_of m i of None \<Rightarrow> VNil | Some v \<Rightarrow> v) is"
| "ReadJSONDataByIndex v (i # is) = VNil"

text \<open>\<open>jsonResult["key"]\<close>: nil where the key is absent.\<close>

definition json_get :: "json \<Rightarrow> string \<Rightarrow> GoValue" where
  "json_get j k = (case map_of j k of None \<Rightarrow> VNil | Some v \<Rightarrow> v)"

text \<open>The type assertions \<open>v.(string)\<close>, \<open>v.(map[string]interface{})\<close> and \<open>v.([]interface{})\<close>.\<close>

fun as_string :: "GoValue \<Rightarrow> string option" where
  "as_string (VString s) = Some s"
| "as_string _ = None"

fun as_map :: "GoValue \<Rightarrow> json option" where
  "as_map (VMap m) = Some m"
| "as_map _ = None"

fun as_array :: "GoValue \<Rightarrow> GoValue list option" where
  "as_array (VArray vs) = Some vs"
| "as_array _ = None"

definition IsMgmtOutcomeSuccesful :: "json \<Rightarrow> bool" where
  "IsMgmtOutcomeSuccesful jsonBody \<longleftrightarrow>
     ConvertToString_ignoring (ReadJSONDataByIndex (VMap jsonBody) [''outcome'']) = ''success''"

definition decodeJSON :: "'e Kube \<Rightarrow> string \<Rightarrow> error + json" where
  "decodeJSON K s = (case k_DecodeJSON K s of
     Inl e \<Rightarrow> Inl (Errorf ''Fail to parse reader data to JSON'' [] [e]) | Inr j \<Rightarrow> Inr j)"

text \<open>The part of the output from the first opening to the last closing brace.\<close>

definition json_part :: "string \<Rightarrow> string" where
  "json_part resString =
     (let i = Index CHR ''{'' resString;
          startIndex = (if i \<le> 0 then 0 else i);
          l = LastIndex CHR ''}'' resString;
          lastIndex = (if l < startIndex then int (length resString) else l + 1)
      in drop (nat startIndex) (take (nat lastIndex) resString))"

definition jbossCliCommand :: "string \<Rightarrow> string list" where
  "jbossCliCommand mgmtOpString = [''/bin/sh'', ''-c'',
     ''$JBOSS_HOME/bin/jboss-cli.sh --output-json -c \"--commands=$1\"'', ''_'', mgmtOpString]"

text \<open>The JSON body (nil, that is no entries, on an error) and the error.\<close>

definition ExecuteMgmtOp :: "'e Kube \<Rightarrow> Pod \<Rightarrow> string \<Rightarrow> ('e, json \<times> error option) kop" where
  "ExecuteMgmtOp K pod mgmtOpString =
     do { res \<leftarrow> Execute K pod (jbossCliCommand mgmtOpString);
          (case res of (resString, err) \<Rightarrow>
            if err \<noteq> None \<and> resString = ''''
            then ret ([], Some (Errorf ''Cannot execute JBoss CLI command'' [mgmtOpString, pod_Name pod]
                   (case err of None \<Rightarrow> [] | Some e \<Rightarrow> [e])))
            else (case decodeJSON K (json_part resString) of
                Inl e \<Rightarrow> ret ([], Some (Errorf ''Cannot decode JBoss CLI'' [mgmtOpString, pod_Name pod] [e]))
              | Inr jsonBody \<Rightarrow> ret (jsonBody, None))) }"

definition GetTransactionRecoveryPort :: "'e Kube \<Rightarrow> Pod \<Rightarrow> ('e, error + int) kop" where
  "GetTransactionRecoveryPort K pod =
     do { (jsonResult, err) \<leftarrow> ExecuteMgmtOp K pod MgmtOpTxnRecoverySocketBindingRead;
          (case err of
             Some e \<Rightarrow> ret (Inl (Errorf ''Error on management operation to read transaction recovery socket binding'' [] [e]))
           | None \<Rightarrow>
               if \<not> IsMgmtOutcomeSuccesful jsonResult
               then ret (Inl (Errorf ''Cannot read transaction recovery socket binding'' [] []))
               else (case as_string (json_get jsonResult ''result'') of
                   None \<Rightarrow> ret (Inl (Errorf ''Cannot parse result from reading transaction recovery socket binding'' [] []))
                 | Some nameOfSocketBinding \<Rightarrow>
     do { (jsonResult, err) \<leftarrow> ExecuteMgmtOp K pod MgmtOpSocketBindingRead;
          (case err of
             Some e \<Rightarrow> ret (Inl (Errorf ''Error on management operation to read socket binding group'' [] [e]))
           | None \<Rightarrow>
               if \<not> IsMgmtOutcomeSuccesful jsonResult
               then ret (Inl (Errorf ''Cannot read information on socket binding group'' [] []))
               else (let res = json_get jsonResult ''result'' in
                 case ConvertToInt (ReadJSONDataByIndex res [''port-offset'']) of
                   Inl e \<Rightarrow> ret (Inl (Errorf ''Cannot read port offset with the socket binding group read command'' [] []))
                 | Inr offsetPort \<Rightarrow>
                     (case ConvertToInt (ReadJSONDataByIndex res
                             [''socket-binding'', nameOfSocketBinding, ''bound-port'']) of
                        Inl e \<Rightarrow> ret (Inl (Errorf ''Cannot read txn recovery port with the socket binding group read command'' [] []))
                      | Inr recoveryPort \<Rightarrow> ret (Inr (wrap32 (recoveryPort + offsetPort)))))) })) }"

definition IsAppServerRunningViaJBossCli :: "'e Kube \<Rightarrow> Pod \<Rightarrow> ('e, bool \<times> error option) kop" where
  "IsAppServerRunningViaJBossCli K pod =
     do { (jsonResult, err) \<leftarrow> ExecuteMgmtOp K pod MgmtOpServerStateRead;
          let err1 = (if err = None \<and> \<not> IsMgmtOutcomeSuccesful jsonResult
            then Some (Errorf ''Reading application server state with CLI command was not succesful'' [pod_Name pod] [])
            else err);
          let err2 = (if err = None \<and> json_get jsonResult ''result'' \<noteq> VString ''running''
            then Some (Errorf ''Application server is not running'' [pod_Name pod] []) else err1);
          ret (err2 = None, err2) }"

text \<open>The loop of \<open>ExecuteOpAndWaitForServerBeingReady\<close>, with the checks that are left.\<close>

fun waitForServer :: "'e Kube \<Rightarrow> Pod \<Rightarrow> nat \<Rightarrow> error option \<Rightarrow> ('e, error option) kop" where
  "waitForServer K pod 0 err = ret err"
| "waitForServer K pod (Suc n) err =
     do { (isRunning, cliErr) \<leftarrow> IsAppServerRunningViaJBossCli K pod;
          if isRunning then ret None else waitForServer K pod n cliErr }"

definition restartRetryCounter :: "strmap \<Rightarrow> int" where
  "restartRetryCounter env = GetEnvAsInt env ''SERVER_RESTART_RETRY_COUNTER'' 10"

definition ExecuteOpAndWaitForServerBeingReady ::
  "'e Kube \<Rightarrow> string \<Rightarrow> Pod \<Rightarrow> ('e, error option) kop" where
  "ExecuteOpAndWaitForServerBeingReady K mgmtOp pod =
     do { (jsonResult, err) \<leftarrow> ExecuteMgmtOp K pod mgmtOp;
          (case err of
             Some e \<Rightarrow> ret (Some (Errorf ''Cannot run operation at application container for down pod'' [mgmtOp, pod_Name pod] [e]))
           | None \<Rightarrow>
               if \<not> IsMgmtOutcomeSuccesful jsonResult
               then ret (Some (Errorf ''Unsuccessful management operation'' [mgmtOp, pod_Name pod] []))
               else
     do { err \<leftarrow> waitForServer K pod (nat (restartRetryCounter (k_Env K))) None;
          (case err of
             Some e \<Rightarrow> ret (Some (Errorf ''Application server was not reinitialized successfully in time'' [mgmtOp, pod_Name pod] [e]))
           | None \<Rightarrow> ret None) }) }"

definition ExecuteAndGetResult :: "'e Kube \<Rightarrow> Pod \<Rightarrow> string \<Rightarrow> ('e, error + GoValue) kop" where
  "ExecuteAndGetResult K pod managementOperation =
     do { (jsonResult, err) \<leftarrow> ExecuteMgmtOp K pod managementOperation;
          (case err of
             Some e \<Rightarrow> ret (Inl (Errorf ''Cannot execute management operation'' [managementOperation, pod_Name pod] [e]))
           | None \<Rightarrow>
               if \<not> IsMgmtOutcomeSuccesful jsonResult
               then ret (Inl (Errorf ''Management operation was executed but the outcome was not succesful'' [managementOperation, pod_Name pod] []))
               else (let cliResult = ReadJSONDataByIndex (VMap jsonResult) [''result''] in
                 if cliResult = VNil
                 then ret (Inl (Errorf ''Failed to get result of the management operation'' [managementOperation, pod_Name pod] []))
                 else ret (Inr cliResult))) }"

definition ListSubsystems :: "'e Kube \<Rightarrow> Pod \<Rightarrow> ('e, error + string list) kop" where
  "ListSubsystems K pod =
     do { r \<leftarrow> ExecuteAndGetResult K pod MgmtOpListSubsystems;
          (case r of
             Inl e \<Rightarrow> ret (Inl (Errorf ''Failed to verify if the transaction subsystem is available'' [] [e]))
           | Inr v \<Rightarrow> ret (ConvertToArrayString (k_Sprint K) v)) }"

section \<open>What the channels to a pod do to the cluster and to the trace\<close>

text \<open>
  An operation on a pod changes no object of the cluster. A management operation that
  returns without error was answered in the trace: a stream to the pod delivered a text
  whose braced part decodes to the JSON body returned.
\<close>

abbreviation no_write :: "event list \<Rightarrow> bool" where
  "no_write evs \<equiv> list_all (\<lambda>v. \<not> is_write v) evs"

fun is_reply :: "'e Kube \<Rightarrow> Pod \<Rightarrow> string \<Rightarrow> json \<Rightarrow> event \<Rightarrow> bool" where
  "is_reply K pod mgmtOp j (EvStream ns n c command (out, _, _)) \<longleftrightarrow>
     ns = om_Namespace (pod_Meta pod) \<and> n = pod_Name pod \<and> command = jbossCliCommand mgmtOp \<and>
     k_DecodeJSON K (json_part out) = Inr j"
| "is_reply K pod mgmtOp j _ \<longleftrightarrow> False"

definition answered :: "'e Kube \<Rightarrow> Pod \<Rightarrow> string \<Rightarrow> json \<Rightarrow> event list \<Rightarrow> bool" where
  "answered K pod mgmtOp j evs \<longleftrightarrow> list_ex (is_reply K pod mgmtOp j) evs"

fun is_listing :: "Pod \<Rightarrow> string list \<Rightarrow> string \<Rightarrow> event \<Rightarrow> bool" where
  "is_listing pod command res (EvStream ns n c command' (out, ee, err)) \<longleftrightarrow>
     ns = om_Namespace (pod_Meta pod) \<and> n = pod_Name pod \<and> command' = command \<and>
     out = res \<and> ee = '''' \<and> err = None"
| "is_listing pod command res _ \<longleftrightarrow> False"

definition executed :: "Pod \<Rightarrow> string list \<Rightarrow> string \<Rightarrow> event list \<Rightarrow> bool" where
  "executed pod command res evs \<longleftrightarrow> list_ex (is_listing pod command res) evs"

definition polls :: "string \<Rightarrow> event list \<Rightarrow> nat" where
  "polls mgmtOp evs = length (filter (\<lambda>v. case v of
     EvStream _ _ _ command _ \<Rightarrow> command = jbossCliCommand mgmtOp | _ \<Rightarrow> False) evs)"

lemma answered_append [simp]:
  "answered K pod mgmtOp j (xs @ ys) \<longleftrightarrow> answered K pod mgmtOp j xs \<or> answered K pod mgmtOp j ys"
  by (simp add: answered_def)

lemma executed_append [simp]:
  "executed pod command res (xs @ ys) \<longleftrightarrow> executed pod command res xs \<or> executed pod command res ys"
  by (simp add: executed_def)

lemma polls_append [simp]: "polls mgmtOp (xs @ ys) = polls mgmtOp xs + polls mgmtOp ys"
  by (simp add: polls_def)

lemma polls_Nil [simp]: "polls mgmtOp [] = 0"
  by (simp add: polls_def)

text \<open>Only \<open>mgmtOp\<close> was asked, and at most \<open>n\<close> times.\<close>

definition polled :: "string \<Rightarrow> nat \<Rightarrow> event list \<Rightarrow> bool" where
  "polled mgmtOp n evs \<longleftrightarrow> polls mgmtOp evs \<le> n \<and> (\<forall>op'. op' \<noteq> mgmtOp \<longrightarrow> polls op' evs = 0)"

lemma polled_append: "polled mgmtOp m xs \<Longrightarrow> polled mgmtOp n ys \<Longrightarrow> polled mgmtOp (m + n) (xs @ ys)"
  by (auto simp: polled_def)

lemma polled_mono: "polled mgmtOp m xs \<Longrightarrow> m \<le> n \<Longrightarrow> polled mgmtOp n xs"
  by (auto simp: polled_def)

lemma polled_Nil [simp]: "polled mgmtOp n []"
  by (simp add: polled_def)

lemma as_string_Some [simp]: "as_string v = Some s \<longleftrightarrow> v = VString s"
  by (cases v) auto

lemma as_map_Some [simp]: "as_map v = Some m \<longleftrightarrow> v = VMap m"
  by (cases v) auto

lemma as_array_Some [simp]: "as_array v = Some vs \<longleftrightarrow> v = VArray vs"
  by (cases v) auto

lemma jbossCliCommand_inject [simp]: "jbossCliCommand a = jbossCliCommand b \<longleftrightarrow> a = b"
  by (simp add: jbossCliCommand_def)

lemma does_getKubeRestConfig [does_rules]:
  "(\<And>r e. \<Phi> r [EvConfig ''ClientConfig'' e]) \<Longrightarrow> does (getKubeRestConfig K) \<Phi>"
  unfolding getKubeRestConfig_def by (intro does_rules; simp)

lemma does_getKubeCoreClient [does_rules]:
  "(\<And>r e. \<Phi> r [EvConfig ''NewForConfig'' e]) \<Longrightarrow> does (getKubeCoreClient K) \<Phi>"
  unfolding getKubeCoreClient_def by (intro does_rules; simp)

text \<open>An execution: at most one stream, and its output is the stream's.\<close>

definition stream_of :: "Pod \<Rightarrow> string list \<Rightarrow> string \<Rightarrow> error option \<Rightarrow> event list \<Rightarrow> bool" where
  "stream_of pod command out err evs \<longleftrightarrow>
     no_write evs \<and> (\<forall>mgmtOp. command = jbossCliCommand mgmtOp \<longrightarrow> polled mgmtOp 1 evs) \<and>
     (out = '''' \<and> err \<noteq> None \<or>
      (\<exists>c ee e. EvStream (om_Namespace (pod_Meta pod)) (pod_Name pod) c command (out, ee, e) \<in> set evs \<and>
         (err = None \<longrightarrow> ee = '''' \<and> e = None)))"

lemma does_Execute [does_rules]:
  "(\<And>out err evs. stream_of pod command out err evs \<Longrightarrow> \<Phi> (out, err) evs) \<Longrightarrow>
   does (Execute K pod command) \<Phi>"
  unfolding Execute_def
  by (intro does_rules; simp add: stream_of_def polled_def polls_def)

lemma executed_stream_of: "stream_of pod command out None evs \<Longrightarrow> executed pod command out evs"
  by (force simp: stream_of_def executed_def list_ex_iff)

lemma answered_stream_of:
  "stream_of pod (jbossCliCommand mgmtOp) out err evs \<Longrightarrow> \<not> (err \<noteq> None \<and> out = '''') \<Longrightarrow>
   k_DecodeJSON K (json_part out) = Inr j \<Longrightarrow> answered K pod mgmtOp j evs"
  by (force simp: stream_of_def answered_def list_ex_iff)

definition mgmt_result :: "'e Kube \<Rightarrow> Pod \<Rightarrow> string \<Rightarrow> json \<Rightarrow> error option \<Rightarrow> event list \<Rightarrow> bool" where
  "mgmt_result K pod mgmtOp j err evs \<longleftrightarrow>
     no_write evs \<and> polled mgmtOp 1 evs \<and>
     (err = None \<longrightarrow> answered K pod mgmtOp j evs) \<and> (err \<noteq> None \<longrightarrow> j = [])"

lemma decodeJSON_Inr [simp]: "decodeJSON K s = Inr j \<longleftrightarrow> k_DecodeJSON K s = Inr j"
  by (simp add: decodeJSON_def split: sum.split)

lemma does_ExecuteMgmtOp [does_rules]:
  "(\<And>j err evs. mgmt_result K pod mgmtOp j err evs \<Longrightarrow> \<Phi> (j, err) evs) \<Longrightarrow>
   does (ExecuteMgmtOp K pod mgmtOp) \<Phi>"
  unfolding ExecuteMgmtOp_def
proof (intro does_rules, goal_cases)
  case (1 out err evs _ _)
  then show ?case by (simp add: mgmt_result_def stream_of_def)
next
  case (2 out err evs _ _)
  then show ?case by (simp add: mgmt_result_def stream_of_def)
next
  case (3 out err evs _ _ j)
  then have "answered K pod mgmtOp j evs" by (intro answered_stream_of) auto
  with 3 show ?case by (simp add: mgmt_result_def stream_of_def)
qed

text \<open>The readers of a log and the recovery socket.\<close>

lemma does_readPodLog [does_rules]:
  "(\<And>r evs. no_write evs \<Longrightarrow> (\<forall>t. r = Inr t \<longrightarrow>
      EvLogs (om_Namespace (pod_Meta pod)) (pod_Name pod) lo (Inr t) \<in> set evs) \<Longrightarrow> \<Phi> r evs) \<Longrightarrow>
   does (readPodLog K pod lo) \<Phi>"
  unfolding readPodLog_def by (intro does_rules; simp)

lemma does_ObtainLogLatestTimestamp [does_rules]:
  "(\<And>r evs. no_write evs \<Longrightarrow> \<Phi> r evs) \<Longrightarrow> does (ObtainLogLatestTimestamp K pod) \<Phi>"
  unfolding ObtainLogLatestTimestamp_def by (intro does_rules; simp)

text \<open>No line of the log that was read in full matches.\<close>

definition log_clear :: "(string \<Rightarrow> bool) \<Rightarrow> string \<Rightarrow> bool" where
  "log_clear p text \<longleftrightarrow> list_all (\<lambda>l. \<not> p (dropCR l)) (log_lines text)"

lemma scan_lines_empty:
  "\<not> p '''' \<Longrightarrow> scan_lines p ls err = Inr '''' \<longleftrightarrow>
     err = None \<and> list_all (\<lambda>l. length l < 65536 \<and> \<not> p (dropCR l)) ls"
  by (induction ls) (auto split: option.splits)

lemma scan_lines_found: "scan_lines p ls err = Inr l \<Longrightarrow> l \<noteq> '''' \<Longrightarrow> p l \<and> l \<in> dropCR ` set ls"
  by (induction ls) (auto split: option.splits if_splits)

lemma does_VerifyLogContainsRegexp [does_rules]:
  "(\<And>r evs. no_write evs \<Longrightarrow> (\<forall>line. r = Inr line \<longrightarrow> (\<exists>text err.
      EvLogs (om_Namespace (pod_Meta pod)) (pod_Name pod)
        \<lparr>lo_TailLines = None, lo_Timestamps = False, lo_SinceTime = since\<rparr> (Inr (text, err)) \<in> set evs
      \<and> scan_lines p (log_lines text) err = Inr line)) \<Longrightarrow> \<Phi> r evs) \<Longrightarrow>
   does (VerifyLogContainsRegexp K pod since p) \<Phi>"
  unfolding VerifyLogContainsRegexp_def by (intro does_rules; force)

lemma does_SocketConnect [does_rules]:
  "(\<And>r evs. no_write evs \<Longrightarrow> (\<forall>m. r = Inr m \<longrightarrow>
      EvExchange (hostname @ '':'' @ FormatInt port) (command @ [CHR 0x0A]) (Inr m) \<in> set evs) \<Longrightarrow> \<Phi> r evs) \<Longrightarrow>
   does (SocketConnect K hostname port command) \<Phi>"
  unfolding SocketConnect_def by (intro does_rules; simp)

lemma mgmt_result_no_write: "mgmt_result K pod mgmtOp j err evs \<Longrightarrow> no_write evs"
  by (simp add: mgmt_result_def)

lemma mgmt_result_answered: "mgmt_result K pod mgmtOp j None evs \<Longrightarrow> answered K pod mgmtOp j evs"
  by (simp add: mgmt_result_def)

lemma mgmt_result_polled: "mgmt_result K pod mgmtOp j err evs \<Longrightarrow> polled mgmtOp 1 evs"
  by (simp add: mgmt_result_def)

text \<open>The server answered that it is running.\<close>

definition reported_running :: "'e Kube \<Rightarrow> Pod \<Rightarrow> event list \<Rightarrow> bool" where
  "reported_running K pod evs \<longleftrightarrow> (\<exists>j. answered K pod MgmtOpServerStateRead j evs \<and>
     IsMgmtOutcomeSuccesful j \<and> json_get j ''result'' = VString ''running'')"

lemma reported_running_append [simp]:
  "reported_running K pod (xs @ ys) \<longleftrightarrow> reported_running K pod xs \<or> reported_running K pod ys"
  by (auto simp: reported_running_def)

definition state_check :: "'e Kube \<Rightarrow> Pod \<Rightarrow> bool \<Rightarrow> event list \<Rightarrow> bool" where
  "state_check K pod running evs \<longleftrightarrow> no_write evs \<and> (running \<longrightarrow> reported_running K pod evs) \<and>
     polled MgmtOpServerStateRead 1 evs"

lemma IsAppServerRunningViaJBossCli_spec:
  "does (IsAppServerRunningViaJBossCli K pod) (\<lambda>r evs.
     (fst r \<longleftrightarrow> snd r = None) \<and> state_check K pod (fst r) evs)"
  unfolding IsAppServerRunningViaJBossCli_def Let_def
  by (intro does_rules) (auto simp: state_check_def mgmt_result_def reported_running_def)

lemmas does_IsAppServerRunningViaJBossCli [does_rules] = does_mono[OF IsAppServerRunningViaJBossCli_spec]

text \<open>
  The wait loop: it polls at most as often as it has tries left, and it ends without an
  error only if there is nothing left to try or the server reported that it runs.
\<close>

definition waited :: "'e Kube \<Rightarrow> Pod \<Rightarrow> nat \<Rightarrow> error option \<Rightarrow> error option \<Rightarrow> event list \<Rightarrow> bool" where
  "waited K pod n err r evs \<longleftrightarrow> no_write evs \<and> polled MgmtOpServerStateRead n evs \<and>
     (n = 0 \<longrightarrow> r = err) \<and> (n \<noteq> 0 \<and> r = None \<longrightarrow> reported_running K pod evs)"

lemma waited_step:
  assumes "state_check K pod False evs" and "waited K pod n cliErr r evs'" and "cliErr \<noteq> None"
  shows "waited K pod (Suc n) err r (evs @ evs')"
  using assms polled_append[of _ 1 evs n evs'] by (auto simp: waited_def state_check_def)

lemma waited_done: "state_check K pod True evs \<Longrightarrow> waited K pod (Suc n) err None evs"
  by (auto simp: waited_def state_check_def elim: polled_mono)

lemma does_waitForServer_waited: "does (waitForServer K pod n err) (waited K pod n err)"
proof (induction n arbitrary: err)
  case 0
  show ?case by (simp add: does_return waited_def)
next
  case (Suc n)
  show ?case unfolding waitForServer.simps
    by (intro does_rules) (auto intro!: does_return does_mono[OF Suc.IH] intro: waited_step waited_done)
qed

lemmas does_waitForServer [does_rules] = does_mono[OF does_waitForServer_waited]

lemma ExecuteOpAndWait_result:
  "does (ExecuteOpAndWaitForServerBeingReady K mgmtOp pod) (\<lambda>r evs.
     no_write evs \<and>
     (mgmtOp \<noteq> MgmtOpServerStateRead \<longrightarrow>
        int (polls MgmtOpServerStateRead evs) \<le> max 0 (restartRetryCounter (k_Env K))) \<and>
     (r = None \<longrightarrow>
        (\<exists>j. answered K pod mgmtOp j evs \<and> IsMgmtOutcomeSuccesful j) \<and>
        (restartRetryCounter (k_Env K) \<le> 0 \<or> reported_running K pod evs)))"
  unfolding ExecuteOpAndWaitForServerBeingReady_def
  by (intro does_rules) (auto simp: mgmt_result_def waited_def polled_def)

lemmas does_ExecuteOpAndWait [does_rules] = does_mono[OF ExecuteOpAndWait_result]


definition sample_pod :: Pod where
  "sample_pod = (named_pod ''quickstart-0'')\<lparr>pod_Containers := [\<lparr>c_Name = ''quickstart'', c_Image = '''',
     c_Ports = [], c_LivenessProbe = None, c_ReadinessProbe = None, c_StartupProbe = None,
     c_Resources = \<lparr>rr_Limits = None, rr_Requests = None\<rparr>, c_SecurityContext = None, c_EnvFrom = [],
     c_Env = [], c_VolumeMounts = []\<rparr>]\<rparr>"

lemmas mgmt_eval = Execute_def getKubeRestConfig_def getKubeCoreClient_def ExecuteMgmtOp_def
  IsAppServerRunningViaJBossCli_def decodeJSON_def fake_decode_def json_part_def LastIndex_def
  IsMgmtOutcomeSuccesful_def ConvertToString_ignoring_def json_get_def Let_def

text \<open>A server that answers every operation with \<open>running\<close>.\<close>

definition running_cluster :: Cluster where
  "running_cluster = empty_cluster\<lparr>cl_Exec := \<lambda>n cmd. ''running''\<rparr>"

lemma run_mgmt_running:
  "\<exists>evs. run_state (ExecuteMgmtOp fake_kube sample_pod mgmtOp) (running_cluster, tr) =
     (([(''outcome'', VString ''success''), (''result'', VString ''running'')], None), running_cluster, tr @ evs)"
  by (simp add: mgmt_eval sample_pod_def running_cluster_def named_pod_def)

lemma waitForServer_running:
  "n \<noteq> 0 \<Longrightarrow> fst (run_state (waitForServer fake_kube sample_pod n err) (running_cluster, tr)) = None"
  using run_mgmt_running[of MgmtOpServerStateRead tr]
  by (cases n) (auto simp: IsAppServerRunningViaJBossCli_def IsMgmtOutcomeSuccesful_def
      ConvertToString_ignoring_def json_get_def)


section \<open>Results of management operations\<close>

text \<open>The port of the recovery listener is the bound port of its socket binding plus the offset.\<close>

definition recovery_port_read :: "'e Kube \<Rightarrow> Pod \<Rightarrow> int \<Rightarrow> event list \<Rightarrow> bool" where
  "recovery_port_read K pod p evs \<longleftrightarrow> (\<exists>j1 j2 binding port offset.
     answered K pod MgmtOpTxnRecoverySocketBindingRead j1 evs \<and>
     IsMgmtOutcomeSuccesful j1 \<and> json_get j1 ''result'' = VString binding \<and>
     answered K pod MgmtOpSocketBindingRead j2 evs \<and> IsMgmtOutcomeSuccesful j2 \<and>
     ConvertToInt (ReadJSONDataByIndex (VMap j2) [''result'', ''port-offset'']) = Inr offset \<and>
     ConvertToInt (ReadJSONDataByIndex (VMap j2) [''result'', ''socket-binding'', binding, ''bound-port'']) = Inr port \<and>
     p = wrap32 (port + offset))"

lemma recovery_port_readI:
  assumes "answered K pod MgmtOpTxnRecoverySocketBindingRead j1 evs" and "IsMgmtOutcomeSuccesful j1"
    and "json_get j1 ''result'' = VString binding"
    and "answered K pod MgmtOpSocketBindingRead j2 evs" and "IsMgmtOutcomeSuccesful j2"
    and "ConvertToInt (ReadJSONDataByIndex (json_get j2 ''result'') [''port-offset'']) = Inr offset"
    and "ConvertToInt (ReadJSONDataByIndex (json_get j2 ''result'')
          [''socket-binding'', binding, ''bound-port'']) = Inr port"
  shows "recovery_port_read K pod (wrap32 (port + offset)) evs"
  unfolding recovery_port_read_def
  by (rule exI[of _ j1], rule exI[of _ j2], rule exI[of _ binding], rule exI[of _ port], rule exI[of _ offset])
     (use assms in \<open>simp add: json_get_def\<close>)

lemma GetTransactionRecoveryPort_spec:
  "does (GetTransactionRecoveryPort K pod) (\<lambda>r evs. no_write evs \<and>
     (\<forall>p. r = Inr p \<longrightarrow> recovery_port_read K pod p evs))"
  unfolding GetTransactionRecoveryPort_def Let_def
  by (intro does_rules) (auto simp: mgmt_result_def intro: recovery_port_readI)

lemmas does_GetTransactionRecoveryPort [does_rules] = does_mono[OF GetTransactionRecoveryPort_spec]

definition result_read :: "'e Kube \<Rightarrow> Pod \<Rightarrow> string \<Rightarrow> GoValue \<Rightarrow> event list \<Rightarrow> bool" where
  "result_read K pod mgmtOp v evs \<longleftrightarrow> (\<exists>j. answered K pod mgmtOp j evs \<and> IsMgmtOutcomeSuccesful j \<and>
     json_get j ''result'' = v \<and> v \<noteq> VNil)"

lemma ExecuteAndGetResult_spec:
  "does (ExecuteAndGetResult K pod mgmtOp) (\<lambda>r evs. no_write evs \<and>
     (\<forall>v. r = Inr v \<longrightarrow> result_read K pod mgmtOp v evs))"
  unfolding ExecuteAndGetResult_def Let_def
  by (intro does_rules) (auto simp: mgmt_result_def result_read_def json_get_def)

lemmas does_ExecuteAndGetResult [does_rules] = does_mono[OF ExecuteAndGetResult_spec]

lemma ListSubsystems_spec:
  "does (ListSubsystems K pod) (\<lambda>r evs. no_write evs \<and>
     (\<forall>xs. r = Inr xs \<longrightarrow> (\<exists>v. result_read K pod MgmtOpListSubsystems v evs \<and>
        ConvertToArrayString (k_Sprint K) v = Inr xs)))"
  unfolding ListSubsystems_def by (intro does_rules) auto

lemmas does_ListSubsystems [does_rules] = does_mono[OF ListSubsystems_spec]

section \<open>The JSON part of the output\<close>

lemma Index_notin: "c \<notin> set s \<Longrightarrow> Index c s = - 1"
  by (induction s) auto

lemma Index_nonneg_or: "Index c s = - 1 \<or> 0 \<le> Index c s"
  by (induction s) (auto simp: Let_def)

lemma Index_append_notin: "c \<notin> set a \<Longrightarrow> Index c (a @ c # b) = int (length a)"
  by (induction a) (auto simp: Let_def)

lemma LastIndex_append_notin: "c \<notin> set b \<Longrightarrow> LastIndex c (a @ c # b) = int (length a)"
  using Index_append_notin[of c "rev b" "rev a"] by (simp add: LastIndex_def Let_def)

lemma LastIndex_notin: "c \<notin> set s \<Longrightarrow> LastIndex c s = - 1"
  by (simp add: LastIndex_def Index_notin)



end
