(* ===== verification/Pod_Status.thy ===== *)
theory Pod_Status
  imports Fake_Client
begin

text \<open>
  The bookkeeping of the pod states in the status of a WildFlyServer:
  \<open>getWildflyServerPodStatusByName\<close>, \<open>getPodStatus\<close>, \<open>cleanUpPodStatus\<close> and \<open>Max\<close> of
  \<open>controllers/wildflyserver_controller.go\<close>. A pointer into \<open>w.Status.Pods\<close> is the index of
  the entry it points to.
\<close>

section \<open>Entries of the status\<close>

fun podStatusIndex :: "string \<Rightarrow> PodStatus list \<Rightarrow> nat option" where
  "podStatusIndex podName [] = None"
| "podStatusIndex podName (v # vs) =
     (if podName = ps_Name v then Some 0 else map_option Suc (podStatusIndex podName vs))"

definition getWildflyServerPodStatusByName :: "WildFlyServer \<Rightarrow> string \<Rightarrow> nat option" where
  "getWildflyServerPodStatusByName w podName = podStatusIndex podName (wf_Pods w)"

text \<open>A write through the pointer.\<close>

definition update_entry :: "nat \<Rightarrow> (PodStatus \<Rightarrow> PodStatus) \<Rightarrow> WildFlyServer \<Rightarrow> WildFlyServer" where
  "update_entry i f w = w\<lparr>wf_Status := (wf_Status w)\<lparr>st_Pods :=
     map_option (\<lambda>vs. vs[i := f (vs ! i)]) (st_Pods (wf_Status w))\<rparr>\<rparr>"

definition with_state :: "PodState \<Rightarrow> PodStatus \<Rightarrow> PodStatus" where
  "with_state s v = v\<lparr>ps_State := s\<rparr>"

section \<open>getPodStatus\<close>

definition statusMap :: "PodStatus list \<Rightarrow> string \<rightharpoonup> PodStatus" where
  "statusMap vs = foldl (\<lambda>m v. m(ps_Name v \<mapsto> v)) Map.empty vs"

definition podStatusOf :: "(string \<rightharpoonup> PodStatus) \<Rightarrow> Pod \<Rightarrow> PodStatus" where
  "podStatusOf original pod =
     (case original (pod_Name pod) of
        None \<Rightarrow> \<lparr>ps_Name = pod_Name pod, ps_PodIP = pod_PodIP pod, ps_State = PodStateActive,
                 ps_RecoveryCounter = 0\<rparr>
      | Some v \<Rightarrow> \<lparr>ps_Name = pod_Name pod, ps_PodIP = pod_PodIP pod, ps_State = ps_State v,
                  ps_RecoveryCounter = ps_RecoveryCounter v\<rparr>)"

definition getPodStatus :: "Pod list \<Rightarrow> PodStatus slice \<Rightarrow> bool \<times> PodStatus slice" where
  "getPodStatus pods originalPodStatuses =
     (list_ex (\<lambda>pod. pod_PodIP pod = '''') pods,
      foldl (\<lambda>vs pod. slice_append vs (podStatusOf (statusMap (elems originalPodStatuses)) pod)) None pods)"

section \<open>cleanUpPodStatus\<close>

definition Max :: "int \<Rightarrow> int \<Rightarrow> int" where
  "Max x y = (if x < y then y else x)"

definition keepStatus :: "Pod list \<Rightarrow> PodStatus \<Rightarrow> bool" where
  "keepStatus items v \<longleftrightarrow>
     (if ps_State v = PodStateScalingDownClean then list_ex (\<lambda>pv. pod_Name pv = ps_Name v) items else True)"

definition cleanUpPodStatus ::
  "'e Kube \<Rightarrow> WildFlyServer \<Rightarrow> Pod list \<Rightarrow> ('e, (bool \<times> error option) \<times> WildFlyServer) kop" where
  "cleanUpPodStatus K w items =
     (let result = foldl (\<lambda>vs v. if keepStatus items v then slice_append vs v else vs) None (wf_Pods w);
          totalOld = int (length (wf_Pods w));
          totalNew = int (length (elems result))
      in if totalOld \<noteq> totalNew then
           (let delta = totalOld - totalNew;
                st = wf_Status w;
                w' = w\<lparr>wf_Status := st\<lparr>st_Pods := result,
                        st_Replicas := Max (wrap32 (st_Replicas st - wrap32 delta)) 0,
                        st_ScalingdownPods := Max (wrap32 (st_ScalingdownPods st - wrap32 delta)) 0\<rparr>\<rparr>
            in do { r \<leftarrow> call (k_PatchStatus K w w') (EvPatchStatus w w');
                    case r of Inl err \<Rightarrow> ret ((False, Some err), w')
                            | Inr w'' \<Rightarrow> ret ((True, None), w'') })
         else ret ((False, None), w))"

section \<open>Lemmas on entries\<close>

lemma elems_foldl_append:
  "elems (foldl (\<lambda>vs x. slice_append vs (f x)) vs xs) = elems vs @ map f xs"
  by (induction xs arbitrary: vs) simp_all

lemma foldl_append_None: "foldl (\<lambda>vs x. slice_append vs (f x)) None xs = (if xs = [] then None else Some (map f xs))"
proof (cases xs)
  case (Cons x ys)
  have "foldl (\<lambda>vs x. slice_append vs (f x)) (Some zs) ys = Some (zs @ map f ys)" for zs
    by (induction ys arbitrary: zs) (simp_all add: slice_append_def)
  with Cons show ?thesis by (simp add: slice_append_def)
qed simp

lemma elems_foldl_filter:
  "elems (foldl (\<lambda>vs x. if P x then slice_append vs x else vs) vs xs) = elems vs @ filter P xs"
  by (induction xs arbitrary: vs) simp_all

lemma statusMap_map_of: "statusMap vs = map_of (rev (map (\<lambda>v. (ps_Name v, v)) vs))"
proof -
  have "foldl (\<lambda>m v. m(ps_Name v \<mapsto> v)) m vs = m ++ map_of (rev (map (\<lambda>v. (ps_Name v, v)) vs))" for m
    by (induction vs arbitrary: m) (simp_all add: map_add_def fun_eq_iff split: option.splits)
  then show ?thesis by (simp add: statusMap_def)
qed

lemma statusMap_Some: "statusMap vs n = Some v \<Longrightarrow> v \<in> set vs \<and> ps_Name v = n"
  by (auto simp: statusMap_map_of dest: map_of_SomeD)

lemma statusMap_None: "statusMap vs n = None \<longleftrightarrow> n \<notin> ps_Name ` set vs"
  by (auto simp: statusMap_map_of map_of_eq_None_iff image_iff)

lemma podStatusIndex_Some:
  "podStatusIndex n vs = Some i \<Longrightarrow> i < length vs \<and> ps_Name (vs ! i) = n"
  by (induction vs arbitrary: i) (auto split: if_splits)

lemma podStatusIndex_None: "podStatusIndex n vs = None \<longleftrightarrow> n \<notin> ps_Name ` set vs"
  by (induction vs) auto

lemma podStatusIndex_distinct:
  "distinct (map ps_Name vs) \<Longrightarrow> i < length vs \<Longrightarrow> podStatusIndex (ps_Name (vs ! i)) vs = Some i"
proof (induction vs arbitrary: i)
  case (Cons v vs)
  then show ?case by (cases i) (auto, metis nth_mem image_eqI)
qed simp

lemma statusMap_distinct:
  "distinct (map ps_Name vs) \<Longrightarrow> v \<in> set vs \<Longrightarrow> statusMap vs (ps_Name v) = Some v"
  by (auto simp: statusMap_map_of rev_map comp_def distinct_map intro!: map_of_is_SomeI)

text \<open>
  The entries after \<open>getPodStatus\<close>: one per pod in the order of the pods; the state and the
  counter of a known name are carried over, those of a new name start as \<open>ACTIVE\<close> and 0.
\<close>

lemma podStatusOf_simps [simp]:
  "ps_Name (podStatusOf m pod) = pod_Name pod" "ps_PodIP (podStatusOf m pod) = pod_PodIP pod"
  by (simp_all add: podStatusOf_def split: option.split)

lemma podStatusOf_again:
  assumes "pod \<in> set pods"
  shows "podStatusOf (statusMap (map (podStatusOf m) pods)) pod = podStatusOf m pod"
proof -
  have "pod_Name pod \<in> ps_Name ` set (map (podStatusOf m) pods)" using assms by force
  then have "statusMap (map (podStatusOf m) pods) (pod_Name pod) \<noteq> None"
    by (simp only: statusMap_None not_not)
  then obtain v where v: "statusMap (map (podStatusOf m) pods) (pod_Name pod) = Some v" by blast
  then obtain pod' where "v = podStatusOf m pod'" and "pod_Name pod' = pod_Name pod"
    using statusMap_Some[OF v] by auto
  with v have "podStatusOf (statusMap (map (podStatusOf m) pods)) pod =
      \<lparr>ps_Name = pod_Name pod, ps_PodIP = pod_PodIP pod, ps_State = ps_State (podStatusOf m pod'),
       ps_RecoveryCounter = ps_RecoveryCounter (podStatusOf m pod')\<rparr>"
    by (subst podStatusOf_def) simp
  also have "\<dots> = podStatusOf m pod"
    using \<open>pod_Name pod' = pod_Name pod\<close> by (cases "m (pod_Name pod)") (simp_all add: podStatusOf_def)
  finally show ?thesis .
qed

lemma getPodStatus_snd: "snd (getPodStatus pods vs) = (if pods = [] then None
    else Some (map (podStatusOf (statusMap (elems vs))) pods))"
  by (simp add: getPodStatus_def foldl_append_None)

text \<open>
  C18: The status lists exactly the pods of the cluster, in their order and with their
  addresses; the state and the recovery counter of a pod that was listed before are kept, a
  new pod starts as \<open>ACTIVE\<close> with the counter 0. The result is a fixed point, so a second
  pass over the same pods has nothing to write, and a requeue is asked for as long as a pod
  has no address.
\<close>

theorem getPodStatus_spec:
  "map ps_Name (elems (snd (getPodStatus pods vs))) = map pod_Name pods \<and>
   map ps_PodIP (elems (snd (getPodStatus pods vs))) = map pod_PodIP pods \<and>
   (\<forall>v\<in>set (elems (snd (getPodStatus pods vs))).
      case statusMap (elems vs) (ps_Name v) of
        None \<Rightarrow> ps_State v = PodStateActive \<and> ps_RecoveryCounter v = 0
      | Some v0 \<Rightarrow> ps_State v = ps_State v0 \<and> ps_RecoveryCounter v = ps_RecoveryCounter v0) \<and>
   (fst (getPodStatus pods vs) \<longleftrightarrow> (\<exists>pod\<in>set pods. pod_PodIP pod = '''')) \<and>
   getPodStatus pods (snd (getPodStatus pods vs)) = getPodStatus pods vs"
proof (intro conjI)
  show "getPodStatus pods (snd (getPodStatus pods vs)) = getPodStatus pods vs"
    by (rule prod_eqI) (simp_all add: getPodStatus_snd podStatusOf_again, simp add: getPodStatus_def)
  show "\<forall>v\<in>set (elems (snd (getPodStatus pods vs))).
      case statusMap (elems vs) (ps_Name v) of
        None \<Rightarrow> ps_State v = PodStateActive \<and> ps_RecoveryCounter v = 0
      | Some v0 \<Rightarrow> ps_State v = ps_State v0 \<and> ps_RecoveryCounter v = ps_RecoveryCounter v0"
    by (simp add: getPodStatus_snd) (simp add: podStatusOf_def split: option.split)
  show "fst (getPodStatus pods vs) \<longleftrightarrow> (\<exists>pod\<in>set pods. pod_PodIP pod = '''')"
    by (simp add: getPodStatus_def list_ex_iff)
qed (simp_all add: getPodStatus_snd comp_def)

theorem getPodStatus_spec_witness:
  "map ps_Name (elems (snd (getPodStatus [named_pod ''wf-0''] None))) = [''wf-0''] \<and>
   list_all (\<lambda>v. ps_State v = PodStateActive) (elems (snd (getPodStatus [named_pod ''wf-0''] None)))"
  using getPodStatus_spec[of "[named_pod ''wf-0'']" None]
  by (simp add: list_all_iff statusMap_def named_pod_def)

section \<open>Clean-up\<close>

lemma Max_max: "Max x y = max x y"
  by (simp add: Max_def)

text \<open>
  C17: \<open>cleanUpPodStatus\<close> forgets exactly the pods that are marked \<open>SCALING_DOWN_CLEAN\<close> and
  are gone from the cluster: every other entry is kept as it is and in its place, the two
  counters of the status go down by the number of forgotten pods and never below zero, the
  specification is untouched, and without such a pod nothing is written.
\<close>

theorem cleanUpPodStatus_spec:
  fixes w :: WildFlyServer and items :: "Pod list"
  assumes "in_int32 (st_Replicas (wf_Status w))" and "in_int32 (st_ScalingdownPods (wf_Status w))"
    and "0 \<le> st_Replicas (wf_Status w)" and "0 \<le> st_ScalingdownPods (wf_Status w)"
    and "in_int32 (int (length (wf_Pods w)))"
  defines "gone v \<equiv> ps_State v = PodStateScalingDownClean \<and> ps_Name v \<notin> pod_Name ` set items"
  shows "does (cleanUpPodStatus K w items) (\<lambda>(r, w'') evs.
     if list_ex gone (wf_Pods w) then
       \<exists>w' answer. evs = [EvPatchStatus w w' answer] \<and>
         wf_Pods w' = filter (\<lambda>v. \<not> gone v) (wf_Pods w) \<and>
         st_Replicas (wf_Status w') = max 0 (st_Replicas (wf_Status w) - int (length (filter gone (wf_Pods w)))) \<and>
         st_ScalingdownPods (wf_Status w') =
           max 0 (st_ScalingdownPods (wf_Status w) - int (length (filter gone (wf_Pods w)))) \<and>
         wf_Spec w' = wf_Spec w \<and> wf_Meta w' = wf_Meta w \<and>
         r = (case answer of Inl err \<Rightarrow> (False, Some err) | Inr _ \<Rightarrow> (True, None)) \<and>
         w'' = (case answer of Inl _ \<Rightarrow> w' | Inr a \<Rightarrow> a)
     else evs = [] \<and> r = (False, None) \<and> w'' = w)"
proof -
  let ?k = "int (length (filter gone (wf_Pods w)))"
  have keep: "keepStatus items v \<longleftrightarrow> \<not> gone v" for v
    by (force simp: keepStatus_def gone_def list_ex_iff)
  have len: "int (length (wf_Pods w)) - int (length (filter (\<lambda>v. \<not> gone v) (wf_Pods w))) = ?k"
    using sum_length_filter_compl[of gone "wf_Pods w"] by linarith
  have any: "list_ex gone (wf_Pods w) \<longleftrightarrow>
      int (length (wf_Pods w)) \<noteq> int (length (filter (\<lambda>v. \<not> gone v) (wf_Pods w)))"
  proof -
    have "list_ex gone (wf_Pods w) \<longleftrightarrow> filter gone (wf_Pods w) \<noteq> []"
      by (simp add: list_ex_iff filter_empty_conv)
    then have "list_ex gone (wf_Pods w) \<longleftrightarrow> ?k \<noteq> 0" by simp
    with len show ?thesis by linarith
  qed
  have k: "0 \<le> ?k" "?k \<le> int (length (wf_Pods w))" by simp_all
  have w32: "wrap32 ?k = ?k" using k assms(5) unfolding in_int32_def
    by (intro wrap32_id) (unfold in_int32_def, linarith)
  have sub: "wrap32 (x - ?k) = x - ?k" if "in_int32 x" "0 \<le> x" for x
    using that k assms(5) unfolding in_int32_def
    by (intro wrap32_id) (unfold in_int32_def, linarith)
  note subs = sub[OF assms(1,3)] sub[OF assms(2,4)]
  show ?thesis unfolding cleanUpPodStatus_def Let_def elems_foldl_filter keep any
    by (intro does_rules) (auto simp: len w32 subs Max_max max.commute elems_foldl_filter)
qed

text \<open>A server with the given entries in its status.\<close>

definition with_pods :: "(string \<times> PodState) list \<Rightarrow> WildFlyServer" where
  "with_pods vs = sample_server\<lparr>wf_Status := sample_status\<lparr>st_Pods :=
     Some (map (\<lambda>(n, s). \<lparr>ps_Name = n, ps_PodIP = '''', ps_State = s, ps_RecoveryCounter = 0\<rparr>) vs),
     st_Replicas := 2, st_ScalingdownPods := 1\<rparr>\<rparr>"

theorem cleanUpPodStatus_spec_witness:
  "does (cleanUpPodStatus fake_kube
      (with_pods [(''wf-0'', PodStateActive), (''wf-1'', PodStateScalingDownClean)]) [named_pod ''wf-0''])
    (\<lambda>(r, w') evs. \<exists>w1 answer. evs = [EvPatchStatus (with_pods [(''wf-0'', PodStateActive),
        (''wf-1'', PodStateScalingDownClean)]) w1 answer] \<and>
      map ps_Name (wf_Pods w1) = [''wf-0''] \<and> st_Replicas (wf_Status w1) = 1 \<and>
      st_ScalingdownPods (wf_Status w1) = 0)"
  by (rule does_mono[OF cleanUpPodStatus_spec])
     (auto simp: with_pods_def sample_server_def sample_status_def in_int32_def named_pod_def)

end
