(* ===== verification/Transaction_Recovery.thy ===== *)
theory Transaction_Recovery
  imports Remote_Ops Pod_Status "HOL-Library.AList"
begin

text \<open>
  \<open>controllers/transaction_recovery.go\<close>: what the operator does with the pods it is going to
  remove. \<open>checkRecovery\<close> decides whether a pod has unfinished transactions,
  \<open>setupRecoveryPropertiesAndRestart\<close> prepares its server, and
  \<open>processTransactionRecoveryScaleDown\<close> runs both for every such pod and records the result
  in the status. The functions that mutate the pod or the WildFlyServer they are given return
  it. A message that is only logged is its format with the names in it.
\<close>

section \<open>Constants\<close>

definition requeueOff :: int where "requeueOff = 0"
definition requeueLater :: int where "requeueLater = 1"
definition requeueNow :: int where "requeueNow = 2"

definition heuristic_types :: "string list" where
  "heuristic_types = [''HEURISTIC'', ''HEURISTIC_ROLLBACK'', ''HEURISTIC_COMMIT'', ''HEURISTIC_MIXED'',
     ''HEURISTIC_HAZARD'']"

definition markerServiceDisabled :: string where "markerServiceDisabled = ''disabled''"
definition defaultRecoveryPort :: int where "defaultRecoveryPort = 4712"
definition markerRecoveryPort :: string where "markerRecoveryPort = ''recovery-port''"
definition markerRecoveryPropertiesSetup :: string where
  "markerRecoveryPropertiesSetup = ''recovery-properties-setup''"
definition txnRecoveryScanCommand :: string where "txnRecoveryScanCommand = ''SCAN''"
definition wftcDataDirName :: string where "wftcDataDirName = ''ejb-xa-recovery''"

datatype checkResult = clean | recovery | heuristic | genericError

type_synonym message = "string list"
type_synonym check = "checkResult \<times> message \<times> error option"

definition failed :: "string \<Rightarrow> string list \<Rightarrow> error list \<Rightarrow> check" where
  "failed format args causes = (genericError, [], Some (Errorf format args causes))"

section \<open>checkRecovery\<close>

definition set_annotations :: "strmap option \<Rightarrow> Pod \<Rightarrow> Pod" where
  "set_annotations m pod = pod\<lparr>pod_Meta := (pod_Meta pod)\<lparr>om_Annotations := m\<rparr>\<rparr>"

text \<open>\<open>delete(pod.Annotations, key)\<close>, which does nothing on a nil map.\<close>

definition delete_annotation :: "string \<Rightarrow> Pod \<Rightarrow> Pod" where
  "delete_annotation key pod =
     set_annotations (map_option (\<lambda>m. m(key := None)) (om_Annotations (pod_Meta pod))) pod"

text \<open>
  The recovery port, asked of the server and saved in an annotation of the pod. \<open>Inl\<close> is an
  early return of \<open>checkRecovery\<close>. The name and the address of the pod in the messages and
  for the socket are the ones it had at the start.
\<close>

definition queryRecoveryPort :: "'e Kube \<Rightarrow> string \<Rightarrow> Pod \<Rightarrow> WildFlyServer \<Rightarrow> ('e, (check + int) \<times> Pod) kop" where
  "queryRecoveryPort K podName pod w =
     do { (jsonResult, err) \<leftarrow> ExecuteMgmtOp K pod MgmtOpTxnCheckRecoveryListener;
          (case err of
             Some e \<Rightarrow> ret (Inl (failed ''Cannot check if the transaction recovery listener of the pod is enabled'' [podName] [e]), pod)
           | None \<Rightarrow>
          if \<not> IsMgmtOutcomeSuccesful jsonResult
          then ret (Inl (failed ''Failed to verify if the transaction recovery listener of the pod is enabled'' [podName] []), pod)
          else if ParseBool (ConvertToString_ignoring (ReadJSONDataByIndex (VMap jsonResult) [''result''])) = Some False
          then do { _ \<leftarrow> RecordEvent ''Warning'' ''WildFlyServerTransactionRecovery''
                       (''The transaction recovery listener of the pod '' @ podName @
                        '' is not defined and the recovery process cannot started. If this is not intentional, fix the server configuration. The pod will be terminated.'');
                    ret (Inl (clean, [], None), pod) }
          else
     do { queried \<leftarrow> GetTransactionRecoveryPort K pod;
          let port = (case queried of
                Inr p \<Rightarrow> if p \<noteq> 0 then p else defaultRecoveryPort
              | Inl _ \<Rightarrow> defaultRecoveryPort);
          let annotations = MapMerge (om_Annotations (pod_Meta pod)) (Some [markerRecoveryPort \<mapsto> FormatInt port]);
          let pod1 = set_annotations (Some annotations) pod;
          (err, pod2) \<leftarrow> Patch K w pod1 pod;
          (case err of
             Some e \<Rightarrow> ret (Inl (failed ''Failed to update the annotation of the pod'' [podName] [e]), pod2)
           | None \<Rightarrow> ret (Inr port, pod2)) }) }"

text \<open>The recovery port, read from the annotation, which is dropped when it is no number.\<close>

definition annotatedRecoveryPort :: "'e Kube \<Rightarrow> string \<Rightarrow> Pod \<Rightarrow> WildFlyServer \<Rightarrow> ('e, (check + int) \<times> Pod) kop" where
  "annotatedRecoveryPort K podName pod w =
     (let portString = map_get (om_Annotations (pod_Meta pod)) markerRecoveryPort
      in case Atoi portString of
           Some p \<Rightarrow> ret (Inr (wrap32 p), pod)
         | None \<Rightarrow>
             (let pod1 = delete_annotation markerRecoveryPort pod
              in do { (errUpdate, pod2) \<leftarrow> Patch K w pod1 pod;
                      ret (Inl (failed ''Cannot convert recovery port value to integer'' [portString, podName] [NumError portString]),
                        pod2) }))"

definition recoveryPort :: "'e Kube \<Rightarrow> string \<Rightarrow> Pod \<Rightarrow> WildFlyServer \<Rightarrow> ('e, (check + int) \<times> Pod) kop" where
  "recoveryPort K podName pod w =
     (if map_get (om_Annotations (pod_Meta pod)) markerRecoveryPort = ''''
      then queryRecoveryPort K podName pod w
      else annotatedRecoveryPort K podName pod w)"

text \<open>The recovery scan; the annotation is dropped when it fails. This patch does not go through \<open>resources.Patch\<close>.\<close>

definition recoveryScan :: "'e Kube \<Rightarrow> string \<Rightarrow> string \<Rightarrow> Pod \<Rightarrow> int \<Rightarrow> ('e, check option \<times> Pod) kop" where
  "recoveryScan K podName podIP pod port =
     do { answer \<leftarrow> SocketConnect K podIP port txnRecoveryScanCommand;
          (case answer of
             Inr _ \<Rightarrow> ret (None, pod)
           | Inl e \<Rightarrow>
               (let pod1 = delete_annotation markerRecoveryPort pod
                in do { patched \<leftarrow> call (k_PatchPod K pod pod1) (EvPatchPod pod pod1);
                        ret (Some (failed ''Failed to run the transaction recovery scan for the pod'' [podName] [e]),
                          case patched of Inl _ \<Rightarrow> pod1 | Inr pod2 \<Rightarrow> pod2) })) }"

definition recoveryLogCheck :: "'e Kube \<Rightarrow> string \<Rightarrow> Pod \<Rightarrow> int \<Rightarrow> ('e, check option) kop" where
  "recoveryLogCheck K podName pod logTimestampAtStart =
     do { found \<leftarrow> VerifyLogContainsRegexp K pod (Some logTimestampAtStart) match_recovery_error;
          (case found of
             Inl e \<Rightarrow> ret (Some (failed ''Cannot parse logs from the pod'' [podName] [e]))
           | Inr foundLogLine \<Rightarrow>
               if foundLogLine \<noteq> ''''
               then ret (Some (genericError, [''The transaction recovery process contains errors in the logs. The recovery will be retried.'', podName, foundLogLine], None))
               else ret None) }"

fun heuristicCheck :: "'e Kube \<Rightarrow> string \<Rightarrow> Pod \<Rightarrow> string list \<Rightarrow> ('e, check option) kop" where
  "heuristicCheck K podName pod [] = ret None"
| "heuristicCheck K podName pod (heuristic_type # types) =
     do { (jsonResult, err) \<leftarrow> ExecuteMgmtOp K pod (MgmtOpTxnReadHeuristicPattern heuristic_type);
          (case err of
             Some e \<Rightarrow> ret (Some (failed ''Cannot read transactions from the log store of the pod'' [heuristic_type, podName] [e]))
           | None \<Rightarrow>
          if \<not> IsMgmtOutcomeSuccesful jsonResult
          then ret (Some (failed ''Cannot read transactions from the log store of the pod'' [heuristic_type, podName] []))
          else (case as_array (json_get jsonResult ''result'') of
             Some (_ # _) \<Rightarrow> ret (Some (heuristic, [''There are transactions in the log store of the pod. Please, resolve them manually'', heuristic_type, podName], None))
           | _ \<Rightarrow> heuristicCheck K podName pod types)) }"

text \<open>The transactions of the log store: \<open>None\<close> where there is none.\<close>

definition inDoubtCheck :: "'e Kube \<Rightarrow> string \<Rightarrow> Pod \<Rightarrow> ('e, check option) kop" where
  "inDoubtCheck K podName pod =
     do { (_, err) \<leftarrow> ExecuteMgmtOp K pod MgmtOpTxnProbe;
          (case err of
             Some e \<Rightarrow> ret (Some (failed ''Error while probing transaction logs of the pod'' [podName] [e]))
           | None \<Rightarrow>
     do { (jsonResult, err) \<leftarrow> ExecuteMgmtOp K pod MgmtOpTxnRead;
          (case err of
             Some e \<Rightarrow> ret (Some (failed ''Cannot read transactions from the log store of the pod'' [podName] [e]))
           | None \<Rightarrow>
          if \<not> IsMgmtOutcomeSuccesful jsonResult
          then ret (Some (failed ''Cannot get the list of in-doubt transactions of the pod'' [podName] []))
          else (case as_map (json_get jsonResult ''result'') of
             Some (_ # _) \<Rightarrow>
               do { found \<leftarrow> heuristicCheck K podName pod heuristic_types;
                    (case found of
                       Some c \<Rightarrow> ret (Some c)
                     | None \<Rightarrow> ret (Some (recovery, [''A recovery scan is needed as the log store of the pod is not empty'', podName], None))) }
           | _ \<Rightarrow> ret None)) }) }"

definition lsCommand :: "string list" where
  "lsCommand = [''/bin/sh'', ''-c'', ''ls ${JBOSS_HOME}/'' @ StandaloneServerDataDirRelativePath @ ''/'' @
     wftcDataDirName @ ''/ 2> /dev/null || true'']"

definition dataDirectoryCheck :: "'e Kube \<Rightarrow> string \<Rightarrow> Pod \<Rightarrow> ('e, check) kop" where
  "dataDirectoryCheck K podName pod =
     do { (commandResult, err) \<leftarrow> Execute K pod lsCommand;
          if err \<noteq> None
          then ret (failed ''Cannot query the filesystem of the pod to check existing remote transactions'' (podName # lsCommand) [])
          else if commandResult \<noteq> ''''
          then ret (recovery, [''WildFly data directory is not empty and the scaling down of the pod will be retried'', podName, commandResult], None)
          else ret (clean, [], None) }"

definition checkRecovery :: "'e Kube \<Rightarrow> Pod \<Rightarrow> WildFlyServer \<Rightarrow> ('e, check \<times> Pod) kop" where
  "checkRecovery K pod w =
     do { timestamp \<leftarrow> ObtainLogLatestTimestamp K pod;
          (case timestamp of
             Inl e \<Rightarrow> ret (failed ''The pod is not ready to be scaled down, please verify its state'' [pod_Name pod, wf_Name w] [e], pod)
           | Inr logTimestampAtStart \<Rightarrow>
     do { (port, pod1) \<leftarrow> recoveryPort K (pod_Name pod) pod w;
          (case port of
             Inl c \<Rightarrow> ret (c, pod1)
           | Inr p \<Rightarrow>
     do { (scanFailure, pod2) \<leftarrow> recoveryScan K (pod_Name pod) (pod_PodIP pod) pod1 p;
          (case scanFailure of
             Some c \<Rightarrow> ret (c, pod2)
           | None \<Rightarrow>
     do { logFailure \<leftarrow> recoveryLogCheck K (pod_Name pod) pod2 logTimestampAtStart;
          (case logFailure of
             Some c \<Rightarrow> ret (c, pod2)
           | None \<Rightarrow>
     do { inDoubt \<leftarrow> inDoubtCheck K (pod_Name pod) pod2;
          (case inDoubt of
             Some c \<Rightarrow> ret (c, pod2)
           | None \<Rightarrow> do { c \<leftarrow> dataDirectoryCheck K (pod_Name pod) pod2; ret (c, pod2) }) }) }) }) }) }"

section \<open>Preparation of a server for recovery\<close>

definition setPeriodOps :: string where
  "setPeriodOps = MgmtOpSystemPropertyRecoveryBackoffPeriod ''1'' @ '','' @
     MgmtOpSystemPropertyOrphanSafetyInterval ''1''"

definition disableTMOp :: string where
  "disableTMOp = MgmtOpSystemPropertyTransactionManagerDisabled ''true''"

definition setupRecoveryPropertiesAndRestart ::
  "'e Kube \<Rightarrow> Pod \<Rightarrow> WildFlyServer \<Rightarrow> ('e, (int \<times> error option) \<times> Pod) kop" where
  "setupRecoveryPropertiesAndRestart K pod w =
     (if pod_Phase pod \<noteq> ''Running'' then ret ((requeueLater, None), pod) else
     do { (isRunning, errCli) \<leftarrow> IsAppServerRunningViaJBossCli K pod;
          if \<not> isRunning then ret ((requeueLater, None), pod) else
          if map_get (om_Annotations (pod_Meta pod)) markerRecoveryPropertiesSetup \<noteq> ''''
          then ret ((requeueOff, None), pod) else
     do { (jsonResult, errExecution) \<leftarrow> ExecuteMgmtOp K pod (setPeriodOps @ '','' @ disableTMOp);
          if \<not> IsMgmtOutcomeSuccesful jsonResult \<and>
             ConvertToString_ignoring (ReadJSONDataByIndex (VMap jsonResult) [''rolled-back'']) \<noteq> ''true''
          then ret ((requeueLater, Some (Errorf ''Error on setting up the back-off and orphan detection periods''
                 [setPeriodOps, pod_Name pod] (case errExecution of None \<Rightarrow> [] | Some e \<Rightarrow> [e]))), pod)
          else
     do { _ \<leftarrow> Execute K pod [''/bin/sh'', ''-c'', ''mkdir /tmp/markerdir && touch /tmp/markerdir/wf-cli-shutdown-initiated || true''];
          _ \<leftarrow> ExecuteMgmtOp K pod ''/system-property=org.wildfly.internal.cli.boot.hook.marker.dir:add(value=/tmp/markerdir)'';
          err \<leftarrow> ExecuteOpAndWaitForServerBeingReady K MgmtOpRestart pod;
          (case err of
             Some e \<Rightarrow>
               do { _ \<leftarrow> Delete K w (ObjPod pod);
                    ret ((requeueNow, Some (Errorf ''Cannot restart application server after setting up the periodic recovery properties. The pod was deleted to be restarted for new recovery attempt'' [pod_Name pod] [e])), pod) }
           | None \<Rightarrow>
               (let annotations = MapMerge (om_Annotations (pod_Meta pod)) (Some [markerRecoveryPropertiesSetup \<mapsto> ''true'']);
                    pod1 = set_annotations (Some annotations) pod
                in do { (err, pod2) \<leftarrow> Patch K w pod1 pod;
                        (case err of
                           Some e \<Rightarrow> ret ((requeueNow, Some (Errorf ''Failed to update pod annotations'' [pod_Name pod] [e])), pod2)
                         | None \<Rightarrow> ret ((requeueOff, None), pod2)) })) }}})"

section \<open>Labels of the pods that are scaled down\<close>

text \<open>A write to the nil map of labels panics.\<close>

definition updatePodLabel ::
  "'e Kube \<Rightarrow> WildFlyServer \<Rightarrow> Pod \<Rightarrow> string \<Rightarrow> string \<Rightarrow> ('e, (bool \<times> error option) outcome) kop" where
  "updatePodLabel K w pod labelName labelValue =
     (if map_get (om_Labels (pod_Meta pod)) labelName \<noteq> labelValue then
        (case om_Labels (pod_Meta pod) of
           None \<Rightarrow> ret Panic
         | Some labels \<Rightarrow>
             do { (err, _) \<leftarrow> Patch K w
                    (pod\<lparr>pod_Meta := (pod_Meta pod)\<lparr>om_Labels := Some (labels(labelName \<mapsto> labelValue))\<rparr>\<rparr>) pod;
                  (case err of
                     Some e \<Rightarrow> ret (Ret (False, Some (Errorf ''Failed to update pod labels'' [pod_Name pod, labelName, labelValue] [e])))
                   | None \<Rightarrow> ret (Ret (True, None))) })
      else ret (Ret (False, None)))"

text \<open>
  The loop of \<open>setLabelAsDisabled\<close> at \<open>scaleDownIndex\<close> with \<open>left\<close> iterations to go; the
  errors are collected as a list.
\<close>

fun setLabelAsDisabled_loop ::
  "'e Kube \<Rightarrow> WildFlyServer \<Rightarrow> string \<Rightarrow> Pod list \<Rightarrow> nat \<Rightarrow> nat \<Rightarrow> bool \<Rightarrow> error list
   \<Rightarrow> ('e, (bool \<times> error option) outcome) kop" where
  "setLabelAsDisabled_loop K w labelName items 0 scaleDownIndex reconciliationNeeded errs =
     (if errs \<noteq> [] then ret (Ret (True, Some (Errorf ''errors'' [] errs)))
      else ret (Ret (reconciliationNeeded, None)))"
| "setLabelAsDisabled_loop K w labelName items (Suc left) scaleDownIndex reconciliationNeeded errs =
     (if scaleDownIndex = 0 \<or> scaleDownIndex > length items
      then ret (Ret (False, Some (Errorf ''Cannot update pod label as there is no such active pod in list'' [] [])))
      else
        do { r \<leftarrow> updatePodLabel K w (items ! (length items - scaleDownIndex)) labelName markerServiceDisabled;
             (case r of
                Panic \<Rightarrow> ret Panic
              | Ret (updateRequireReconciliation, err) \<Rightarrow>
                  setLabelAsDisabled_loop K w labelName items left (scaleDownIndex + 1)
                    (reconciliationNeeded \<or> err = None \<and> updateRequireReconciliation)
                    (case err of None \<Rightarrow> errs | Some e \<Rightarrow> errs @ [e])) })"

definition setLabelAsDisabled ::
  "'e Kube \<Rightarrow> WildFlyServer \<Rightarrow> string \<Rightarrow> int \<Rightarrow> Pod list \<Rightarrow> ('e, (bool \<times> error option) outcome) kop" where
  "setLabelAsDisabled K w labelName numberOfPodsToScaleDown items =
     setLabelAsDisabled_loop K w labelName items (nat numberOfPodsToScaleDown) 1 False []"

section \<open>Scale down without recovery\<close>

definition isJDBCLogStoreInUse :: "'e Kube \<Rightarrow> Pod \<Rightarrow> ('e, error + bool) kop" where
  "isJDBCLogStoreInUse K pod =
     do { r \<leftarrow> ExecuteAndGetResult K pod MgmtOpTxnCheckJdbcStore;
          (case r of
             Inl e \<Rightarrow> ret (Inl (Errorf ''Failed to verify if the transaction subsystem uses JDBC object store'' [] [e]))
           | Inr isJDBCTxnStore \<Rightarrow>
               (case ConvertToString isJDBCTxnStore of
                  Inl e \<Rightarrow> ret (Inl (Errorf ''Failed to verify if the transaction subsystem uses JDBC object store'' [] [e]))
                | Inr s \<Rightarrow> (case ParseBool s of None \<Rightarrow> ret (Inl (NumError s)) | Some b \<Rightarrow> ret (Inr b)))) }"

definition mark_clean :: "WildFlyServer \<Rightarrow> Pod \<Rightarrow> WildFlyServer" where
  "mark_clean w pod =
     (case getWildflyServerPodStatusByName w (pod_Name pod) of
        None \<Rightarrow> w | Some i \<Rightarrow> update_entry i (with_state PodStateScalingDownClean) w)"

definition set_scalingdown :: "int \<Rightarrow> WildFlyServer \<Rightarrow> WildFlyServer" where
  "set_scalingdown n w = w\<lparr>wf_Status := (wf_Status w)\<lparr>st_ScalingdownPods := wrap32 n\<rparr>\<rparr>"

text \<open>
  The loop visits the last \<open>numberOfPodsToScaleDown\<close> pods from the end of the list; an index
  before the first pod panics. An error of the status update is only logged.
\<close>

definition skipRecoveryAndForceScaleDown ::
  "'e Kube \<Rightarrow> WildFlyServer \<Rightarrow> int \<Rightarrow> Pod list \<Rightarrow> ('e, ((int \<times> error option) \<times> WildFlyServer) outcome) kop" where
  "skipRecoveryAndForceScaleDown K w numberOfPodsToScaleDown items =
     (if nat numberOfPodsToScaleDown > length items then ret Panic else
      (let w1 = foldl mark_clean w (take (nat numberOfPodsToScaleDown) (rev items))
       in do { (_, w2) \<leftarrow> UpdateWildFlyServerStatus K (set_scalingdown numberOfPodsToScaleDown w1);
               ret (Ret ((requeueOff, None), w2)) }))"

section \<open>Recovery of the pods that are scaled down\<close>

text \<open>
  What the goroutines share: the WildFlyServer whose status entries they write, the requeue
  decision, the errors by pod name and the flag that the status needs an update.
\<close>

record RecoveryState =
  rs_Server :: WildFlyServer
  rs_mustReconcile :: int
  rs_errors :: "(string \<times> error) list"
  rs_needsUpdating :: bool

definition store_error :: "string \<Rightarrow> error \<Rightarrow> RecoveryState \<Rightarrow> RecoveryState" where
  "store_error name e s = s\<lparr>rs_errors := AList.update name e (rs_errors s)\<rparr>"

definition set_entry :: "nat \<Rightarrow> (PodStatus \<Rightarrow> PodStatus) \<Rightarrow> RecoveryState \<Rightarrow> RecoveryState" where
  "set_entry i f s = s\<lparr>rs_Server := update_entry i f (rs_Server s), rs_needsUpdating := True\<rparr>"

definition raise_requeue :: "int \<Rightarrow> RecoveryState \<Rightarrow> RecoveryState" where
  "raise_requeue needsReconcile s =
     (if needsReconcile > rs_mustReconcile s then s\<lparr>rs_mustReconcile := needsReconcile\<rparr> else s)"

text \<open>\<open>checkRecovery\<close> is run twice; the first error ends the goroutine.\<close>

definition checkRecoveryTwice ::
  "'e Kube \<Rightarrow> Pod \<Rightarrow> WildFlyServer \<Rightarrow> ('e, (error + checkResult) \<times> Pod) kop" where
  "checkRecoveryTwice K pod w =
     do { ((outcome1, _, err1), pod1) \<leftarrow> checkRecovery K pod w;
          (case err1 of
             Some e \<Rightarrow> ret (Inl e, pod1)
           | None \<Rightarrow>
     do { ((outcome2, _, err2), pod2) \<leftarrow> checkRecovery K pod1 w;
          (case err2 of Some e \<Rightarrow> ret (Inl e, pod2) | None \<Rightarrow> ret (Inr outcome2, pod2)) }) }"

text \<open>What the outcome of the check does to the entry at \<open>i\<close>.\<close>

definition recordOutcome :: "nat \<Rightarrow> string \<Rightarrow> checkResult \<Rightarrow> RecoveryState \<Rightarrow> ('e, RecoveryState) kop" where
  "recordOutcome i name outcome s =
     (let state = ps_State (wf_Pods (rs_Server s) ! i) in
      case outcome of
        clean \<Rightarrow>
          ret (if state \<noteq> PodStateScalingDownClean
               then set_entry i (with_state PodStateScalingDownClean) s else s)
      | recovery \<Rightarrow>
          ret (set_entry i (\<lambda>v. v\<lparr>ps_State := PodStateScalingDownRecoveryProcessing,
                 ps_RecoveryCounter := wrap32 (ps_RecoveryCounter v + 1)\<rparr>) s)
      | heuristic \<Rightarrow>
          do { _ \<leftarrow> RecordEvent ''Warning'' ''Transaction Recovery''
                 (''There are HEURISTIC transactions in '' @ name @ ''! Please, resolve them manually!'');
               ret (if state \<noteq> PodStateScalingDownRecoveryHeuristic
                    then set_entry i (with_state PodStateScalingDownRecoveryHeuristic) s else s) }
      | genericError \<Rightarrow> ret s)"

text \<open>One goroutine; the entry of a pod that has none is a nil pointer.\<close>

definition recoverPod :: "'e Kube \<Rightarrow> Pod \<Rightarrow> RecoveryState \<Rightarrow> ('e, RecoveryState outcome) kop" where
  "recoverPod K pod s =
     (case getWildflyServerPodStatusByName (rs_Server s) (pod_Name pod) of
        None \<Rightarrow> ret Panic
      | Some i \<Rightarrow>
          if ps_State (wf_Pods (rs_Server s) ! i) = PodStateScalingDownClean then ret (Ret s) else
     do { ((needsReconcile, setupErr), pod1) \<leftarrow> setupRecoveryPropertiesAndRestart K pod (rs_Server s);
          let s1 = raise_requeue needsReconcile s;
          (case setupErr of
             Some e \<Rightarrow> ret (Ret (store_error (pod_Name pod1) e s1))
           | None \<Rightarrow>
               if needsReconcile \<noteq> requeueOff then ret (Ret s1) else
     do { (checked, pod2) \<leftarrow> checkRecoveryTwice K pod1 (rs_Server s1);
          (case checked of
             Inl e \<Rightarrow> ret (Ret (store_error (pod_Name pod2) e s1))
           | Inr outcome \<Rightarrow>
               do { s2 \<leftarrow> recordOutcome i (pod_Name pod2) outcome s1; ret (Ret s2) }) }) })"

fun recoverPods :: "'e Kube \<Rightarrow> Pod list \<Rightarrow> RecoveryState \<Rightarrow> ('e, RecoveryState outcome) kop" where
  "recoverPods K [] s = ret (Ret s)"
| "recoverPods K (pod # pods) s =
     do { r \<leftarrow> recoverPod K pod s;
          (case r of Panic \<Rightarrow> ret Panic | Ret s' \<Rightarrow> recoverPods K pods s') }"

text \<open>The running ones of the last pods, from the end of the list.\<close>

definition podsToScaleDown :: "int \<Rightarrow> Pod list \<Rightarrow> Pod list outcome" where
  "podsToScaleDown numberOfPodsToScaleDown items =
     (if nat numberOfPodsToScaleDown > length items then Panic
      else Ret (filter (\<lambda>pod. pod_Phase pod = ''Running'') (take (nat numberOfPodsToScaleDown) (rev items))))"

text \<open>Active pods are moved to the investigation; the flag tells whether there was one.\<close>

fun startInvestigation :: "Pod list \<Rightarrow> WildFlyServer \<times> bool \<Rightarrow> (WildFlyServer \<times> bool) outcome" where
  "startInvestigation [] wu = Ret wu"
| "startInvestigation (pod # pods) (w, update) =
     (case getWildflyServerPodStatusByName w (pod_Name pod) of
        None \<Rightarrow> Panic
      | Some i \<Rightarrow>
          if ps_State (wf_Pods w ! i) = PodStateActive
          then startInvestigation pods (update_entry i (with_state PodStateScalingDownRecoveryInvestigation) w, True)
          else startInvestigation pods (w, update))"

definition scaledownError :: "(string \<times> error) list \<Rightarrow> error option" where
  "scaledownError errs = (if errs \<noteq> [] then
     Some (Errorf ''Found errors'' [FormatInt (int (length errs))] (map snd errs)) else None)"

text \<open>From the investigation to the result.\<close>

definition recoverAndUpdate ::
  "'e Kube \<Rightarrow> WildFlyServer \<Rightarrow> int \<Rightarrow> Pod list \<Rightarrow> ('e, ((int \<times> error option) \<times> WildFlyServer) outcome) kop" where
  "recoverAndUpdate K w numberOfPodsToScaleDown pods =
     do { r \<leftarrow> recoverPods K (k_Schedule K pods)
                \<lparr>rs_Server = w, rs_mustReconcile = requeueOff, rs_errors = [], rs_needsUpdating = False\<rparr>;
          (case r of
             Panic \<Rightarrow> ret Panic
           | Ret s \<Rightarrow>
     do { _ \<leftarrow> (if rs_errors s \<noteq> [] then RecordEvent ''Warning'' ''WildFlyServerScaledown''
                  ''Errors during transaction recovery scaledown processing. Consult operator log.'' else ret ());
          if rs_needsUpdating s then
            do { (err, w') \<leftarrow> UpdateWildFlyServerStatus K (set_scalingdown numberOfPodsToScaleDown (rs_Server s));
                 (case err of
                    Some e \<Rightarrow> ret (Ret ((requeueNow, Some (Errorf ''Error to update state of WildflyServer after recovery processing for pods'' []
                       (e # (case scaledownError (rs_errors s) of None \<Rightarrow> [] | Some r \<Rightarrow> [r])))), w'))
                  | None \<Rightarrow> ret (Ret ((rs_mustReconcile s, scaledownError (rs_errors s)), w'))) }
          else ret (Ret ((rs_mustReconcile s, scaledownError (rs_errors s)), rs_Server s)) }) }"

definition startRecovery ::
  "'e Kube \<Rightarrow> WildFlyServer \<Rightarrow> int \<Rightarrow> Pod list \<Rightarrow> ('e, ((int \<times> error option) \<times> WildFlyServer) outcome) kop" where
  "startRecovery K w numberOfPodsToScaleDown items =
     (case podsToScaleDown numberOfPodsToScaleDown items of
        Panic \<Rightarrow> ret Panic
      | Ret pods \<Rightarrow>
          if pods = [] then ret (Ret ((requeueLater, None), w)) else
          (case startInvestigation pods (w, False) of
             Panic \<Rightarrow> ret Panic
           | Ret (w1, update) \<Rightarrow>
               if update then
                 do { (err, w2) \<leftarrow> UpdateWildFlyServerStatus K (set_scalingdown numberOfPodsToScaleDown w1);
                      (case err of
                         Some e \<Rightarrow> ret (Ret ((requeueNow, Some (Errorf ''Failed to update the state of the WildflyServer resource'' [] [e])), w2))
                       | None \<Rightarrow> recoverAndUpdate K w2 numberOfPodsToScaleDown pods) }
               else recoverAndUpdate K w1 numberOfPodsToScaleDown pods))"

definition processTransactionRecoveryScaleDown ::
  "'e Kube \<Rightarrow> WildFlyServer \<Rightarrow> int \<Rightarrow> Pod list \<Rightarrow> ('e, ((int \<times> error option) \<times> WildFlyServer) outcome) kop" where
  "processTransactionRecoveryScaleDown K w numberOfPodsToScaleDown items =
     (if items = [] \<or> numberOfPodsToScaleDown = 0 then ret (Ret ((requeueOff, None), w))
      else if length (wf_Pods w) \<noteq> length items then ret (Ret ((requeueLater, None), w))
      else if sp_BootableJar (wf_Spec w) \<or> sp_DeactivateTransactionRecovery (wf_Spec w)
      then skipRecoveryAndForceScaleDown K w numberOfPodsToScaleDown items
      else
     do { subsystemsList \<leftarrow> ListSubsystems K (hd items);
          (case subsystemsList of
             Inl e \<Rightarrow> ret (Ret ((requeueLater, Some e), w))
           | Inr subsystems \<Rightarrow>
               if \<not> ContainsInList subsystems ''transactions''
               then skipRecoveryAndForceScaleDown K w numberOfPodsToScaleDown items
               else if (case sp_Storage (wf_Spec w) of None \<Rightarrow> True | Some storage \<Rightarrow> sg_EmptyDir storage \<noteq> None)
               then
     do { isJDBCObjectStore \<leftarrow> isJDBCLogStoreInUse K (hd items);
          (case isJDBCObjectStore of
             Inl e \<Rightarrow> ret (Ret ((requeueLater, Some e), w))
           | Inr inUse \<Rightarrow>
               if \<not> inUse then skipRecoveryAndForceScaleDown K w numberOfPodsToScaleDown items
               else startRecovery K w numberOfPodsToScaleDown items) }
               else startRecovery K w numberOfPodsToScaleDown items) })"

end
