(* ===== verification/Recovery_Evidence.thy ===== *)
theory Recovery_Evidence
  imports Transaction_Recovery
begin

text \<open>
  Soundness of \<open>checkRecovery\<close>: what the cluster has answered when a pod is reported clean; and
  of \<open>setLabelAsDisabled\<close>: which pods carry the disabled label when it lets the pass go on.
\<close>

section \<open>What a clean result rests on\<close>

text \<open>
  Documented behaviour of the API server, stated on the trace: the answer to a patch of a pod
  has the name and namespace of that pod, and the answer to a status update, which fails
  when the object was changed meanwhile, has the entries that were sent and the
  specification and generation the object had.
\<close>

fun echoes :: "event \<Rightarrow> bool" where
  "echoes (EvPatchPod base pod (Inr pod')) \<longleftrightarrow>
     pod_Name pod' = pod_Name pod \<and> om_Namespace (pod_Meta pod') = om_Namespace (pod_Meta pod)"
| "echoes (EvUpdateStatus w (Inr w')) \<longleftrightarrow>
     wf_Pods w' = wf_Pods w \<and> wf_Spec w' = wf_Spec w \<and> wf_Generation w' = wf_Generation w"
| "echoes _ \<longleftrightarrow> True"

abbreviation same_pod :: "Pod \<Rightarrow> Pod \<Rightarrow> bool" where
  "same_pod p q \<equiv> pod_Name p = pod_Name q \<and> om_Namespace (pod_Meta p) = om_Namespace (pod_Meta q)"

text \<open>The server answered that its recovery listener is not enabled.\<close>

definition listener_disabled :: "'e Kube \<Rightarrow> Pod \<Rightarrow> event list \<Rightarrow> bool" where
  "listener_disabled K pod evs \<longleftrightarrow> (\<exists>j. answered K pod MgmtOpTxnCheckRecoveryListener j evs \<and>
     IsMgmtOutcomeSuccesful j \<and> ParseBool (ConvertToString_ignoring (json_get j ''result'')) = Some False)"

text \<open>
  The recovery scan was answered at the address of the pod, and after it the log has no recovery
  error, the log store was probed and holds no transaction, and the directory of the
  transaction client is empty.
\<close>

definition scan_answered :: "Pod \<Rightarrow> event list \<Rightarrow> bool" where
  "scan_answered pod evs \<longleftrightarrow> (\<exists>port reply. EvExchange (pod_PodIP pod @ '':'' @ FormatInt port)
     (txnRecoveryScanCommand @ [CHR 0x0A]) (Inr reply) \<in> set evs)"

definition log_without_errors :: "Pod \<Rightarrow> event list \<Rightarrow> bool" where
  "log_without_errors pod evs \<longleftrightarrow> (\<exists>since text.
     EvLogs (om_Namespace (pod_Meta pod)) (pod_Name pod)
       \<lparr>lo_TailLines = None, lo_Timestamps = False, lo_SinceTime = Some since\<rparr> (Inr (text, None)) \<in> set evs \<and>
     log_clear match_recovery_error text)"

definition no_transactions :: "'e Kube \<Rightarrow> Pod \<Rightarrow> event list \<Rightarrow> bool" where
  "no_transactions K pod evs \<longleftrightarrow> (\<exists>j. answered K pod MgmtOpTxnProbe j evs) \<and>
     (\<exists>j. answered K pod MgmtOpTxnRead j evs \<and> IsMgmtOutcomeSuccesful j \<and>
        (\<forall>m. json_get j ''result'' = VMap m \<longrightarrow> m = []))"

definition recovered :: "'e Kube \<Rightarrow> Pod \<Rightarrow> event list \<Rightarrow> bool" where
  "recovered K pod evs \<longleftrightarrow> (\<exists>evs1 evs2. evs = evs1 @ evs2 \<and> scan_answered pod evs1 \<and>
     log_without_errors pod evs2 \<and> no_transactions K pod evs2 \<and> executed pod lsCommand '''' evs2)"

definition clean_evidence :: "'e Kube \<Rightarrow> Pod \<Rightarrow> event list \<Rightarrow> bool" where
  "clean_evidence K pod evs \<longleftrightarrow> listener_disabled K pod evs \<or> recovered K pod evs"

lemma answered_cong: "same_pod p q \<Longrightarrow> answered K p mgmtOp j evs = answered K q mgmtOp j evs"
proof -
  assume "same_pod p q"
  then have "is_reply K p mgmtOp j v = is_reply K q mgmtOp j v" for v
    by (cases "(K, p, mgmtOp, j, v)" rule: is_reply.cases) auto
  then show ?thesis by (simp add: answered_def list_ex_iff)
qed

lemma executed_cong: "same_pod p q \<Longrightarrow> executed p command res evs = executed q command res evs"
proof -
  assume "same_pod p q"
  then have "is_listing p command res v = is_listing q command res v" for v
    by (cases "(p, command, res, v)" rule: is_listing.cases) auto
  then show ?thesis by (simp add: executed_def list_ex_iff)
qed

text \<open>The parts of \<open>checkRecovery\<close>.\<close>

definition patches_only :: "event list \<Rightarrow> bool" where
  "patches_only evs \<longleftrightarrow> list_all (\<lambda>v. is_write v \<longrightarrow> (\<exists>b p r. v = EvPatchPod b p r)) evs"

lemma patches_only_append [simp]: "patches_only (xs @ ys) \<longleftrightarrow> patches_only xs \<and> patches_only ys"
  by (simp add: patches_only_def)

lemma patches_only_Nil [simp]: "patches_only []"
  by (simp add: patches_only_def)

lemma patches_only_no_write: "no_write evs \<Longrightarrow> patches_only evs"
  by (auto simp: patches_only_def list_all_iff)

lemma patches_only_patch [simp]: "patches_only [EvPatchPod b p r]"
  by (simp add: patches_only_def)

lemma patches_only_record [simp]: "patches_only [EvRecord t r m]"
  by (simp add: patches_only_def)

text \<open>A result with an error is a generic error.\<close>

definition sound_check :: "check \<Rightarrow> bool" where
  "sound_check c \<longleftrightarrow> (snd (snd c) \<noteq> None \<longrightarrow> fst c = genericError)"

abbreviation res_of :: "check \<Rightarrow> checkResult" where
  "res_of c \<equiv> fst c"

lemma failed_simps [simp]:
  "res_of (failed a b c) = genericError" "sound_check (failed a b c)" "sound_check (res, m, None)"
  by (simp_all add: failed_def sound_check_def)

lemma set_annotations_simps [simp]:
  "pod_Name (set_annotations m pod) = pod_Name pod"
  "om_Namespace (pod_Meta (set_annotations m pod)) = om_Namespace (pod_Meta pod)"
  "om_Labels (pod_Meta (set_annotations m pod)) = om_Labels (pod_Meta pod)"
  "om_Annotations (pod_Meta (set_annotations m pod)) = m"
  by (simp_all add: set_annotations_def)

lemma recoveryPort_spec:
  "does (recoveryPort K name pod w) (\<lambda>r evs. patches_only evs \<and>
     (list_all echoes evs \<longrightarrow> same_pod (snd r) pod) \<and>
     (\<forall>c. fst r = Inl c \<longrightarrow> sound_check c \<and> (res_of c = clean \<longrightarrow> listener_disabled K pod evs)))"
  unfolding recoveryPort_def queryRecoveryPort_def annotatedRecoveryPort_def Let_def
  by (intro does_rules)
     (auto simp: listener_disabled_def patches_only_no_write mgmt_result_def delete_annotation_def json_get_def)

lemmas does_recoveryPort [does_rules] = does_mono[OF recoveryPort_spec]

lemma recoveryScan_spec:
  "does (recoveryScan K name ip pod port) (\<lambda>r evs. patches_only evs \<and>
     (list_all echoes evs \<longrightarrow> same_pod (snd r) pod) \<and>
     (case fst r of
        Some c \<Rightarrow> sound_check c \<and> res_of c = genericError
      | None \<Rightarrow> (\<exists>reply. EvExchange (ip @ '':'' @ FormatInt port) (txnRecoveryScanCommand @ [CHR 0x0A]) (Inr reply) \<in> set evs)))"
  unfolding recoveryScan_def Let_def
  by (intro does_rules)
     (auto simp: patches_only_no_write delete_annotation_def split: sum.splits)

lemmas does_recoveryScan [does_rules] = does_mono[OF recoveryScan_spec]

lemma recoveryLogCheck_spec:
  "does (recoveryLogCheck K name pod since) (\<lambda>r evs. no_write evs \<and>
     (case r of
        Some c \<Rightarrow> sound_check c \<and> res_of c = genericError
      | None \<Rightarrow> log_without_errors pod evs))"
  unfolding recoveryLogCheck_def
  by (intro does_rules)
     (auto simp: log_without_errors_def log_clear_def scan_lines_empty list_all_iff)

lemmas does_recoveryLogCheck [does_rules] = does_mono[OF recoveryLogCheck_spec]

lemma heuristicCheck_spec:
  "does (heuristicCheck K name pod types) (\<lambda>r evs. no_write evs \<and>
     (case r of Some c \<Rightarrow> sound_check c \<and> res_of c \<in> {genericError, heuristic} | None \<Rightarrow> True))"
proof (induction types)
  case Nil
  show ?case by (simp add: does_return)
next
  case (Cons t types)
  show ?case unfolding heuristicCheck.simps
    by (intro does_rules does_mono[OF Cons.IH]) (auto simp: mgmt_result_def)
qed

lemmas does_heuristicCheck [does_rules] = does_mono[OF heuristicCheck_spec]

lemma inDoubtCheck_spec:
  "does (inDoubtCheck K name pod) (\<lambda>r evs. no_write evs \<and>
     (case r of Some c \<Rightarrow> sound_check c \<and> res_of c \<noteq> clean | None \<Rightarrow> no_transactions K pod evs))"
  unfolding inDoubtCheck_def
  by (intro does_rules)
     (auto simp: mgmt_result_def no_transactions_def split: option.splits)

lemmas does_inDoubtCheck [does_rules] = does_mono[OF inDoubtCheck_spec]

lemma dataDirectoryCheck_spec:
  "does (dataDirectoryCheck K name pod) (\<lambda>r evs. no_write evs \<and> sound_check r \<and>
     (res_of r = clean \<longrightarrow> executed pod lsCommand '''' evs))"
  unfolding dataDirectoryCheck_def
  by (intro does_rules) (auto simp: executed_stream_of stream_of_def)

lemmas does_dataDirectoryCheck [does_rules] = does_mono[OF dataDirectoryCheck_spec]

lemma log_without_errors_cong: "same_pod p q \<Longrightarrow> log_without_errors p evs = log_without_errors q evs"
  by (simp add: log_without_errors_def)

lemma no_transactions_cong: "same_pod p q \<Longrightarrow> no_transactions K p evs = no_transactions K q evs"
  by (simp add: no_transactions_def answered_cong[of p q])

lemma listener_disabled_append: "listener_disabled K pod evs \<Longrightarrow>
    listener_disabled K pod (xs @ evs) \<and> listener_disabled K pod (evs @ ys)"
  by (auto simp: listener_disabled_def)

lemma log_without_errors_mono: "log_without_errors pod evs \<Longrightarrow> set evs \<subseteq> set evs' \<Longrightarrow> log_without_errors pod evs'"
  by (auto simp: log_without_errors_def)

lemma answered_mono: "answered K pod mgmtOp j evs \<Longrightarrow> set evs \<subseteq> set evs' \<Longrightarrow> answered K pod mgmtOp j evs'"
  by (auto simp: answered_def list_ex_iff)

lemma no_transactions_mono: "no_transactions K pod evs \<Longrightarrow> set evs \<subseteq> set evs' \<Longrightarrow> no_transactions K pod evs'"
  unfolding no_transactions_def by (blast intro: answered_mono)

lemma recoveredI:
  assumes "EvExchange (pod_PodIP pod @ '':'' @ FormatInt port) (txnRecoveryScanCommand @ [CHR 0x0A]) (Inr reply) \<in> set evs1"
    and "same_pod pod' pod" and "log_without_errors pod' evs2" and "no_transactions K pod' evs3"
    and "executed pod' lsCommand '''' evs4"
  shows "recovered K pod (evs0 @ evs1 @ evs2 @ evs3 @ evs4)"
proof -
  have "scan_answered pod (evs0 @ evs1)" using assms(1) by (auto simp: scan_answered_def)
  moreover have "log_without_errors pod (evs2 @ evs3 @ evs4)"
    using assms(3) log_without_errors_cong[OF assms(2)] log_without_errors_mono[of pod evs2] by simp
  moreover have "no_transactions K pod (evs2 @ evs3 @ evs4)"
    using assms(4) unfolding no_transactions_cong[OF assms(2)]
    by (rule no_transactions_mono) auto
  moreover have "executed pod lsCommand '''' (evs2 @ evs3 @ evs4)"
    using assms(5) executed_cong[OF assms(2)] by simp
  ultimately show ?thesis unfolding recovered_def by (metis append.assoc)
qed

lemma clean_evidence_listener: "listener_disabled K pod evs \<Longrightarrow> clean_evidence K pod (xs @ evs)"
  by (simp add: clean_evidence_def listener_disabled_append)

lemma clean_evidence_recovered:
  assumes "EvExchange (pod_PodIP pod @ '':'' @ FormatInt port) (txnRecoveryScanCommand @ [CHR 0x0A]) (Inr reply) \<in> set evs1"
    and "same_pod pod' pod" and "log_without_errors pod' evs2" and "no_transactions K pod' evs3"
    and "executed pod' lsCommand '''' evs4"
  shows "clean_evidence K pod (xs @ ys @ evs1 @ evs2 @ evs3 @ evs4)"
  using recoveredI[OF assms, of "xs @ ys"] by (simp add: clean_evidence_def)

text \<open>What a run of \<open>checkRecovery\<close> guarantees, with the trace \<open>evs\<close> it leaves.\<close>

definition checked :: "'e Kube \<Rightarrow> Pod \<Rightarrow> check \<times> Pod \<Rightarrow> event list \<Rightarrow> bool" where
  "checked K pod r evs \<longleftrightarrow> patches_only evs \<and> sound_check (fst r) \<and>
     (list_all echoes evs \<longrightarrow> same_pod (snd r) pod \<and>
        (res_of (fst r) = clean \<longrightarrow> clean_evidence K pod evs))"

lemma checkRecovery_checked: "does (checkRecovery K pod w) (checked K pod)"
  unfolding checkRecovery_def
  by (intro does_rules)
     (auto simp: checked_def patches_only_no_write
       intro: clean_evidence_listener clean_evidence_recovered[simplified])

text \<open>
  C4: \<open>checkRecovery\<close> is sound: it reports a pod as clean only if the server answered that
  its recovery listener is disabled, or if the recovery scan was answered at the address of
  the pod and afterwards the log of the pod holds no recovery error, the probed log store
  lists no transaction and the directory of the transaction client is empty. All of these
  answers came from that pod. An error is only reported with the result \<open>genericError\<close>, and
  the only objects written are annotations of the pod.
\<close>

theorem checkRecovery_sound:
  "does (checkRecovery K pod w) (\<lambda>((res, message, err), pod') evs.
     (err \<noteq> None \<longrightarrow> res = genericError) \<and>
     list_all (\<lambda>v. is_write v \<longrightarrow> (\<exists>base p r. v = EvPatchPod base p r)) evs \<and>
     (list_all echoes evs \<and> res = clean \<longrightarrow> clean_evidence K pod evs))"
  by (rule does_mono[OF checkRecovery_checked]) (auto simp: checked_def sound_check_def patches_only_def)

text \<open>
  A server with a transaction subsystem, its logs in a database, no transaction left and an
  empty log; and a pod that is set up for recovery.
\<close>

definition idle_output :: "string \<Rightarrow> string" where
  "idle_output mgmtOp =
     (if mgmtOp = MgmtOpServerStateRead then ''running''
      else if mgmtOp = MgmtOpListSubsystems then ''transactions''
      else if mgmtOp = MgmtOpTxnCheckJdbcStore then ''true''
      else ''{}'')"

definition idle_cluster :: Cluster where
  "idle_cluster = empty_cluster\<lparr>cl_Exec := \<lambda>n cmd. if cmd = lsCommand then '''' else idle_output (last cmd)\<rparr>"

definition idle_pod :: Pod where
  "idle_pod = sample_pod\<lparr>pod_Meta := (pod_Meta sample_pod)\<lparr>om_Annotations :=
     Some [markerRecoveryPropertiesSetup \<mapsto> ''true'', markerRecoveryPort \<mapsto> ''4712'']\<rparr>\<rparr>"

lemma idle_pod_simps [simp]:
  "pod_Name idle_pod = ''quickstart-0''" "om_Namespace (pod_Meta idle_pod) = ''''"
  "pod_Phase idle_pod = ''Running''" "pod_PodIP idle_pod = ''10.0.0.1''"
  "om_Annotations (pod_Meta idle_pod) =
     Some [markerRecoveryPropertiesSetup \<mapsto> ''true'', markerRecoveryPort \<mapsto> ''4712'']"
  by (simp_all add: idle_pod_def sample_pod_def named_pod_def zero_ObjectMeta_def)

lemma run_mgmt_idle [simp]:
  "run_state (ExecuteMgmtOp fake_kube idle_pod mgmtOp) (idle_cluster, tr) =
     (([(''outcome'', VString ''success''),
        (''result'', if idle_output mgmtOp = ''{}'' then VMap [] else VString (idle_output mgmtOp))], None),
      idle_cluster, tr @ [EvConfig ''ClientConfig'' None, EvConfig ''NewForConfig'' None,
        EvConfig ''NewSPDYExecutor'' None, EvStream '''' ''quickstart-0'' ''quickstart'' (jbossCliCommand mgmtOp)
          (idle_output mgmtOp, '''', None)])"
  by (simp add: mgmt_eval idle_cluster_def jbossCliCommand_def lsCommand_def idle_output_def idle_pod_def
      sample_pod_def named_pod_def zero_ObjectMeta_def)

lemma run_ls_idle [simp]:
  "run_state (Execute fake_kube idle_pod lsCommand) (idle_cluster, tr) =
     (('''', None), idle_cluster, tr @ [EvConfig ''ClientConfig'' None, EvConfig ''NewForConfig'' None,
        EvConfig ''NewSPDYExecutor'' None, EvStream '''' ''quickstart-0'' ''quickstart'' lsCommand ('''', '''', None)])"
  by (simp add: Execute_def getKubeRestConfig_def getKubeCoreClient_def idle_cluster_def idle_pod_def
      sample_pod_def named_pod_def zero_ObjectMeta_def)

lemma idle_cluster_simps [simp]:
  "cl_Log idle_cluster = ''''" "fake_status w idle_cluster = (Inr w, idle_cluster)"
  by (simp_all add: idle_cluster_def empty_cluster_def fake_status_def replace_named_def)

lemma idle_output_simps [simp]:
  "idle_output MgmtOpServerStateRead = ''running''" "idle_output MgmtOpListSubsystems = ''transactions''"
  "idle_output MgmtOpTxnCheckJdbcStore = ''true''" "idle_output MgmtOpTxnProbe = ''{}''"
  "idle_output MgmtOpTxnRead = ''{}''"
  by (simp_all add: idle_output_def MgmtOpServerStateRead_def MgmtOpListSubsystems_def
      MgmtOpTxnCheckJdbcStore_def MgmtOpTxnProbe_def MgmtOpTxnRead_def)

lemma Atoi_4712 [simp]: "Atoi ''4712'' = Some 4712"
  by code_simp

text \<open>Every answer of the idle server is its output for the operation.\<close>

fun idle_event :: "event \<Rightarrow> bool" where
  "idle_event (EvStream ns n c cmd out) \<longleftrightarrow> (\<forall>mgmtOp. cmd = jbossCliCommand mgmtOp \<longrightarrow> out = (idle_output mgmtOp, '''', None))"
| "idle_event _ \<longleftrightarrow> True"

lemma lsCommand_neq [simp]: "lsCommand \<noteq> jbossCliCommand mgmtOp"
  by (simp add: lsCommand_def jbossCliCommand_def)

lemma run_checkRecovery_idle:
  "\<exists>evs. run_state (checkRecovery fake_kube idle_pod w) (idle_cluster, tr) =
     (((clean, [], None), idle_pod), idle_cluster, tr @ evs) \<and> list_all echoes evs \<and> list_all idle_event evs"
  by (simp add: checkRecovery_def ObtainLogLatestTimestamp_def readPodLog_def getKubeRestConfig_def
     getKubeCoreClient_def recoveryPort_def annotatedRecoveryPort_def IsMgmtOutcomeSuccesful_def
     ConvertToString_ignoring_def json_get_def recoveryScan_def SocketConnect_def recoveryLogCheck_def
     VerifyLogContainsRegexp_def log_lines_def inDoubtCheck_def dataDirectoryCheck_def
     markerRecoveryPort_def markerRecoveryPropertiesSetup_def Let_def)

theorem checkRecovery_sound_witness:
  "\<exists>evs. run_state (checkRecovery fake_kube idle_pod sample_server) (idle_cluster, []) =
     (((clean, [], None), idle_pod), idle_cluster, evs) \<and> clean_evidence fake_kube idle_pod evs"
proof -
  obtain evs where run: "run_state (checkRecovery fake_kube idle_pod sample_server) (idle_cluster, []) =
     (((clean, [], None), idle_pod), idle_cluster, evs)" and "list_all echoes evs"
    using run_checkRecovery_idle[of sample_server "[]"] by auto
  with does_run[OF checkRecovery_sound run] show ?thesis by auto
qed

section \<open>Disabling the labels\<close>

definition has_label :: "string \<Rightarrow> string \<Rightarrow> Pod \<Rightarrow> bool" where
  "has_label name value pod \<longleftrightarrow> map_get (om_Labels (pod_Meta pod)) name = value"

text \<open>The patches \<open>setLabelAsDisabled\<close> may send for the pods of a list.\<close>

definition labels_pod :: "string \<Rightarrow> Pod list \<Rightarrow> event \<Rightarrow> bool" where
  "labels_pod labelName pods v \<longleftrightarrow> (\<exists>base pod r. v = EvPatchPod base pod r \<and> base \<in> set pods \<and>
     same_pod pod base \<and> has_label labelName markerServiceDisabled pod \<and>
     \<not> has_label labelName markerServiceDisabled base)"

lemma updatePodLabel_spec:
  "does (updatePodLabel K w pod labelName markerServiceDisabled) (\<lambda>r evs.
     (has_label labelName markerServiceDisabled pod \<longrightarrow> r = Ret (False, None) \<and> evs = []) \<and>
     (\<not> has_label labelName markerServiceDisabled pod \<longrightarrow> r \<noteq> Ret (False, None) \<and>
        (r = Panic \<longrightarrow> om_Labels (pod_Meta pod) = None)) \<and>
     list_all (labels_pod labelName [pod]) evs)"
  unfolding updatePodLabel_def by (intro does_rules) (auto simp: has_label_def labels_pod_def)

lemmas does_updatePodLabel [does_rules] = does_mono[OF updatePodLabel_spec]

definition labels_result ::
  "string \<Rightarrow> nat \<Rightarrow> bool \<Rightarrow> error list \<Rightarrow> Pod list \<Rightarrow> (bool \<times> error option) outcome \<Rightarrow> event list \<Rightarrow> bool" where
  "labels_result labelName left need errs rest r evs \<longleftrightarrow>
     (r = Ret (False, None) \<longleftrightarrow> \<not> need \<and> errs = [] \<and> left \<le> length rest \<and>
        list_all (has_label labelName markerServiceDisabled) (take left rest)) \<and>
     (r = Ret (False, None) \<longrightarrow> evs = []) \<and>
     (r = Panic \<longrightarrow> (\<exists>pod\<in>set (take left rest). om_Labels (pod_Meta pod) = None)) \<and>
     list_all (labels_pod labelName (take left rest)) evs"

lemma labels_pod_mono: "labels_pod l ps v \<Longrightarrow> set ps \<subseteq> set qs \<Longrightarrow> labels_pod l qs v"
  by (auto simp: labels_pod_def)

lemma setLabelAsDisabled_loop_spec:
  "drop k (rev items) = rest \<Longrightarrow>
   does (setLabelAsDisabled_loop K w labelName items left (Suc k) need errs)
     (labels_result labelName left need errs rest)"
proof (induction left arbitrary: k need errs rest)
  case 0
  show ?case unfolding setLabelAsDisabled_loop.simps
    by (intro does_rules) (auto simp: labels_result_def)
next
  case (Suc left)
  show ?case
  proof (cases rest)
    case Nil
    with Suc.prems have "length items \<le> k" by simp
    then show ?thesis unfolding setLabelAsDisabled_loop.simps
      by (intro does_rules) (auto simp: labels_result_def Nil)
  next
    case (Cons p ps)
    with Suc.prems have k: "k < length items" by (metis drop_eq_Nil2 length_rev list.distinct(1) not_le)
    have "p = rev items ! k" using Suc.prems Cons by (metis hd_drop_conv_nth k length_rev list.sel(1))
    then have p: "items ! (length items - Suc k) = p" using k by (simp add: rev_nth)
    have ps: "drop (Suc k) (rev items) = ps"
      using Suc.prems Cons by (metis drop_Suc list.sel(3) tl_drop)
    have step: "does (setLabelAsDisabled_loop K w labelName items left (Suc k + 1) need' errs')
        (labels_result labelName left need' errs' ps)" for need' errs'
      using Suc.IH[OF ps] by simp
    have mono: "list_all (labels_pod labelName (take left ps)) evs \<Longrightarrow>
        list_all (labels_pod labelName (p # take left ps)) evs"
      "list_all (labels_pod labelName [p]) evs \<Longrightarrow>
        list_all (labels_pod labelName (p # take left ps)) evs" for evs
      by (auto simp: list_all_iff intro: labels_pod_mono)
    show ?thesis unfolding setLabelAsDisabled_loop.simps p using k
      by (intro does_rules does_mono[OF step])
         (auto simp: labels_result_def Cons mono split: option.splits)
  qed
qed

text \<open>
  C9: \<open>setLabelAsDisabled\<close> takes the pods that are scaled down out of the load balancing and
  lets the reconciliation go on only when that is done: it returns \<open>false\<close> without an error
  if and only if the last \<open>n\<close> pods exist and all carry the disabled label already, and then it
  has written nothing. Otherwise it patches only pods among the last \<open>n\<close> that are not
  disabled yet, each to carry the disabled label. It panics only on a pod without labels.
\<close>

theorem setLabelAsDisabled_spec:
  "does (setLabelAsDisabled K w labelName n items) (\<lambda>r evs.
     (r = Ret (False, None) \<longleftrightarrow> nat n \<le> length items \<and>
        list_all (has_label labelName markerServiceDisabled) (take (nat n) (rev items))) \<and>
     (r = Ret (False, None) \<longrightarrow> evs = []) \<and>
     (r = Panic \<longrightarrow> (\<exists>pod\<in>set (take (nat n) (rev items)). om_Labels (pod_Meta pod) = None)) \<and>
     list_all (labels_pod labelName (take (nat n) (rev items))) evs)"
  using setLabelAsDisabled_loop_spec[of 0 items "rev items" K w labelName "nat n" False "[]"]
  by (simp add: setLabelAsDisabled_def labels_result_def[abs_def])

theorem setLabelAsDisabled_spec_witness:
  "does (setLabelAsDisabled fake_kube sample_server MarkerOperatedByLoadbalancer 1
      [sample_pod, sample_pod\<lparr>pod_Meta := sample_meta\<lparr>om_Labels :=
         Some [MarkerOperatedByLoadbalancer \<mapsto> markerServiceDisabled]\<rparr>\<rparr>])
     (\<lambda>r evs. r = Ret (False, None) \<and> evs = [])"
  by (rule does_mono[OF setLabelAsDisabled_spec]) (simp add: has_label_def)

section \<open>The recovery port\<close>

lemma recovery_port_in_int32: "recovery_port_read K pod p evs \<Longrightarrow> in_int32 p"
  by (auto simp: recovery_port_read_def)

lemma recovery_port_read_append: "recovery_port_read K pod p evs \<Longrightarrow> recovery_port_read K pod p (xs @ evs @ ys)"
  unfolding recovery_port_read_def by (metis answered_append)

lemma FormatInt_nonempty [simp]: "FormatInt n \<noteq> []"
  by (simp add: FormatInt_def)

lemma annotated_port:
  assumes "in_int32 port" and "map_get (om_Annotations (pod_Meta pod)) markerRecoveryPort = FormatInt port"
  shows "recoveryPort K podName pod w = ret (Inr port, pod)"
  using assms in_int32_in_int64[OF assms(1)]
  by (simp add: recoveryPort_def annotatedRecoveryPort_def atoi.parse_fmt)

text \<open>
  C19: The recovery port survives in the annotation. A port that \<open>queryRecoveryPort\<close> returns is the
  one the server reported, or the default one, and it is in the annotations of the pod that was
  sent to the API server: from any pod with these annotations, in this or a later pass,
  \<open>recoveryPort\<close> reads the same port back without asking the server again.
\<close>

theorem recoveryPort_roundtrip:
  "does (queryRecoveryPort K podName pod w) (\<lambda>(r, pod2) evs. \<forall>port. r = Inr port \<longrightarrow>
     (recovery_port_read K pod port evs \<or> port = defaultRecoveryPort) \<and>
     (\<exists>pod1. EvPatchPod pod pod1 (Inr pod2) \<in> set evs \<and>
        (\<forall>K' podName' pod' w'. om_Annotations (pod_Meta pod') = om_Annotations (pod_Meta pod1) \<longrightarrow>
           recoveryPort (K' :: 'f Kube) podName' pod' w' = ret (Inr port, pod'))))"
proof -
  have again: "recoveryPort K' podName' pod' w' = ret (Inr port, pod')"
    if "in_int32 port" and "om_Annotations (pod_Meta pod') = om_Annotations (MarkServerGeneration w
      (pod_Meta (set_annotations (Some (MapMerge m (Some [markerRecoveryPort \<mapsto> FormatInt port]))) pod)))"
    for K' :: "'f Kube" and podName' pod' w' port m
    by (rule annotated_port[OF that(1)])
       (simp add: that(2) MarkServerGeneration_def set_annotations_def MapMerge_def markerRecoveryPort_def
         MarkerServerGeneration_def)
  have port0: "in_int32 defaultRecoveryPort" by (simp add: defaultRecoveryPort_def in_int32_def)
  show ?thesis unfolding queryRecoveryPort_def
    by (intro does_rules)
       (auto simp: port0 recovery_port_in_int32 again recovery_port_read_append[where ys = "[x]" for x, simplified] split: sum.splits if_splits)
qed

lemma run_query_idle:
  "\<exists>pod2 c evs. run_state (queryRecoveryPort fake_kube ''quickstart-0'' idle_pod sample_server) (idle_cluster, []) =
     ((Inr 4712, pod2), c, evs)"
  by (simp add: queryRecoveryPort_def GetTransactionRecoveryPort_def IsMgmtOutcomeSuccesful_def json_get_def
      ConvertToString_ignoring_def ParseBool_def defaultRecoveryPort_def Patch_def Let_def idle_output_def
      MgmtOpTxnCheckRecoveryListener_def MgmtOpServerStateRead_def MgmtOpListSubsystems_def MgmtOpTxnCheckJdbcStore_def
      MgmtOpTxnRecoverySocketBindingRead_def)

theorem recoveryPort_roundtrip_witness:
  "\<exists>pod2 c evs pod1. run_state (queryRecoveryPort fake_kube ''quickstart-0'' idle_pod sample_server) (idle_cluster, []) =
     ((Inr 4712, pod2), c, evs) \<and> EvPatchPod idle_pod pod1 (Inr pod2) \<in> set evs \<and>
     recoveryPort fake_kube ''quickstart-0'' pod1 sample_server = ret (Inr 4712, pod1)"
proof -
  obtain pod2 c evs where run: "run_state (queryRecoveryPort fake_kube ''quickstart-0'' idle_pod sample_server)
      (idle_cluster, []) = ((Inr 4712, pod2), c, evs)"
    using run_query_idle by (elim exE)
  from does_run[OF recoveryPort_roundtrip run] run show ?thesis by blast
qed

end
