(* ===== verification/Pod_Lifecycle.thy ===== *)
theory Pod_Lifecycle
  imports Recovery_Evidence
begin

text \<open>
  The life of a pod that is scaled down, as an abstract machine on its status entry, and the
  refinement: every status the scale down sends has evolved by steps of that machine.
\<close>

section \<open>The states of a pod\<close>

text \<open>
  The life of a pod that is scaled down, as an abstract machine on its status entry. A clean
  entry is final: every step starts from another state.
\<close>

inductive pod_step :: "PodStatus \<Rightarrow> PodStatus \<Rightarrow> bool" where
  investigate: "ps_State v = PodStateActive \<Longrightarrow>
     pod_step v (with_state PodStateScalingDownRecoveryInvestigation v)"
| process: "ps_State v \<noteq> PodStateScalingDownClean \<Longrightarrow>
     pod_step v (v\<lparr>ps_State := PodStateScalingDownRecoveryProcessing,
       ps_RecoveryCounter := wrap32 (ps_RecoveryCounter v + 1)\<rparr>)"
| heuristics: "ps_State v \<noteq> PodStateScalingDownClean \<Longrightarrow>
     pod_step v (with_state PodStateScalingDownRecoveryHeuristic v)"
| cleaned: "ps_State v \<noteq> PodStateScalingDownClean \<Longrightarrow>
     pod_step v (with_state PodStateScalingDownClean v)"

inductive_cases pod_stepE: "pod_step v v'"

abbreviation pod_steps :: "PodStatus \<Rightarrow> PodStatus \<Rightarrow> bool" where
  "pod_steps \<equiv> pod_step\<^sup>*\<^sup>*"

definition evolves :: "PodStatus list \<Rightarrow> PodStatus list \<Rightarrow> bool" where
  "evolves vs vs' \<longleftrightarrow> list_all2 pod_steps vs vs'"

lemma with_state_simps [simp]:
  "ps_Name (with_state s v) = ps_Name v" "ps_PodIP (with_state s v) = ps_PodIP v"
  "ps_State (with_state s v) = s" "ps_RecoveryCounter (with_state s v) = ps_RecoveryCounter v"
  by (simp_all add: with_state_def)

lemma with_state_id: "ps_State v = s \<Longrightarrow> with_state s v = v"
  by (cases v) (simp add: with_state_def)

lemma pod_steps_invariant:
  "pod_steps v v' \<Longrightarrow> ps_Name v' = ps_Name v \<and> ps_PodIP v' = ps_PodIP v \<and>
     (ps_State v = PodStateScalingDownClean \<longrightarrow> v' = v) \<and>
     (ps_State v' = PodStateActive \<longrightarrow> v' = v)"
proof (induction rule: rtranclp_induct)
  case (step y z)
  have "ps_Name z = ps_Name y \<and> ps_PodIP z = ps_PodIP y \<and> ps_State y \<noteq> PodStateScalingDownClean \<and>
      ps_State z \<noteq> PodStateActive"
    using step.hyps(2) by (auto elim: pod_stepE)
  with step.IH show ?case by metis
qed simp

lemma evolves_refl [simp]: "evolves vs vs"
  by (simp add: evolves_def list_all2_refl)

lemma evolves_trans [trans]: "evolves a b \<Longrightarrow> evolves b c \<Longrightarrow> evolves a c"
  unfolding evolves_def
  by (rule list_all2_trans[of pod_steps pod_steps pod_steps, OF rtranclp_trans])

lemma evolves_names: "evolves vs vs' \<Longrightarrow> map ps_Name vs' = map ps_Name vs"
  unfolding evolves_def by (induction rule: list_all2_induct) (auto dest: pod_steps_invariant)

lemma wf_Pods_update_entry [simp]: "wf_Pods (update_entry i f w) = (wf_Pods w)[i := f (wf_Pods w ! i)]"
  by (cases "st_Pods (wf_Status w)") (simp_all add: update_entry_def)

lemma wf_Pods_set_scalingdown [simp]: "wf_Pods (set_scalingdown n w) = wf_Pods w"
  by (simp add: set_scalingdown_def)

lemma update_entry_keeps [simp]:
  "wf_Spec (update_entry i f w) = wf_Spec w" "wf_Meta (update_entry i f w) = wf_Meta w"
  "wf_Spec (set_scalingdown n w) = wf_Spec w" "wf_Meta (set_scalingdown n w) = wf_Meta w"
  by (simp_all add: update_entry_def set_scalingdown_def)

lemma evolves_update:
  assumes "pod_step (vs ! i) v \<or> v = vs ! i"
  shows "evolves vs (vs[i := v])"
proof (cases "i < length vs")
  case True
  from assms have "pod_steps (vs ! i) v" by auto
  have "pod_steps (vs ! j) (vs[i := v] ! j)" for j
    by (cases "j = i") (use True \<open>pod_steps (vs ! i) v\<close> in simp_all)
  then show ?thesis by (simp add: evolves_def list_all2_conv_all_nth)
next
  case False
  then show ?thesis by (simp add: list_update_beyond)
qed

text \<open>
  The status over a trace: \<open>status_after\<close> is what the operator last knew of the entries, the
  answer of an update replacing what was sent; in a \<open>status_chain\<close> every status sent has
  evolved from that.
\<close>

fun status_after :: "PodStatus list \<Rightarrow> event list \<Rightarrow> PodStatus list" where
  "status_after vs [] = vs"
| "status_after vs (EvUpdateStatus w r # evs) =
     status_after (case r of Inr w' \<Rightarrow> wf_Pods w' | Inl _ \<Rightarrow> wf_Pods w) evs"
| "status_after vs (_ # evs) = status_after vs evs"

fun status_chain :: "PodStatus list \<Rightarrow> event list \<Rightarrow> bool" where
  "status_chain vs [] = True"
| "status_chain vs (EvUpdateStatus w r # evs) =
     (evolves vs (wf_Pods w) \<and> status_chain (case r of Inr w' \<Rightarrow> wf_Pods w' | Inl _ \<Rightarrow> wf_Pods w) evs)"
| "status_chain vs (_ # evs) = status_chain vs evs"

fun is_status_update :: "event \<Rightarrow> bool" where
  "is_status_update (EvUpdateStatus _ _) = True"
| "is_status_update (EvPatchStatus _ _ _) = True"
| "is_status_update _ = False"

lemma status_append [simp]:
  "status_after vs (a @ b) = status_after (status_after vs a) b"
  "status_chain vs (a @ b) \<longleftrightarrow> status_chain vs a \<and> status_chain (status_after vs a) b"
  by (induction vs a rule: status_after.induct) auto

lemma status_quiet:
  "list_all (\<lambda>v. \<not> is_status_update v) evs \<Longrightarrow> status_after vs evs = vs \<and> status_chain vs evs"
  by (induction vs evs rule: status_after.induct) auto

lemma no_write_no_status: "no_write evs \<Longrightarrow> list_all (\<lambda>v. \<not> is_status_update v) evs"
  by (auto simp: list_all_iff elim!: is_status_update.elims)

lemma patches_only_no_status: "patches_only evs \<Longrightarrow> list_all (\<lambda>v. \<not> is_status_update v) evs"
  by (fastforce simp: patches_only_def list_all_iff elim!: is_status_update.elims)

text \<open>A stage of the scale down: it keeps the status on the chain.\<close>

definition tracks :: "PodStatus list \<Rightarrow> ('r \<times> WildFlyServer) outcome \<Rightarrow> event list \<Rightarrow> bool" where
  "tracks vs r evs \<longleftrightarrow> status_chain vs evs \<and>
     (\<forall>x w'. r = Ret (x, w') \<longrightarrow> evolves (status_after vs evs) (wf_Pods w'))"

locale status_stage =
  fixes stage :: "WildFlyServer \<Rightarrow> ('e, ('r \<times> WildFlyServer) outcome) kop"
  assumes stage_tracks: "does (stage w) (tracks (wf_Pods w))"
begin

text \<open>A stage can follow events that left the status alone, or a status update.\<close>

lemma after_reads:
  "list_all (\<lambda>v. \<not> is_status_update v) evs \<Longrightarrow>
   does (stage w) (\<lambda>r evs'. tracks (wf_Pods w) r (evs @ evs'))"
  by (rule does_mono[OF stage_tracks]) (use status_quiet[of evs "wf_Pods w"] in \<open>auto simp: tracks_def\<close>)

lemma after_two_reads:
  "list_all (\<lambda>v. \<not> is_status_update v) a \<Longrightarrow> list_all (\<lambda>v. \<not> is_status_update v) b \<Longrightarrow>
   does (stage w) (\<lambda>r evs'. tracks (wf_Pods w) r (a @ b @ evs'))"
  using after_reads[of "a @ b" w] by simp

lemma after_update:
  "evolves vs (wf_Pods w) \<Longrightarrow>
   does (stage w') (\<lambda>r evs'. tracks vs r (EvUpdateStatus w (Inr w') # evs'))"
  by (rule does_mono[OF stage_tracks]) (auto simp: tracks_def)

end

lemma tracks_return:
  "list_all (\<lambda>v. \<not> is_status_update v) evs \<Longrightarrow> (\<And>x w'. r = Ret (x, w') \<Longrightarrow> evolves vs (wf_Pods w')) \<Longrightarrow>
   tracks vs r evs"
  using status_quiet[of evs vs] by (auto simp: tracks_def)

section \<open>Recovery of the pods\<close>

abbreviation rs_Pods :: "RecoveryState \<Rightarrow> PodStatus list" where
  "rs_Pods s \<equiv> wf_Pods (rs_Server s)"

abbreviation no_status_update :: "event list \<Rightarrow> bool" where
  "no_status_update evs \<equiv> list_all (\<lambda>v. \<not> is_status_update v) evs"

lemma clean_evidence_mono: "clean_evidence K pod evs \<Longrightarrow> clean_evidence K pod (xs @ evs @ ys)"
proof -
  assume "clean_evidence K pod evs"
  then show ?thesis unfolding clean_evidence_def
  proof
    assume "recovered K pod evs"
    then obtain evs1 evs2 where "evs = evs1 @ evs2" and 1: "scan_answered pod evs1"
      and 2: "log_without_errors pod evs2" "no_transactions K pod evs2" "executed pod lsCommand '''' evs2"
      unfolding recovered_def by blast
    then have "xs @ evs @ ys = (xs @ evs1) @ (evs2 @ ys)" by simp
    moreover have "scan_answered pod (xs @ evs1)" using 1 by (auto simp: scan_answered_def)
    moreover have "log_without_errors pod (evs2 @ ys)" "no_transactions K pod (evs2 @ ys)"
      "executed pod lsCommand '''' (evs2 @ ys)"
      using 2 by (auto intro: log_without_errors_mono no_transactions_mono)
    ultimately show "listener_disabled K pod (xs @ evs @ ys) \<or> recovered K pod (xs @ evs @ ys)"
      unfolding recovered_def by metis
  qed (auto simp: listener_disabled_def)
qed

text \<open>The second run decides, so the evidence is in its part of the trace.\<close>

definition proven_clean :: "'e Kube \<Rightarrow> Pod \<Rightarrow> event list \<Rightarrow> bool" where
  "proven_clean K pod evs \<longleftrightarrow> (\<exists>pod'. same_pod pod' pod \<and> clean_evidence K pod' evs)"

lemma proven_clean_mono: "proven_clean K pod evs \<Longrightarrow> proven_clean K pod (xs @ evs @ ys)"
  unfolding proven_clean_def by (blast intro: clean_evidence_mono)

lemma proven_clean_append:
  "proven_clean K pod evs \<Longrightarrow> proven_clean K pod (xs @ evs)" "proven_clean K pod evs \<Longrightarrow> proven_clean K pod (evs @ ys)"
  using proven_clean_mono[of K pod evs xs "[]"] proven_clean_mono[of K pod evs "[]" ys] by simp_all

lemma proven_clean_cong: "same_pod p q \<Longrightarrow> proven_clean K p evs \<Longrightarrow> proven_clean K q evs"
  by (auto simp: proven_clean_def)

lemma checkRecoveryTwice_spec:
  "does (checkRecoveryTwice K pod w) (\<lambda>r evs. patches_only evs \<and>
     (list_all echoes evs \<and> fst r = Inr clean \<longrightarrow> proven_clean K pod evs))"
proof -
  have step: "clean_evidence K pod1 evs2 \<Longrightarrow> pod_Name pod1 = pod_Name pod \<Longrightarrow>
      om_Namespace (pod_Meta pod1) = om_Namespace (pod_Meta pod) \<Longrightarrow> proven_clean K pod (evs1 @ evs2)"
    for pod1 evs1 evs2
    by (rule proven_clean_append) (auto simp: proven_clean_def)
  show ?thesis unfolding checkRecoveryTwice_def
    by (intro does_rules does_mono[OF checkRecovery_checked]) (auto intro: step simp: checked_def)
qed

lemmas does_checkRecoveryTwice [does_rules] = does_mono[OF checkRecoveryTwice_spec]

text \<open>The writes of the recovery to other objects than the status: pods are patched or deleted.\<close>

fun is_pod_write :: "event \<Rightarrow> bool" where
  "is_pod_write (EvPatchPod _ _ _) = True"
| "is_pod_write (EvDelete (ObjPod _) _) = True"
| "is_pod_write _ = False"

definition pods_only :: "event list \<Rightarrow> bool" where
  "pods_only evs \<longleftrightarrow> list_all (\<lambda>v. is_write v \<longrightarrow> is_pod_write v) evs"

lemma pods_only_simps [simp]:
  "pods_only (xs @ ys) \<longleftrightarrow> pods_only xs \<and> pods_only ys" "pods_only []"
  "pods_only (v # evs) \<longleftrightarrow> (is_write v \<longrightarrow> is_pod_write v) \<and> pods_only evs"
  by (simp_all add: pods_only_def)

lemma pods_only_no_write: "no_write evs \<Longrightarrow> pods_only evs"
  by (auto simp: pods_only_def list_all_iff)

lemma pods_only_patches [simp]: "patches_only evs \<Longrightarrow> pods_only evs"
  by (fastforce simp: pods_only_def patches_only_def list_all_iff)

lemma pods_only_no_status: "pods_only evs \<Longrightarrow> list_all (\<lambda>v. \<not> is_status_update v) evs"
  by (fastforce simp: pods_only_def list_all_iff elim!: is_status_update.elims)

lemma setupRecoveryPropertiesAndRestart_spec:
  "does (setupRecoveryPropertiesAndRestart K pod w) (\<lambda>r evs. pods_only evs \<and>
     (list_all echoes evs \<longrightarrow> same_pod (snd r) pod) \<and>
     fst (fst r) \<in> {requeueOff, requeueLater, requeueNow} \<and>
     (fst (fst r) = requeueOff \<longrightarrow> snd (fst r) = None))"
  unfolding setupRecoveryPropertiesAndRestart_def Let_def
  by (intro does_rules;
      clarsimp simp: mgmt_result_def pods_only_no_write state_check_def stream_of_def
        requeueOff_def requeueLater_def requeueNow_def)

lemmas does_setupRecoveryProperties [does_rules] = does_mono[OF setupRecoveryPropertiesAndRestart_spec]

text \<open>What the goroutines do to the entries of the status.\<close>

abbreviation same_server :: "WildFlyServer \<Rightarrow> WildFlyServer \<Rightarrow> bool" where
  "same_server w w' \<equiv> wf_Spec w = wf_Spec w' \<and> wf_Generation w = wf_Generation w'"

definition recovers :: "'e Kube \<Rightarrow> Pod list \<Rightarrow> RecoveryState \<Rightarrow> RecoveryState outcome \<Rightarrow> event list \<Rightarrow> bool" where
  "recovers K pods s r evs \<longleftrightarrow> pods_only evs \<and>
     (r = Panic \<longrightarrow> (\<exists>pod\<in>set pods. pod_Name pod \<notin> ps_Name ` set (rs_Pods s))) \<and>
     (\<forall>s'. r = Ret s' \<longrightarrow> evolves (rs_Pods s) (rs_Pods s') \<and>
        same_server (rs_Server s') (rs_Server s) \<and> (rs_needsUpdating s \<longrightarrow> rs_needsUpdating s') \<and>
        (\<not> rs_needsUpdating s' \<longrightarrow> rs_Server s' = rs_Server s) \<and>
        (list_all echoes evs \<longrightarrow> (\<forall>i<length (rs_Pods s).
           ps_State (rs_Pods s ! i) \<noteq> PodStateScalingDownClean \<and>
           ps_State (rs_Pods s' ! i) = PodStateScalingDownClean \<longrightarrow>
           (\<exists>pod\<in>set pods. pod_Name pod = ps_Name (rs_Pods s ! i) \<and> proven_clean K pod evs))))"

lemma set_entry_simps [simp]:
  "rs_Pods (set_entry i f s) = (rs_Pods s)[i := f (rs_Pods s ! i)]" "rs_needsUpdating (set_entry i f s)"
  "wf_Spec (rs_Server (set_entry i f s)) = wf_Spec (rs_Server s)" "wf_Meta (rs_Server (set_entry i f s)) = wf_Meta (rs_Server s)"
  by (simp_all add: set_entry_def)

lemma raise_requeue_simps [simp]:
  "rs_Server (raise_requeue n s) = rs_Server s" "rs_needsUpdating (raise_requeue n s) = rs_needsUpdating s"
  by (simp_all add: raise_requeue_def)

lemma store_error_simps [simp]:
  "rs_Server (store_error n e s) = rs_Server s" "rs_needsUpdating (store_error n e s) = rs_needsUpdating s"
  by (simp_all add: store_error_def)

lemma does_case_checkResult [does_rules]:
  "(x = clean \<Longrightarrow> does a \<Phi>) \<Longrightarrow> (x = recovery \<Longrightarrow> does b \<Phi>) \<Longrightarrow> (x = heuristic \<Longrightarrow> does c \<Phi>) \<Longrightarrow>
   (x = genericError \<Longrightarrow> does d \<Phi>) \<Longrightarrow>
   does (case x of clean \<Rightarrow> a | recovery \<Rightarrow> b | heuristic \<Rightarrow> c | genericError \<Rightarrow> d) \<Phi>"
  by (cases x) simp_all

lemma recordOutcome_spec:
  assumes "ps_State (rs_Pods s ! i) \<noteq> PodStateScalingDownClean"
  shows "does (recordOutcome i name outcome s) (\<lambda>s' evs. pods_only evs \<and> list_all echoes evs \<and>
     same_server (rs_Server s') (rs_Server s) \<and>
     (\<exists>v. rs_Pods s' = (rs_Pods s)[i := v] \<and> (pod_step (rs_Pods s ! i) v \<or> v = rs_Pods s ! i) \<and>
        (ps_State v = PodStateScalingDownClean \<longrightarrow> outcome = clean)) \<and>
     (rs_needsUpdating s \<longrightarrow> rs_needsUpdating s') \<and> (\<not> rs_needsUpdating s' \<longrightarrow> rs_Server s' = rs_Server s))"
  using assms unfolding recordOutcome_def Let_def
  by (intro does_rules) (auto intro: pod_step.intros exI[of _ "rs_Pods s ! i"])

lemma recovers_same:
  assumes "pods_only evs" and "rs_Server s' = rs_Server s" and "rs_needsUpdating s' = rs_needsUpdating s"
  shows "recovers K pods s (Ret s') evs"
  using assms by (simp add: recovers_def)

lemma recovers_entry:
  assumes "pods_only evs" and "rs_Pods s' = (rs_Pods s)[i := v]"
    and "pod_step (rs_Pods s ! i) v \<or> v = rs_Pods s ! i"
    and "podStatusIndex (pod_Name pod) (rs_Pods s) = Some i"
    and "list_all echoes evs \<Longrightarrow> ps_State v = PodStateScalingDownClean \<Longrightarrow> proven_clean K pod evs"
    and "rs_needsUpdating s \<longrightarrow> rs_needsUpdating s'" and "\<not> rs_needsUpdating s' \<longrightarrow> rs_Server s' = rs_Server s"
    and "same_server (rs_Server s') (rs_Server s)"
  shows "recovers K [pod] s (Ret s') evs"
proof -
  have i: "i < length (rs_Pods s)" "ps_Name (rs_Pods s ! i) = pod_Name pod"
    using podStatusIndex_Some[OF assms(4)] by auto
  have "proven_clean K pod evs \<and> j = i" if "list_all echoes evs"
    and "ps_State (rs_Pods s ! j) \<noteq> PodStateScalingDownClean"
    and "ps_State (rs_Pods s' ! j) = PodStateScalingDownClean" for j
    using that assms(2,5) i(1) by (cases "j = i") auto
  note clean = this
  have ev: "evolves (rs_Pods s) (rs_Pods s')" using evolves_update[OF assms(3)] assms(2) by simp
  show ?thesis unfolding recovers_def
    by (intro conjI allI impI) (use i ev assms(1,6,7,8) clean in auto)
qed

lemma recoverPod_recovers: "does (recoverPod K pod s) (recovers K [pod] s)"
proof (cases "podStatusIndex (pod_Name pod) (rs_Pods s)")
  case None
  then have "pod_Name pod \<notin> ps_Name ` set (rs_Pods s)" by (simp add: podStatusIndex_None)
  with None show ?thesis
    by (simp add: recoverPod_def getWildflyServerPodStatusByName_def does_return recovers_def)
next
  case (Some i)
  show ?thesis
  proof (cases "ps_State (rs_Pods s ! i) = PodStateScalingDownClean")
    case True
    with Some show ?thesis
      by (simp add: recoverPod_def getWildflyServerPodStatusByName_def does_return recovers_same)
  next
    case False
    then have st: "ps_State (rs_Pods (raise_requeue n s) ! i) \<noteq> PodStateScalingDownClean" for n by simp
    show ?thesis
      unfolding recoverPod_def getWildflyServerPodStatusByName_def Some Let_def option.case if_not_P[OF False]
      by (intro does_rules does_mono[OF recordOutcome_spec[OF st]],
          simp_all add: recovers_same, clarsimp, rule recovers_entry[OF _ _ _ Some])
         (auto intro: proven_clean_append proven_clean_cong)
  qed
qed

lemma evolves_nth: "evolves vs vs' \<Longrightarrow> i < length vs \<Longrightarrow> pod_steps (vs ! i) (vs' ! i)"
  by (simp add: evolves_def list_all2_conv_all_nth)

lemma evolves_length: "evolves vs vs' \<Longrightarrow> length vs' = length vs"
  by (simp add: evolves_def list_all2_lengthD)

lemma evolves_clean:
  assumes "evolves vs vs'" and "i < length vs" and "ps_State (vs ! i) = PodStateScalingDownClean"
  shows "vs' ! i = vs ! i"
  using pod_steps_invariant[OF evolves_nth[OF assms(1,2)]] assms(3) by simp

lemma evolves_name_nth: "evolves vs vs' \<Longrightarrow> i < length vs \<Longrightarrow> ps_Name (vs' ! i) = ps_Name (vs ! i)"
  using pod_steps_invariant[OF evolves_nth] by blast

lemma recovers_step:
  assumes one: "recovers K [pod] s (Ret s') evs" and rest: "recovers K pods s' r evs'"
  shows "recovers K (pod # pods) s r (evs @ evs')"
proof -
  have ev: "evolves (rs_Pods s) (rs_Pods s')" using one by (simp add: recovers_def)
  have panic: "\<exists>p\<in>set (pod # pods). pod_Name p \<notin> ps_Name ` set (rs_Pods s)" if "r = Panic"
  proof -
    have "ps_Name ` set (rs_Pods s') = ps_Name ` set (rs_Pods s)"
      using evolves_names[OF ev] by (metis list.set_map)
    with rest that show ?thesis by (auto simp: recovers_def)
  qed
  have clean: "\<exists>p\<in>set (pod # pods). pod_Name p = ps_Name (rs_Pods s ! i) \<and> proven_clean K p (evs @ evs')"
    if r: "r = Ret s2" and id: "list_all echoes (evs @ evs')" and i: "i < length (rs_Pods s)"
      and a: "ps_State (rs_Pods s ! i) \<noteq> PodStateScalingDownClean"
      and b: "ps_State (rs_Pods s2 ! i) = PodStateScalingDownClean" for s2 i
  proof (cases "ps_State (rs_Pods s' ! i) = PodStateScalingDownClean")
    case True
    with one id i a show ?thesis by (auto simp: recovers_def intro: proven_clean_append)
  next
    case False
    have "i < length (rs_Pods s')" "ps_Name (rs_Pods s' ! i) = ps_Name (rs_Pods s ! i)"
      using i evolves_length[OF ev] evolves_name_nth[OF ev i] by auto
    with rest id r False b show ?thesis by (fastforce simp: recovers_def intro: proven_clean_append)
  qed
  show ?thesis unfolding recovers_def
  proof (intro conjI allI impI)
    show "pods_only (evs @ evs')" using one rest by (simp add: recovers_def)
    fix s2 assume r: "r = Ret s2"
    show "evolves (rs_Pods s) (rs_Pods s2)"
      using ev rest r evolves_trans by (auto simp: recovers_def)
    show "wf_Spec (rs_Server s2) = wf_Spec (rs_Server s)" "wf_Generation (rs_Server s2) = wf_Generation (rs_Server s)"
      using one rest r by (simp_all add: recovers_def)
    show "rs_needsUpdating s \<Longrightarrow> rs_needsUpdating s2" using one rest r by (simp add: recovers_def)
    show "\<not> rs_needsUpdating s2 \<Longrightarrow> rs_Server s2 = rs_Server s"
      using one rest r by (auto simp: recovers_def)
  qed (use panic clean in blast)+
qed

lemma recoverPods_recovers: "does (recoverPods K pods s) (recovers K pods s)"
proof (induction pods arbitrary: s)
  case Nil
  show ?case by (simp add: does_return recovers_same)
next
  case (Cons pod pods)
  show ?case unfolding recoverPods.simps
    by (intro does_rules does_mono[OF recoverPod_recovers] does_mono[OF Cons.IH])
       (auto intro: recovers_step, auto simp: recovers_def)
qed

lemmas does_recoverPods [does_rules] = does_mono[OF recoverPods_recovers]

lemma recoverAndUpdate_tracks: "does (recoverAndUpdate K w n pods) (tracks (wf_Pods w))"
  unfolding recoverAndUpdate_def
  by (intro does_rules) (auto simp: recovers_def tracks_def status_quiet pods_only_no_status)

interpretation recovery_stage: status_stage "\<lambda>w. recoverAndUpdate K w n pods" for K n pods
  by unfold_locales (rule recoverAndUpdate_tracks)

lemma startInvestigation_evolves:
  "startInvestigation pods (w, u) = Ret (w', u') \<Longrightarrow> evolves (wf_Pods w) (wf_Pods w') \<and> (\<not> u' \<longrightarrow> w' = w)"
proof (induction pods arbitrary: w u)
  case (Cons pod pods)
  then obtain i where i: "getWildflyServerPodStatusByName w (pod_Name pod) = Some i"
    by (auto split: option.splits)
  show ?case
  proof (cases "ps_State (wf_Pods w ! i) = PodStateActive")
    case True
    let ?w1 = "update_entry i (with_state PodStateScalingDownRecoveryInvestigation) w"
    have "evolves (wf_Pods w) (wf_Pods ?w1)"
      using True by (simp add: evolves_update pod_step.investigate)
    moreover have "startInvestigation pods (?w1, True) = Ret (w', u')" using Cons.prems i True by simp
    moreover have "u' \<or> \<not> u" if "startInvestigation ps (w0, u) = Ret (w', u')" for ps w0 u
      using that by (induction ps arbitrary: w0 u) (auto split: option.splits if_splits)
    ultimately show ?thesis using Cons.IH evolves_trans by blast
  qed (use Cons i in auto)
qed simp

lemma startRecovery_tracks: "does (startRecovery K w n items) (tracks (wf_Pods w))"
proof -
  have quiet: "does (recoverAndUpdate K w1 n pods) (tracks (wf_Pods w))"
    if "startInvestigation pods (w, False) = Ret (w1, u)" "\<not> u" for pods w1 u
    using startInvestigation_evolves[OF that(1)] that(2) recoverAndUpdate_tracks by metis
  have ev: "startInvestigation pods (w, False) = Ret (w1, u) \<Longrightarrow> evolves (wf_Pods w) (wf_Pods w1)" for pods w1 u
    using startInvestigation_evolves by blast
  show ?thesis unfolding startRecovery_def
    by (intro does_rules quiet)
       (auto simp: tracks_def dest!: ev intro!: does_mono[OF recoverAndUpdate_tracks])
qed

interpretation investigation_stage: status_stage "\<lambda>w. startRecovery K w n items" for K n items
  by unfold_locales (rule startRecovery_tracks)

lemma evolves_mark_clean: "evolves (wf_Pods w) (wf_Pods (mark_clean w pod))"
proof (cases "podStatusIndex (pod_Name pod) (wf_Pods w)")
  case (Some i)
  have "pod_step (wf_Pods w ! i) (with_state PodStateScalingDownClean (wf_Pods w ! i)) \<or>
      with_state PodStateScalingDownClean (wf_Pods w ! i) = wf_Pods w ! i"
    by (cases "ps_State (wf_Pods w ! i) = PodStateScalingDownClean")
       (auto intro: pod_step.cleaned simp: with_state_id)
  with Some show ?thesis
    by (simp add: mark_clean_def getWildflyServerPodStatusByName_def evolves_update)
qed (simp add: mark_clean_def getWildflyServerPodStatusByName_def)

lemma evolves_mark_clean_fold: "evolves (wf_Pods w) (wf_Pods (foldl mark_clean w pods))"
  by (induction pods arbitrary: w) (auto intro: evolves_trans evolves_mark_clean)

lemma skipRecovery_tracks: "does (skipRecoveryAndForceScaleDown K w n items) (tracks (wf_Pods w))"
  unfolding skipRecoveryAndForceScaleDown_def Let_def
  by (intro does_rules) (auto simp: tracks_def evolves_mark_clean_fold)

interpretation skip_stage: status_stage "\<lambda>w. skipRecoveryAndForceScaleDown K w n items" for K n items
  by unfold_locales (rule skipRecovery_tracks)

lemma isJDBCLogStoreInUse_spec:
  "does (isJDBCLogStoreInUse K pod) (\<lambda>r evs. no_write evs \<and> (\<forall>b. r = Inr b \<longrightarrow>
     (\<exists>v s. result_read K pod MgmtOpTxnCheckJdbcStore v evs \<and> ConvertToString v = Inr s \<and> ParseBool s = Some b)))"
  unfolding isJDBCLogStoreInUse_def by (intro does_rules) auto

lemmas does_isJDBCLogStoreInUse [does_rules] = does_mono[OF isJDBCLogStoreInUse_spec]

lemma processTransactionRecovery_tracks:
  "does (processTransactionRecoveryScaleDown K w n items) (tracks (wf_Pods w))"
  unfolding processTransactionRecoveryScaleDown_def
  by (intro does_rules skipRecovery_tracks)
     (auto simp: no_write_no_status intro!: tracks_return skip_stage.after_reads skip_stage.after_two_reads
       investigation_stage.after_reads investigation_stage.after_two_reads)

interpretation scaledown_stage: status_stage "\<lambda>w. processTransactionRecoveryScaleDown K w n items" for K n items
  by unfold_locales (rule processTransactionRecovery_tracks)

text \<open>
  C5: The status entries the scale down sends to the API server follow the life of a pod: from
  what the operator last knew, an entry moves from active to the investigation, and from any
  state but clean to processing (with the counter increased by one), heuristics or clean.
  Names and addresses never change, a clean pod stays clean and no pod returns to active.
\<close>

theorem scaledown_lifecycle:
  "does (processTransactionRecoveryScaleDown K w n items) (\<lambda>r evs.
     status_chain (wf_Pods w) evs \<and>
     (\<forall>x w'. r = Ret (x, w') \<longrightarrow> evolves (status_after (wf_Pods w) evs) (wf_Pods w'))) \<and>
   (\<forall>vs vs'. evolves vs vs' \<longrightarrow> map ps_Name vs' = map ps_Name vs \<and>
     (\<forall>i<length vs. (ps_State (vs ! i) = PodStateScalingDownClean \<longrightarrow> vs' ! i = vs ! i) \<and>
        (ps_State (vs' ! i) = PodStateActive \<longrightarrow> vs' ! i = vs ! i)))"
proof
  show "does (processTransactionRecoveryScaleDown K w n items) (\<lambda>r evs.
     status_chain (wf_Pods w) evs \<and>
     (\<forall>x w'. r = Ret (x, w') \<longrightarrow> evolves (status_after (wf_Pods w) evs) (wf_Pods w')))"
    using scaledown_stage.stage_tracks[of K w n items] by (simp add: tracks_def[abs_def])
  show "\<forall>vs vs'. evolves vs vs' \<longrightarrow> map ps_Name vs' = map ps_Name vs \<and>
     (\<forall>i<length vs. (ps_State (vs ! i) = PodStateScalingDownClean \<longrightarrow> vs' ! i = vs ! i) \<and>
        (ps_State (vs' ! i) = PodStateActive \<longrightarrow> vs' ! i = vs ! i))"
    using evolves_names pod_steps_invariant[OF evolves_nth] by blast
qed

section \<open>What the scale down leaves alone\<close>

text \<open>
  The scale down writes the status and pods only, and hands on a WildFlyServer with the
  specification and generation it was given.
\<close>

definition keeps_server :: "WildFlyServer \<Rightarrow> ('r \<times> WildFlyServer) outcome \<Rightarrow> event list \<Rightarrow> bool" where
  "keeps_server w r evs \<longleftrightarrow> list_all (\<lambda>v. is_object_write v \<longrightarrow> is_pod_write v) evs \<and>
     (list_all echoes evs \<longrightarrow> (\<forall>x w'. r = Ret (x, w') \<longrightarrow> same_server w' w))"

lemma no_write_object [simp]: "no_write evs \<Longrightarrow> list_all (\<lambda>v. is_object_write v \<longrightarrow> is_pod_write v) evs"
  by (auto simp: list_all_iff elim!: is_object_write.elims)

lemma pods_only_object [simp]: "pods_only evs \<Longrightarrow> list_all (\<lambda>v. is_object_write v \<longrightarrow> is_pod_write v) evs"
  by (fastforce simp: pods_only_def list_all_iff elim!: is_object_write.elims)

lemma keeps_server_after:
  "keeps_server w r evs' \<Longrightarrow> list_all (\<lambda>v. is_object_write v \<longrightarrow> is_pod_write v) evs \<Longrightarrow> keeps_server w r (evs @ evs')"
  by (simp add: keeps_server_def)

lemma recoverAndUpdate_keeps: "does (recoverAndUpdate K w n pods) (keeps_server w)"
  unfolding recoverAndUpdate_def
  by (intro does_rules) (auto simp: recovers_def keeps_server_def)

lemma startInvestigation_keeps: "startInvestigation pods (w, u) = Ret (w', u') \<Longrightarrow> same_server w' w"
  by (induction pods arbitrary: w u) (auto split: option.splits if_splits)

lemma startRecovery_keeps: "does (startRecovery K w n items) (keeps_server w)"
proof -
  have quiet: "does (recoverAndUpdate K w1 n pods) (keeps_server w)"
    if "startInvestigation pods (w, False) = Ret (w1, u)" for pods w1 u
    by (rule does_mono[OF recoverAndUpdate_keeps])
       (use startInvestigation_keeps[OF that] in \<open>simp add: keeps_server_def\<close>)
  show ?thesis unfolding startRecovery_def
    by (intro does_rules quiet)
       (auto simp: keeps_server_def dest!: startInvestigation_keeps intro!: does_mono[OF recoverAndUpdate_keeps])
qed

lemma mark_clean_keeps: "same_server (foldl mark_clean w pods) w"
  by (induction pods arbitrary: w) (auto simp: mark_clean_def split: option.splits)

lemma skipRecovery_keeps: "does (skipRecoveryAndForceScaleDown K w n items) (keeps_server w)"
  unfolding skipRecoveryAndForceScaleDown_def Let_def
  by (intro does_rules) (auto simp: keeps_server_def mark_clean_keeps)

lemma processTransactionRecovery_keeps:
  "does (processTransactionRecoveryScaleDown K w n items) (keeps_server w)"
  unfolding processTransactionRecoveryScaleDown_def
  by (intro does_rules does_mono[OF skipRecovery_keeps] does_mono[OF startRecovery_keeps])
     (auto intro!: keeps_server_after simp: keeps_server_def)

end
