(* ===== verification/Recovery_Safety.thy ===== *)
theory Recovery_Safety
  imports Pod_Lifecycle
begin

text \<open>
  Safety of the scale down: why an entry is marked clean, which entries are marked when the
  recovery is skipped, and that no index or missing entry panics.
\<close>

section \<open>Why a pod is clean\<close>

text \<open>The reasons for which the recovery is skipped.\<close>

definition skip_reason :: "'e Kube \<Rightarrow> WildFlyServer \<Rightarrow> Pod list \<Rightarrow> event list \<Rightarrow> bool" where
  "skip_reason K w items evs \<longleftrightarrow>
     sp_BootableJar (wf_Spec w) \<or> sp_DeactivateTransactionRecovery (wf_Spec w) \<or>
     (\<exists>v xs. result_read K (hd items) MgmtOpListSubsystems v evs \<and>
        ConvertToArrayString (k_Sprint K) v = Inr xs \<and> ''transactions'' \<notin> set xs) \<or>
     (\<not> (\<exists>storage. sp_Storage (wf_Spec w) = Some storage \<and> sg_EmptyDir storage = None) \<and>
      (\<exists>v s. result_read K (hd items) MgmtOpTxnCheckJdbcStore v evs \<and>
        ConvertToString v = Inr s \<and> ParseBool s = Some False))"

text \<open>Every entry that became clean has a pod with evidence, or a reason to skip.\<close>

definition justified :: "'e Kube \<Rightarrow> bool \<Rightarrow> Pod list \<Rightarrow> PodStatus list \<Rightarrow> PodStatus list \<Rightarrow> event list \<Rightarrow> bool" where
  "justified K skipped pods vs vs' evs \<longleftrightarrow> (\<forall>i<length vs.
     ps_State (vs ! i) \<noteq> PodStateScalingDownClean \<and> ps_State (vs' ! i) = PodStateScalingDownClean \<longrightarrow>
     skipped \<or> (\<exists>pod\<in>set pods. pod_Name pod = ps_Name (vs ! i) \<and> proven_clean K pod evs))"

definition justifies :: "'e Kube \<Rightarrow> bool \<Rightarrow> Pod list \<Rightarrow> PodStatus list \<Rightarrow> ('r \<times> WildFlyServer) outcome \<Rightarrow> event list \<Rightarrow> bool" where
  "justifies K skipped pods vs r evs \<longleftrightarrow> (list_all echoes evs \<longrightarrow>
     (\<forall>w1 answer. EvUpdateStatus w1 answer \<in> set evs \<longrightarrow> justified K skipped pods vs (wf_Pods w1) evs) \<and>
     (\<forall>x w'. r = Ret (x, w') \<longrightarrow> justified K skipped pods vs (wf_Pods w') evs))"

text \<open>Documented behaviour of the scheduler: it runs every goroutine that is started.\<close>

definition fair_schedule :: "'e Kube \<Rightarrow> bool" where
  "fair_schedule K \<longleftrightarrow> (\<forall>pods. mset (k_Schedule K pods) = mset pods)"

lemma recovers_justified:
  assumes "recovers K pods s (Ret s') evs" and "list_all echoes evs"
  shows "justified K b pods (rs_Pods s) (rs_Pods s') (evs @ evs')"
  using assms unfolding recovers_def justified_def by (blast intro: proven_clean_append)

lemma no_status_update_mem: "no_status_update evs \<Longrightarrow> EvUpdateStatus w r \<notin> set evs"
  by (auto simp: list_all_iff)

lemma recoverAndUpdate_justifies:
  assumes "fair_schedule K"
  shows "does (recoverAndUpdate K w n pods) (justifies K b pods (wf_Pods w))"
proof -
  have [simp]: "set (k_Schedule K pods) = set pods"
    using assms unfolding fair_schedule_def by (metis set_mset_mset)
  have just: "justified K b pods (rs_Pods s) (rs_Pods s') (evs @ evs')"
    if "recovers K (k_Schedule K pods) s (Ret s') evs" "list_all echoes evs" for s s' evs evs'
    using recovers_justified[OF that, of b evs'] by (simp add: justified_def)
  have nomem: "EvUpdateStatus w1 r1 \<notin> set evs" if "recovers K ps s r evs" for w1 r1 ps s r evs
    using that pods_only_no_status no_status_update_mem by (auto simp: recovers_def)
  show ?thesis unfolding recoverAndUpdate_def
    by (intro does_rules)
       (auto simp: justifies_def nomem dest: just just[where evs' = "[]"])
qed

lemma startInvestigation_not_clean:
  assumes "startInvestigation pods (w, u) = Ret (w', u')" and "i < length (wf_Pods w)"
    and "ps_State (wf_Pods w' ! i) = PodStateScalingDownClean"
  shows "ps_State (wf_Pods w ! i) = PodStateScalingDownClean"
  using assms
proof (induction pods arbitrary: w u)
  case (Cons pod pods)
  then obtain j where j: "getWildflyServerPodStatusByName w (pod_Name pod) = Some j"
    by (auto split: option.splits)
  show ?case
  proof (cases "ps_State (wf_Pods w ! j) = PodStateActive")
    case True
    let ?w1 = "update_entry j (with_state PodStateScalingDownRecoveryInvestigation) w"
    have "startInvestigation pods (?w1, True) = Ret (w', u')" using Cons.prems(1) j True by simp
    then have "ps_State (wf_Pods ?w1 ! i) = PodStateScalingDownClean"
      using Cons.IH[of ?w1] Cons.prems(2,3) by simp
    then show ?thesis using Cons.prems(2) by (cases "i = j") auto
  qed (use Cons j in auto)
qed simp

lemma justified_pre:
  assumes "justified K b pods vs1 vs' evs" and "length vs1 = length vs" and "map ps_Name vs1 = map ps_Name vs"
    and "\<And>i. i < length vs \<Longrightarrow> ps_State (vs1 ! i) = PodStateScalingDownClean \<Longrightarrow> ps_State (vs ! i) = PodStateScalingDownClean"
    and "set pods \<subseteq> set items"
  shows "justified K b items vs vs' (xs @ evs)"
proof -
  have "ps_Name (vs1 ! i) = ps_Name (vs ! i)" if "i < length vs" for i
    using that assms(2,3) by (metis nth_map)
  then show ?thesis using assms(1,2,4,5) unfolding justified_def
    by (metis proven_clean_append(1) subsetD)
qed

lemma justified_refl: "justified K b items vs vs evs"
  by (simp add: justified_def)

lemma startRecovery_justifies:
  assumes "fair_schedule K"
  shows "does (startRecovery K w n items) (justifies K b items (wf_Pods w))"
proof -
  have inv: "length (wf_Pods w1) = length (wf_Pods w) \<and> map ps_Name (wf_Pods w1) = map ps_Name (wf_Pods w) \<and>
      (\<forall>i<length (wf_Pods w). ps_State (wf_Pods w1 ! i) = PodStateScalingDownClean \<longrightarrow>
         ps_State (wf_Pods w ! i) = PodStateScalingDownClean)"
    if "startInvestigation pods (w, False) = Ret (w1, u)" for pods w1 u
    using startInvestigation_evolves[OF that] evolves_length evolves_names startInvestigation_not_clean[OF that] by blast
  have sub: "set pods \<subseteq> set items" if "podsToScaleDown n items = Ret pods" for pods
    using that by (auto simp: podsToScaleDown_def split: if_splits dest!: in_set_takeD)
  have pre: "justified K b items (wf_Pods w) vs' (xs @ evs)"
    if "startInvestigation pods (w, False) = Ret (w1, u)" "podsToScaleDown n items = Ret pods"
      "justified K b pods (wf_Pods w1) vs' evs" for pods w1 u vs' xs evs
    using inv[OF that(1)] sub[OF that(2)] by (intro justified_pre[OF that(3)]) auto
  have self: "justified K b items (wf_Pods w) (wf_Pods w1) evs"
    if "startInvestigation pods (w, False) = Ret (w1, u)" for pods w1 u evs
    using inv[OF that] by (auto simp: justified_def)
  have run: "does (recoverAndUpdate K w2 n pods) (\<lambda>r evs'. justifies K b items (wf_Pods w) r (xs @ evs'))"
    if "startInvestigation pods (w, False) = Ret (w1, u)" "podsToScaleDown n items = Ret pods"
      "\<And>w3 ans. EvUpdateStatus w3 ans \<in> set xs \<Longrightarrow> wf_Pods w3 = wf_Pods w1"
      "list_all echoes xs \<Longrightarrow> wf_Pods w2 = wf_Pods w1" for pods w1 u w2 xs
    by (rule does_mono[OF recoverAndUpdate_justifies[OF assms, of w2 n pods b]])
       (use that self[OF that(1)] pre[OF that(1,2)] in \<open>auto simp: justifies_def\<close>)
  show ?thesis unfolding startRecovery_def
    by (intro does_rules run run[where xs = "[]", simplified])
       (auto simp: justifies_def justified_refl self)
qed

definition justifies_all :: "'e Kube \<Rightarrow> WildFlyServer \<Rightarrow> Pod list \<Rightarrow> ('r \<times> WildFlyServer) outcome \<Rightarrow> event list \<Rightarrow> bool" where
  "justifies_all K w items r evs \<longleftrightarrow> justifies K (skip_reason K w items evs) items (wf_Pods w) r evs"

lemma result_read_append: "result_read K pod mgmtOp v evs \<Longrightarrow> result_read K pod mgmtOp v (xs @ evs @ ys)"
  by (auto simp: result_read_def)

lemma skip_reason_mono: "skip_reason K w items evs \<Longrightarrow> skip_reason K w items (xs @ evs @ ys)"
  unfolding skip_reason_def by (blast intro: result_read_append)

lemma justifies_skip: "skip_reason K w items evs \<Longrightarrow> justifies_all K w items r evs"
  by (simp add: justifies_all_def justifies_def justified_def)

lemma justified_append:
  "justified K False items vs vs' evs \<Longrightarrow> justified K b items vs vs' (xs @ evs)"
  unfolding justified_def by (metis proven_clean_append(1))

lemma justifies_append:
  assumes "justifies K False items (wf_Pods w) r evs" and "no_status_update xs"
  shows "justifies_all K w items r (xs @ evs)"
  using assms no_status_update_mem[OF assms(2)]
  by (auto simp: justifies_all_def justifies_def intro: justified_append)

lemma skip_stage_justifies:
  "skip_reason K w items evs \<Longrightarrow>
   does (skipRecoveryAndForceScaleDown K w n items) (\<lambda>r evs'. justifies_all K w items r (evs @ evs'))"
  by (rule does_mono[OF skipRecovery_tracks])
     (use skip_reason_mono[of K w items evs "[]"] in \<open>auto intro: justifies_skip\<close>)

lemma processTransactionRecovery_justifies:
  assumes "fair_schedule K"
  shows "does (processTransactionRecoveryScaleDown K w n items) (justifies_all K w items)"
proof -
  have ret: "justifies_all K w items (Ret (x, w)) evs" if "no_status_update evs" for x evs
    using that no_status_update_mem by (auto simp: justifies_all_def justifies_def justified_refl)
  have start: "does (startRecovery K w n items) (\<lambda>r evs'. justifies_all K w items r (evs @ evs'))"
    if "no_status_update evs" for evs
    by (rule does_mono[OF startRecovery_justifies[OF assms]]) (rule justifies_append[OF _ that])
  have skip: "does (skipRecoveryAndForceScaleDown K w n items) (justifies_all K w items)"
    if "sp_BootableJar (wf_Spec w) \<or> sp_DeactivateTransactionRecovery (wf_Spec w)"
    using skip_stage_justifies[of K w items "[]" n] that by (auto simp: skip_reason_def)
  have two: "does (startRecovery K w n items) (\<lambda>r evs'. justifies_all K w items r (a @ b @ evs'))"
    if "no_status_update a" "no_status_update b" for a b
    using start[of "a @ b"] that by simp
  have skip_subsystems: "skip_reason K w items evs"
    if "result_read K (hd items) MgmtOpListSubsystems v evs" "ConvertToArrayString (k_Sprint K) v = Inr xs"
      "''transactions'' \<notin> set xs" for v xs evs
    using that unfolding skip_reason_def by blast
  have skip_store: "does (skipRecoveryAndForceScaleDown K w n items) (\<lambda>r evs'. justifies_all K w items r (a @ b @ evs'))"
    if "result_read K (hd items) MgmtOpTxnCheckJdbcStore v b" "ConvertToString v = Inr s" "ParseBool s = Some False"
      "case sp_Storage (wf_Spec w) of None \<Rightarrow> True | Some storage \<Rightarrow> sg_EmptyDir storage \<noteq> None" for v s a b
  proof -
    have "result_read K (hd items) MgmtOpTxnCheckJdbcStore v (a @ b)"
      using result_read_append[OF that(1), of a "[]"] by simp
    moreover have "\<not> (\<exists>storage. sp_Storage (wf_Spec w) = Some storage \<and> sg_EmptyDir storage = None)"
      using that(4) by (auto split: option.splits)
    ultimately have "skip_reason K w items (a @ b)"
      using that(2,3) unfolding skip_reason_def by blast
    from skip_stage_justifies[OF this] show ?thesis by simp
  qed
  show ?thesis unfolding processTransactionRecoveryScaleDown_def
    by (intro does_rules skip)
       (auto intro!: ret start two skip_stage_justifies intro: skip_subsystems skip_store simp: no_write_no_status)
qed

text \<open>
  C3: No pod is given up without proof. Whatever the cluster answers, an entry that the scale
  down turns into \<open>SCALING_DOWN_CLEAN\<close>, in a status it sends or in the one it hands on,
  belongs to a pod of the list whose answers prove it clean, unless there is a reason to skip
  the recovery: a bootable JAR, a deactivated recovery, a server without transaction
  subsystem, or transaction logs that are neither on a persistent volume nor in a database.
\<close>

theorem scaledown_justified:
  assumes "fair_schedule K"
  shows "does (processTransactionRecoveryScaleDown K w n items) (\<lambda>r evs.
     list_all echoes evs \<and> \<not> skip_reason K w items evs \<longrightarrow>
     (\<forall>w'. (\<exists>answer. EvUpdateStatus w' answer \<in> set evs) \<or> (\<exists>x. r = Ret (x, w')) \<longrightarrow>
        (\<forall>i<length (wf_Pods w). ps_State (wf_Pods w ! i) \<noteq> PodStateScalingDownClean \<and>
           ps_State (wf_Pods w' ! i) = PodStateScalingDownClean \<longrightarrow>
           (\<exists>pod\<in>set items. pod_Name pod = ps_Name (wf_Pods w ! i) \<and> proven_clean K pod evs))))"
  by (rule does_mono[OF processTransactionRecovery_justifies[OF assms]])
     (auto simp: justifies_all_def justifies_def justified_def)

text \<open>The idle pod, under investigation, is recovered and becomes clean.\<close>

definition investigated_server :: WildFlyServer where
  "investigated_server = with_pods [(''quickstart-0'', PodStateScalingDownRecoveryInvestigation)]"

lemma run_scaledown_idle:
  "\<exists>evs w'. run_state (processTransactionRecoveryScaleDown fake_kube investigated_server 1 [idle_pod]) (idle_cluster, []) =
     (Ret ((requeueOff, None), w'), idle_cluster, evs) \<and> list_all echoes evs \<and> list_all idle_event evs \<and>
     map ps_State (wf_Pods w') = [PodStateScalingDownClean]"
proof -
  obtain evs1 where 1: "\<And>w tr. run_state (checkRecovery fake_kube idle_pod w) (idle_cluster, tr) =
     (((clean, [], None), idle_pod), idle_cluster, tr @ evs1 w tr)" "\<And>w tr. list_all echoes (evs1 w tr)"
     "\<And>w tr. list_all idle_event (evs1 w tr)"
    using run_checkRecovery_idle by metis
  show ?thesis
    by (simp add: processTransactionRecoveryScaleDown_def ListSubsystems_def ExecuteAndGetResult_def
      isJDBCLogStoreInUse_def startRecovery_def podsToScaleDown_def recoverAndUpdate_def recoverPod_def
      setupRecoveryPropertiesAndRestart_def IsAppServerRunningViaJBossCli_def checkRecoveryTwice_def
      recordOutcome_def 1 investigated_server_def with_pods_def sample_server_def sample_spec_def sample_status_def
      getWildflyServerPodStatusByName_def IsMgmtOutcomeSuccesful_def ConvertToString_ignoring_def json_get_def
      ParseBool_def UpdateWildFlyServerStatus_def scaledownError_def raise_requeue_def set_entry_def Let_def)
qed

lemma idle_result_read:
  assumes "list_all idle_event evs" and "result_read fake_kube pod mgmtOp v evs"
    and "idle_output mgmtOp \<noteq> ''{}''"
    and "json_part (idle_output mgmtOp) = idle_output mgmtOp" and "idle_output mgmtOp \<noteq> ''{txn}''"
  shows "v = VString (idle_output mgmtOp)"
proof -
  obtain j where j: "list_ex (is_reply fake_kube pod mgmtOp j) evs" "json_get j ''result'' = v"
    using assms(2) by (auto simp: result_read_def answered_def)
  then obtain e where e: "e \<in> set evs" "is_reply fake_kube pod mgmtOp j e" by (auto simp: list_ex_iff)
  then have "idle_event e" using assms(1) by (simp add: list_all_iff)
  with e(2) have "fake_decode (idle_output mgmtOp) = Inr j"
    using assms(4) by (cases "(fake_kube, pod, mgmtOp, j, e)" rule: is_reply.cases) auto
  with j(2) assms(3,5) show ?thesis by (auto simp: fake_decode_def json_get_def)
qed

lemma idle_no_skip:
  assumes "list_all idle_event evs" and "\<not> sp_BootableJar (wf_Spec w)"
    and "\<not> sp_DeactivateTransactionRecovery (wf_Spec w)"
  shows "\<not> skip_reason fake_kube w items evs"
proof -
  have "v = VString ''transactions''" if "result_read fake_kube (hd items) MgmtOpListSubsystems v evs" for v
    using idle_result_read[OF assms(1) that] by (simp add: json_part_def LastIndex_def)
  moreover have "v = VString ''true''" if "result_read fake_kube (hd items) MgmtOpTxnCheckJdbcStore v evs" for v
    using idle_result_read[OF assms(1) that] by (simp add: json_part_def LastIndex_def)
  moreover have "ParseBool ''true'' = Some True" by code_simp
  ultimately show ?thesis using assms(2,3) unfolding skip_reason_def by fastforce
qed

lemma fair_schedule_fake [simp]: "fair_schedule fake_kube"
  by (simp add: fair_schedule_def)

theorem scaledown_justified_witness:
  "\<exists>evs w'. run_state (processTransactionRecoveryScaleDown fake_kube investigated_server 1 [idle_pod]) (idle_cluster, []) =
     (Ret ((requeueOff, None), w'), idle_cluster, evs) \<and>
     map ps_State (wf_Pods investigated_server) = [PodStateScalingDownRecoveryInvestigation] \<and>
     map ps_State (wf_Pods w') = [PodStateScalingDownClean] \<and> proven_clean fake_kube idle_pod evs"
proof -
  obtain evs w' where run: "run_state (processTransactionRecoveryScaleDown fake_kube investigated_server 1 [idle_pod])
      (idle_cluster, []) = (Ret ((requeueOff, None), w'), idle_cluster, evs)"
    and ev: "list_all echoes evs" "list_all idle_event evs" and st: "map ps_State (wf_Pods w') = [PodStateScalingDownClean]"
    using run_scaledown_idle by (elim exE conjE)
  have pods: "map ps_State (wf_Pods investigated_server) = [PodStateScalingDownRecoveryInvestigation]"
    "length (wf_Pods investigated_server) = 1"
    by (simp_all add: investigated_server_def with_pods_def)
  have "\<not> skip_reason fake_kube investigated_server [idle_pod] evs"
    by (rule idle_no_skip[OF ev(2)])
       (simp_all add: investigated_server_def with_pods_def sample_server_def sample_spec_def)
  moreover have "ps_State (wf_Pods w' ! 0) = PodStateScalingDownClean"
    "ps_State (wf_Pods investigated_server ! 0) \<noteq> PodStateScalingDownClean"
    using st pods by (auto simp: map_eq_Cons_conv)
  ultimately have "proven_clean fake_kube idle_pod evs"
    using does_run[OF scaledown_justified[OF fair_schedule_fake] run] ev(1) pods(2) by auto
  with run pods(1) st show ?thesis by (intro exI conjI)
qed

theorem scaledown_lifecycle_witness:
  "\<exists>evs. snd (snd (run_state (processTransactionRecoveryScaleDown fake_kube investigated_server 1 [idle_pod])
      (idle_cluster, []))) = evs \<and> status_chain (wf_Pods investigated_server) evs"
proof -
  obtain evs w' where run: "run_state (processTransactionRecoveryScaleDown fake_kube investigated_server 1 [idle_pod])
      (idle_cluster, []) = (Ret ((requeueOff, None), w'), idle_cluster, evs)"
    using run_scaledown_idle by blast
  from does_run[OF conjunct1[OF scaledown_lifecycle] run] run show ?thesis by auto
qed

section \<open>Skipping the recovery, and panics\<close>

lemma mark_clean_pods:
  assumes "distinct (map ps_Name (wf_Pods w))"
  shows "wf_Pods (mark_clean w pod) =
    map (\<lambda>v. if ps_Name v = pod_Name pod then with_state PodStateScalingDownClean v else v) (wf_Pods w)"
proof (cases "podStatusIndex (pod_Name pod) (wf_Pods w)")
  case None
  then have "\<forall>v\<in>set (wf_Pods w). ps_Name v \<noteq> pod_Name pod"
    unfolding podStatusIndex_None by (metis image_eqI)
  with None show ?thesis by (simp add: mark_clean_def getWildflyServerPodStatusByName_def map_idI)
next
  case (Some i)
  have i: "i < length (wf_Pods w)" "ps_Name (wf_Pods w ! i) = pod_Name pod"
    using podStatusIndex_Some[OF Some] by auto
  have "ps_Name (wf_Pods w ! j) = pod_Name pod \<longleftrightarrow> j = i" if "j < length (wf_Pods w)" for j
    using assms i that by (metis nth_eq_iff_index_eq nth_map length_map)
  with Some i(1) show ?thesis
    by (auto simp: mark_clean_def getWildflyServerPodStatusByName_def nth_list_update intro!: nth_equalityI)
qed

lemma mark_clean_fold_pods:
  "distinct (map ps_Name (wf_Pods w)) \<Longrightarrow> wf_Pods (foldl mark_clean w pods) =
    map (\<lambda>v. if ps_Name v \<in> pod_Name ` set pods then with_state PodStateScalingDownClean v else v) (wf_Pods w)"
proof (induction pods arbitrary: w)
  case (Cons pod pods)
  have "map ps_Name (wf_Pods (mark_clean w pod)) = map ps_Name (wf_Pods w)"
    by (rule evolves_names[OF evolves_mark_clean])
  then have "distinct (map ps_Name (wf_Pods (mark_clean w pod)))" using Cons.prems by simp
  from Cons.IH[OF this] show ?case
    by (simp add: mark_clean_pods[OF Cons.prems] comp_def with_state_def)
qed (simp add: map_idI)

lemma mark_clean_fold_keeps: "wf_Spec (foldl mark_clean w pods) = wf_Spec w \<and> wf_Meta (foldl mark_clean w pods) = wf_Meta w"
  by (induction pods arbitrary: w) (auto simp: mark_clean_def split: option.splits)

text \<open>
  C16: Skipping the recovery marks exactly the last \<open>n\<close> pods as clean: one status update is
  sent, in which the entries of these pods are \<open>SCALING_DOWN_CLEAN\<close>, every other entry is as it
  was, and the number of pods that are scaled down is \<open>n\<close>. No requeue and no error is
  reported, not even when the update fails.
\<close>

theorem skipRecovery_marks:
  assumes "distinct (map ps_Name (wf_Pods w))" and "nat n \<le> length items" and "in_int32 n"
  shows "does (skipRecoveryAndForceScaleDown K w n items) (\<lambda>r evs. \<exists>w1 answer.
     evs = [EvUpdateStatus w1 answer] \<and>
     wf_Pods w1 = map (\<lambda>v. if ps_Name v \<in> pod_Name ` set (take (nat n) (rev items))
       then with_state PodStateScalingDownClean v else v) (wf_Pods w) \<and>
     st_ScalingdownPods (wf_Status w1) = n \<and> wf_Spec w1 = wf_Spec w \<and> wf_Meta w1 = wf_Meta w \<and>
     r = Ret ((requeueOff, None), case answer of Inl _ \<Rightarrow> w1 | Inr w' \<Rightarrow> w'))"
proof -
  let ?w1 = "set_scalingdown n (foldl mark_clean w (take (nat n) (rev items)))"
  have "wf_Pods ?w1 = map (\<lambda>v. if ps_Name v \<in> pod_Name ` set (take (nat n) (rev items))
       then with_state PodStateScalingDownClean v else v) (wf_Pods w)"
    using mark_clean_fold_pods[OF assms(1)] by simp
  moreover have "st_ScalingdownPods (wf_Status ?w1) = n" using assms(3) by (simp add: set_scalingdown_def)
  ultimately show ?thesis unfolding skipRecoveryAndForceScaleDown_def Let_def
    using assms(2) mark_clean_fold_keeps
    by (intro does_rules) (auto intro!: exI[of _ ?w1])
qed

theorem skipRecovery_marks_witness:
  "does (skipRecoveryAndForceScaleDown fake_kube
      (with_pods [(''wf-0'', PodStateActive), (''wf-1'', PodStateActive)]) 1 [named_pod ''wf-0'', named_pod ''wf-1''])
    (\<lambda>r evs. \<exists>w1 answer. evs = [EvUpdateStatus w1 answer] \<and>
       map ps_State (wf_Pods w1) = [PodStateActive, PodStateScalingDownClean])"
  by (rule does_mono[OF skipRecovery_marks])
     (auto simp: with_pods_def in_int32_def named_pod_def)

lemma startInvestigation_no_panic:
  "pod_Name ` set pods \<subseteq> ps_Name ` set (wf_Pods w) \<Longrightarrow> startInvestigation pods (w, u) \<noteq> Panic"
proof (induction pods arbitrary: w u)
  case (Cons pod pods)
  then obtain i where i: "getWildflyServerPodStatusByName w (pod_Name pod) = Some i"
    using podStatusIndex_None[of "pod_Name pod" "wf_Pods w"]
    by (cases "getWildflyServerPodStatusByName w (pod_Name pod)") (auto simp: getWildflyServerPodStatusByName_def)
  let ?w1 = "update_entry i (with_state PodStateScalingDownRecoveryInvestigation) w"
  have "startInvestigation pods (?w1, True) \<noteq> Panic" if "ps_State (wf_Pods w ! i) = PodStateActive"
  proof -
    have "evolves (wf_Pods w) (wf_Pods ?w1)" using that by (simp add: evolves_update pod_step.investigate)
    then have "ps_Name ` set (wf_Pods ?w1) = ps_Name ` set (wf_Pods w)"
      using evolves_names by (metis list.set_map)
    with Cons show ?thesis by simp
  qed
  with Cons i show ?case by simp
qed simp

lemma recoverAndUpdate_no_panic:
  assumes "fair_schedule K" and "pod_Name ` set pods \<subseteq> ps_Name ` set (wf_Pods w)"
  shows "does (recoverAndUpdate K w n pods) (\<lambda>r evs. r \<noteq> Panic)"
proof -
  have "set (k_Schedule K pods) = set pods"
    using assms(1) unfolding fair_schedule_def by (metis set_mset_mset)
  with assms(2) have "recovers K (k_Schedule K pods) s Panic evs \<Longrightarrow> rs_Server s = w \<Longrightarrow> False" for s evs
    by (auto simp: recovers_def)
  then show ?thesis unfolding recoverAndUpdate_def by (intro does_rules) (auto, metis RecoveryState.select_convs(1))
qed

lemma processTransactionRecovery_no_panic:
  assumes "fair_schedule K" and "nat n \<le> length items"
    and "pod_Name ` set items \<subseteq> ps_Name ` set (wf_Pods w)"
  shows "does (processTransactionRecoveryScaleDown K w n items) (\<lambda>r evs. list_all echoes evs \<longrightarrow> r \<noteq> Panic)"
proof -
  have skip: "does (skipRecoveryAndForceScaleDown K w n items) (\<lambda>r evs. \<Phi> evs \<longrightarrow> r \<noteq> Panic)" for \<Phi>
    unfolding skipRecoveryAndForceScaleDown_def Let_def using assms(2) by (intro does_rules) auto
  have names: "pod_Name ` set pods \<subseteq> ps_Name ` set (wf_Pods w)" if "podsToScaleDown n items = Ret pods" for pods
    using that assms(3) by (force simp: podsToScaleDown_def split: if_splits dest!: in_set_takeD)
  have run: "does (recoverAndUpdate K w2 n pods) (\<lambda>r evs. \<Phi> evs \<longrightarrow> r \<noteq> Panic)"
    if "podsToScaleDown n items = Ret pods" "startInvestigation pods (w, False) = Ret (w1, u)"
      "map ps_Name (wf_Pods w2) = map ps_Name (wf_Pods w1)" for pods w1 u w2 \<Phi>
  proof -
    have "map ps_Name (wf_Pods w2) = map ps_Name (wf_Pods w)"
      using that(3) evolves_names startInvestigation_evolves[OF that(2)] by metis
    then have "pod_Name ` set pods \<subseteq> ps_Name ` set (wf_Pods w2)"
      using names[OF that(1)] by (metis list.set_map)
    then show ?thesis by (intro does_mono[OF recoverAndUpdate_no_panic[OF assms(1)]]) simp_all
  qed
  have run': "does (recoverAndUpdate K w2 n pods)
      (\<lambda>r evs. wf_Pods w2 = wf_Pods w1 \<and> \<Phi> evs \<longrightarrow> r \<noteq> Panic)"
    if "podsToScaleDown n items = Ret pods" "startInvestigation pods (w, False) = Ret (w1, u)" for pods w1 u w2 \<Phi>
  proof (cases "wf_Pods w2 = wf_Pods w1")
    case True
    then show ?thesis using run[OF that] by simp
  next
    case False
    then show ?thesis by (intro does_mono[OF recoverAndUpdate_tracks]) simp
  qed
  have start: "does (startRecovery K w n items) (\<lambda>r evs. list_all echoes evs \<longrightarrow> r \<noteq> Panic)"
    unfolding startRecovery_def
    by (intro does_rules run[where \<Phi> = "list_all echoes", OF _ _ refl])
       (use assms(2) startInvestigation_no_panic[OF names] run' in \<open>auto simp: podsToScaleDown_def split: if_splits\<close>)
  show ?thesis unfolding processTransactionRecoveryScaleDown_def
    by (intro does_rules skip) (auto intro!: does_mono[OF start] does_mono[OF skip[where \<Phi> = "\<lambda>_. True"]])
qed

text \<open>
  C15: The scale down does not panic as long as at most all the pods are to be removed and
  every pod of the list has an entry in the status: no index leaves the list and no entry is
  missing, also after the status has been updated.
\<close>

theorem scaledown_no_panic:
  assumes "fair_schedule K" and "nat n \<le> length items"
    and "pod_Name ` set items \<subseteq> ps_Name ` set (wf_Pods w)"
  shows "does (processTransactionRecoveryScaleDown K w n items) (\<lambda>r evs. list_all echoes evs \<longrightarrow> r \<noteq> Panic)"
  using assms by (rule processTransactionRecovery_no_panic)

theorem scaledown_no_panic_witness:
  "does (processTransactionRecoveryScaleDown fake_kube investigated_server 1 [idle_pod])
     (\<lambda>r evs. list_all echoes evs \<longrightarrow> r \<noteq> Panic)"
  by (rule scaledown_no_panic) (simp_all add: investigated_server_def with_pods_def)

end
