(* ===== verification/Controller.thy ===== *)
theory Controller
  imports Stateful_Sets Routes Recovery_Safety
begin

text \<open>
  \<open>controllers/wildflyserver_controller.go\<close>: one pass of the reconciliation. \<open>Reconcile\<close> is
  split along its sections; each part hands on what the next one reads. A result is the
  requeue flag of \<open>reconcile.Result\<close> with the error, or a panic.
\<close>

type_synonym result = "(bool \<times> error option) outcome"

section \<open>Labels, validation and pods\<close>

definition LabelsForWildFly :: "strmap \<Rightarrow> WildFlyServer \<Rightarrow> strmap" where
  "LabelsForWildFly env w =
     (let labels = [''app.kubernetes.io/name'' \<mapsto> wf_Name w,
                    ''app.kubernetes.io/managed-by'' \<mapsto> Getenv env ''LABEL_APP_MANAGED_BY'',
                    ''app.openshift.io/runtime'' \<mapsto> Getenv env ''LABEL_APP_RUNTIME'']
      in case om_Labels (wf_Meta w) of None \<Rightarrow> labels | Some m \<Rightarrow> labels ++ m)"

definition validate :: "WildFlyServer \<Rightarrow> bool \<times> error option" where
  "validate w =
     (if sp_BootableJar (wf_Spec w) \<and> sp_StandaloneConfigMap (wf_Spec w) \<noteq> None
      then (False, Some (Errorf ''Bootable JAR server does not support custom server configuration file via config map.'' [] []))
      else (True, None))"

text \<open>The text of an error; only errors of \<open>errors.New\<close> reach \<open>manageError\<close>.\<close>

fun error_text :: "error \<Rightarrow> string" where
  "error_text (Errorf format _ _) = format"
| "error_text (ApiError _ s) = s"
| "error_text (NumError s) = s"

definition manageError :: "error option \<Rightarrow> ('e, bool \<times> error option) kop" where
  "manageError err =
     (case err of
        None \<Rightarrow> do { _ \<leftarrow> RecordEvent ''Warning'' ''WildFlyProcessingError'' ''Unknown Error''; ret (False, err) }
      | Some e \<Rightarrow> do { _ \<leftarrow> RecordEvent ''Warning'' ''WildFlyProcessingError'' (error_text e); ret (False, err) })"

fun matches_loop :: "EnvVar \<Rightarrow> EnvVar list \<Rightarrow> bool \<times> EnvVar list" where
  "matches_loop envVar [] = (False, [envVar])"
| "matches_loop envVar (e # es) =
     (if ev_Name envVar = ev_Name e then (envVar = e, envVar # es)
      else (case matches_loop envVar es of (b, es') \<Rightarrow> (b, e # es')))"

definition matches :: "Container \<Rightarrow> EnvVar \<Rightarrow> bool \<times> Container" where
  "matches container envVar =
     (case matches_loop envVar (c_Env container) of (b, env) \<Rightarrow> (b, container\<lparr>c_Env := env\<rparr>))"

definition GetPodsForWildFly :: "'e Kube \<Rightarrow> WildFlyServer \<Rightarrow> ('e, error + Pod list) kop" where
  "GetPodsForWildFly K w =
     (let labels = LabelsForWildFly (k_Env K) w
      in do { podList \<leftarrow> call (k_ListPods K (wf_Namespace w) labels) (EvListPods (wf_Namespace w) labels);
              (case podList of Inl err \<Rightarrow> ret (Inl err) | Inr items \<Rightarrow> ret (Inr (SortPodListByName items))) })"

definition errorIsNoMatchesForKind :: "string \<Rightarrow> string \<Rightarrow> string \<Rightarrow> bool" where
  "errorIsNoMatchesForKind err kind version \<longleftrightarrow>
     HasPrefix err (''no matches for kind \"'' @ kind @ ''\" in version \"'' @ version @ ''\"'')"

definition hasServiceMonitor :: "'e Kube \<Rightarrow> ('e, bool) kop" where
  "hasServiceMonitor K = CustomResourceDefinitionExists K ''monitoring.coreos.com/v1'' ''ServiceMonitor''"

section \<open>checkStatefulSet\<close>

text \<open>
  The number of pods that can be shut down, from the pod with the highest number on: clean
  pods count, a pod in another state ends the search, a pod without entry is passed over.
\<close>

fun podsToShutdown :: "(string \<rightharpoonup> PodStatus) \<Rightarrow> Pod list \<Rightarrow> int" where
  "podsToShutdown nameToPodState [] = 0"
| "podsToShutdown nameToPodState (pod # pods) =
     (case nameToPodState (pod_Name pod) of
        None \<Rightarrow> podsToShutdown nameToPodState pods
      | Some v \<Rightarrow>
          if ps_State v = PodStateScalingDownClean then 1 + podsToShutdown nameToPodState pods else 0)"

definition calculatedReplicas :: "WildFlyServer \<Rightarrow> Pod list \<Rightarrow> int" where
  "calculatedReplicas w items = wrap32 (int (length items) - podsToShutdown (statusMap (wf_Pods w)) (rev items))"

text \<open>
  The first part of \<open>checkStatefulSet\<close>: the StatefulSet with its new size, the size for a new
  generation, whether an update is needed, and the requeue decision.
\<close>

definition scaleStatefulSet ::
  "WildFlyServer \<Rightarrow> StatefulSet \<Rightarrow> int \<Rightarrow> Pod list \<Rightarrow> ('e, StatefulSet \<times> int \<times> bool \<times> int) kop" where
  "scaleStatefulSet w sts replicas items =
     (let specSize = sp_Replicas (wf_Spec w) in
      if specSize > replicas then ret (sts\<lparr>sts_Replicas := Some specSize\<rparr>, specSize, True, requeueOff)
      else if specSize < replicas then
        (let calculated = calculatedReplicas w items;
             update = (specSize \<le> calculated \<and> replicas > calculated);
             sts' = (if update then sts\<lparr>sts_Replicas := Some calculated\<rparr> else sts)
         in if specSize < calculated
            then do { _ \<leftarrow> RecordEvent ''Warning'' ''WildFlyServerScaledown'' ''Transaction recovery slowed down the scaledown.'';
                      ret (sts', calculated, update, requeueLater) }
            else ret (sts', calculated, update, requeueOff))
      else ret (sts, specSize, False, requeueOff))"

text \<open>Whether the volume claim templates differ, which cannot be updated in place.\<close>

definition claimsChanged :: "StatefulSet \<Rightarrow> StatefulSet \<Rightarrow> bool" where
  "claimsChanged statefulSet found =
     (case sts_VolumeClaimTemplates statefulSet of
        vct # _ \<Rightarrow>
          (case sts_VolumeClaimTemplates found of
             [] \<Rightarrow> True
           | foundVCT # _ \<Rightarrow>
               pvc_Name foundVCT \<noteq> pvc_Name vct \<or> pvc_AccessModes foundVCT \<noteq> pvc_AccessModes vct \<or>
               pvc_Resources foundVCT \<noteq> pvc_Resources vct)
      | [] \<Rightarrow> sts_VolumeClaimTemplates found \<noteq> [])"

text \<open>The StatefulSet of an older generation is deleted or updated; its annotations must not be nil.\<close>

definition renewStatefulSet ::
  "'e Kube \<Rightarrow> bool \<Rightarrow> WildFlyServer \<Rightarrow> StatefulSet \<Rightarrow> int \<Rightarrow> ('e, (int \<times> error option) outcome) kop" where
  "renewStatefulSet K isOpenShift w found desired =
     (case NewStatefulSet K w (LabelsForWildFly (k_Env K) w) desired isOpenShift of
        (statefulSet, w') \<Rightarrow>
          if claimsChanged statefulSet found then
            do { err \<leftarrow> Delete K w' (ObjStatefulSet found); ret (Ret (requeueNow, err)) }
          else
            (case om_Annotations (sts_Meta found) of
               None \<Rightarrow> ret Panic
             | Some annotations \<Rightarrow>
                 do { err \<leftarrow> Update K w' (ObjStatefulSet (found\<lparr>
                        sts_Template := sts_Template statefulSet,
                        sts_Replicas := Some desired,
                        sts_Meta := (sts_Meta found)\<lparr>om_Annotations := Some (annotations(MarkerServerGeneration
                          \<mapsto> FormatInt (wf_Generation w')))\<rparr>\<rparr>));
                      ret (Ret (requeueNow, err)) }))"

definition checkStatefulSet ::
  "'e Kube \<Rightarrow> bool \<Rightarrow> WildFlyServer \<Rightarrow> StatefulSet \<Rightarrow> Pod list \<Rightarrow> ('e, (int \<times> error option) outcome) kop" where
  "checkStatefulSet K isOpenShift w found items =
     (case sts_Replicas found of
        None \<Rightarrow> ret Panic
      | Some replicas \<Rightarrow>
          do { (found', desired, update, requeue) \<leftarrow> scaleStatefulSet w found replicas items;
               if \<not> IsCurrentGeneration w (sts_Meta found')
               then renewStatefulSet K isOpenShift w found' desired
               else if update then
                 do { err \<leftarrow> Update K w (ObjStatefulSet found'); ret (Ret (requeueNow, err)) }
               else ret (Ret (requeue, None)) })"

section \<open>Reconcile\<close>

text \<open>The services, in the order of the code; \<open>None\<close> lets the pass go on.\<close>

definition stage_result :: "error + 'x option \<Rightarrow> (bool \<times> error option) option" where
  "stage_result r = (case r of
     Inl err \<Rightarrow> Some (False, Some err) | Inr None \<Rightarrow> Some (True, None) | Inr (Some _) \<Rightarrow> None)"

definition reconcileServices :: "'e Kube \<Rightarrow> WildFlyServer \<Rightarrow> ('e, (bool \<times> error option) option) kop" where
  "reconcileServices K w =
     do { cluster \<leftarrow> CreateOrUpdateClusterService K w (LabelsForWildFly (k_Env K) w);
          (case stage_result cluster of
             Some r \<Rightarrow> ret (Some r)
           | None \<Rightarrow>
     do { headless \<leftarrow> CreateOrUpdateHeadlessService K w (LabelsForWildFly (k_Env K) w);
          (case stage_result headless of
             Some r \<Rightarrow> ret (Some r)
           | None \<Rightarrow>
     do { admin \<leftarrow> CreateOrUpdateAdminService K w (LabelsForWildFly (k_Env K) w);
          ret (stage_result admin) }) }) }"

text \<open>The route: \<open>Inl\<close> ends the pass, \<open>Inr\<close> is the route, if there is one.\<close>

definition reconcileRoute ::
  "'e Kube \<Rightarrow> bool \<Rightarrow> WildFlyServer \<Rightarrow> ('e, (bool \<times> error option) + Route option) kop" where
  "reconcileRoute K isOpenShift w =
     (if \<not> isOpenShift then ret (Inr None)
      else if \<not> sp_DisableHTTPRoute (wf_Spec w) then
        do { r \<leftarrow> GetOrCreateNewRoute K w (LabelsForWildFly (k_Env K) w);
             (case r of
                Inl err \<Rightarrow> ret (Inl (False, Some err))
              | Inr None \<Rightarrow> ret (Inl (True, None))
              | Inr (Some route) \<Rightarrow> ret (Inr (Some route))) }
      else
        do { (deleted, err) \<leftarrow> DeleteExistingRoute K w;
             if err \<noteq> None then ret (Inl (False, err))
             else if deleted then ret (Inl (False, None))
             else ret (Inr None) })"

definition reconcileServiceMonitor :: "'e Kube \<Rightarrow> WildFlyServer \<Rightarrow> ('e, (bool \<times> error option) option) kop" where
  "reconcileServiceMonitor K w =
     do { has \<leftarrow> hasServiceMonitor K;
          if has then
            do { r \<leftarrow> GetOrCreateNewServiceMonitor K w (LabelsForWildFly (k_Env K) w); ret (stage_result r) }
          else ret None }"

text \<open>The hosts of the route in the status. \<open>hosts\<close> is made with \<open>make\<close>, so it is never nil.\<close>

definition set_hosts :: "string slice \<Rightarrow> WildFlyServer \<Rightarrow> WildFlyServer" where
  "set_hosts hosts w = w\<lparr>wf_Status := (wf_Status w)\<lparr>st_Hosts := hosts\<rparr>\<rparr>"

definition updateHosts :: "bool \<Rightarrow> Route option \<Rightarrow> WildFlyServer \<Rightarrow> (WildFlyServer \<times> bool) outcome" where
  "updateHosts isOpenShift route w =
     (if \<not> isOpenShift then Ret (w, False)
      else if \<not> sp_DisableHTTPRoute (wf_Spec w) then
        (case route of
           None \<Rightarrow> Panic
         | Some rt \<Rightarrow>
             (let hosts = Some (rt_IngressHosts rt)
              in if hosts \<noteq> st_Hosts (wf_Status w) then Ret (set_hosts hosts w, True) else Ret (w, False)))
      else if elems (st_Hosts (wf_Status w)) \<noteq> [] then Ret (set_hosts None w, True)
      else Ret (w, False))"

fun deletePods :: "'e Kube \<Rightarrow> WildFlyServer \<Rightarrow> Pod list \<Rightarrow> ('e, unit) kop" where
  "deletePods K w [] = ret ()"
| "deletePods K w (pod # pods) = do { _ \<leftarrow> Delete K w (ObjPod pod); deletePods K w pods }"

text \<open>
  Entries that are not active are reset when nothing is scaled down any more, and their pods
  are deleted; \<open>k\<close> is the index of the first entry of the list.
\<close>

fun refreshPods ::
  "'e Kube \<Rightarrow> Pod list \<Rightarrow> nat \<Rightarrow> PodStatus list \<Rightarrow> WildFlyServer \<Rightarrow> bool \<Rightarrow> ('e, WildFlyServer \<times> bool) kop" where
  "refreshPods K items k [] w update = ret (w, update)"
| "refreshPods K items k (v # vs) w update =
     (if ps_State v \<noteq> PodStateActive then
        do { _ \<leftarrow> deletePods K w (filter (\<lambda>pod. pod_Name pod = ps_Name v) items);
             refreshPods K items (Suc k) vs (update_entry k (with_state PodStateActive) w) True }
      else refreshPods K items (Suc k) vs w update)"

definition set_pods :: "PodStatus slice \<Rightarrow> WildFlyServer \<Rightarrow> WildFlyServer" where
  "set_pods vs w = w\<lparr>wf_Status := (wf_Status w)\<lparr>st_Pods := vs\<rparr>\<rparr>"

definition set_replicas :: "int \<Rightarrow> WildFlyServer \<Rightarrow> WildFlyServer" where
  "set_replicas n w = w\<lparr>wf_Status := (wf_Status w)\<lparr>st_Replicas := n\<rparr>\<rparr>"

text \<open>The last part of the pass: the status.\<close>

definition reconcileStatus ::
  "'e Kube \<Rightarrow> bool \<Rightarrow> WildFlyServer \<Rightarrow> StatefulSet \<Rightarrow> Pod list \<Rightarrow> Route option \<Rightarrow> int \<Rightarrow> int \<Rightarrow> int \<Rightarrow> ('e, result) kop" where
  "reconcileStatus K isOpenShift w sts items route numberOfPodsToScaleDown reconcileRecovery reconcileStatefulSet =
     (case updateHosts isOpenShift route w of
        Panic \<Rightarrow> ret Panic
      | Ret (w1, update1) \<Rightarrow>
          (let w2 = (if st_ScalingdownPods (wf_Status w1) \<noteq> numberOfPodsToScaleDown
                     then set_scalingdown numberOfPodsToScaleDown w1 else w1);
               update2 = (update1 \<or> st_ScalingdownPods (wf_Status w1) \<noteq> numberOfPodsToScaleDown)
           in do { (w3, update3) \<leftarrow> (if numberOfPodsToScaleDown \<le> 0
                       then refreshPods K items 0 (wf_Pods w2) w2 update2 else ret (w2, update2));
                   let (requeue, podsStatus) = getPodStatus items (st_Pods (wf_Status w3));
                   let w4 = (if podsStatus \<noteq> st_Pods (wf_Status w3) then set_pods podsStatus w3 else w3);
                   let w5 = (if st_Replicas (wf_Status w4) \<noteq> sts_StatusReplicas sts
                             then set_replicas (sts_StatusReplicas sts) w4 else w4);
                   let update = (update3 \<or> podsStatus \<noteq> st_Pods (wf_Status w3) \<or>
                                 st_Replicas (wf_Status w4) \<noteq> sts_StatusReplicas sts);
                   if update then
                     do { (err, w6) \<leftarrow> UpdateWildFlyServerStatus K w5;
                          (case err of Some e \<Rightarrow> ret (Ret (False, Some e)) | None \<Rightarrow> ret (Ret (True, None))) }
                   else ret (Ret (requeue \<or> reconcileRecovery \<ge> requeueLater \<or> reconcileStatefulSet \<ge> requeueLater, None)) }))"

text \<open>The objects around the StatefulSet, then the status.\<close>

definition reconcileResources ::
  "'e Kube \<Rightarrow> bool \<Rightarrow> WildFlyServer \<Rightarrow> StatefulSet \<Rightarrow> Pod list \<Rightarrow> int \<Rightarrow> int \<Rightarrow> int \<Rightarrow> ('e, result) kop" where
  "reconcileResources K isOpenShift w sts items numberOfPodsToScaleDown reconcileRecovery reconcileStatefulSet =
     do { services \<leftarrow> reconcileServices K w;
          (case services of
             Some r \<Rightarrow> ret (Ret r)
           | None \<Rightarrow>
     do { route \<leftarrow> reconcileRoute K isOpenShift w;
          (case route of
             Inl r \<Rightarrow> ret (Ret r)
           | Inr rt \<Rightarrow>
     do { monitor \<leftarrow> reconcileServiceMonitor K w;
          (case monitor of
             Some r \<Rightarrow> ret (Ret r)
           | None \<Rightarrow> reconcileStatus K isOpenShift w sts items rt numberOfPodsToScaleDown
                       reconcileRecovery reconcileStatefulSet) }) }) }"

text \<open>Labels, recovery and size of the StatefulSet.\<close>

definition reconcileScaleDown ::
  "'e Kube \<Rightarrow> bool \<Rightarrow> WildFlyServer \<Rightarrow> StatefulSet \<Rightarrow> Pod list \<Rightarrow> int \<Rightarrow> ('e, result) kop" where
  "reconcileScaleDown K isOpenShift w sts items numberOfPodsToScaleDown =
     do { labelled \<leftarrow> setLabelAsDisabled K w MarkerOperatedByLoadbalancer numberOfPodsToScaleDown items;
          (case labelled of
             Panic \<Rightarrow> ret Panic
           | Ret (updated, err) \<Rightarrow>
               if updated \<or> err \<noteq> None then ret (Ret (updated, err)) else
     do { recovered \<leftarrow> processTransactionRecoveryScaleDown K w numberOfPodsToScaleDown items;
          (case recovered of
             Panic \<Rightarrow> ret Panic
           | Ret ((reconcileRecovery, err), w1) \<Rightarrow>
               if reconcileRecovery = requeueNow then ret (Ret (True, err)) else
     do { checked \<leftarrow> checkStatefulSet K isOpenShift w1 sts items;
          (case checked of
             Panic \<Rightarrow> ret Panic
           | Ret (reconcileStatefulSet, err) \<Rightarrow>
               if reconcileStatefulSet = requeueNow then ret (Ret (True, err))
               else if err \<noteq> None then ret (Ret (False, err))
               else reconcileResources K isOpenShift w1 sts items numberOfPodsToScaleDown
                      reconcileRecovery reconcileStatefulSet) }) }) }"

text \<open>The list of the pods, the clean-up of the status, and the waits for the StatefulSet controller.\<close>

definition reconcilePods :: "'e Kube \<Rightarrow> bool \<Rightarrow> WildFlyServer \<Rightarrow> StatefulSet \<Rightarrow> ('e, result) kop" where
  "reconcilePods K isOpenShift w sts =
     do { podList \<leftarrow> GetPodsForWildFly K w;
          (case podList of
             Inl err \<Rightarrow> ret (Ret (False, Some err))
           | Inr items \<Rightarrow>
               (case sts_Replicas sts of
                  None \<Rightarrow> ret Panic
                | Some statefulsetSpecSize \<Rightarrow>
                    (let wildflyServerSpecSize = sp_Replicas (wf_Spec w);
                         numberOfDeployedPods = wrap32 (int (length items));
                         numberOfPodsToScaleDown = wrap32 (statefulsetSpecSize - wildflyServerSpecSize)
                     in do { ((updated, err), w1) \<leftarrow> cleanUpPodStatus K w items;
                             if err \<noteq> None then ret (Ret (False, err))
                             else if updated then ret (Ret (True, None))
                             else if statefulsetSpecSize = wildflyServerSpecSize \<and> numberOfDeployedPods \<noteq> wildflyServerSpecSize
                             then ret (Ret (True, None))
                             else if numberOfDeployedPods < statefulsetSpecSize then ret (Ret (True, None))
                             else reconcileScaleDown K isOpenShift w1 sts items numberOfPodsToScaleDown }))) }"

definition reconcileServer :: "'e Kube \<Rightarrow> bool \<Rightarrow> WildFlyServer \<Rightarrow> ('e, result) kop" where
  "reconcileServer K isOpenShift w0 =
     (let w = w0\<lparr>wf_Status := (wf_Status w0)\<lparr>st_Selector := ''app.kubernetes.io/name='' @ wf_Name w0\<rparr>\<rparr>;
          desired = wrap32 (sp_Replicas (wf_Spec w) + st_ScalingdownPods (wf_Status w))
      in do { statefulSet \<leftarrow> GetOrCreateNewStatefulSet K w (LabelsForWildFly (k_Env K) w) desired isOpenShift;
              (case statefulSet of
                 Inl err \<Rightarrow> ret (Ret (False, Some err))
               | Inr None \<Rightarrow> ret (Ret (True, None))
               | Inr (Some sts) \<Rightarrow> reconcilePods K isOpenShift w sts) })"

definition Reconcile :: "'e Kube \<Rightarrow> bool \<Rightarrow> string \<Rightarrow> string \<Rightarrow> ('e, result) kop" where
  "Reconcile K isOpenShift namespace name =
     do { found \<leftarrow> call (k_GetWildFlyServer K namespace name) (EvGetWildFlyServer namespace name);
          (case found of
             Inl err \<Rightarrow> if IsNotFound (Some err) then ret (Ret (False, None)) else ret (Ret (False, Some err))
           | Inr w \<Rightarrow>
               (case validate w of
                  (True, _) \<Rightarrow> reconcileServer K isOpenShift w
                | (False, err) \<Rightarrow> do { r \<leftarrow> manageError err; ret (Ret r) })) }"

section \<open>Environment variables of a container\<close>

lemma matches_loop_spec:
  "fst (matches_loop v es) = (find (\<lambda>e. ev_Name e = ev_Name v) es = Some v) \<and>
   (fst (matches_loop v es) \<longrightarrow> snd (matches_loop v es) = es) \<and>
   find (\<lambda>e. ev_Name e = n) (snd (matches_loop v es)) =
     (if n = ev_Name v then Some v else find (\<lambda>e. ev_Name e = n) es)"
proof (induction es)
  case (Cons e es)
  then show ?case by (cases "ev_Name v = ev_Name e") (auto simp: case_prod_beta)
qed simp

text \<open>
  \<open>matches\<close> puts a variable of the specification into a container. Afterwards looking up its
  name gives exactly that variable, every other name is looked up as before, and only the
  environment has changed. It returns true if and only if the container had that variable
  already, and then leaves the container as it was; so asking again returns true.
\<close>

theorem matches_correct:
  "(fst (matches container v) \<longleftrightarrow> find (\<lambda>e. ev_Name e = ev_Name v) (c_Env container) = Some v) \<and>
   (fst (matches container v) \<longrightarrow> snd (matches container v) = container) \<and>
   (\<forall>n. find (\<lambda>e. ev_Name e = n) (c_Env (snd (matches container v))) =
      (if n = ev_Name v then Some v else find (\<lambda>e. ev_Name e = n) (c_Env container))) \<and>
   (snd (matches container v))\<lparr>c_Env := c_Env container\<rparr> = container \<and>
   fst (matches (snd (matches container v)) v)"
  using matches_loop_spec[of v "c_Env container"] matches_loop_spec[of v "snd (matches_loop v (c_Env container))"]
  by (simp add: matches_def case_prod_beta)

theorem matches_correct_witness:
  "\<not> fst (matches (hd (pod_Containers sample_pod)) \<lparr>ev_Name = ''A'', ev_Value = EnvLiteral ''1''\<rparr>) \<and>
   find (\<lambda>e. ev_Name e = ''A'') (c_Env (snd (matches (hd (pod_Containers sample_pod))
     \<lparr>ev_Name = ''A'', ev_Value = EnvLiteral ''1''\<rparr>))) = Some \<lparr>ev_Name = ''A'', ev_Value = EnvLiteral ''1''\<rparr>"
  using matches_correct[of "hd (pod_Containers sample_pod)" "\<lparr>ev_Name = ''A'', ev_Value = EnvLiteral ''1''\<rparr>"]
  by (simp add: sample_pod_def)

section \<open>The size of the StatefulSet\<close>

definition listed :: "(string \<rightharpoonup> PodStatus) \<Rightarrow> Pod \<Rightarrow> bool" where
  "listed m pod \<longleftrightarrow> m (pod_Name pod) \<noteq> None"

definition is_clean :: "(string \<rightharpoonup> PodStatus) \<Rightarrow> Pod \<Rightarrow> bool" where
  "is_clean m pod \<longleftrightarrow> (\<exists>v. m (pod_Name pod) = Some v \<and> ps_State v = PodStateScalingDownClean)"

lemma podsToShutdown_takeWhile:
  "podsToShutdown m pods = int (length (takeWhile (is_clean m) (filter (listed m) pods)))"
  by (induction pods) (auto simp: listed_def is_clean_def split: option.split)

lemma podsToShutdown_bounds: "0 \<le> podsToShutdown m pods \<and> podsToShutdown m pods \<le> int (length pods)"
proof -
  have "length (takeWhile (is_clean m) (filter (listed m) pods)) \<le> length (filter (listed m) pods)"
    by (rule length_takeWhile_le)
  also have "\<dots> \<le> length pods" by (rule length_filter_le)
  finally show ?thesis by (simp add: podsToShutdown_takeWhile)
qed

lemma calculatedReplicas_eq:
  "in_int32 (int (length items)) \<Longrightarrow>
   calculatedReplicas w items = int (length items) - podsToShutdown (statusMap (wf_Pods w)) (rev items)"
  using podsToShutdown_bounds[of "statusMap (wf_Pods w)" "rev items"]
  by (simp add: calculatedReplicas_def in_int32_def)

text \<open>The pods from the calculated size on are clean, if all pods are listed.\<close>

lemma calculatedReplicas_clean:
  assumes "in_int32 (int (length items))" and "list_all (listed (statusMap (wf_Pods w))) items"
    and "i < length items" and "calculatedReplicas w items \<le> int i"
  shows "is_clean (statusMap (wf_Pods w)) (items ! i)"
proof -
  let ?m = "statusMap (wf_Pods w)"
  have all: "filter (listed ?m) (rev items) = rev items"
    using assms(2) by (simp add: list_all_iff)
  let ?t = "takeWhile (is_clean ?m) (rev items)"
  have "int (length items) - int (length ?t) \<le> int i"
    using assms(1,4) by (simp add: calculatedReplicas_eq podsToShutdown_takeWhile all)
  then have j: "length items - Suc i < length ?t" using assms(3) by linarith
  then have "is_clean ?m (?t ! (length items - Suc i))" by (metis nth_mem set_takeWhileD)
  moreover have "?t ! (length items - Suc i) = items ! i"
    using j assms(3) by (simp add: takeWhile_nth rev_nth)
  ultimately show ?thesis by simp
qed


section \<open>What checkStatefulSet writes\<close>

lemma scaleStatefulSet_spec:
  "does (scaleStatefulSet w sts r items) (\<lambda>(sts', desired, update, requeue) evs.
     no_write evs \<and> sts_Meta sts' = sts_Meta sts \<and> sts_VolumeClaimTemplates sts' = sts_VolumeClaimTemplates sts \<and>
     sts_StatusReplicas sts' = sts_StatusReplicas sts \<and> requeue \<in> {requeueOff, requeueLater} \<and>
     (update \<longrightarrow> sts_Replicas sts' = Some desired) \<and> (\<not> update \<longrightarrow> sts' = sts) \<and>
     (sp_Replicas (wf_Spec w) > r \<longrightarrow> update \<and> desired = sp_Replicas (wf_Spec w)) \<and>
     (sp_Replicas (wf_Spec w) = r \<longrightarrow> \<not> update \<and> desired = r \<and> requeue = requeueOff) \<and>
     (sp_Replicas (wf_Spec w) < r \<longrightarrow> desired = calculatedReplicas w items \<and>
        (update \<longleftrightarrow> sp_Replicas (wf_Spec w) \<le> desired \<and> desired < r) \<and>
        (requeue = requeueLater \<longleftrightarrow> sp_Replicas (wf_Spec w) < desired)))"
  unfolding scaleStatefulSet_def Let_def
  by (intro does_rules) (auto simp: requeueOff_def requeueLater_def)

lemmas does_scaleStatefulSet [does_rules] = does_mono[OF scaleStatefulSet_spec]

text \<open>The writes of a trace.\<close>

definition writes :: "event list \<Rightarrow> event list" where
  "writes evs = filter is_write evs"

lemma writes_append [simp]: "writes (xs @ ys) = writes xs @ writes ys"
  by (simp add: writes_def)

lemma writes_simps [simp]:
  "writes [] = []" "writes (v # evs) = (if is_write v then v # writes evs else writes evs)"
  by (simp_all add: writes_def)

lemma writes_no_write [simp]: "no_write evs \<Longrightarrow> writes evs = []"
  by (simp add: writes_def filter_empty_conv list_all_iff)

lemma mark_object_StatefulSet [simp]:
  "mark_object w (ObjStatefulSet s) = ObjStatefulSet (s\<lparr>sts_Meta := MarkServerGeneration w (sts_Meta s)\<rparr>)"
  by (simp add: mark_object_def)

text \<open>
  What \<open>checkStatefulSet\<close> does, by the write it makes: none, a deletion, or an update to some
  size. \<open>r\<close> is the size of the StatefulSet that was found.
\<close>

inductive resizes ::
  "WildFlyServer \<Rightarrow> StatefulSet \<Rightarrow> int \<Rightarrow> Pod list \<Rightarrow> (int \<times> error option) outcome \<Rightarrow> event list \<Rightarrow> bool"
  for w found r items where
  leave: "IsCurrentGeneration w (sts_Meta found) \<Longrightarrow> sp_Replicas (wf_Spec w) \<le> r \<Longrightarrow>
     q = (if sp_Replicas (wf_Spec w) < r \<and> sp_Replicas (wf_Spec w) < calculatedReplicas w items
          then requeueLater else requeueOff) \<Longrightarrow>
     (sp_Replicas (wf_Spec w) < r \<Longrightarrow> sp_Replicas (wf_Spec w) \<le> calculatedReplicas w items \<Longrightarrow>
        r \<le> calculatedReplicas w items) \<Longrightarrow>
     resizes w found r items (Ret (q, None)) []"
| crash: "\<not> IsCurrentGeneration w (sts_Meta found) \<Longrightarrow> om_Annotations (sts_Meta found) = None \<Longrightarrow>
     resizes w found r items Panic []"
| delete: "\<not> IsCurrentGeneration w (sts_Meta found) \<Longrightarrow>
     resizes w found r items (Ret (requeueNow, e)) [EvDelete (ObjStatefulSet s) e]"
| resize: "sts_Replicas s = Some k \<Longrightarrow> om_Name (sts_Meta s) = om_Name (sts_Meta found) \<Longrightarrow>
     (r \<le> sp_Replicas (wf_Spec w) \<Longrightarrow> k = sp_Replicas (wf_Spec w)) \<Longrightarrow>
     (sp_Replicas (wf_Spec w) < r \<Longrightarrow> k = calculatedReplicas w items) \<Longrightarrow>
     (IsCurrentGeneration w (sts_Meta found) \<Longrightarrow> sp_Replicas (wf_Spec w) < r \<Longrightarrow>
        sp_Replicas (wf_Spec w) \<le> k \<and> k < r) \<Longrightarrow>
     resizes w found r items (Ret (requeueNow, e)) [EvUpdate (ObjStatefulSet s) e]"

inductive_cases resizes_PanicE: "resizes w found r items Panic ws"
inductive_cases resizes_UpdateE: "resizes w found r items res [EvUpdate x e]"

lemma NewStatefulSet_server [simp]:
  "wf_Generation (snd (NewStatefulSet K w labels n b)) = wf_Generation w"
  by (simp add: NewStatefulSet_def createLivenessProbe_def createReadinessProbe_def createStartupProbe_def
      Let_def split: prod.split)

lemma checkStatefulSet_resizes:
  assumes "sts_Replicas found = Some r"
  shows "does (checkStatefulSet K isOpenShift w found items) (\<lambda>res evs. resizes w found r items res (writes evs))"
  unfolding checkStatefulSet_def renewStatefulSet_def assms option.case
  by (intro does_rules) (auto intro: resizes.intros)

end
