(* ===== verification/Reconcile_Stages.thy ===== *)
theory Reconcile_Stages
  imports Controller
begin

text \<open>
  The stages of a pass around the StatefulSet: what each writes, and under which result the
  pass goes on. The contract \<open>resource_stage\<close> extends \<open>reconcile_stage\<close> and holds for every object
  the operator brings up to date.
\<close>

section \<open>The StatefulSets a trace updates\<close>

fun sts_update :: "event \<Rightarrow> StatefulSet option" where
  "sts_update (EvUpdate (ObjStatefulSet s) _) = Some s"
| "sts_update _ = None"

definition resized :: "event list \<Rightarrow> StatefulSet list" where
  "resized evs = List.map_filter sts_update evs"

lemma resized_simps [simp]:
  "resized [] = []" "resized (v # evs) = (case sts_update v of None \<Rightarrow> resized evs | Some s \<Rightarrow> s # resized evs)"
  "resized (xs @ ys) = resized xs @ resized ys"
  by (auto simp: resized_def List.map_filter_def split: option.split)

lemma resized_writes: "resized (writes evs) = resized evs"
  by (induction evs) (auto split: option.split elim: sts_update.elims)

lemma resized_none:
  "list_all (\<lambda>v. is_object_write v \<longrightarrow> is_pod_write v) evs \<Longrightarrow> resized evs = []"
proof (induction evs)
  case (Cons v evs)
  then show ?case by (cases v rule: sts_update.cases) auto
qed simp

lemma resized_no_write [simp]: "no_write evs \<Longrightarrow> resized evs = []"
  by (simp add: resized_none)

section \<open>The stages of a pass\<close>

text \<open>
  A stage that brings one object up to date never resizes the StatefulSet. In the form in which
  the pass runs it, a stage that lets the pass go on has written nothing.
\<close>

locale resource_stage = reconcile_stage stage for stage :: "('e, error + 'x option) kop" +
  assumes no_resize: "does stage (\<lambda>r evs. resized evs = [])"
begin

lemma stage_outcome:
  "does stage (\<lambda>r evs. resized evs = [] \<and> list_all (\<lambda>v. \<not> is_status_update v) evs \<and>
     (stage_result r = None \<longrightarrow> no_write evs) \<and> stage_result r \<noteq> Some (False, None))"
  by (rule does_mono[OF does_conj[OF no_resize stage_spec]])
     (auto simp: stage_result_def settled_def list_all_iff list_ex_iff
       split: sum.splits option.splits elim!: is_status_update.elims)

lemmas does_stage = does_mono[OF stage_outcome]

end

lemma createOrUpdateService_resource: "resource_stage (createOrUpdateService K w labels name creator)"
  by (intro resource_stage.intro createOrUpdateService_stage resource_stage_axioms.intro)
     (unfold createOrUpdateService_def, intro does_rules; simp add: mark_object_def)

interpretation cluster_resource: resource_stage "CreateOrUpdateClusterService K w labels" for K w labels
  unfolding CreateOrUpdateClusterService_def by (rule createOrUpdateService_resource)

interpretation headless_resource: resource_stage "CreateOrUpdateHeadlessService K w labels" for K w labels
  unfolding CreateOrUpdateHeadlessService_def by (rule createOrUpdateService_resource)

interpretation admin_resource: resource_stage "CreateOrUpdateAdminService K w labels" for K w labels
  unfolding CreateOrUpdateAdminService_def by (rule createOrUpdateService_resource)

interpretation route_resource: resource_stage "GetOrCreateNewRoute K w labels" for K w labels
  unfolding GetOrCreateNewRoute_def
  by unfold_locales (intro does_rules; simp add: settled_def mark_object_def)+

interpretation monitor_resource: resource_stage "GetOrCreateNewServiceMonitor K w labels" for K w labels
  unfolding GetOrCreateNewServiceMonitor_def
  by unfold_locales (intro does_rules; simp add: settled_def mark_object_def)+

interpretation sts_resource: resource_stage "GetOrCreateNewStatefulSet K w labels n openshift"
  for K w labels n openshift
  unfolding GetOrCreateNewStatefulSet_def
  by unfold_locales (intro does_rules; simp add: settled_def mark_object_def)+

lemmas does_resources = cluster_resource.does_stage headless_resource.does_stage admin_resource.does_stage
  route_resource.does_stage monitor_resource.does_stage sts_resource.does_stage

text \<open>The parts of a pass after the StatefulSet.\<close>

abbreviation quiet :: "event list \<Rightarrow> bool" where
  "quiet evs \<equiv> resized evs = [] \<and> list_all (\<lambda>v. \<not> is_status_update v) evs"

lemma no_write_quiet: "no_write evs \<Longrightarrow> quiet evs"
  by (simp add: no_write_no_status)

lemma reconcileServices_spec:
  "does (reconcileServices K w) (\<lambda>r evs. quiet evs \<and> (r = None \<longrightarrow> no_write evs) \<and> r \<noteq> Some (False, None))"
  unfolding reconcileServices_def
  by (intro does_rules does_resources) auto

lemmas does_reconcileServices [does_rules] = does_mono[OF reconcileServices_spec]

fun route_deletion :: "event \<Rightarrow> bool" where
  "route_deletion (EvDelete (ObjRoute _) None) = True"
| "route_deletion _ = False"

lemma reconcileRoute_spec:
  "does (reconcileRoute K isOpenShift w) (\<lambda>r evs. quiet evs \<and>
     (\<forall>rt. r = Inr rt \<longrightarrow> list_all route_deletion (writes evs) \<and>
        (writes evs \<noteq> [] \<longrightarrow> isOpenShift \<and> sp_DisableHTTPRoute (wf_Spec w)) \<and>
        (rt = None \<longrightarrow> \<not> isOpenShift \<or> sp_DisableHTTPRoute (wf_Spec w))) \<and>
     r \<noteq> Inl (False, None))"
  unfolding reconcileRoute_def DeleteExistingRoute_def
  by (intro does_rules does_resources) (auto simp: stage_result_def)

lemmas does_reconcileRoute [does_rules] = does_mono[OF reconcileRoute_spec]

lemma CustomResourceDefinitionExists_spec: "does (CustomResourceDefinitionExists K gv kind) (\<lambda>r evs. no_write evs)"
  unfolding CustomResourceDefinitionExists_def by (intro does_rules; simp)

lemma reconcileServiceMonitor_spec:
  "does (reconcileServiceMonitor K w) (\<lambda>r evs. quiet evs \<and> (r = None \<longrightarrow> no_write evs) \<and> r \<noteq> Some (False, None))"
  unfolding reconcileServiceMonitor_def hasServiceMonitor_def
  by (intro does_rules does_resources does_mono[OF CustomResourceDefinitionExists_spec])
     (auto simp: no_write_quiet)

lemmas does_reconcileServiceMonitor [does_rules] = does_mono[OF reconcileServiceMonitor_spec]

section \<open>The status\<close>

fun deleted_pod :: "event \<Rightarrow> Pod option" where
  "deleted_pod (EvDelete (ObjPod p) _) = Some p"
| "deleted_pod _ = None"

lemma deleted_pod_Some [simp]: "deleted_pod v = Some p \<longleftrightarrow> (\<exists>e. v = EvDelete (ObjPod p) e)"
  by (cases v rule: deleted_pod.cases) auto

lemma deleted_pods_quiet: "map deleted_pod evs = map Some pods \<Longrightarrow> quiet evs \<and> pods_only evs"
  by (induction evs arbitrary: pods) (auto simp: Cons_eq_map_conv)

lemma deletePods_spec: "does (deletePods K w pods) (\<lambda>_ evs. map deleted_pod evs = map Some pods)"
proof (induction pods)
  case Nil
  show ?case by (simp add: does_return)
next
  case (Cons pod pods)
  show ?case unfolding deletePods.simps
    by (intro does_rules does_mono[OF Cons.IH]) simp
qed

text \<open>
  The entries that are reset and the pods that are deleted with them. \<open>refreshPods\<close> has come
  to entry \<open>k\<close>.
\<close>

abbreviation inactive :: "PodStatus \<Rightarrow> bool" where
  "inactive v \<equiv> ps_State v \<noteq> PodStateActive"

definition podsOf :: "Pod list \<Rightarrow> PodStatus list \<Rightarrow> Pod list" where
  "podsOf items vs = concat (map (\<lambda>v. filter (\<lambda>pod. pod_Name pod = ps_Name v) items) vs)"

lemma podsOf_simps [simp]:
  "podsOf items [] = []" "podsOf items (v # vs) = filter (\<lambda>pod. pod_Name pod = ps_Name v) items @ podsOf items vs"
  by (simp_all add: podsOf_def)

lemma update_entry_status [simp]:
  "st_Replicas (wf_Status (update_entry i f w)) = st_Replicas (wf_Status w)"
  "st_Hosts (wf_Status (update_entry i f w)) = st_Hosts (wf_Status w)"
  "st_ScalingdownPods (wf_Status (update_entry i f w)) = st_ScalingdownPods (wf_Status w)"
  by (simp_all add: update_entry_def)

lemma refreshPods_run:
  "drop k (wf_Pods w) = vs \<Longrightarrow>
   does (refreshPods K items k vs w u) (\<lambda>(w', u') evs.
     map deleted_pod evs = map Some (podsOf items (filter inactive vs)) \<and>
     wf_Pods w' = take k (wf_Pods w) @ map (with_state PodStateActive) vs \<and>
     (u' \<longleftrightarrow> u \<or> list_ex inactive vs) \<and> (\<not> list_ex inactive vs \<longrightarrow> w' = w) \<and>
     wf_Spec w' = wf_Spec w \<and> wf_Meta w' = wf_Meta w \<and> st_Replicas (wf_Status w') = st_Replicas (wf_Status w) \<and>
     st_Hosts (wf_Status w') = st_Hosts (wf_Status w) \<and>
     st_ScalingdownPods (wf_Status w') = st_ScalingdownPods (wf_Status w))"
proof (induction vs arbitrary: k w u)
  case Nil
  then show ?case by (simp add: does_return)
next
  case (Cons v vs)
  have k: "k < length (wf_Pods w)" and v: "wf_Pods w ! k = v"
    using Cons.prems by (metis drop_eq_Nil list.distinct(1) not_le, metis Cons.prems drop_eq_Nil hd_drop_conv_nth list.distinct(1) list.sel(1) not_le)
  have rest: "drop (Suc k) (wf_Pods w) = vs" using Cons.prems by (metis drop_Suc list.sel(3) tl_drop)
  let ?w = "update_entry k (with_state PodStateActive) w"
  have "drop (Suc k) (wf_Pods ?w) = vs" using rest by simp
  note reset = Cons.IH[OF this] and keep = Cons.IH[OF rest]
  have tk: "take (Suc k) (wf_Pods ?w) = take k (wf_Pods w) @ [with_state PodStateActive v]"
    "take (Suc k) (wf_Pods w) = take k (wf_Pods w) @ [v]"
    using k v by (simp_all add: take_Suc_conv_app_nth)
  show ?case unfolding refreshPods.simps
    by (intro does_rules does_mono[OF deletePods_spec] does_mono[OF reset] does_mono[OF keep])
       (use tk in \<open>auto simp: with_state_id\<close>)
qed

lemma reset_active:
  "vs' = map (with_state PodStateActive) vs \<Longrightarrow> list_all (\<lambda>v. ps_State v = PodStateActive) vs'"
  by (simp add: list_all_iff)

text \<open>
  C14: When the StatefulSet is no longer to be scaled down, every entry of the status that was in
  the scale down becomes active again, and exactly the pods of these entries are deleted, in the
  order of the entries, so that they come back with fresh labels and settings. Active entries
  and their pods are left alone, and so is the rest of the WildFlyServer.
\<close>

theorem refreshPods_resets:
  "does (refreshPods K items 0 (wf_Pods w) w update) (\<lambda>(w', update') evs.
     map deleted_pod evs = map Some (podsOf items (filter inactive (wf_Pods w))) \<and>
     wf_Pods w' = map (with_state PodStateActive) (wf_Pods w) \<and>
     list_all (\<lambda>v. ps_State v = PodStateActive) (wf_Pods w') \<and>
     (update' \<longleftrightarrow> update \<or> list_ex inactive (wf_Pods w)) \<and>
     (\<not> list_ex inactive (wf_Pods w) \<longrightarrow> w' = w \<and> evs = []) \<and>
     wf_Spec w' = wf_Spec w \<and> wf_Meta w' = wf_Meta w)"
  by (rule does_mono[OF refreshPods_run[OF drop_0]]) (auto simp: filter_False list_ex_iff intro: reset_active)

theorem refreshPods_resets_witness:
  "does (refreshPods fake_kube [named_pod ''wf-0'', named_pod ''wf-1''] 0
      (wf_Pods (with_pods [(''wf-0'', PodStateActive), (''wf-1'', PodStateScalingDownClean)]))
      (with_pods [(''wf-0'', PodStateActive), (''wf-1'', PodStateScalingDownClean)]) False)
    (\<lambda>(w', update') evs. update' \<and> map deleted_pod evs = [Some (named_pod ''wf-1'')])"
  by (rule does_mono[OF refreshPods_resets]) (auto simp: with_pods_def named_pod_def)

text \<open>What holds of the WildFlyServer when the last part of a pass has nothing to write.\<close>

definition up_to_date :: "WildFlyServer \<Rightarrow> StatefulSet \<Rightarrow> Pod list \<Rightarrow> int \<Rightarrow> bool" where
  "up_to_date w sts items n \<longleftrightarrow>
     st_ScalingdownPods (wf_Status w) = n \<and> st_Replicas (wf_Status w) = sts_StatusReplicas sts \<and>
     snd (getPodStatus items (st_Pods (wf_Status w))) = st_Pods (wf_Status w) \<and>
     list_all (\<lambda>pod. pod_PodIP pod \<noteq> '''') items \<and>
     (n \<le> 0 \<longrightarrow> list_all (\<lambda>v. ps_State v = PodStateActive) (wf_Pods w))"

lemma updateHosts_cases:
  "updateHosts isOpenShift route w = Ret (w', u) \<Longrightarrow> (\<not> u \<longrightarrow> w' = w) \<and> same_server w' w \<and>
     st_Pods (wf_Status w') = st_Pods (wf_Status w)"
  by (auto simp: updateHosts_def set_hosts_def Let_def split: if_splits option.splits)

lemma updateHosts_Panic:
  "updateHosts isOpenShift route w = Panic \<longleftrightarrow> isOpenShift \<and> \<not> sp_DisableHTTPRoute (wf_Spec w) \<and> route = None"
  by (auto simp: updateHosts_def Let_def split: option.splits)

lemma status_requests [simp]:
  "resized [EvUpdateStatus w r] = []" "resized [EvPatchStatus w w' r'] = []"
  by simp_all

lemma list_ex_inactive: "\<not> list_ex inactive vs \<Longrightarrow> list_all (\<lambda>v. ps_State v = PodStateActive) vs"
  by (simp add: list_ex_iff list_all_iff)

lemma reconcileStatus_spec:
  "does (reconcileStatus K isOpenShift w sts items route n rq_rec rq_sts) (\<lambda>r evs.
     resized evs = [] \<and>
     (r = Panic \<longrightarrow> isOpenShift \<and> \<not> sp_DisableHTTPRoute (wf_Spec w) \<and> route = None) \<and>
     (r = Ret (False, None) \<longrightarrow> evs = [] \<and> up_to_date w sts items n \<and>
        rq_rec < requeueLater \<and> rq_sts < requeueLater))"
  unfolding reconcileStatus_def Let_def
  by (intro does_rules does_mono[OF refreshPods_run[OF drop_0]])
     (auto simp: updateHosts_Panic up_to_date_def getPodStatus_def list_ex_iff list_all_iff set_scalingdown_def
       dest!: updateHosts_cases deleted_pods_quiet split: if_splits)

lemmas does_reconcileStatus [does_rules] = does_mono[OF reconcileStatus_spec]

lemma reconcileResources_spec:
  "does (reconcileResources K isOpenShift w sts items n rq_rec rq_sts) (\<lambda>r evs.
     resized evs = [] \<and> r \<noteq> Panic \<and>
     (r = Ret (False, None) \<longrightarrow> list_all route_deletion (writes evs) \<and> up_to_date w sts items n \<and>
        rq_rec < requeueLater \<and> rq_sts < requeueLater))"
  unfolding reconcileResources_def by (intro does_rules) auto

lemmas does_reconcileResources [does_rules] = does_mono[OF reconcileResources_spec]

section \<open>Hosts\<close>

lemma st_Hosts_simps [simp]:
  "st_Hosts (wf_Status (set_scalingdown n w)) = st_Hosts (wf_Status w)"
  "st_Hosts (wf_Status (set_pods vs w)) = st_Hosts (wf_Status w)"
  "st_Hosts (wf_Status (set_replicas n w)) = st_Hosts (wf_Status w)"
  "st_Hosts (wf_Status (set_hosts hs w)) = hs"
  by (simp_all add: set_scalingdown_def set_pods_def set_replicas_def set_hosts_def)

end
