(* ===== verification/Scaling.thy ===== *)
theory Scaling
  imports Reconcile_Stages
begin

text \<open>
  The size of the StatefulSet over one pass: which sizes \<open>checkStatefulSet\<close> may send, and the
  safety of the scale down from the labels over the recovery to the update.
\<close>

section \<open>What checkStatefulSet gives up\<close>

lemma resizes_resized:
  assumes "resizes w found r items res ws" and "s \<in> set (resized ws)"
  obtains k where "sts_Replicas s = Some k" and "r \<le> sp_Replicas (wf_Spec w) \<Longrightarrow> k = sp_Replicas (wf_Spec w)"
    and "sp_Replicas (wf_Spec w) < r \<Longrightarrow> k = calculatedReplicas w items"
    and "IsCurrentGeneration w (sts_Meta found) \<Longrightarrow> sp_Replicas (wf_Spec w) < r \<Longrightarrow>
      sp_Replicas (wf_Spec w) \<le> k \<and> k < r"
  using assms by (cases rule: resizes.cases) auto


abbreviation half_clean :: WildFlyServer where
  "half_clean \<equiv> with_pods [(''wf-0'', PodStateActive), (''wf-1'', PodStateScalingDownClean)]"



section \<open>From the labels to the update\<close>

text \<open>The status lists exactly the pods, in their order, as \<open>getPodStatus\<close> leaves it.\<close>

definition in_sync :: "WildFlyServer \<Rightarrow> Pod list \<Rightarrow> bool" where
  "in_sync w items \<longleftrightarrow> map ps_Name (wf_Pods w) = map pod_Name items \<and> distinct (map pod_Name items)"

text \<open>
  Pod number \<open>i\<close> may be removed: it was clean before the pass, or proven clean in it, or there
  is a reason to skip the recovery; and if it is among the last \<open>n\<close> pods, the load balancer
  does not reach it.
\<close>

definition may_remove :: "'e Kube \<Rightarrow> WildFlyServer \<Rightarrow> Pod list \<Rightarrow> int \<Rightarrow> event list \<Rightarrow> nat \<Rightarrow> bool" where
  "may_remove K w items n evs i \<longleftrightarrow>
     (ps_State (wf_Pods w ! i) = PodStateScalingDownClean \<or> skip_reason K w items evs \<or>
      proven_clean K (items ! i) evs) \<and>
     (length items \<le> i + nat n \<longrightarrow> has_label MarkerOperatedByLoadbalancer markerServiceDisabled (items ! i))"

lemma may_remove_mono: "may_remove K w items n evs i \<Longrightarrow> may_remove K w items n (xs @ evs @ ys) i"
  unfolding may_remove_def using skip_reason_mono proven_clean_mono by blast

lemma names_kept:
  "status_chain vs evs \<Longrightarrow> list_all echoes evs \<Longrightarrow> map ps_Name (status_after vs evs) = map ps_Name vs"
  by (induction vs evs rule: status_after.induct) (auto dest: evolves_names split: sum.splits)

lemma in_sync_nth:
  assumes "in_sync w items" and "map ps_Name (wf_Pods w1) = map ps_Name (wf_Pods w)" and "i < length items"
  shows "statusMap (wf_Pods w1) (pod_Name (items ! i)) = Some (wf_Pods w1 ! i)"
    and "ps_Name (wf_Pods w ! i) = pod_Name (items ! i)" and "i < length (wf_Pods w)"
proof -
  have eq: "map ps_Name (wf_Pods w1) = map pod_Name items" and d: "distinct (map ps_Name (wf_Pods w1))"
    using assms(1,2) by (simp_all add: in_sync_def)
  have "length (wf_Pods w1) = length items" using eq by (metis length_map)
  then show "statusMap (wf_Pods w1) (pod_Name (items ! i)) = Some (wf_Pods w1 ! i)"
    using statusMap_distinct[OF d nth_mem, of i] arg_cong[OF eq, of "\<lambda>xs. xs ! i"] assms(3) by simp
  have eq0: "map ps_Name (wf_Pods w) = map pod_Name items" using assms(1) by (simp add: in_sync_def)
  then have l: "length (wf_Pods w) = length items" by (metis length_map)
  then show "ps_Name (wf_Pods w ! i) = pod_Name (items ! i)" using arg_cong[OF eq0, of "\<lambda>xs. xs ! i"] assms(3) by simp
  show "i < length (wf_Pods w)" using l assms(3) by simp
qed

lemma in_sync_listed:
  assumes "in_sync w items" and "map ps_Name (wf_Pods w1) = map ps_Name (wf_Pods w)"
  shows "list_all (listed (statusMap (wf_Pods w1))) items"
  unfolding list_all_length listed_def using in_sync_nth(1)[OF assms] by simp

text \<open>The pods that are clean after the recovery may be removed.\<close>

lemma clean_may_remove:
  assumes sync: "in_sync w items" and names: "map ps_Name (wf_Pods w1) = map ps_Name (wf_Pods w)"
    and just: "justified K (skip_reason K w items evs) items (wf_Pods w) (wf_Pods w1) evs"
    and labels: "list_all (has_label MarkerOperatedByLoadbalancer markerServiceDisabled) (take (nat n) (rev items))"
    and i: "i < length items" and clean: "is_clean (statusMap (wf_Pods w1)) (items ! i)"
  shows "may_remove K w items n evs i"
proof -
  note nth = in_sync_nth[OF sync names i]
  have "ps_State (wf_Pods w1 ! i) = PodStateScalingDownClean" using clean nth(1) by (simp add: is_clean_def)
  moreover have "pod = items ! i" if "pod \<in> set items" "pod_Name pod = pod_Name (items ! i)" for pod
    using that nth_mem[OF i] sync by (auto simp: in_sync_def distinct_map dest: inj_onD)
  ultimately have "ps_State (wf_Pods w ! i) = PodStateScalingDownClean \<or> skip_reason K w items evs \<or>
      proven_clean K (items ! i) evs"
    using just nth(2,3) unfolding justified_def by metis
  moreover have "has_label MarkerOperatedByLoadbalancer markerServiceDisabled (items ! i)"
    if "length items \<le> i + nat n"
  proof -
    have "items ! i = take (nat n) (rev items) ! (length items - Suc i)"
      using that i by (simp add: rev_nth)
    moreover have "length items - Suc i < length (take (nat n) (rev items))" using that i by auto
    ultimately show ?thesis using labels by (metis list_all_length)
  qed
  ultimately show ?thesis by (simp add: may_remove_def)
qed

text \<open>A StatefulSet of size \<open>r\<close>, larger than the specification, shrinks safely.\<close>

definition shrinks_safely ::
  "'e Kube \<Rightarrow> WildFlyServer \<Rightarrow> StatefulSet \<Rightarrow> int \<Rightarrow> Pod list \<Rightarrow> int \<Rightarrow> event list \<Rightarrow> bool" where
  "shrinks_safely K w sts r items n evs \<longleftrightarrow> (\<forall>s\<in>set (resized evs). \<exists>k. sts_Replicas s = Some k \<and>
     (IsCurrentGeneration w (sts_Meta sts) \<longrightarrow> sp_Replicas (wf_Spec w) \<le> k \<and> k < r) \<and>
     (\<forall>i<length items. k \<le> int i \<longrightarrow> may_remove K w items n evs i))"

lemma shrinks_safely_none: "resized evs = [] \<Longrightarrow> shrinks_safely K w sts r items n evs"
  by (simp add: shrinks_safely_def)

lemma shrinks_safely_mono:
  assumes "shrinks_safely K w sts r items n evs" and "resized xs = []" and "resized ys = []"
  shows "shrinks_safely K w sts r items n (xs @ evs @ ys)"
  using assms may_remove_mono unfolding shrinks_safely_def by fastforce

lemma shrinks_safely_after:
  "shrinks_safely K w sts r items n (a @ b) \<Longrightarrow> resized c = [] \<Longrightarrow> shrinks_safely K w sts r items n (a @ b @ c)"
  using shrinks_safely_mono[of K w sts r items n "a @ b" "[]" c] by simp

lemma checkStatefulSet_shrinks:
  assumes sync: "in_sync w items" and len: "in_int32 (int (length items))"
    and r: "sts_Replicas sts = Some r" "sp_Replicas (wf_Spec w) < r"
    and labels: "list_all (has_label MarkerOperatedByLoadbalancer markerServiceDisabled) (take (nat n) (rev items))"
    and post: "justifies_all K w items (Ret (x, w1)) evs" "tracks (wf_Pods w) (Ret (x, w1)) evs"
      "keeps_server w (Ret (x, w1)) evs" and echo: "list_all echoes evs"
  shows "does (checkStatefulSet K isOpenShift w1 sts items) (\<lambda>res evs'. shrinks_safely K w sts r items n (evs @ evs'))"
proof -
  have names: "map ps_Name (wf_Pods w1) = map ps_Name (wf_Pods w)"
    using post(2) echo names_kept evolves_names unfolding tracks_def by metis
  have just: "justified K (skip_reason K w items evs) items (wf_Pods w) (wf_Pods w1) evs"
    using post(1) echo by (simp add: justifies_all_def justifies_def)
  have same: "same_server w1 w" and quiet: "resized evs = []"
    using post(3) echo by (simp_all add: keeps_server_def resized_none)
  have gen: "IsCurrentGeneration w1 m = IsCurrentGeneration w m" for m
    using same by (simp add: IsCurrentGeneration_def split: option.split)
  have "may_remove K w items n (evs @ evs') i" if "i < length items" "calculatedReplicas w1 items \<le> int i" for i evs'
    using may_remove_mono[OF clean_may_remove[OF sync names just labels that(1)
        calculatedReplicas_clean[OF len in_sync_listed[OF sync names] that]], of "[]" evs'] by simp
  note rm = this
  show ?thesis
  proof (rule does_mono[OF checkStatefulSet_resizes[OF r(1)]], unfold shrinks_safely_def, rule ballI)
    fix res evs' s assume rs: "resizes w1 sts r items res (writes evs')" and "s \<in> set (resized (evs @ evs'))"
    then have "s \<in> set (resized (writes evs'))" using quiet by (simp add: resized_writes)
    with rs show "\<exists>k. sts_Replicas s = Some k \<and>
        (IsCurrentGeneration w (sts_Meta sts) \<longrightarrow> sp_Replicas (wf_Spec w) \<le> k \<and> k < r) \<and>
        (\<forall>i<length items. k \<le> int i \<longrightarrow> may_remove K w items n (evs @ evs') i)"
      by (rule resizes_resized) (use r(2) same gen rm in auto)
  qed
qed

lemma labels_pod_object: "labels_pod l pods v \<Longrightarrow> is_pod_write v"
  by (auto simp: labels_pod_def)

lemma setLabelAsDisabled_outcome:
  "does (setLabelAsDisabled K w l n items) (\<lambda>r evs. resized evs = [] \<and> pods_only evs \<and>
     (r = Ret (False, None) \<longrightarrow> evs = [] \<and> list_all (has_label l markerServiceDisabled) (take (nat n) (rev items))) \<and>
     (r = Panic \<longrightarrow> (\<exists>pod\<in>set items. om_Labels (pod_Meta pod) = None)))"
  unfolding setLabelAsDisabled_def One_nat_def
proof (rule does_mono[OF setLabelAsDisabled_loop_spec[OF drop_0]], intro conjI)
  fix r evs assume res: "labels_result l (nat n) False [] (rev items) r evs"
  then have "list_all is_pod_write evs"
    by (auto simp: labels_result_def list_all_iff labels_pod_object)
  then show "resized evs = []" and "pods_only evs"
    by (auto simp: pods_only_def list_all_iff intro!: resized_none)
  show "r = Panic \<longrightarrow> (\<exists>pod\<in>set items. om_Labels (pod_Meta pod) = None)"
    using res by (auto simp: labels_result_def dest!: in_set_takeD)
qed (auto simp: labels_result_def)

lemmas does_setLabelAsDisabled [does_rules] = does_mono[OF setLabelAsDisabled_outcome]

lemma checkStatefulSet_shrinks_echo:
  assumes "in_sync w items" and "in_int32 (int (length items))" and "sts_Replicas sts = Some r" and "sp_Replicas (wf_Spec w) < r"
    and "list_all (has_label MarkerOperatedByLoadbalancer markerServiceDisabled) (take (nat n) (rev items))"
    and "justifies_all K w items (Ret (x, w1)) evs" "tracks (wf_Pods w) (Ret (x, w1)) evs"
      "keeps_server w (Ret (x, w1)) evs"
  shows "does (checkStatefulSet K isOpenShift w1 sts items)
    (\<lambda>res evs'. list_all echoes evs \<longrightarrow> shrinks_safely K w sts r items n (evs @ evs'))"
  by (rule does_imp[OF checkStatefulSet_resizes[OF assms(3)]]) (rule checkStatefulSet_shrinks[OF assms])

lemma reconcileScaleDown_shrinks:
  assumes "fair_schedule K" and "in_sync w items" and "in_int32 (int (length items))"
    and "sts_Replicas sts = Some r" and "sp_Replicas (wf_Spec w) < r"
  shows "does (reconcileScaleDown K isOpenShift w sts items n)
    (\<lambda>res evs. list_all echoes evs \<longrightarrow> shrinks_safely K w sts r items n evs)"
proof -
  note recover = does_conj[OF processTransactionRecovery_justifies[OF assms(1)]
      does_conj[OF processTransactionRecovery_tracks processTransactionRecovery_keeps]]
  note check = checkStatefulSet_shrinks_echo[OF assms(2-5)]
  have none: "keeps_server w res evs \<Longrightarrow> shrinks_safely K w sts r items n evs" for res :: "('r \<times> WildFlyServer) outcome" and evs
    by (simp add: keeps_server_def resized_none shrinks_safely_none)
  show ?thesis unfolding reconcileScaleDown_def
    by (intro does_rules does_mono[OF recover] does_mono[OF check])
       (auto simp: none shrinks_safely_none shrinks_safely_after)
qed

end
