(* ===== verification/Reconcile_Pass.thy ===== *)
theory Reconcile_Pass
  imports Scaling
begin

text \<open>
  One pass of \<open>Reconcile\<close> as a whole, told by its trace: what it reads first, which errors end it,
  when it panics, when it has nothing to do, and that the StatefulSet shrinks safely.
\<close>

section \<open>How a pass starts\<close>

lemma does_GetPodsForWildFly [does_rules]:
  "(\<And>err. \<Phi> (Inl err) [EvListPods (wf_Namespace w) (LabelsForWildFly (k_Env K) w) (Inl err)]) \<Longrightarrow>
   (\<And>ps. \<Phi> (Inr (SortPodListByName ps)) [EvListPods (wf_Namespace w) (LabelsForWildFly (k_Env K) w) (Inr ps)]) \<Longrightarrow>
   does (GetPodsForWildFly K w) \<Phi>"
  unfolding GetPodsForWildFly_def Let_def by (intro does_rules) auto

lemma cleanUpPodStatus_outcome:
  "does (cleanUpPodStatus K w items) (\<lambda>((updated, err), w') evs. resized evs = [] \<and>
     (\<not> updated \<and> err = None \<longrightarrow> w' = w \<and> evs = []))"
  unfolding cleanUpPodStatus_def Let_def by (intro does_rules) auto

lemmas does_cleanUpPodStatus [does_rules] = does_mono[OF cleanUpPodStatus_outcome]

text \<open>The server, the StatefulSet and the sorted pods that a pass has read.\<close>

fun opened :: "event list \<Rightarrow> (WildFlyServer \<times> StatefulSet \<times> Pod list) option" where
  "opened (EvGetWildFlyServer _ _ (Inr w) # EvGetStatefulSet _ _ (Inr sts) # EvListPods _ _ (Inr ps) # _) =
     Some (w, sts, SortPodListByName ps)"
| "opened _ = None"

lemma opened_Some:
  "opened evs = Some (w, sts, items) \<longleftrightarrow> (\<exists>a b c d e l ps evs'. items = SortPodListByName ps \<and>
     evs = EvGetWildFlyServer a b (Inr w) # EvGetStatefulSet c d (Inr sts) # EvListPods e l (Inr ps) # evs')"
  by (cases evs rule: opened.cases) auto

section \<open>Shrinking\<close>

text \<open>The situation in which a StatefulSet of size \<open>r\<close> is scaled down.\<close>

definition scaling_down :: "WildFlyServer \<Rightarrow> StatefulSet \<Rightarrow> Pod list \<Rightarrow> int \<Rightarrow> bool" where
  "scaling_down w sts items r \<longleftrightarrow> in_sync w items \<and> in_int32 (int (length items)) \<and> in_int32 r \<and>
     sts_Replicas sts = Some r \<and> 0 \<le> sp_Replicas (wf_Spec w) \<and> sp_Replicas (wf_Spec w) < r"

lemma scaling_down_number: "scaling_down w sts items r \<Longrightarrow> wrap32 (r - sp_Replicas (wf_Spec w)) = r - sp_Replicas (wf_Spec w)"
  by (simp add: scaling_down_def in_int32_def)

lemma scaling_down_size: "scaling_down w sts items r \<Longrightarrow> sts_Replicas sts = Some r"
  by (simp add: scaling_down_def)

lemma shrinks_safely_Cons:
  "shrinks_safely K w sts r items n evs \<Longrightarrow> sts_update v = None \<Longrightarrow> shrinks_safely K w sts r items n (v # evs)"
  using shrinks_safely_mono[where xs = "[v]" and ys = "[]"] by simp

lemma does_scaleDown_any: "does (reconcileScaleDown K isOpenShift w sts items n) (\<lambda>res evs. True)"
proof (cases "sts_Replicas sts")
  case None
  then show ?thesis unfolding reconcileScaleDown_def checkStatefulSet_def
    by (intro does_rules does_mono[OF processTransactionRecovery_keeps]) simp_all
next
  case (Some r)
  show ?thesis unfolding reconcileScaleDown_def
    by (intro does_rules does_mono[OF processTransactionRecovery_keeps] does_mono[OF checkStatefulSet_resizes[OF Some]])
       simp_all
qed

lemma reconcilePods_shrinks:
  assumes "fair_schedule K"
  shows "does (reconcilePods K isOpenShift w sts) (\<lambda>res evs. \<exists>answer evs'.
     evs = EvListPods (wf_Namespace w) (LabelsForWildFly (k_Env K) w) answer # evs' \<and>
     (\<forall>ps r. answer = Inr ps \<and> scaling_down w sts (SortPodListByName ps) r \<and> list_all echoes evs \<longrightarrow>
        shrinks_safely K w sts r (SortPodListByName ps) (r - sp_Replicas (wf_Spec w)) evs) \<and>
     (evs' \<noteq> [] \<longrightarrow> (\<exists>ps. answer = Inr ps) \<and> sts_Replicas sts \<noteq> None))"
proof -
  have shrink: "does (reconcileScaleDown K isOpenShift w sts (SortPodListByName ps) (wrap32 (r - sp_Replicas (wf_Spec w))))
      (\<lambda>res evs. scaling_down w sts (SortPodListByName ps) r \<longrightarrow> list_all echoes evs \<longrightarrow>
         shrinks_safely K w sts r (SortPodListByName ps) (r - sp_Replicas (wf_Spec w)) (ev # evs))"
    if "sts_update ev = None" for ps r ev
  proof (rule does_imp[OF does_scaleDown_any])
    assume sd: "scaling_down w sts (SortPodListByName ps) r"
    show "does (reconcileScaleDown K isOpenShift w sts (SortPodListByName ps) (wrap32 (r - sp_Replicas (wf_Spec w))))
      (\<lambda>res evs. list_all echoes evs \<longrightarrow>
         shrinks_safely K w sts r (SortPodListByName ps) (r - sp_Replicas (wf_Spec w)) (ev # evs))"
      unfolding scaling_down_number[OF sd]
      by (rule does_mono[OF reconcileScaleDown_shrinks[OF assms, where r = r]])
         (use sd that in \<open>auto simp: scaling_down_def intro: shrinks_safely_Cons\<close>)
  qed
  have shrink': "does (reconcileScaleDown K isOpenShift w sts (SortPodListByName ps) (wrap32 (r0 - sp_Replicas (wf_Spec w))))
      (\<lambda>res evs. \<forall>r. scaling_down w sts (SortPodListByName ps) r \<and> list_all echoes evs \<longrightarrow>
         shrinks_safely K w sts r (SortPodListByName ps) (r - sp_Replicas (wf_Spec w)) (ev # evs))"
    if "sts_update ev = None" and "sts_Replicas sts = Some r0" for ps r0 ev
    by (rule does_mono[OF shrink[OF that(1)]]) (use that(2) scaling_down_size in fastforce)
  show ?thesis unfolding reconcilePods_def Let_def
    by (intro does_rules) (auto simp: shrinks_safely_none intro!: shrink')
qed

text \<open>The selector that \<open>Reconcile\<close> sets in the status first plays no role for the rest.\<close>

definition with_selector :: "string \<Rightarrow> WildFlyServer \<Rightarrow> WildFlyServer" where
  "with_selector s w = w\<lparr>wf_Status := (wf_Status w)\<lparr>st_Selector := s\<rparr>\<rparr>"

lemma with_selector_simps [simp]:
  "wf_Spec (with_selector s w) = wf_Spec w" "wf_Meta (with_selector s w) = wf_Meta w"
  "wf_Pods (with_selector s w) = wf_Pods w"
  "LabelsForWildFly env (with_selector s w) = LabelsForWildFly env w"
  "IsCurrentGeneration (with_selector s w) m = IsCurrentGeneration w m"
  "in_sync (with_selector s w) items = in_sync w items"
  "up_to_date (with_selector s w) sts items n = up_to_date w sts items n"
  by (simp_all add: with_selector_def LabelsForWildFly_def IsCurrentGeneration_def in_sync_def up_to_date_def split: option.split)

lemma shrinks_safely_selector [simp]:
  "shrinks_safely K (with_selector s w) sts r items n evs = shrinks_safely K w sts r items n evs"
  by (simp add: shrinks_safely_def may_remove_def skip_reason_def)

lemma scaling_down_selector [simp]: "scaling_down (with_selector s w) sts items r = scaling_down w sts items r"
  by (simp add: scaling_down_def)

lemmas reconcileServer_selector = reconcileServer_def[folded with_selector_def]

lemma reconcileServer_shrinks:
  assumes "fair_schedule K"
  shows "does (reconcileServer K isOpenShift w) (\<lambda>res evs. list_all echoes evs \<longrightarrow>
     (\<forall>sts items r. opened (EvGetWildFlyServer ns name (Inr w) # evs) = Some (w, sts, items) \<and> scaling_down w sts items r \<longrightarrow>
        shrinks_safely K w sts r items (r - sp_Replicas (wf_Spec w)) evs) \<and>
     (resized evs \<noteq> [] \<longrightarrow> (\<exists>sts items. opened (EvGetWildFlyServer ns name (Inr w) # evs) = Some (w, sts, items))))"
  unfolding reconcileServer_selector Let_def GetOrCreateNewStatefulSet_def
  by (intro does_rules does_mono[OF reconcilePods_shrinks[OF assms]])
     (auto simp: shrinks_safely_none opened_Some zero_StatefulSet_def intro: shrinks_safely_Cons)

section \<open>Panics\<close>

text \<open>What can make a pass panic once the StatefulSet and the pods are read.\<close>

definition fragile :: "WildFlyServer \<Rightarrow> StatefulSet \<Rightarrow> Pod list \<Rightarrow> bool" where
  "fragile w sts items \<longleftrightarrow> sts_Replicas sts = None \<or> om_Annotations (sts_Meta sts) = None \<or>
     (\<exists>pod\<in>set items. om_Labels (pod_Meta pod) = None \<or> pod_Name pod \<notin> ps_Name ` set (wf_Pods w))"

lemma fragile_selector [simp]: "fragile (with_selector s w) sts items = fragile w sts items"
  by (simp add: fragile_def)

lemma fragile_nil: "sts_Replicas sts = None \<Longrightarrow> fragile w sts items"
  by (simp add: fragile_def)

lemma checkStatefulSet_panic:
  "does (checkStatefulSet K isOpenShift w sts items)
     (\<lambda>r evs. r = Panic \<longrightarrow> sts_Replicas sts = None \<or> om_Annotations (sts_Meta sts) = None)"
proof (cases "sts_Replicas sts")
  case None
  then show ?thesis by (simp add: checkStatefulSet_def does_return)
next
  case (Some r)
  then show ?thesis by (intro does_mono[OF checkStatefulSet_resizes[OF Some]]) (auto elim: resizes_PanicE)
qed

lemma reconcileScaleDown_panic:
  assumes "fair_schedule K" and "nat n \<le> length items"
  shows "does (reconcileScaleDown K isOpenShift w sts items n)
    (\<lambda>res evs. list_all echoes evs \<and> res = Panic \<longrightarrow> fragile w sts items)"
proof -
  have recover: "does (processTransactionRecoveryScaleDown K w n items)
      (\<lambda>r evs. pod_Name ` set items \<subseteq> ps_Name ` set (wf_Pods w) \<longrightarrow> list_all echoes evs \<longrightarrow> r \<noteq> Panic)"
    by (rule does_imp[OF processTransactionRecovery_keeps processTransactionRecovery_no_panic[OF assms]])
  show ?thesis unfolding reconcileScaleDown_def
    by (intro does_rules does_mono[OF recover] does_mono[OF checkStatefulSet_panic]) (auto simp: fragile_def)
qed

lemma mset_SortPodListByName [simp]: "mset (SortPodListByName ps) = mset ps"
  by (simp add: SortPodListByName_def)

lemma SortPodListByName_simps [simp]:
  "length (SortPodListByName ps) = length ps" "set (SortPodListByName ps) = set ps"
  using mset_SortPodListByName[of ps] by (metis mset_eq_length, metis mset_eq_setD)

text \<open>The sizes are in the range of their types, and not negative.\<close>

definition valid_sizes :: "WildFlyServer \<Rightarrow> StatefulSet \<Rightarrow> Pod list \<Rightarrow> bool" where
  "valid_sizes w sts items \<longleftrightarrow> in_int32 (int (length items)) \<and> in_int32 (sp_Replicas (wf_Spec w)) \<and>
     0 \<le> sp_Replicas (wf_Spec w) \<and> (\<forall>r. sts_Replicas sts = Some r \<longrightarrow> in_int32 r \<and> 0 \<le> r)"

lemma valid_sizes_selector [simp]: "valid_sizes (with_selector s w) sts items = valid_sizes w sts items"
  by (simp add: valid_sizes_def)

lemma number_in_list:
  assumes "valid_sizes w sts items" and "sts_Replicas sts = Some r" and "\<not> wrap32 (int (length items)) < r"
  shows "nat (wrap32 (r - sp_Replicas (wf_Spec w))) \<le> length items"
proof -
  have "in_int32 (r - sp_Replicas (wf_Spec w))" using assms by (auto simp: valid_sizes_def in_int32_def)
  with assms show ?thesis by (auto simp: valid_sizes_def)
qed

lemma reconcilePods_panic:
  assumes "fair_schedule K"
  shows "does (reconcilePods K isOpenShift w sts) (\<lambda>res evs. \<exists>answer evs'.
     evs = EvListPods (wf_Namespace w) (LabelsForWildFly (k_Env K) w) answer # evs' \<and>
     (\<forall>ps. answer = Inr ps \<and> sts_Replicas sts = None \<longrightarrow> res = Panic \<and> evs' = []) \<and>
     (res = Panic \<and> list_all echoes evs \<longrightarrow> (\<exists>ps. answer = Inr ps \<and>
        (valid_sizes w sts (SortPodListByName ps) \<longrightarrow> fragile w sts (SortPodListByName ps)))))"
proof -
  have panic: "does (reconcileScaleDown K isOpenShift w sts items (wrap32 (r - sp_Replicas (wf_Spec w))))
      (\<lambda>res evs. valid_sizes w sts items \<longrightarrow> list_all echoes evs \<and> res = Panic \<longrightarrow> fragile w sts items)"
    if "sts_Replicas sts = Some r" "\<not> wrap32 (int (length items)) < r" for r items
    by (rule does_imp[OF does_scaleDown_any]) (rule reconcileScaleDown_panic[OF assms number_in_list[OF _ that]])
  show ?thesis unfolding reconcilePods_def Let_def
    by (intro does_rules) (auto intro!: does_mono[OF panic] simp: fragile_nil)
qed

text \<open>
  A pass that panics has read a fragile situation, or has dropped an error of reading the
  StatefulSet.
\<close>

definition read_dropped :: "event list \<Rightarrow> bool" where
  "read_dropped evs \<longleftrightarrow> (\<exists>a b w c d err e l ps. evs = [EvGetWildFlyServer a b (Inr w),
     EvGetStatefulSet c d (Inl err), EvListPods e l (Inr ps)] \<and> \<not> IsNotFound (Some err))"

lemma reconcileServer_panic:
  assumes "fair_schedule K"
  shows "does (reconcileServer K isOpenShift w) (\<lambda>res evs.
     (list_all echoes evs \<and> res = Panic \<longrightarrow> read_dropped (EvGetWildFlyServer ns name (Inr w) # evs) \<or>
        (\<exists>sts items. opened (EvGetWildFlyServer ns name (Inr w) # evs) = Some (w, sts, items) \<and>
           (valid_sizes w sts items \<longrightarrow> fragile w sts items))) \<and>
     (read_dropped (EvGetWildFlyServer ns name (Inr w) # evs) \<longrightarrow> res = Panic))"
  unfolding reconcileServer_selector Let_def GetOrCreateNewStatefulSet_def
  by (intro does_rules does_mono[OF reconcilePods_panic[OF assms]])
     (auto simp: opened_Some read_dropped_def zero_StatefulSet_def)

section \<open>A pass with nothing to do\<close>

lemma resizes_leave:
  "resizes w found r items (Ret (q, e)) ws \<Longrightarrow> q \<noteq> requeueNow \<Longrightarrow>
   IsCurrentGeneration w (sts_Meta found) \<and> sp_Replicas (wf_Spec w) \<le> r \<and> ws = []"
  by (erule resizes.cases) auto

lemma checkStatefulSet_leaves:
  assumes "sts_Replicas found = Some r"
  shows "does (checkStatefulSet K isOpenShift w found items) (\<lambda>res evs. \<forall>q e. res = Ret (q, e) \<and> q \<noteq> requeueNow \<and>
     same_server w orig \<longrightarrow> IsCurrentGeneration orig (sts_Meta found) \<and> sp_Replicas (wf_Spec orig) \<le> r \<and> writes evs = [])"
proof -
  have "same_server w orig \<Longrightarrow> IsCurrentGeneration w m = IsCurrentGeneration orig m" for m
    by (simp add: IsCurrentGeneration_def split: option.split)
  then show ?thesis
    by (intro does_mono[OF checkStatefulSet_resizes[OF assms]]) (use resizes_leave in fastforce)
qed

lemma processTransactionRecovery_zero:
  "processTransactionRecoveryScaleDown K w 0 items = ret (Ret ((requeueOff, None), w))"
  by (simp add: processTransactionRecoveryScaleDown_def)

lemma processTransactionRecovery_zero_spec:
  "does (processTransactionRecoveryScaleDown K w n items) (\<lambda>r evs. n = 0 \<longrightarrow> r = Ret ((requeueOff, None), w) \<and> evs = [])"
  by (rule does_imp[OF processTransactionRecovery_keeps]) (simp add: processTransactionRecovery_zero does_return)

lemma reconcileScaleDown_settled:
  assumes "sts_Replicas sts = Some r"
  shows "does (reconcileScaleDown K isOpenShift w sts items n) (\<lambda>res evs. res = Ret (False, None) \<and> list_all echoes evs \<longrightarrow>
     sp_Replicas (wf_Spec w) \<le> r \<and> IsCurrentGeneration w (sts_Meta sts) \<and>
     (n = 0 \<longrightarrow> list_all route_deletion (writes evs) \<and> up_to_date w sts items 0))"
proof -
  note recover = does_conj[OF processTransactionRecovery_keeps processTransactionRecovery_zero_spec]
  note check = checkStatefulSet_leaves[OF assms, where orig = w]
  show ?thesis unfolding reconcileScaleDown_def
    by (intro does_rules does_mono[OF recover] does_mono[OF check]) (auto simp: keeps_server_def)
qed

lemma reconcilePods_settled:
  "does (reconcilePods K isOpenShift w sts) (\<lambda>res evs. res = Ret (False, None) \<and> list_all echoes evs \<longrightarrow>
     (\<exists>ps evs'. evs = EvListPods (wf_Namespace w) (LabelsForWildFly (k_Env K) w) (Inr ps) # evs' \<and>
        (\<exists>r. sts_Replicas sts = Some r \<and> sp_Replicas (wf_Spec w) \<le> r \<and> IsCurrentGeneration w (sts_Meta sts) \<and>
        (r = sp_Replicas (wf_Spec w) \<longrightarrow> wrap32 (int (length ps)) = r \<and> list_all route_deletion (writes evs) \<and>
           up_to_date w sts (SortPodListByName ps) 0))))"
proof -
  have [simp]: "wrap32 0 = 0" by (simp add: in_int32_def)
  show ?thesis unfolding reconcilePods_def Let_def
    by (intro does_rules) (auto intro!: does_mono[OF reconcileScaleDown_settled])
qed

lemma reconcileServer_settled:
  "does (reconcileServer K isOpenShift w) (\<lambda>res evs. res = Ret (False, None) \<and> list_all echoes evs \<longrightarrow>
     (\<exists>sts items r. opened (EvGetWildFlyServer ns name (Inr w) # evs) = Some (w, sts, items) \<and>
        sts_Replicas sts = Some r \<and> sp_Replicas (wf_Spec w) \<le> r \<and> IsCurrentGeneration w (sts_Meta sts) \<and>
        (r = sp_Replicas (wf_Spec w) \<longrightarrow> wrap32 (int (length items)) = r \<and> list_all route_deletion (writes evs) \<and>
           up_to_date w sts items 0)))"
  unfolding reconcileServer_selector Let_def GetOrCreateNewStatefulSet_def
  by (intro does_rules does_mono[OF reconcilePods_settled])
     (auto simp: opened_Some zero_StatefulSet_def)

section \<open>All passes\<close>

lemma validate_cases: "validate w = (True, None) \<or> (\<exists>e. validate w = (False, Some e))"
  by (simp add: validate_def)

lemma does_manageError [does_rules]:
  "(\<And>e. err = Some e \<Longrightarrow> \<Phi> (False, err) [EvRecord ''Warning'' ''WildFlyProcessingError'' (error_text e)]) \<Longrightarrow>
   (err = None \<Longrightarrow> \<Phi> (False, err) [EvRecord ''Warning'' ''WildFlyProcessingError'' ''Unknown Error'']) \<Longrightarrow>
   does (manageError err) \<Phi>"
  unfolding manageError_def by (intro does_rules) auto

text \<open>The rest of a pass, after the WildFlyServer has been read and found valid.\<close>

lemma does_Reconcile:
  assumes "\<And>err. \<Phi> (Ret (False, if IsNotFound (Some err) then None else Some err)) [EvGetWildFlyServer ns name (Inl err)]"
    and "\<And>w e. validate w = (False, Some e) \<Longrightarrow> \<Phi> (Ret (False, Some e))
      [EvGetWildFlyServer ns name (Inr w), EvRecord ''Warning'' ''WildFlyProcessingError'' (error_text e)]"
    and "\<And>w. validate w = (True, None) \<Longrightarrow>
      does (reconcileServer K isOpenShift w) (\<lambda>r evs. \<Phi> r (EvGetWildFlyServer ns name (Inr w) # evs))"
  shows "does (Reconcile K isOpenShift ns name) \<Phi>"
  unfolding Reconcile_def
proof (rule does_bindI, rule does_call)
  fix found
  show "does (case found of
       Inl err \<Rightarrow> if IsNotFound (Some err) then ret (Ret (False, None)) else ret (Ret (False, Some err))
     | Inr w \<Rightarrow> (case validate w of (True, _) \<Rightarrow> reconcileServer K isOpenShift w
         | (False, err) \<Rightarrow> do { r \<leftarrow> manageError err; ret (Ret r) }))
     (\<lambda>r evs. \<Phi> r ([EvGetWildFlyServer ns name found] @ evs))"
  proof (cases found)
    case (Inl err)
    then show ?thesis using assms(1)[of err] by (simp add: does_return split: if_splits)
  next
    case (Inr w)
    consider "validate w = (True, None)" | e where "validate w = (False, Some e)" using validate_cases by blast
    then show ?thesis
    proof cases
      case 1
      then show ?thesis using assms(3) Inr by simp
    next
      case 2
      then show ?thesis using assms(2)[OF 2] Inr by (auto intro!: does_rules)
    qed
  qed
qed

end
