(* ===== verification/Status_Types.thy ===== *)
theory Status_Types
  imports Reconcile_Pass
begin

text \<open>
  A type invariant: the integers of every status the operator sends are 32-bit values. The
  model computes in unbounded integers with the wrap-around written out, so this shows that the
  wrap-around is written out wherever the code computes such a value.
\<close>

section \<open>Well-typed servers\<close>

definition typed_pods :: "PodStatus list \<Rightarrow> bool" where
  "typed_pods vs \<longleftrightarrow> list_all (\<lambda>v. in_int32 (ps_RecoveryCounter v)) vs"

definition typed_server :: "WildFlyServer \<Rightarrow> bool" where
  "typed_server w \<longleftrightarrow> in_int32 (st_Replicas (wf_Status w)) \<and> in_int32 (st_ScalingdownPods (wf_Status w)) \<and>
     typed_pods (wf_Pods w)"

text \<open>What is read has the types of the API, and what is sent must have them.\<close>

fun typed_answer :: "event \<Rightarrow> bool" where
  "typed_answer (EvGetWildFlyServer _ _ (Inr w)) = typed_server w"
| "typed_answer (EvGetStatefulSet _ _ (Inr s)) = in_int32 (sts_StatusReplicas s)"
| "typed_answer (EvUpdateStatus _ (Inr w)) = typed_server w"
| "typed_answer (EvPatchStatus _ _ (Inr w)) = typed_server w"
| "typed_answer _ = True"

fun typed_request :: "event \<Rightarrow> bool" where
  "typed_request (EvUpdateStatus w _) = typed_server w"
| "typed_request (EvPatchStatus _ w _) = typed_server w"
| "typed_request _ = True"

definition types :: "WildFlyServer \<Rightarrow> ('r \<times> WildFlyServer) outcome \<Rightarrow> event list \<Rightarrow> bool" where
  "types w r evs \<longleftrightarrow> (list_all typed_answer evs \<and> typed_server w \<longrightarrow>
     list_all typed_request evs \<and> (\<forall>x w'. r = Ret (x, w') \<longrightarrow> typed_server w'))"

lemma no_status_typed: "list_all (\<lambda>v. \<not> is_status_update v) evs \<Longrightarrow> list_all typed_request evs"
proof (induction evs)
  case (Cons v evs)
  then show ?case by (cases v rule: typed_request.cases) auto
qed simp

lemma pods_only_typed: "pods_only evs \<Longrightarrow> list_all typed_request evs"
  by (simp add: no_status_typed pods_only_no_status)

lemma no_write_typed: "no_write evs \<Longrightarrow> list_all typed_request evs"
  by (simp add: no_status_typed no_write_no_status)

section \<open>The scale down\<close>

lemma evolves_typed: "evolves vs vs' \<Longrightarrow> typed_pods vs \<Longrightarrow> typed_pods vs'"
proof -
  have step: "pod_steps v v' \<Longrightarrow> in_int32 (ps_RecoveryCounter v) \<Longrightarrow> in_int32 (ps_RecoveryCounter v')" for v v'
    by (induction rule: rtranclp_induct) (auto elim!: pod_stepE)
  show "evolves vs vs' \<Longrightarrow> typed_pods vs \<Longrightarrow> typed_pods vs'"
    unfolding evolves_def typed_pods_def by (induction rule: list_all2_induct) (auto dest: step)
qed

text \<open>The counters of the status are not touched by the steps on entries.\<close>

abbreviation same_counters :: "WildFlyServer \<Rightarrow> WildFlyServer \<Rightarrow> bool" where
  "same_counters w w' \<equiv> st_Replicas (wf_Status w) = st_Replicas (wf_Status w') \<and>
     st_ScalingdownPods (wf_Status w) = st_ScalingdownPods (wf_Status w')"

lemma set_entry_counters [simp]: "same_counters (rs_Server (set_entry i f s)) (rs_Server s)"
  by (simp add: set_entry_def)

lemma recoverPod_counters:
  "does (recoverPod K pod s) (\<lambda>r evs. \<forall>s'. r = Ret s' \<longrightarrow> same_counters (rs_Server s') (rs_Server s))"
  unfolding recoverPod_def recordOutcome_def Let_def by (intro does_rules) auto

lemma recoverPods_counters:
  "does (recoverPods K pods s) (\<lambda>r evs. \<forall>s'. r = Ret s' \<longrightarrow> same_counters (rs_Server s') (rs_Server s))"
proof (induction pods arbitrary: s)
  case Nil
  show ?case by (simp add: does_return)
next
  case (Cons pod pods)
  show ?case unfolding recoverPods.simps
    by (intro does_rules does_mono[OF recoverPod_counters] does_mono[OF Cons.IH]) auto
qed

lemma typed_scalingdown: "typed_server w \<Longrightarrow> typed_server (set_scalingdown n w)"
  by (simp add: typed_server_def) (simp add: set_scalingdown_def)

lemma typed_evolved: "typed_server w \<Longrightarrow> evolves (wf_Pods w) (wf_Pods w') \<Longrightarrow> same_counters w' w \<Longrightarrow> typed_server w'"
  by (auto simp: typed_server_def dest: evolves_typed)

declare does_recoverPods [does_rules del]

lemma recoverAndUpdate_types: "does (recoverAndUpdate K w n pods) (types w)"
proof -
  have run: "typed_server (rs_Server s') \<and> list_all typed_request evs"
    if "recovers K ps s (Ret s') evs" "same_counters (rs_Server s') (rs_Server s)" "typed_server (rs_Server s)" for ps s s' evs
    using that typed_evolved[of "rs_Server s" "rs_Server s'"] by (simp add: recovers_def pods_only_typed)
  have panic: "list_all typed_request evs" if "recovers K ps s r evs" for ps s r evs
    using that by (simp add: recovers_def pods_only_typed)
  show ?thesis unfolding recoverAndUpdate_def
    by (intro does_rules does_mono[OF does_conj[OF recoverPods_recovers recoverPods_counters]])
       (auto simp: types_def typed_scalingdown panic dest!: run)
qed

lemma types_pre: "types w1 r evs \<Longrightarrow> (typed_server w \<Longrightarrow> typed_server w1) \<Longrightarrow> types w r evs"
  unfolding types_def by blast

lemma types_none [simp]: "types w Panic []" "types w (Ret (x, w)) []"
  by (simp_all add: types_def)

lemma types_update:
  "types w2 r evs \<Longrightarrow> (typed_server w \<Longrightarrow> typed_server w1) \<Longrightarrow> types w r (EvUpdateStatus w1 (Inr w2) # evs)"
  unfolding types_def by fastforce

lemma startInvestigation_counters: "startInvestigation pods (w, u) = Ret (w', u') \<Longrightarrow> same_counters w' w"
  by (induction pods arbitrary: w u) (auto split: option.splits if_splits)

lemma startRecovery_types: "does (startRecovery K w n items) (types w)"
proof -
  have typed: "typed_server w1" if "startInvestigation pods (w, u) = Ret (w1, u')" "typed_server w" for pods u w1 u'
    using typed_evolved[OF that(2)] startInvestigation_evolves[OF that(1)] startInvestigation_counters[OF that(1)] by blast
  have run: "does (recoverAndUpdate K w1 n pods) (types w)"
    if "startInvestigation pods (w, u) = Ret (w1, u')" for pods u w1 u'
    by (rule does_mono[OF recoverAndUpdate_types]) (erule types_pre, erule typed[OF that])
  have cont: "does (recoverAndUpdate K w2 n pods) (\<lambda>r evs. types w r (EvUpdateStatus (set_scalingdown n w1) (Inr w2) # evs))"
    if "startInvestigation pods (w, u) = Ret (w1, u')" for pods u w1 u' w2
    by (rule does_mono[OF recoverAndUpdate_types]) (erule types_update, erule typed_scalingdown[OF typed[OF that]])
  have fail: "types w (Ret (x, set_scalingdown n w1)) [EvUpdateStatus (set_scalingdown n w1) (Inl e)]"
    if "startInvestigation pods (w, u) = Ret (w1, u')" for pods u w1 u' x e
    unfolding types_def using typed_scalingdown[OF typed[OF that]] by fastforce
  show ?thesis unfolding startRecovery_def
    by (intro does_rules run) (auto intro: cont fail)
qed

lemma mark_clean_counters: "same_counters (foldl mark_clean w pods) w"
  by (induction pods arbitrary: w) (auto simp: mark_clean_def split: option.splits)

lemma skipRecovery_types: "does (skipRecoveryAndForceScaleDown K w n items) (types w)"
proof -
  have "typed_server w \<Longrightarrow> typed_server (set_scalingdown n (foldl mark_clean w pods))" for pods
    by (intro typed_scalingdown typed_evolved[OF _ evolves_mark_clean_fold mark_clean_counters])
  then show ?thesis unfolding skipRecoveryAndForceScaleDown_def Let_def
    by (intro does_rules) (auto simp: types_def)
qed

lemma types_after: "types w r evs' \<Longrightarrow> list_all typed_request evs \<Longrightarrow> types w r (evs @ evs')"
  by (simp add: types_def)

lemma processTransactionRecovery_types: "does (processTransactionRecoveryScaleDown K w n items) (types w)"
  unfolding processTransactionRecoveryScaleDown_def
  by (intro does_rules does_mono[OF skipRecovery_types] does_mono[OF startRecovery_types])
     (auto intro!: types_after simp: no_write_typed, auto simp: types_def no_write_typed)

section \<open>The rest of a pass\<close>

lemma typed_updateHosts: "updateHosts b route w = Ret (w', u) \<Longrightarrow> typed_server w \<Longrightarrow> typed_server w'"
  by (auto simp: updateHosts_def set_hosts_def typed_server_def Let_def split: if_splits option.splits)

lemma typed_active: "typed_pods vs \<Longrightarrow> typed_pods (map (with_state PodStateActive) vs)"
  by (simp add: typed_pods_def list_all_iff)

lemma typed_getPodStatus:
  "getPodStatus items ps = (rq, vs) \<Longrightarrow> typed_pods (elems ps) \<Longrightarrow> typed_pods (elems vs)"
  by (auto simp: getPodStatus_def typed_pods_def elems_foldl_append list_all_iff podStatusOf_def in_int32_def
      dest!: statusMap_Some split: option.splits)

lemma typed_set_pods: "typed_server w \<Longrightarrow> typed_pods (elems vs) \<Longrightarrow> typed_server (set_pods vs w)"
  by (simp add: typed_server_def set_pods_def)

lemma typed_set_replicas: "typed_server w \<Longrightarrow> in_int32 n \<Longrightarrow> typed_server (set_replicas n w)"
  by (simp add: typed_server_def set_replicas_def)

lemma typed_refreshed:
  "typed_server w \<Longrightarrow> wf_Pods w' = map (with_state PodStateActive) (wf_Pods w) \<Longrightarrow> same_counters w' w \<Longrightarrow> typed_server w'"
  by (simp add: typed_server_def typed_active)

text \<open>A part of the pass sends well-typed statuses.\<close>

definition sends :: "WildFlyServer \<Rightarrow> event list \<Rightarrow> bool" where
  "sends w evs \<longleftrightarrow> (list_all typed_answer evs \<and> typed_server w \<longrightarrow> list_all typed_request evs)"

lemma types_sends: "types w r evs \<Longrightarrow> sends w evs"
  by (simp add: types_def sends_def)

lemma sends_quiet: "quiet evs \<Longrightarrow> sends w evs"
  by (simp add: sends_def no_status_typed)

lemma sends_append: "sends w xs \<Longrightarrow> sends w ys \<Longrightarrow> sends w (xs @ ys)"
  by (simp add: sends_def)

lemma sends_update: "quiet evs \<Longrightarrow> (typed_server w \<Longrightarrow> typed_server w') \<Longrightarrow> sends w (evs @ [EvUpdateStatus w' a])"
  by (auto simp: sends_def no_status_typed)

lemma reconcileStatus_sends:
  assumes "in_int32 (sts_StatusReplicas sts)"
  shows "does (reconcileStatus K b w sts items route n rq_rec rq_sts) (\<lambda>r evs. sends w evs)"
proof -
  define ready where "ready w3 \<longleftrightarrow> (typed_server w \<longrightarrow> typed_server w3 \<and>
      (\<forall>rq vs. getPodStatus items (st_Pods (wf_Status w3)) = (rq, vs) \<longrightarrow> typed_pods (elems vs)))" for w3
  have ready: "ready w3" if "typed_server w \<Longrightarrow> typed_server w3" for w3
    using that typed_getPodStatus unfolding ready_def typed_server_def by blast
  define reset where "reset w2 u2 = (if n \<le> 0 then refreshPods K items 0 (wf_Pods w2) w2 u2 else ret (w2, u2))" for w2 u2
  have middle: "does (reset w2 u2) (\<lambda>(w3, u3) evs. quiet evs \<and> ready w3)"
    if "updateHosts b route w = Ret (w1, u1)"
      and "w2 = (if st_ScalingdownPods (wf_Status w1) \<noteq> n then set_scalingdown n w1 else w1)" for w1 u1 w2 u2
  proof -
    have w2: "typed_server w \<Longrightarrow> typed_server w2"
      using typed_updateHosts[OF that(1)] typed_scalingdown by (simp add: that(2))
    show ?thesis unfolding reset_def
      by (intro does_if does_return does_mono[OF refreshPods_run[OF drop_0]])
         (auto intro!: ready typed_refreshed[OF w2] w2 dest: deleted_pods_quiet)
  qed
  show ?thesis unfolding reconcileStatus_def Let_def reset_def[symmetric]
    by (intro does_rules does_mono[OF middle[OF _ refl]])
       (auto simp: ready_def assms intro!: sends_update typed_set_replicas typed_set_pods intro: sends_quiet)
qed

declare does_reconcileStatus [does_rules del] does_reconcileResources [does_rules del]

lemma sends_no_write [simp]: "no_write evs \<Longrightarrow> sends w evs"
  by (simp add: sends_def no_write_typed)

lemma sends_Nil [simp]: "sends w []"
  by (simp add: sends_def)

lemma reconcileResources_sends:
  assumes "in_int32 (sts_StatusReplicas sts)"
  shows "does (reconcileResources K b w sts items n rq_rec rq_sts) (\<lambda>r evs. sends w evs)"
  unfolding reconcileResources_def
  by (intro does_rules does_mono[OF reconcileStatus_sends[OF assms]]) (auto intro!: sends_append intro: sends_quiet)

lemma checkStatefulSet_sends: "does (checkStatefulSet K b w sts items) (\<lambda>r evs. sends orig evs)"
proof (cases "sts_Replicas sts")
  case None
  then show ?thesis by (simp add: checkStatefulSet_def does_return)
next
  case (Some r)
  have writes: "list_all typed_request evs" if "list_all typed_request (writes evs)" for evs
    using that
  proof (induction evs)
    case (Cons v evs)
    then show ?case by (cases v rule: typed_request.cases) auto
  qed simp
  have "list_all typed_request ws" if "resizes w sts r items res ws" for res ws
    using that by (cases rule: resizes.cases) auto
  then show ?thesis
    by (intro does_mono[OF checkStatefulSet_resizes[OF Some]]) (auto simp: sends_def intro: writes)
qed

lemma reconcileScaleDown_sends:
  assumes "in_int32 (sts_StatusReplicas sts)"
  shows "does (reconcileScaleDown K b w sts items n) (\<lambda>r evs. sends w evs)"
  unfolding reconcileScaleDown_def
  by (intro does_rules does_mono[OF processTransactionRecovery_types] does_mono[OF checkStatefulSet_sends[where orig = w]]
      does_mono[OF reconcileResources_sends[OF assms]])
     (auto simp: sends_def types_def pods_only_typed)

lemma typed_pods_filter: "typed_pods vs \<Longrightarrow> typed_pods (filter P vs)"
  by (auto simp: typed_pods_def list_all_iff)

lemma in_int32_Max: "in_int32 x \<Longrightarrow> in_int32 (Max x 0)"
  by (simp add: Max_max in_int32_def)

lemma cleanUpPodStatus_sends:
  "does (cleanUpPodStatus K w items) (\<lambda>((updated, err), w') evs. sends w evs \<and> (\<not> updated \<and> err = None \<longrightarrow> w' = w))"
  unfolding cleanUpPodStatus_def Let_def
  by (intro does_rules)
     (auto simp: sends_def typed_server_def elems_foldl_filter in_int32_Max typed_pods_filter)

declare does_cleanUpPodStatus [does_rules del]

lemma reconcilePods_sends:
  assumes "in_int32 (sts_StatusReplicas sts)"
  shows "does (reconcilePods K b w sts) (\<lambda>r evs. sends w evs)"
  unfolding reconcilePods_def Let_def
  by (intro does_rules does_mono[OF cleanUpPodStatus_sends] does_mono[OF reconcileScaleDown_sends[OF assms]])
     (auto simp: sends_def)

lemma typed_selector [simp]: "typed_server (with_selector s w) = typed_server w"
  by (simp add: typed_server_def) (simp add: with_selector_def)

lemma reconcileServer_sends: "does (reconcileServer K b w) (\<lambda>r evs. sends w evs)"
proof -
  have pods: "does (reconcilePods K b w1 sts) (\<lambda>r evs. in_int32 (sts_StatusReplicas sts) \<longrightarrow> sends w1 evs)" for w1 sts
    by (rule does_imp[OF reconcilePods_settled]) (rule reconcilePods_sends)
  show ?thesis unfolding reconcileServer_selector Let_def GetOrCreateNewStatefulSet_def
    by (intro does_rules does_mono[OF pods]) (auto simp: sends_def zero_StatefulSet_def in_int32_def)
qed

end
