(* ===== verification/Example_Cluster.thy ===== *)
theory Example_Cluster
  imports Status_Types
begin

text \<open>
  A concrete cluster at which the theorems on whole passes are applied: a server that asks for
  one replica, a StatefulSet of two, the first pod active and the second one clean, out of the
  load balancing and no longer running. The pass is evaluated step by step.
\<close>

definition shrinking_pods :: "Pod list" where
  "shrinking_pods = [sample_pod, (named_pod ''quickstart-1'')\<lparr>pod_Phase := ''Succeeded'',
     pod_Meta := zero_ObjectMeta\<lparr>om_Name := ''quickstart-1'',
       om_Labels := Some [MarkerOperatedByLoadbalancer \<mapsto> markerServiceDisabled]\<rparr>\<rparr>]"

definition shrinking_server :: WildFlyServer where
  "shrinking_server = with_pods [(''quickstart-0'', PodStateActive), (''quickstart-1'', PodStateScalingDownClean)]"

definition sized_sts :: "int \<Rightarrow> StatefulSet" where
  "sized_sts n = zero_StatefulSet\<lparr>sts_Replicas := Some n, sts_StatusReplicas := n,
     sts_Meta := zero_ObjectMeta\<lparr>om_Name := ''quickstart'',
       om_Annotations := Some [MarkerServerGeneration \<mapsto> ''1'']\<rparr>\<rparr>"

definition shrinking_cluster :: Cluster where
  "shrinking_cluster = idle_cluster\<lparr>cl_Servers := [shrinking_server], cl_StatefulSets := [sized_sts 2],
     cl_Pods := shrinking_pods\<rparr>"

lemma name_numbers: "name_number ''quickstart-0'' = Some 0" "name_number ''quickstart-1'' = Some 1"
  by code_simp+

lemma shrinking_pods_simps [simp]:
  "SortPodListByName shrinking_pods = shrinking_pods" "map pod_Name shrinking_pods = [''quickstart-0'', ''quickstart-1'']"
  "length shrinking_pods = 2" "hd shrinking_pods = sample_pod" "shrinking_pods \<noteq> []"
  by (simp_all add: shrinking_pods_def sample_pod_def named_pod_def SortPodListByName_def SliceStable_def pod_less_def
      name_numbers zero_ObjectMeta_def)

lemma shrinking_server_simps [simp]:
  "wf_Name shrinking_server = ''quickstart''" "wf_Namespace shrinking_server = ''ns''"
  "map ps_Name (wf_Pods shrinking_server) = [''quickstart-0'', ''quickstart-1'']"
  "map ps_State (wf_Pods shrinking_server) = [PodStateActive, PodStateScalingDownClean]"
  "sp_Replicas (wf_Spec shrinking_server) = 1" "validate shrinking_server = (True, None)"
  by (simp_all add: shrinking_server_def with_pods_def sample_server_def sample_meta_def sample_spec_def validate_def)

lemma IsCurrentGeneration_sized [simp]: "IsCurrentGeneration shrinking_server (sts_Meta (sized_sts n))"
proof -
  have "ParseInt 64 ''1'' = Some 1" by code_simp
  then show ?thesis
    by (simp add: IsCurrentGeneration_def sized_sts_def shrinking_server_def with_pods_def sample_server_def sample_meta_def)
qed

lemma sized_sts_simps [simp]:
  "sts_Replicas (sized_sts n) = Some n" "om_Name (sts_Meta (sized_sts n)) = ''quickstart''"
  "sts_StatusReplicas (sized_sts n) = n"
  by (simp_all add: sized_sts_def)

lemma shrinking_cluster_simps [simp]:
  "cl_Servers shrinking_cluster = [shrinking_server]" "cl_StatefulSets shrinking_cluster = [sized_sts 2]"
  "cl_Pods shrinking_cluster = shrinking_pods"
  "cl_Exec shrinking_cluster = cl_Exec idle_cluster"
  by (simp_all add: shrinking_cluster_def)

abbreviation selected_server :: WildFlyServer where "selected_server \<equiv> with_selector ''app.kubernetes.io/name=quickstart'' shrinking_server"

lemma run_clean: "run_state (cleanUpPodStatus fake_kube selected_server shrinking_pods) (shrinking_cluster, tr) = (((False, None), selected_server), shrinking_cluster, tr)"
  by (simp add: cleanUpPodStatus_def keepStatus_def shrinking_server_def with_pods_def slice_append_def shrinking_pods_def sample_pod_def named_pod_def zero_ObjectMeta_def)

lemma run_label: "run_state (setLabelAsDisabled fake_kube selected_server MarkerOperatedByLoadbalancer 1 shrinking_pods) (shrinking_cluster, tr)
   = (Ret (False, None), shrinking_cluster, tr)"
  by (simp add: setLabelAsDisabled_def eval_nat_numeral updatePodLabel_def shrinking_pods_def)

lemma run_mgmt:
  "run_state (ExecuteMgmtOp fake_kube sample_pod mgmtOp) (shrinking_cluster, tr) =
     (([(''outcome'', VString ''success''),
        (''result'', if idle_output mgmtOp = ''{}'' then VMap [] else VString (idle_output mgmtOp))], None),
      shrinking_cluster, tr @ [EvConfig ''ClientConfig'' None, EvConfig ''NewForConfig'' None,
        EvConfig ''NewSPDYExecutor'' None, EvStream '''' ''quickstart-0'' ''quickstart'' (jbossCliCommand mgmtOp)
          (idle_output mgmtOp, '''', None)])"
  by (simp add: mgmt_eval idle_cluster_def jbossCliCommand_def lsCommand_def idle_output_def
      sample_pod_def named_pod_def zero_ObjectMeta_def)

lemma run_process: "\<exists>evs. run_state (processTransactionRecoveryScaleDown fake_kube selected_server 1 shrinking_pods) (shrinking_cluster, tr)
   = (Ret ((requeueLater, None), selected_server), shrinking_cluster, tr @ evs) \<and> list_all echoes evs"
proof -
  have len: "length (wf_Pods shrinking_server) = 2" by (simp add: shrinking_server_def with_pods_def)
  have sp: "\<not> sp_BootableJar (wf_Spec shrinking_server)" "\<not> sp_DeactivateTransactionRecovery (wf_Spec shrinking_server)"
     "sp_Storage (wf_Spec shrinking_server) = None"
    by (simp_all add: shrinking_server_def with_pods_def sample_server_def sample_spec_def)
  have pods: "podsToScaleDown 1 shrinking_pods = Ret []"
    by (simp add: podsToScaleDown_def shrinking_pods_def)
  show ?thesis
    by (simp add: processTransactionRecoveryScaleDown_def len sp ListSubsystems_def ExecuteAndGetResult_def run_mgmt
     isJDBCLogStoreInUse_def startRecovery_def pods IsMgmtOutcomeSuccesful_def ConvertToString_ignoring_def json_get_def
     ParseBool_def)
qed
lemma calculated_shrinking: "calculatedReplicas selected_server shrinking_pods = 1"
  by (simp add: calculatedReplicas_def shrinking_server_def with_pods_def shrinking_pods_def statusMap_def
      sample_pod_def named_pod_def zero_ObjectMeta_def in_int32_def)

lemma run_check: "\<exists>c s. run_state (checkStatefulSet fake_kube False selected_server (sized_sts 2) shrinking_pods) (shrinking_cluster, tr)
   = (Ret (requeueNow, None), c, tr @ [EvUpdate (ObjStatefulSet s) None]) \<and> sts_Replicas s = Some 1"
proof -
  have meta: "sts_Meta ((sized_sts 2)\<lparr>sts_Replicas := Some 1\<rparr>) = sts_Meta (sized_sts 2)" by simp
  show ?thesis
    by (simp add: checkStatefulSet_def scaleStatefulSet_def calculated_shrinking Let_def Update_def meta)
qed

lemma run_shrinking:
  "\<exists>c evs s. run_state (Reconcile fake_kube False ''ns'' ''quickstart'') (shrinking_cluster, []) = (Ret (True, None), c, evs) \<and>
     list_all echoes evs \<and> opened evs = Some (shrinking_server, sized_sts 2, shrinking_pods) \<and>
     s \<in> set (resized evs) \<and> sts_Replicas s = Some 1"
proof -
  obtain ev1 where p: "\<And>tr. run_state (processTransactionRecoveryScaleDown fake_kube selected_server 1 shrinking_pods) (shrinking_cluster, tr)
   = (Ret ((requeueLater, None), selected_server), shrinking_cluster, tr @ ev1 tr)" and e: "\<And>tr. list_all echoes (ev1 tr)"
    using run_process by metis
  obtain c s where k: "\<And>tr. run_state (checkStatefulSet fake_kube False selected_server (sized_sts 2) shrinking_pods) (shrinking_cluster, tr)
   = (Ret (requeueNow, None), c tr, tr @ [EvUpdate (ObjStatefulSet (s tr)) None])" and s: "\<And>tr. sts_Replicas (s tr) = Some 1"
    using run_check by metis
  have nn: "requeueLater \<noteq> requeueNow" by (simp add: requeueLater_def requeueNow_def)
  have [simp]: "wrap32 2 = 2" "wrap32 1 = 1" by (simp_all add: in_int32_def)
  show ?thesis
    by (simp add: Reconcile_def reconcileServer_selector GetOrCreateNewStatefulSet_def GetStatefulSet_def find_named_def
     reconcilePods_def GetPodsForWildFly_def Let_def run_clean reconcileScaleDown_def run_label p k nn e s)
       (use s in blast)
qed
section \<open>A settled cluster\<close>

definition settled_server :: WildFlyServer where
  "settled_server = sample_server\<lparr>wf_Status := sample_status\<lparr>st_Replicas := 1,
     st_Pods := Some [\<lparr>ps_Name = ''quickstart-0'', ps_PodIP = ''10.0.0.1'', ps_State = PodStateActive,
       ps_RecoveryCounter = 0\<rparr>]\<rparr>\<rparr>"

definition current_service :: "string \<Rightarrow> Service" where
  "current_service name = (fst (newAdminService sample_server Map.empty))\<lparr>svc_Meta :=
     zero_ObjectMeta\<lparr>om_Name := name, om_Annotations := Some [MarkerServerGeneration \<mapsto> ''1'']\<rparr>\<rparr>"

definition settled_cluster :: Cluster where
  "settled_cluster = empty_cluster\<lparr>cl_Servers := [settled_server], cl_StatefulSets := [sized_sts 1],
     cl_Pods := [sample_pod],
     cl_Services := map current_service [''quickstart-loadbalancer'', ''quickstart-headless'', ''quickstart-admin'']\<rparr>"

lemma current_settled [simp]:
  "IsCurrentGeneration settled_server (zero_ObjectMeta\<lparr>om_Name := name, om_Annotations := Some [MarkerServerGeneration \<mapsto> ''1'']\<rparr>)"
proof -
  have "ParseInt 64 ''1'' = Some 1" by code_simp
  then show ?thesis
    by (simp add: IsCurrentGeneration_def settled_server_def sample_server_def sample_meta_def)
qed

abbreviation quiet_server :: WildFlyServer where
  "quiet_server \<equiv> with_selector ''app.kubernetes.io/name=quickstart'' settled_server"

lemma settled_server_simps [simp]:
  "wf_Name settled_server = ''quickstart''" "wf_Namespace settled_server = ''ns''"
  "sp_Replicas (wf_Spec settled_server) = 1" "validate settled_server = (True, None)"
  "wf_Pods settled_server = [\<lparr>ps_Name = ''quickstart-0'', ps_PodIP = ''10.0.0.1'', ps_State = PodStateActive,
       ps_RecoveryCounter = 0\<rparr>]"
  by (simp_all add: settled_server_def sample_server_def sample_meta_def sample_spec_def validate_def)

lemma run_services:
  "\<exists>evs. run_state (reconcileServices fake_kube quiet_server) (settled_cluster, tr) = (None, settled_cluster, tr @ evs) \<and> list_all echoes evs"
  by (simp add: reconcileServices_def CreateOrUpdateClusterService_def CreateOrUpdateHeadlessService_def
      CreateOrUpdateAdminService_def createOrUpdateService_def Let_def GetService_def find_named_def settled_cluster_def
      current_service_def ClusterServiceName_def HeadlessServiceName_def AdminServiceName_def stage_result_def)

lemma run_status:
  "run_state (reconcileStatus fake_kube False quiet_server (sized_sts 1) [sample_pod] None 0 requeueOff requeueOff)
     (settled_cluster, tr) = (Ret (False, None), settled_cluster, tr)"
proof -
  have st: "st_ScalingdownPods (wf_Status quiet_server) = 0" "st_Replicas (wf_Status quiet_server) = 1"
    "st_Pods (wf_Status quiet_server) = Some (wf_Pods settled_server)"
    by (simp_all add: settled_server_def with_selector_def sample_status_def)
  have pods: "getPodStatus [sample_pod] (Some (wf_Pods settled_server)) = (False, Some (wf_Pods settled_server))"
    by (simp add: getPodStatus_def slice_append_def podStatusOf_def statusMap_def sample_pod_def named_pod_def)
  show ?thesis
    by (simp add: reconcileStatus_def updateHosts_def st pods[simplified] Let_def requeueOff_def requeueLater_def)
qed

lemma run_settled:
  "\<exists>evs. run_state (Reconcile fake_kube False ''ns'' ''quickstart'') (settled_cluster, []) = (Ret (False, None), settled_cluster, evs) \<and>
     list_all echoes evs \<and> opened evs = Some (settled_server, sized_sts 1, [sample_pod])"
proof -
  obtain ev where sv: "\<And>tr. run_state (reconcileServices fake_kube quiet_server) (settled_cluster, tr) =
      (None, settled_cluster, tr @ ev tr)" and e: "\<And>tr. list_all echoes (ev tr)"
    using run_services by metis
  have [simp]: "wrap32 1 = 1" "wrap32 0 = 0" "requeueOff \<noteq> requeueNow"
    by (simp_all add: in_int32_def requeueOff_def requeueNow_def)
  have [simp]: "SortPodListByName [sample_pod] = [sample_pod]" by (simp add: SortPodListByName_def SliceStable_def)
  have clean: "run_state (cleanUpPodStatus fake_kube quiet_server [sample_pod]) (settled_cluster, tr) =
      (((False, None), quiet_server), settled_cluster, tr)" for tr
    by (simp add: cleanUpPodStatus_def keepStatus_def slice_append_def)
  have check: "run_state (checkStatefulSet fake_kube False quiet_server (sized_sts 1) [sample_pod]) (settled_cluster, tr) =
      (Ret (requeueOff, None), settled_cluster, tr)" for tr
    by (simp add: checkStatefulSet_def scaleStatefulSet_def sized_sts_def)
  have cl: "cl_Servers settled_cluster = [settled_server]" "cl_StatefulSets settled_cluster = [sized_sts 1]"
    "cl_Pods settled_cluster = [sample_pod]" "cl_Kinds settled_cluster = []"
    by (simp_all add: settled_cluster_def empty_cluster_def)
  show ?thesis
    by (simp add: Reconcile_def reconcileServer_selector GetOrCreateNewStatefulSet_def GetStatefulSet_def find_named_def
     reconcilePods_def GetPodsForWildFly_def Let_def clean reconcileScaleDown_def setLabelAsDisabled_def
     processTransactionRecovery_zero check cl reconcileResources_def sv e reconcileRoute_def reconcileServiceMonitor_def
     hasServiceMonitor_def CustomResourceDefinitionExists_def run_status)
qed

section \<open>Other passes\<close>

text \<open>The clean pod is gone, and its entry is removed from the status.\<close>

lemma run_clean_up:
  "\<exists>c evs. run_state (Reconcile fake_kube False ''ns'' ''quickstart'')
      (shrinking_cluster\<lparr>cl_Pods := [sample_pod], cl_StatefulSets := [sized_sts 1]\<rparr>, []) = (Ret (True, None), c, evs) \<and>
     list_all typed_answer evs \<and> (\<exists>w w' r. EvPatchStatus w w' r \<in> set evs)"
proof -
  have sort: "SortPodListByName [sample_pod] = [sample_pod]" by (simp add: SortPodListByName_def SliceStable_def)
  have typed: "typed_server shrinking_server"
    by (simp add: typed_server_def typed_pods_def shrinking_server_def with_pods_def sample_status_def in_int32_def)
  let ?w = "selected_server"
  have kept: "filter (keepStatus [sample_pod]) (wf_Pods shrinking_server) = [wf_Pods shrinking_server ! 0]"
    "length (wf_Pods shrinking_server) = 2"
    by (simp_all add: keepStatus_def shrinking_server_def with_pods_def sample_pod_def named_pod_def)
  have rest: "typed_pods [wf_Pods shrinking_server ! 0]"
    using typed typed_pods_filter[of "wf_Pods shrinking_server" "keepStatus [sample_pod]"]
    by (simp add: typed_server_def kept)
  have "\<exists>w'. run_state (cleanUpPodStatus fake_kube ?w [sample_pod]) (c, tr) =
      (((True, None), w'), snd (fake_status w' c), tr @ [EvPatchStatus ?w w' (Inr w')]) \<and> typed_server w'" for c tr
    by (simp add: cleanUpPodStatus_def elems_foldl_filter kept fake_status_def Let_def)
       (use typed rest in \<open>auto simp: typed_server_def elems_foldl_filter kept in_int32_Max\<close>)
  then obtain w' where clean: "\<And>c tr. run_state (cleanUpPodStatus fake_kube ?w [sample_pod]) (c, tr) =
      (((True, None), w' c tr), snd (fake_status (w' c tr) c), tr @ [EvPatchStatus ?w (w' c tr) (Inr (w' c tr))])"
    and w': "\<And>c tr. typed_server (w' c tr)"
    by metis
  have small: "in_int32 1" by (simp add: in_int32_def)
  show ?thesis
    by (simp add: Reconcile_def reconcileServer_selector GetOrCreateNewStatefulSet_def GetStatefulSet_def find_named_def
     reconcilePods_def GetPodsForWildFly_def Let_def sort clean w' typed small)
qed

text \<open>A server alone: its StatefulSet is created.\<close>

lemma run_bootstrap:
  "\<exists>c evs s. run_state (Reconcile fake_kube False ''ns'' ''quickstart'') (empty_cluster\<lparr>cl_Servers := [sample_server]\<rparr>, []) =
     (Ret (True, None), c, evs) \<and> EvCreate (ObjStatefulSet s) None \<in> set evs"
proof -
  have valid: "validate sample_server = (True, None)" "wf_Name sample_server = ''quickstart''"
    by (simp_all add: validate_def sample_server_def sample_spec_def sample_meta_def)
  obtain sts w' where new: "NewStatefulSet fake_kube (with_selector ''app.kubernetes.io/name=quickstart'' sample_server)
      (LabelsForWildFly Map.empty sample_server)
      (wrap32 (sp_Replicas (wf_Spec sample_server) + st_ScalingdownPods (wf_Status
        (with_selector ''app.kubernetes.io/name=quickstart'' sample_server)))) False = (sts, w')"
    by (metis prod.exhaust)
  show ?thesis
    by (simp add: Reconcile_def valid reconcileServer_selector GetOrCreateNewStatefulSet_def GetStatefulSet_def find_named_def
     empty_cluster_def Let_def new Create_def mark_object_def)
qed

end
