(* ===== verification/Convergence.thy ===== *)
theory Convergence
  imports Reconcile_Stages
begin

text \<open>
  Progress of the reconciliation: on an API server that carries out every request, the in-memory
  one of \<open>Fake_Client\<close>, a bounded number of passes brings the services of any cluster up to date.
\<close>

section \<open>One service\<close>

definition service_ok :: "WildFlyServer \<Rightarrow> string \<Rightarrow> Cluster \<Rightarrow> bool" where
  "service_ok w name c \<longleftrightarrow> (case find (\<lambda>s. om_Name (svc_Meta s) = name) (cl_Services c) of
     None \<Rightarrow> False | Some s \<Rightarrow> IsCurrentGeneration w (svc_Meta s))"

lemma find_append_new: "find P xs = None \<Longrightarrow> find P (xs @ [x]) = (if P x then Some x else None)"
  by (induction xs) (auto split: if_splits)

lemma find_append_other: "\<not> P x \<Longrightarrow> find P (xs @ [x]) = find P xs"
  by (induction xs) auto

lemma find_replace:
  "find (\<lambda>y. om_Name (meta y) = n) (replace_named meta x xs) =
     (if n = om_Name (meta x) then (if find (\<lambda>y. om_Name (meta y) = n) xs = None then None else Some x)
      else find (\<lambda>y. om_Name (meta y) = n) xs)"
  by (induction xs) (auto simp: replace_named_def)

lemma find_SomeD: "find P xs = Some x \<Longrightarrow> P x"
  by (induction xs) (auto split: if_splits)

text \<open>
  What the pass relies on: a service in order is only read, and another one is put in order
  without touching the rest, after which the pass starts again.
\<close>

locale service_repair =
  fixes stage :: "(Cluster, error + Service option) kop" and w :: WildFlyServer and name :: string
  assumes reads: "service_ok w name c \<Longrightarrow> \<exists>s evs. run_state stage (c, tr) = (Inr (Some s), c, tr @ evs)"
    and repairs: "in_int64 (wf_Generation w) \<Longrightarrow> \<not> service_ok w name c \<Longrightarrow> \<exists>c' evs. run_state stage (c, tr) = (Inr None, c', tr @ evs) \<and>
      service_ok w name c' \<and> (\<forall>n. n \<noteq> name \<longrightarrow> service_ok w n c' = service_ok w n c)"

lemma createOrUpdateService_repair:
  assumes "\<And>l. om_Name (svc_Meta (fst (creator w l))) = name"
  shows "service_repair (createOrUpdateService fake_kube w labels name creator) w name"
proof
  fix c :: Cluster and tr :: "event list"
  let ?find = "find (\<lambda>s. om_Name (svc_Meta s) = name) (cl_Services c)"
  note defs = createOrUpdateService_def GetService_def find_named_def Let_def service_ok_def
  show "\<exists>s evs. run_state (createOrUpdateService fake_kube w labels name creator) (c, tr) = (Inr (Some s), c, tr @ evs)"
    if "service_ok w name c"
    using that by (auto simp: defs split: option.splits)
  show "\<exists>c' evs. run_state (createOrUpdateService fake_kube w labels name creator) (c, tr) = (Inr None, c', tr @ evs) \<and>
      service_ok w name c' \<and> (\<forall>n. n \<noteq> name \<longrightarrow> service_ok w n c' = service_ok w n c)"
    if gen: "in_int64 (wf_Generation w)" and bad: "\<not> service_ok w name c"
  proof (cases ?find)
    case None
    have own: "IsCurrentGeneration w ((MarkServerGeneration w m)\<lparr>om_OwnerReferences := os\<rparr>)" for m os
      using IsCurrentGeneration_annotations[of "(MarkServerGeneration w m)\<lparr>om_OwnerReferences := os\<rparr>"
          "MarkServerGeneration w m" w] gen by (simp add: IsCurrentGeneration_Mark_iff)
    from None show ?thesis
      by (simp add: defs Create_def mark_object_def find_append_new find_append_other own assms)
  next
    case (Some s)
    then have old: "\<not> IsCurrentGeneration w (svc_Meta s)" using bad by (simp add: service_ok_def)
    obtain x1 x2 where new: "creator w (labels(MarkerOperatedByHeadless \<mapsto> MarkerServiceActive)) = (x1, x2)"
      by fastforce
    show ?thesis
      by (simp add: defs Some old new Update_def mark_object_def find_replace IsCurrentGeneration_Mark_iff[OF gen] find_SomeD[OF Some])
  qed
qed

lemma creator_names:
  "om_Name (svc_Meta (fst (newClusterService w l))) = ClusterServiceName w"
  "om_Name (svc_Meta (fst (newHeadlessService w l))) = HeadlessServiceName w"
  "om_Name (svc_Meta (fst (newAdminService w l))) = AdminServiceName w"
  by (simp_all add: newClusterService_def newHeadlessService_def newAdminService_def service_meta_def Let_def)

interpretation cluster_repair: service_repair "CreateOrUpdateClusterService fake_kube w labels" w "ClusterServiceName w"
  for w labels
  unfolding CreateOrUpdateClusterService_def by (rule createOrUpdateService_repair) (rule creator_names)

interpretation headless_repair: service_repair "CreateOrUpdateHeadlessService fake_kube w labels" w "HeadlessServiceName w"
  for w labels
  unfolding CreateOrUpdateHeadlessService_def by (rule createOrUpdateService_repair) (rule creator_names)

interpretation admin_repair: service_repair "CreateOrUpdateAdminService fake_kube w labels" w "AdminServiceName w"
  for w labels
  unfolding CreateOrUpdateAdminService_def by (rule createOrUpdateService_repair) (rule creator_names)

section \<open>All services\<close>

definition pass_services :: "WildFlyServer \<Rightarrow> Cluster \<Rightarrow> (bool \<times> error option) option \<times> Cluster" where
  "pass_services w c = (case run_state (reconcileServices fake_kube w) (c, []) of (r, c', _) \<Rightarrow> (r, c'))"

definition to_do :: "WildFlyServer \<Rightarrow> Cluster \<Rightarrow> nat" where
  "to_do w c = length (filter (\<lambda>n. \<not> service_ok w n c) [ClusterServiceName w, HeadlessServiceName w, AdminServiceName w])"

lemma service_names: "ClusterServiceName w \<noteq> HeadlessServiceName w" "ClusterServiceName w \<noteq> AdminServiceName w"
  "HeadlessServiceName w \<noteq> AdminServiceName w"
  by (simp_all add: ClusterServiceName_def HeadlessServiceName_def AdminServiceName_def)

lemma pass_services_step:
  assumes gen: "in_int64 (wf_Generation w)"
  shows "(to_do w c = 0 \<longrightarrow> pass_services w c = (None, c)) \<and>
    (0 < to_do w c \<longrightarrow> fst (pass_services w c) = Some (True, None) \<and> to_do w (snd (pass_services w c)) = to_do w c - 1)"
proof -
  note names = service_names[of w] service_names[of w, symmetric]
  let ?l = "LabelsForWildFly Map.empty w"
  note defs = pass_services_def reconcileServices_def stage_result_def to_do_def
  show ?thesis
  proof (cases "service_ok w (ClusterServiceName w) c")
    case False
    then show ?thesis using cluster_repair.repairs[OF gen False, of ?l "[]"] names by (auto simp: defs)
  next
    case c: True
    obtain e1 s1 where 1: "run_state (CreateOrUpdateClusterService fake_kube w ?l) (c, []) = (Inr (Some s1), c, e1)"
      using cluster_repair.reads[OF c, of ?l "[]"] by auto
    show ?thesis
    proof (cases "service_ok w (HeadlessServiceName w) c")
      case False
      then show ?thesis using c headless_repair.repairs[OF gen False, of ?l e1] names by (auto simp: defs 1)
    next
      case h: True
      obtain e2 s2 where 2: "run_state (CreateOrUpdateHeadlessService fake_kube w ?l) (c, e1) = (Inr (Some s2), c, e2)"
        using headless_repair.reads[OF h, of ?l e1] by auto
      show ?thesis
      proof (cases "service_ok w (AdminServiceName w) c")
        case False
        then show ?thesis using c h admin_repair.repairs[OF gen False, of ?l e2] names by (auto simp: defs 1 2)
      next
        case True
        then show ?thesis using c h admin_repair.reads[OF True, of ?l e2] by (auto simp: defs 1 2)
      qed
    qed
  qed
qed



end
