(* ===== verification/Go_Flags.thy ===== *)
theory Go_Flags
  imports Go_Strings
begin

text \<open>
  The command line: what \<open>main.go\<close> uses of Go's package \<open>flag\<close>. A flag set maps names to flags; a
  flag knows whether it is boolean and how a text sets the variables, which are a val of type
  \<open>'v\<close>. Parsing ends with the variables and the arguments that are left, with the request for
  help, or with an error.
\<close>

section \<open>Flag sets\<close>

record 'v flag_def =
  fd_IsBoolFlag :: bool
  fd_Set :: "string \<Rightarrow> 'v \<Rightarrow> 'v option"

type_synonym 'v flag_set = "string \<rightharpoonup> 'v flag_def"

text \<open>\<open>FlagSet.Var\<close> panics on a bad name and on a name that is defined already.\<close>

definition Var :: "string \<Rightarrow> 'v flag_def \<Rightarrow> 'v flag_set \<Rightarrow> 'v flag_set outcome" where
  "Var name f formal =
     (if HasPrefix name ''-'' \<or> CHR ''='' \<in> set name \<or> formal name \<noteq> None then Panic
      else Ret (formal(name \<mapsto> f)))"

definition StringFlag :: "(string \<Rightarrow> 'v \<Rightarrow> 'v) \<Rightarrow> 'v flag_def" where
  "StringFlag assign = \<lparr>fd_IsBoolFlag = False, fd_Set = (\<lambda>s v. Some (assign s v))\<rparr>"

definition BoolFlag :: "(bool \<Rightarrow> 'v \<Rightarrow> 'v) \<Rightarrow> 'v flag_def" where
  "BoolFlag assign = \<lparr>fd_IsBoolFlag = True, fd_Set = (\<lambda>s v. map_option (\<lambda>b. assign b v) (ParseBool s))\<rparr>"

section \<open>Parsing\<close>

datatype 'v parsed = Parsed 'v "string list" | ParseHelp | ParseError

text \<open>The name and the value of \<open>name=value\<close>; the first character is never the equals sign.\<close>

definition split_flag :: "string \<Rightarrow> string \<times> string option" where
  "split_flag s =
     (let name = hd s # takeWhile (\<lambda>c. c \<noteq> CHR ''='') (tl s)
      in (name, case dropWhile (\<lambda>c. c \<noteq> CHR ''='') (tl s) of [] \<Rightarrow> None | _ # val \<Rightarrow> Some val))"

fun parse_flags :: "'v flag_set \<Rightarrow> string list \<Rightarrow> 'v \<Rightarrow> 'v parsed" where
  "parse_flags formal [] v = Parsed v []"
| "parse_flags formal (s # args) v =
     (if length s < 2 \<or> hd s \<noteq> CHR ''-'' then Parsed v (s # args)
      else if s = ''--'' then Parsed v args
      else let body = (if s ! 1 = CHR ''-'' then drop 2 s else tl s) in
        if body = [] \<or> hd body \<in> {CHR ''-'', CHR ''=''} then ParseError
        else (case split_flag body of (name, given) \<Rightarrow>
          (case formal name of
             None \<Rightarrow> if name = ''help'' \<or> name = ''h'' then ParseHelp else ParseError
           | Some f \<Rightarrow>
               if fd_IsBoolFlag f then
                 (case fd_Set f (case given of None \<Rightarrow> ''true'' | Some val \<Rightarrow> val) v of
                    None \<Rightarrow> ParseError | Some v' \<Rightarrow> parse_flags formal args v')
               else
                 (case given of
                    Some val \<Rightarrow> (case fd_Set f val v of None \<Rightarrow> ParseError | Some v' \<Rightarrow> parse_flags formal args v')
                  | None \<Rightarrow>
                      (case args of
                         [] \<Rightarrow> ParseError
                       | val # rest \<Rightarrow>
                           (case fd_Set f val v of None \<Rightarrow> ParseError | Some v' \<Rightarrow> parse_flags formal rest v'))))))"

declare parse_flags.simps(2) [simp del]

text \<open>A flag is written with its value after an equals sign, and parsed as it was written.\<close>

definition flag_arg :: "string \<Rightarrow> string \<Rightarrow> string" where
  "flag_arg name val = ''--'' @ name @ ''='' @ val"

definition proper_name :: "string \<Rightarrow> bool" where
  "proper_name name \<longleftrightarrow> name \<noteq> [] \<and> hd name \<noteq> CHR ''-'' \<and> CHR ''='' \<notin> set name"

lemma split_flag_arg: "proper_name name \<Longrightarrow> split_flag (name @ ''='' @ val) = (name, Some val)"
  by (cases name) (auto simp: proper_name_def split_flag_def takeWhile_append dropWhile_append)

lemma parse_flag_arg:
  assumes "proper_name name" and "formal name = Some f" and "fd_Set f val v = Some v'"
  shows "parse_flags formal (flag_arg name val # args) v = parse_flags formal args v'"
proof -
  have "hd (name @ ''='' @ val) = hd name" using assms(1) by (simp add: proper_name_def)
  then have "hd (name @ ''='' @ val) \<notin> {CHR ''-'', CHR ''=''}"
    using assms(1) by (cases name) (auto simp: proper_name_def)
  then show ?thesis
    using assms split_flag_arg[OF assms(1), of val] by (simp add: parse_flags.simps(2) flag_arg_def proper_name_def)
qed

text \<open>A boolean flag may be written without a value.\<close>

lemma parse_bool_flag:
  assumes "proper_name name" and "formal name = Some f" and "fd_IsBoolFlag f" and "fd_Set f ''true'' v = Some v'"
  shows "parse_flags formal ((''--'' @ name) # args) v = parse_flags formal args v'"
proof -
  obtain c cs where name: "name = c # cs" using assms(1) by (cases name) (auto simp: proper_name_def)
  have parts: "takeWhile (\<lambda>c. c \<noteq> CHR ''='') cs = cs" "dropWhile (\<lambda>c. c \<noteq> CHR ''='') cs = []"
    using assms(1) name by (auto simp: proper_name_def takeWhile_eq_all_conv dropWhile_eq_Nil_conv)
  have "split_flag name = (name, None)" unfolding split_flag_def name Let_def list.sel parts by simp
  moreover have "c \<notin> {CHR ''-'', CHR ''=''}" using assms(1) name by (auto simp: proper_name_def)
  ultimately show ?thesis using assms(2-4) name by (simp add: parse_flags.simps(2))
qed

text \<open>Parsing ends in an error only at an argument that looks like a flag.\<close>

lemma parse_positional: "HasPrefix s ''-'' = False \<Longrightarrow> parse_flags formal (s # args) v = Parsed v (s # args)"
  by (cases s) (auto simp: HasPrefix_def parse_flags.simps(2))

lemma parse_Var:
  "Var name f formal = Ret formal' \<Longrightarrow> formal' name = Some f \<and> (\<forall>n. n \<noteq> name \<longrightarrow> formal' n = formal n) \<and> formal name = None"
  by (auto simp: Var_def split: if_splits)

end
