(* ===== verification/Api_Scheme.thy ===== *)
theory Api_Scheme
  imports Client
begin

text \<open>
  The scheme that tells which Go type a group, version and kind has: the registration of the
  resource (\<open>api/v1alpha1/groupversion_info.go\<close>, \<open>init\<close> in \<open>wildflyserver_types.go\<close>) and of everything
  the operator needs (\<open>init\<close> in \<open>main.go\<close>), with the parts of \<open>runtime.Scheme\<close> and of the
  builders in \<open>vendor/\<close> that they use. The registration functions of the other packages are
  the parameter \<open>Libraries\<close>.
\<close>

section \<open>runtime.Scheme and its builders\<close>

text \<open>A kind that is registered with another type, and an empty version, panic.\<close>

definition AddKnownTypeWithName :: "gvk \<Rightarrow> string \<Rightarrow> scheme \<Rightarrow> scheme outcome" where
  "AddKnownTypeWithName k t s =
     (case k of (grp, version, kind) \<Rightarrow>
        if version = '''' then Panic
        else if s k \<noteq> None \<and> s k \<noteq> Some t then Panic
        else Ret (s(k \<mapsto> t)))"

text \<open>A type is given by its package path and its name, which is also the kind.\<close>

fun AddKnownTypes :: "string \<times> string \<Rightarrow> (string \<times> string) list \<Rightarrow> scheme \<Rightarrow> scheme outcome" where
  "AddKnownTypes gv [] s = Ret s"
| "AddKnownTypes gv ((path, name) # types) s =
     (case AddKnownTypeWithName (fst gv, snd gv, name) (path @ ''.'' @ name) s of
        Panic \<Rightarrow> Panic | Ret s' \<Rightarrow> AddKnownTypes gv types s')"

text \<open>A registration changes the scheme, may fail, and may panic.\<close>

type_synonym registration = "scheme \<Rightarrow> (error option \<times> scheme) outcome"

record Builder =
  b_GroupVersion :: "string \<times> string"
  b_SchemeBuilder :: "registration list"

definition Register :: "(string \<times> string \<Rightarrow> scheme \<Rightarrow> scheme outcome) \<Rightarrow> (string \<times> string) list \<Rightarrow> Builder \<Rightarrow> Builder" where
  "Register AddToGroupVersion types bld = bld\<lparr>b_SchemeBuilder := b_SchemeBuilder bld @
     [\<lambda>s. case AddKnownTypes (b_GroupVersion bld) types s of Panic \<Rightarrow> Panic
        | Ret s1 \<Rightarrow> (case AddToGroupVersion (b_GroupVersion bld) s1 of Panic \<Rightarrow> Panic
                    | Ret s2 \<Rightarrow> Ret (None, s2))]\<rparr>"

fun AddToScheme_loop :: "registration list \<Rightarrow> registration" where
  "AddToScheme_loop [] s = Ret (None, s)"
| "AddToScheme_loop (f # fs) s =
     (case f s of
        Panic \<Rightarrow> Panic
      | Ret (Some err, s') \<Rightarrow> Ret (Some err, s')
      | Ret (None, s') \<Rightarrow> AddToScheme_loop fs s')"

section \<open>The resource\<close>

record Libraries =
  li_clientgo :: registration
  li_route :: registration
  li_monitoring :: registration
  li_AddToGroupVersion :: "string \<times> string \<Rightarrow> scheme \<Rightarrow> scheme outcome"

definition GroupVersion :: "string \<times> string" where
  "GroupVersion = (''wildfly.org'', ''v1alpha1'')"

definition resource_types :: "(string \<times> string) list" where
  "resource_types = [(''github.com/wildfly/wildfly-operator/api/v1alpha1'', ''WildFlyServer''),
     (''github.com/wildfly/wildfly-operator/api/v1alpha1'', ''WildFlyServerList'')]"

text \<open>
  The variable \<open>SchemeBuilder\<close> after \<open>init\<close>. It is a pointer, so that \<open>AddToScheme\<close>, which is bound to it before
  \<open>init\<close> runs, sees what \<open>init\<close> registers.
\<close>

definition SchemeBuilder :: "Libraries \<Rightarrow> Builder" where
  "SchemeBuilder L = Register (li_AddToGroupVersion L) resource_types \<lparr>b_GroupVersion = GroupVersion, b_SchemeBuilder = []\<rparr>"

definition AddToScheme :: "Libraries \<Rightarrow> registration" where
  "AddToScheme L = AddToScheme_loop (b_SchemeBuilder (SchemeBuilder L))"

section \<open>init of main.go\<close>

definition Must :: "(error option \<times> scheme) outcome \<Rightarrow> scheme outcome" where
  "Must r = (case r of Ret (None, s) \<Rightarrow> Ret s | _ \<Rightarrow> Panic)"

fun must_all :: "registration list \<Rightarrow> scheme \<Rightarrow> scheme outcome" where
  "must_all [] s = Ret s"
| "must_all (f # fs) s = (case Must (f s) of Panic \<Rightarrow> Panic | Ret s' \<Rightarrow> must_all fs s')"

definition main_init :: "Libraries \<Rightarrow> scheme outcome" where
  "main_init L = must_all [li_clientgo L, li_route L, li_monitoring L, AddToScheme L] Map.empty"

section \<open>What the scheme knows\<close>

text \<open>
  The contract of a registration, relative to the table \<open>U\<close> of the types that the packages
  define: within \<open>U\<close> it succeeds and adds its part of the table. With a type that is not that
  of \<open>U\<close> it may panic, so nothing is said of other schemes.
\<close>

definition registers :: "scheme \<Rightarrow> registration \<Rightarrow> gvk set \<Rightarrow> bool" where
  "registers U f ks \<longleftrightarrow> (\<forall>s. s \<subseteq>\<^sub>m U \<longrightarrow> (\<exists>s'. f s = Ret (None, s') \<and> s \<subseteq>\<^sub>m s' \<and> s' \<subseteq>\<^sub>m U \<and> ks \<subseteq> dom s'))"

text \<open>The kinds that the controller reads, watches and creates.\<close>

definition kind_gvk :: "string \<Rightarrow> gvk" where
  "kind_gvk kind = (if kind = ''WildFlyServer'' then (''wildfly.org'', ''v1alpha1'', kind)
     else if kind = ''StatefulSet'' then (''apps'', ''v1'', kind)
     else if kind = ''Route'' then (''route.openshift.io'', ''v1'', kind)
     else if kind = ''ServiceMonitor'' then (''monitoring.coreos.com'', ''v1'', kind)
     else ('''', ''v1'', kind))"

definition resource_table :: scheme where
  "resource_table = [(''wildfly.org'', ''v1alpha1'', ''WildFlyServer'') \<mapsto> ''github.com/wildfly/wildfly-operator/api/v1alpha1.WildFlyServer'',
     (''wildfly.org'', ''v1alpha1'', ''WildFlyServerList'') \<mapsto> ''github.com/wildfly/wildfly-operator/api/v1alpha1.WildFlyServerList'']"

text \<open>Documented behaviour of the other packages: what their registrations add.\<close>

definition libraries_register :: "Libraries \<Rightarrow> bool" where
  "libraries_register L \<longleftrightarrow> (\<exists>U. resource_table \<subseteq>\<^sub>m U \<and>
     registers U (li_clientgo L) (kind_gvk ` {''StatefulSet'', ''Service'', ''Pod''}) \<and>
     registers U (li_route L) {kind_gvk ''Route''} \<and>
     registers U (li_monitoring L) {kind_gvk ''ServiceMonitor''} \<and>
     registers U (\<lambda>s. case li_AddToGroupVersion L GroupVersion s of Panic \<Rightarrow> Panic | Ret s' \<Rightarrow> Ret (None, s')) {})"

lemma map_le_Some: "m \<subseteq>\<^sub>m m' \<Longrightarrow> m k = Some v \<Longrightarrow> m' k = Some v"
  by (metis domI map_le_def)

lemma map_le_upd: "s \<subseteq>\<^sub>m U \<Longrightarrow> U k = Some t \<Longrightarrow> s(k \<mapsto> t) \<subseteq>\<^sub>m U"
  by (simp add: map_le_def)

lemma AddKnownTypes_registers:
  assumes "s \<subseteq>\<^sub>m U" and "snd gv \<noteq> ''''"
    and "\<And>path name. (path, name) \<in> set types \<Longrightarrow> U (fst gv, snd gv, name) = Some (path @ ''.'' @ name)"
  shows "\<exists>s'. AddKnownTypes gv types s = Ret s' \<and> s \<subseteq>\<^sub>m s' \<and> s' \<subseteq>\<^sub>m U \<and>
     (\<forall>(path, name)\<in>set types. (fst gv, snd gv, name) \<in> dom s')"
  using assms(1,3)
proof (induction types arbitrary: s)
  case (Cons ty types)
  obtain path name where ty: "ty = (path, name)" by (cases ty)
  let ?k = "(fst gv, snd gv, name)" and ?t = "path @ ''.'' @ name"
  have u: "U ?k = Some ?t" using Cons.prems(2)[of path name] ty by simp
  then have fits: "s ?k = None \<or> s ?k = Some ?t" using Cons.prems(1) by (metis domIff map_le_def)
  then have le: "s \<subseteq>\<^sub>m s(?k \<mapsto> ?t)" by (auto simp: map_le_def)
  have add: "AddKnownTypes gv (ty # types) s = AddKnownTypes gv types (s(?k \<mapsto> ?t))"
    using fits assms(2) ty by (auto simp: AddKnownTypeWithName_def)
  have "\<exists>s'. AddKnownTypes gv types (s(?k \<mapsto> ?t)) = Ret s' \<and> s(?k \<mapsto> ?t) \<subseteq>\<^sub>m s' \<and> s' \<subseteq>\<^sub>m U \<and>
      (\<forall>(path, name)\<in>set types. (fst gv, snd gv, name) \<in> dom s')"
    by (rule Cons.IH[OF map_le_upd[OF Cons.prems(1) u]]) (use Cons.prems(2) in simp)
  then obtain s' where s': "AddKnownTypes gv types (s(?k \<mapsto> ?t)) = Ret s'" "s(?k \<mapsto> ?t) \<subseteq>\<^sub>m s'" "s' \<subseteq>\<^sub>m U"
      "\<forall>(path, name)\<in>set types. (fst gv, snd gv, name) \<in> dom s'"
    by blast
  have "?k \<in> dom s'" using map_le_implies_dom_le[OF s'(2)] by auto
  then show ?case using add s' map_le_trans[OF le s'(2)] ty by auto
qed simp

lemma registers_resource:
  assumes "resource_table \<subseteq>\<^sub>m U"
    and "registers U (\<lambda>s. case li_AddToGroupVersion L GroupVersion s of Panic \<Rightarrow> Panic | Ret s' \<Rightarrow> Ret (None, s')) {}"
  shows "registers U (AddToScheme L) {kind_gvk ''WildFlyServer''}"
  unfolding registers_def
proof (intro allI impI)
  fix s assume s: "s \<subseteq>\<^sub>m U"
  have types: "resource_table (fst GroupVersion, snd GroupVersion, name) = Some (path @ ''.'' @ name)"
    if "(path, name) \<in> set resource_types" for path name
    using that by (auto simp: resource_types_def GroupVersion_def resource_table_def)
  have "U (fst GroupVersion, snd GroupVersion, name) = Some (path @ ''.'' @ name)" if "(path, name) \<in> set resource_types" for path name
    by (rule map_le_Some[OF assms(1) types[OF that]])
  then obtain s1 where s1: "AddKnownTypes GroupVersion resource_types s = Ret s1" "s \<subseteq>\<^sub>m s1" "s1 \<subseteq>\<^sub>m U"
      "\<forall>(path, name)\<in>set resource_types. (fst GroupVersion, snd GroupVersion, name) \<in> dom s1"
    using AddKnownTypes_registers[OF s, of GroupVersion resource_types] by (auto simp: GroupVersion_def)
  obtain s2 where "(case li_AddToGroupVersion L GroupVersion s1 of Panic \<Rightarrow> Panic | Ret s' \<Rightarrow> Ret (None, s')) = Ret (None :: error option, s2)"
      and le: "s1 \<subseteq>\<^sub>m s2" "s2 \<subseteq>\<^sub>m U"
    using assms(2)[unfolded registers_def, rule_format, OF s1(3)] by (elim exE conjE)
  then have s2: "li_AddToGroupVersion L GroupVersion s1 = Ret s2" "s1 \<subseteq>\<^sub>m s2" "s2 \<subseteq>\<^sub>m U" by (simp_all split: outcome.splits)
  have "kind_gvk ''WildFlyServer'' \<in> dom s1" using s1(4) by (simp add: resource_types_def GroupVersion_def kind_gvk_def)
  then have "kind_gvk ''WildFlyServer'' \<in> dom s2" using map_le_implies_dom_le[OF s2(2)] by blast
  then show "\<exists>s'. AddToScheme L s = Ret (None, s') \<and> s \<subseteq>\<^sub>m s' \<and> s' \<subseteq>\<^sub>m U \<and> {kind_gvk ''WildFlyServer''} \<subseteq> dom s'"
    using s1 s2 map_le_trans[OF s1(2) s2(2)]
    by (simp add: AddToScheme_def SchemeBuilder_def Register_def GroupVersion_def[symmetric])
qed

lemma must_all_registers:
  assumes "list_all2 (registers U) fs kss" and "s \<subseteq>\<^sub>m U"
  shows "\<exists>s'. must_all fs s = Ret s' \<and> s \<subseteq>\<^sub>m s' \<and> \<Union>(set kss) \<subseteq> dom s'"
  using assms
proof (induction fs kss arbitrary: s rule: list_all2_induct)
  case (Cons f fs ks kss)
  then obtain s1 where s1: "f s = Ret (None, s1)" "s \<subseteq>\<^sub>m s1" "s1 \<subseteq>\<^sub>m U" "ks \<subseteq> dom s1"
    unfolding registers_def by blast
  obtain s' where s': "must_all fs s1 = Ret s'" "s1 \<subseteq>\<^sub>m s'" "\<Union>(set kss) \<subseteq> dom s'" using Cons.IH[OF s1(3)] by blast
  then show ?case using s1 map_le_trans[OF s1(2) s'(2)] map_le_implies_dom_le[OF s'(2)] by (auto simp: Must_def)
qed simp

lemma main_init_complete:
  assumes "libraries_register L"
  shows "\<exists>s. main_init L = Ret s \<and> kind_gvk ` {''WildFlyServer'', ''StatefulSet'', ''Service'', ''Pod'', ''Route'', ''ServiceMonitor''} \<subseteq> dom s"
proof -
  obtain U where "resource_table \<subseteq>\<^sub>m U"
    and "registers U (li_clientgo L) (kind_gvk ` {''StatefulSet'', ''Service'', ''Pod''})"
    and "registers U (li_route L) {kind_gvk ''Route''}" and "registers U (li_monitoring L) {kind_gvk ''ServiceMonitor''}"
    and "registers U (\<lambda>s. case li_AddToGroupVersion L GroupVersion s of Panic \<Rightarrow> Panic | Ret s' \<Rightarrow> Ret (None, s')) {}"
    using assms unfolding libraries_register_def by blast
  then have "list_all2 (registers U) [li_clientgo L, li_route L, li_monitoring L, AddToScheme L]
      [kind_gvk ` {''StatefulSet'', ''Service'', ''Pod''}, {kind_gvk ''Route''}, {kind_gvk ''ServiceMonitor''}, {kind_gvk ''WildFlyServer''}]"
    by (simp add: registers_resource)
  from must_all_registers[OF this map_le_empty] show ?thesis unfolding main_init_def by auto
qed

end
