(* ===== verification/Manager.thy ===== *)
theory Manager
  imports Reconcile_Pass Go_Flags Api_Scheme
begin

text \<open>
  \<open>main.go\<close> and \<open>SetupWithManager\<close>: the start of the operator. The registration of the schemes
  comes first, then the flags, then the manager. What the imported packages register is the
  parameter \<open>Process\<close>. A call of the manager library is a request like the others; \<open>main\<close> returns
  the exit status of the process and the lines in which it has logged its version.
\<close>

section \<open>SetupWithManager\<close>

text \<open>The kinds whose changes wake the reconciler, in the order of the builder.\<close>

definition watched :: "bool \<Rightarrow> bool \<Rightarrow> watch list" where
  "watched monitor isOpenShift = [For ''WildFlyServer'', Owns ''Service''] @
     (if monitor then [Owns ''ServiceMonitor''] else []) @ (if isOpenShift then [Owns ''Route''] else []) @
     [Watches ''StatefulSet'' False]"

fun watch_kind :: "watch \<Rightarrow> string" where
  "watch_kind (For k) = k" | "watch_kind (Owns k) = k" | "watch_kind (Watches k _) = k"

definition SetupWithManager :: "'e Kube \<Rightarrow> bool \<Rightarrow> ('e, error option) kop" where
  "SetupWithManager K isOpenShift =
     do { monitor \<leftarrow> hasServiceMonitor K;
          call (k_Complete K (watched monitor isOpenShift)) (EvComplete (watched monitor isOpenShift)) }"

section \<open>main\<close>

record Flags =
  fl_metricsAddr :: string
  fl_probeAddr :: string
  fl_enableLeaderElection :: bool

definition default_flags :: Flags where
  "default_flags = \<lparr>fl_metricsAddr = ''0.0.0.0:8383'', fl_probeAddr = '':8081'', fl_enableLeaderElection = False\<rparr>"

text \<open>The flags of the imported packages, those that \<open>zap.Options\<close> binds, and the Go runtime.\<close>

record Process =
  pr_Libraries :: Libraries
  pr_Flags :: "Flags flag_set"
  pr_BindFlags :: "Flags flag_set \<Rightarrow> Flags flag_set outcome"
  pr_GoVersion :: string
  pr_GOOS :: string
  pr_GOARCH :: string

definition operator_flags :: "Process \<Rightarrow> Flags flag_set outcome" where
  "operator_flags P =
     (case Var ''metrics-bind-address'' (StringFlag (\<lambda>s fl. fl\<lparr>fl_metricsAddr := s\<rparr>)) (pr_Flags P) of
        Panic \<Rightarrow> Panic
      | Ret f1 \<Rightarrow>
     (case Var ''health-probe-bind-address'' (StringFlag (\<lambda>s fl. fl\<lparr>fl_probeAddr := s\<rparr>)) f1 of
        Panic \<Rightarrow> Panic
      | Ret f2 \<Rightarrow>
     (case Var ''leader-elect'' (BoolFlag (\<lambda>b fl. fl\<lparr>fl_enableLeaderElection := b\<rparr>)) f2 of
        Panic \<Rightarrow> Panic
      | Ret f3 \<Rightarrow> pr_BindFlags P f3)))"

definition Version :: string where
  "Version = ''1.1.4''"

definition printVersion :: "Process \<Rightarrow> string list" where
  "printVersion P = [''Go Version: '' @ pr_GoVersion P, ''Go OS/Arch: '' @ pr_GOOS P @ ''/'' @ pr_GOARCH P,
     ''Operator Version: '' @ Version]"

definition getWatchNamespace :: "strmap \<Rightarrow> error + string" where
  "getWatchNamespace env = (case env ''WATCH_NAMESPACE'' of
     None \<Rightarrow> Inl (Errorf ''must be set'' [''WATCH_NAMESPACE''] []) | Some ns \<Rightarrow> Inr ns)"

definition managerOptions :: "scheme \<Rightarrow> Flags \<Rightarrow> string \<Rightarrow> ManagerOptions" where
  "managerOptions scheme fl namespace = \<lparr>mo_Scheme = scheme, mo_MetricsBindAddress = fl_metricsAddr fl, mo_Port = 9443,
     mo_Namespace = namespace, mo_HealthProbeBindAddress = fl_probeAddr fl, mo_LeaderElection = fl_enableLeaderElection fl,
     mo_LeaderElectionID = ''wildfly-operator-election-lock'', mo_LeaseSeconds = 30, mo_RenewSeconds = 20\<rparr>"

text \<open>A step of the start: an error ends the process with status 1.\<close>

definition or_exit :: "('e, error option) kop \<Rightarrow> ('e, int) kop \<Rightarrow> ('e, int) kop" where
  "or_exit step rest = do { err \<leftarrow> step; (case err of Some _ \<Rightarrow> ret 1 | None \<Rightarrow> rest) }"

text \<open>The part of \<open>main\<close> after the flags.\<close>

definition runManager :: "'e Kube \<Rightarrow> scheme \<Rightarrow> Flags \<Rightarrow> ('e, int) kop" where
  "runManager K scheme fl =
     (case getWatchNamespace (k_Env K) of
        Inl _ \<Rightarrow> ret 1
      | Inr namespace \<Rightarrow>
          or_exit (call (k_GetConfig K) (EvConfig ''GetConfig''))
          (or_exit (call (k_NewManager K (managerOptions scheme fl namespace)) (EvNewManager (managerOptions scheme fl namespace)))
          (do { openshift \<leftarrow> call (k_IsOpenShift K) EvPlatform;
                (case openshift of
                   Inl _ \<Rightarrow> ret 1
                 | Inr isOpenShift \<Rightarrow>
                     or_exit (SetupWithManager K isOpenShift)
                     (or_exit (call (k_AddHealthzCheck K ''health'') (EvConfig ''AddHealthzCheck''))
                     (or_exit (call (k_AddReadyzCheck K ''check'') (EvConfig ''AddReadyzCheck''))
                     (or_exit (call (k_Start K) (EvConfig ''Start'')) (ret 0))))) })))"

text \<open>A request for help ends the process with status 0, a wrong command line with status 2.\<close>

definition main :: "'e Kube \<Rightarrow> Process \<Rightarrow> scheme \<Rightarrow> string list \<Rightarrow> ('e, (int \<times> string list) outcome) kop" where
  "main K P scheme args =
     (case operator_flags P of
        Panic \<Rightarrow> ret Panic
      | Ret formal \<Rightarrow>
          (case parse_flags formal args default_flags of
             ParseHelp \<Rightarrow> ret (Ret (0, []))
           | ParseError \<Rightarrow> ret (Ret (2, []))
           | Parsed fl _ \<Rightarrow> do { status \<leftarrow> runManager K scheme fl; ret (Ret (status, printVersion P)) }))"

text \<open>The process: \<open>init\<close>, then \<open>main\<close>.\<close>

definition operator_process :: "'e Kube \<Rightarrow> Process \<Rightarrow> string list \<Rightarrow> ('e, (int \<times> string list) outcome) kop" where
  "operator_process K P args =
     (case main_init (pr_Libraries P) of Panic \<Rightarrow> ret Panic | Ret scheme \<Rightarrow> main K P scheme args)"

section \<open>The start of the operator\<close>

text \<open>What the discovery answered about ServiceMonitors in a trace.\<close>

definition monitor_reported :: "event list \<Rightarrow> bool" where
  "monitor_reported evs \<longleftrightarrow> (\<exists>kinds. EvServerResources ''monitoring.coreos.com/v1'' (Inr kinds) \<in> set evs \<and>
     ''ServiceMonitor'' \<in> set kinds)"

lemma hasServiceMonitor_spec:
  "does (hasServiceMonitor K) (\<lambda>r evs. (r \<longleftrightarrow> monitor_reported evs) \<and> no_write evs \<and>
     list_all (\<lambda>v. \<forall>e. v \<noteq> EvConfig ''Start'' e) evs)"
  unfolding hasServiceMonitor_def CustomResourceDefinitionExists_def
  by (intro does_rules) (auto simp: monitor_reported_def list_ex_iff)

lemmas does_hasServiceMonitor [does_rules] = does_mono[OF hasServiceMonitor_spec]

lemma watched_kinds:
  "k \<in> watch_kind ` set ([For w, Owns s] @ (if m then [Owns sm] else []) @ (if b then [Owns r] else []) @ [Watches st c]) \<longleftrightarrow>
     k \<in> {w, s, st} \<or> m \<and> k = sm \<or> b \<and> k = r"
  by auto

lemma kind_watched:
  "k \<in> watch_kind ` set (watched m b) \<longleftrightarrow>
     k \<in> {''WildFlyServer'', ''Service'', ''StatefulSet''} \<or> m \<and> k = ''ServiceMonitor'' \<or> b \<and> k = ''Route''"
  unfolding watched_def by (rule watched_kinds)

text \<open>
  What has happened when the manager is started: it was created for the namespace with the options and a
  scheme that has every watched kind, and the controller was registered for the detected platform.
\<close>

definition set_up :: "'e Kube \<Rightarrow> Flags \<Rightarrow> event list \<Rightarrow> bool" where
  "set_up K fl evs \<longleftrightarrow> (\<exists>ns scheme isOpenShift. k_Env K ''WATCH_NAMESPACE'' = Some ns \<and>
     EvNewManager (managerOptions scheme fl ns) None \<in> set evs \<and> EvPlatform (Inr isOpenShift) \<in> set evs \<and>
     EvComplete (watched (monitor_reported evs) isOpenShift) None \<in> set evs \<and>
     kind_gvk ` watch_kind ` set (watched (monitor_reported evs) isOpenShift) \<subseteq> dom scheme)"

lemma set_upI:
  "k_Env K ''WATCH_NAMESPACE'' = Some ns \<Longrightarrow> EvNewManager (managerOptions scheme fl ns) None \<in> set evs \<Longrightarrow>
   EvPlatform (Inr isOpenShift) \<in> set evs \<Longrightarrow> EvComplete (watched (monitor_reported evs) isOpenShift) None \<in> set evs \<Longrightarrow>
   kind_gvk ` watch_kind ` set (watched (monitor_reported evs) isOpenShift) \<subseteq> dom scheme \<Longrightarrow> set_up K fl evs"
  unfolding set_up_def by blast

lemma runManager_sets_up:
  assumes "\<And>m b. kind_gvk ` watch_kind ` set (watched m b) \<subseteq> dom scheme"
  shows "does (runManager K scheme fl) (\<lambda>status evs. status \<in> {0, 1} \<and>
     (k_Env K ''WATCH_NAMESPACE'' = None \<longrightarrow> status = 1 \<and> evs = []) \<and>
     (\<forall>e. EvConfig ''Start'' e \<in> set evs \<longrightarrow> last evs = EvConfig ''Start'' e \<and> set_up K fl evs) \<and>
     (status = 0 \<longrightarrow> EvConfig ''Start'' None \<in> set evs))"
proof -
  have "does (runManager K scheme fl) (\<lambda>status evs. status \<in> {0, 1} \<and>
     (k_Env K ''WATCH_NAMESPACE'' = None \<longrightarrow> status = 1 \<and> evs = []) \<and>
     (\<forall>e. EvConfig ''Start'' e \<in> set evs \<longrightarrow> last evs = EvConfig ''Start'' e \<and>
        (\<exists>ns isOpenShift. k_Env K ''WATCH_NAMESPACE'' = Some ns \<and> EvNewManager (managerOptions scheme fl ns) None \<in> set evs \<and>
           EvPlatform (Inr isOpenShift) \<in> set evs \<and>
           EvComplete (watched (monitor_reported evs) isOpenShift) None \<in> set evs)) \<and>
     (status = 0 \<longrightarrow> EvConfig ''Start'' None \<in> set evs))"
    unfolding runManager_def getWatchNamespace_def SetupWithManager_def or_exit_def
    by (intro does_rules) (auto simp: monitor_reported_def list_all_iff split: option.splits)
  then show ?thesis
    by (rule does_mono) (auto intro: set_upI[OF _ _ _ _ assms])
qed

lemma image_within: "f ` B \<subseteq> D \<Longrightarrow> A \<subseteq> B \<Longrightarrow> f ` A \<subseteq> D"
  by blast

lemma main_init_watched:
  assumes "libraries_register L"
  obtains scheme where "main_init L = Ret scheme" and "\<And>m b. kind_gvk ` watch_kind ` set (watched m b) \<subseteq> dom scheme"
proof -
  obtain scheme where "main_init L = Ret scheme"
      and "kind_gvk ` {''WildFlyServer'', ''StatefulSet'', ''Service'', ''Pod'', ''Route'', ''ServiceMonitor''} \<subseteq> dom scheme"
    using main_init_complete[OF assms] by blast
  moreover have "watch_kind ` set (watched m b) \<subseteq> {''WildFlyServer'', ''StatefulSet'', ''Service'', ''Pod'', ''Route'', ''ServiceMonitor''}" for m b
    unfolding subset_iff kind_watched by auto
  ultimately show thesis by - (rule that, assumption, rule image_within)
qed


text \<open>
  The deployed configuration passes \<open>--leader-elect\<close>. The packages of this instance register
  the kinds they are asked for.
\<close>

definition sample_table :: scheme where
  "sample_table = map_of (map (\<lambda>k. (kind_gvk k, k)) [''StatefulSet'', ''Service'', ''Pod'', ''Route'', ''ServiceMonitor''])"

definition sample_process :: Process where
  "sample_process = \<lparr>pr_Libraries = \<lparr>li_clientgo = (\<lambda>s. Ret (None, s ++ sample_table)), li_route = (\<lambda>s. Ret (None, s ++ sample_table)),
       li_monitoring = (\<lambda>s. Ret (None, s ++ sample_table)), li_AddToGroupVersion = (\<lambda>gv s. Ret s)\<rparr>,
     pr_Flags = [''kubeconfig'' \<mapsto> StringFlag (\<lambda>s fl. fl)], pr_BindFlags = Var ''zap-devel'' (BoolFlag (\<lambda>b fl. fl)),
     pr_GoVersion = ''go1.21'', pr_GOOS = ''linux'', pr_GOARCH = ''amd64''\<rparr>"

lemma registers_table: "T \<subseteq>\<^sub>m U \<Longrightarrow> ks \<subseteq> dom T \<Longrightarrow> registers U (\<lambda>s. Ret (None, s ++ T)) ks"
  unfolding registers_def by (fastforce simp: map_le_def map_add_def dom_def split: option.splits)

lemma sample_libraries: "libraries_register (pr_Libraries sample_process)"
proof -
  have "sample_table k = None" if "k \<in> dom resource_table" for k
    using that by (auto simp: sample_table_def resource_table_def kind_gvk_def split: if_splits)
  then have "resource_table \<subseteq>\<^sub>m resource_table ++ sample_table"
    by (auto simp: map_le_def map_add_def split: option.splits)
  moreover have "sample_table \<subseteq>\<^sub>m resource_table ++ sample_table" by (simp add: map_le_map_add)
  moreover have "kind_gvk ` {''StatefulSet'', ''Service'', ''Pod''} \<subseteq> dom sample_table" "{kind_gvk ''Route''} \<subseteq> dom sample_table"
      "{kind_gvk ''ServiceMonitor''} \<subseteq> dom sample_table"
    by (auto simp: sample_table_def kind_gvk_def)
  ultimately show ?thesis
    unfolding libraries_register_def sample_process_def
    by (intro exI[of _ "resource_table ++ sample_table"]) (simp add: registers_table, simp add: registers_def)
qed


section \<open>What a pass creates is watched\<close>

fun kind_of :: "Object \<Rightarrow> string" where
  "kind_of (ObjStatefulSet _) = ''StatefulSet''"
| "kind_of (ObjService _) = ''Service''"
| "kind_of (ObjRoute _) = ''Route''"
| "kind_of (ObjServiceMonitor _) = ''ServiceMonitor''"
| "kind_of (ObjPod _) = ''Pod''"

definition creations_watched :: "bool \<Rightarrow> event list \<Rightarrow> bool" where
  "creations_watched isOpenShift evs \<longleftrightarrow> (\<forall>x e. EvCreate x e \<in> set evs \<longrightarrow>
     kind_of x \<in> watch_kind ` set (watched (monitor_reported evs) isOpenShift))"

abbreviation no_create :: "event list \<Rightarrow> bool" where
  "no_create evs \<equiv> \<forall>x e. EvCreate x e \<notin> set evs"

lemma monitor_reported_append: "monitor_reported (xs @ ys) \<longleftrightarrow> monitor_reported xs \<or> monitor_reported ys"
  by (auto simp: monitor_reported_def)

lemma creations_watched_append:
  "creations_watched b xs \<Longrightarrow> creations_watched b ys \<Longrightarrow> creations_watched b (xs @ ys)"
  unfolding creations_watched_def kind_watched by (auto simp: monitor_reported_append)

lemma no_create_watched: "no_create evs \<Longrightarrow> creations_watched b evs"
  by (simp add: creations_watched_def)

lemma creations_watched_Cons: "creations_watched b ys \<Longrightarrow> no_create [v] \<Longrightarrow> creations_watched b (v # ys)"
  using creations_watched_append[OF no_create_watched, of "[v]" b ys] by simp

lemma no_create_simps:
  "no_write evs \<Longrightarrow> no_create evs"
  "pods_only evs \<Longrightarrow> no_create evs"
  "list_all (\<lambda>v. is_object_write v \<longrightarrow> is_pod_write v) evs \<Longrightarrow> no_create evs"
  by (fastforce simp: list_all_iff pods_only_def)+

text \<open>The contract of a stage for one kind of object.\<close>

locale creating_stage =
  fixes stage :: "('e, error + 'x option) kop" and kind :: string
  assumes creates: "does stage (\<lambda>r evs. \<forall>x e. EvCreate x e \<in> set evs \<longrightarrow> kind_of x = kind)"
begin

lemma creates_watched:
  "kind = ''Service'' \<or> kind = ''StatefulSet'' \<or> kind = ''Route'' \<and> isOpenShift \<Longrightarrow>
   does stage (\<lambda>r evs. creations_watched isOpenShift evs)"
  by (rule does_mono[OF creates]) (auto simp: creations_watched_def kind_watched)

end

lemma createOrUpdateService_creates: "creating_stage (createOrUpdateService K w labels name creator) ''Service''"
  unfolding createOrUpdateService_def
  by unfold_locales (intro does_rules; auto simp: mark_object_def)

interpretation cluster_creates: creating_stage "CreateOrUpdateClusterService K w labels" "''Service''" for K w labels
  unfolding CreateOrUpdateClusterService_def by (rule createOrUpdateService_creates)

interpretation headless_creates: creating_stage "CreateOrUpdateHeadlessService K w labels" "''Service''" for K w labels
  unfolding CreateOrUpdateHeadlessService_def by (rule createOrUpdateService_creates)

interpretation admin_creates: creating_stage "CreateOrUpdateAdminService K w labels" "''Service''" for K w labels
  unfolding CreateOrUpdateAdminService_def by (rule createOrUpdateService_creates)

interpretation route_creates: creating_stage "GetOrCreateNewRoute K w labels" "''Route''" for K w labels
  unfolding GetOrCreateNewRoute_def by unfold_locales (intro does_rules; auto simp: mark_object_def)

interpretation monitor_creates: creating_stage "GetOrCreateNewServiceMonitor K w labels" "''ServiceMonitor''" for K w labels
  unfolding GetOrCreateNewServiceMonitor_def by unfold_locales (intro does_rules; auto simp: mark_object_def)

interpretation sts_creates: creating_stage "GetOrCreateNewStatefulSet K w labels n b" "''StatefulSet''" for K w labels n b
  unfolding GetOrCreateNewStatefulSet_def by unfold_locales (intro does_rules; auto simp: mark_object_def)

lemma checkStatefulSet_no_create:
  "does (checkStatefulSet K isOpenShift w sts items) (\<lambda>r evs. no_create evs)"
proof (cases "sts_Replicas sts")
  case None
  then show ?thesis by (simp add: checkStatefulSet_def does_return)
next
  case (Some r)
  have "EvCreate x e \<in> set (writes evs)" if "EvCreate x e \<in> set evs" for x e evs
    using that by (simp add: writes_def)
  moreover have "EvCreate x e \<notin> set ws" if "resizes w sts r items res ws" for x e res ws
    using that by (cases rule: resizes.cases) auto
  ultimately show ?thesis by (intro does_mono[OF checkStatefulSet_resizes[OF Some]]) blast
qed

lemma reconcileServices_watched: "does (reconcileServices K w) (\<lambda>r evs. creations_watched isOpenShift evs)"
  unfolding reconcileServices_def
  by (intro does_rules does_mono[OF cluster_creates.creates_watched[where isOpenShift = isOpenShift]]
      does_mono[OF headless_creates.creates_watched[where isOpenShift = isOpenShift]]
      does_mono[OF admin_creates.creates_watched[where isOpenShift = isOpenShift]])
     (simp_all add: creations_watched_append)

lemma reconcileRoute_watched: "does (reconcileRoute K isOpenShift w) (\<lambda>r evs. creations_watched isOpenShift evs)"
  unfolding reconcileRoute_def DeleteExistingRoute_def
  by (intro does_rules does_mono[OF route_creates.creates_watched]) (auto simp: no_create_watched)

lemma reconcileServiceMonitor_watched:
  "does (reconcileServiceMonitor K w) (\<lambda>r evs. creations_watched isOpenShift evs)"
  unfolding reconcileServiceMonitor_def
  by (intro does_rules does_mono[OF monitor_creates.creates])
     (auto simp: no_create_watched no_create_simps(1) creations_watched_def kind_watched monitor_reported_append
       dest: no_create_simps(1))

lemma reconcileStatus_no_create:
  "does (reconcileStatus K isOpenShift w sts items route n rq_rec rq_sts) (\<lambda>r evs. no_create evs)"
  unfolding reconcileStatus_def Let_def
  by (intro does_rules does_mono[OF refreshPods_run[OF drop_0]])
     (auto dest!: deleted_pods_quiet no_create_simps(2))

declare does_reconcileServices [does_rules del] does_reconcileRoute [does_rules del]
  does_reconcileServiceMonitor [does_rules del] does_reconcileStatus [does_rules del]
  does_reconcileResources [does_rules del]

lemma reconcileResources_watched:
  "does (reconcileResources K isOpenShift w sts items n rq_rec rq_sts) (\<lambda>r evs. creations_watched isOpenShift evs)"
  unfolding reconcileResources_def
  by (intro does_rules does_mono[OF reconcileServices_watched[where isOpenShift = isOpenShift]]
      does_mono[OF reconcileRoute_watched]
      does_mono[OF reconcileServiceMonitor_watched[where isOpenShift = isOpenShift]]
      does_mono[OF reconcileStatus_no_create])
     (simp_all add: creations_watched_append no_create_watched)

lemma labels_watched:
  "does (setLabelAsDisabled K w l n items) (\<lambda>r evs. no_create evs)"
  by (rule does_mono[OF setLabelAsDisabled_outcome]) (simp add: no_create_simps(2))

lemma recovery_watched:
  "does (processTransactionRecoveryScaleDown K w n items) (\<lambda>r evs. no_create evs)"
  by (rule does_mono[OF processTransactionRecovery_keeps]) (simp add: keeps_server_def no_create_simps(3))

declare does_setLabelAsDisabled [does_rules del]

lemma reconcileScaleDown_watched:
  "does (reconcileScaleDown K isOpenShift w sts items n) (\<lambda>r evs. creations_watched isOpenShift evs)"
  unfolding reconcileScaleDown_def
  by (intro does_rules does_mono[OF labels_watched] does_mono[OF recovery_watched] does_mono[OF checkStatefulSet_no_create]
      does_mono[OF reconcileResources_watched])
     (simp_all add: creations_watched_append no_create_watched)

lemma reconcilePods_watched: "does (reconcilePods K isOpenShift w sts) (\<lambda>r evs. creations_watched isOpenShift evs)"
  unfolding reconcilePods_def Let_def cleanUpPodStatus_def
  by (intro does_rules does_mono[OF reconcileScaleDown_watched])
     (auto simp: no_create_watched intro: creations_watched_Cons)

lemma reconcileServer_watched: "does (reconcileServer K isOpenShift w) (\<lambda>r evs. creations_watched isOpenShift evs)"
  unfolding reconcileServer_def Let_def
  by (intro does_rules does_mono[OF sts_creates.creates_watched[where isOpenShift = isOpenShift]]
      does_mono[OF reconcilePods_watched])
     (simp_all add: creations_watched_append)

end
