(* ===== verification/Go_Heap.thy ===== *)
theory Go_Heap
  imports Api_Types "HOL-Library.State_Monad"
begin

text \<open>
  Memory, for the code whose point is which values share storage: the generated deep copies.
  Memory is the list of the cells allocated so far, an address its index. What a value in
  memory stands for is a \<^emph>\<open>view\<close>: a partial function that gives the addresses reachable from the
  value and the value itself, with all pointers followed; it is undefined on a value with a
  dangling pointer, which Go does not have. The locale \<open>deep_copy\<close> is the contract of a deep copy:
  the copy has the same view, out of fresh cells only, and nothing that existed is changed.
\<close>

section \<open>Pointers, slices, cells\<close>

type_synonym addr = nat
type_synonym pointer = "addr option"

text \<open>A slice that is not nil: a part of an array.\<close>

record slice_header =
  hd_Array :: addr
  hd_Offset :: nat
  hd_Len :: nat

type_synonym slice_ref = "slice_header option"

text \<open>
  How values of a type are kept in cells: the injection into cells, its partial inverse, and
  the zero value that \<open>new\<close> and \<open>make\<close> fill a cell with.
\<close>

record ('c, 'a) storage_type =
  in_cell :: "'a \<Rightarrow> 'c"
  of_cell :: "'c \<Rightarrow> 'a option"
  zero :: 'a

definition storage :: "('c, 'a) storage_type \<Rightarrow> bool" where
  "storage T \<longleftrightarrow> (\<forall>v. of_cell T (in_cell T v) = Some v)"

section \<open>Operations on memory\<close>

definition fetch :: "('c, 'a) storage_type \<Rightarrow> 'c list \<Rightarrow> addr \<Rightarrow> 'a option" where
  "fetch T h a = (if a < length h then of_cell T (h ! a) else None)"

text \<open>A read through a pointer; the zero value stands for a fault, which views exclude.\<close>

definition load :: "('c, 'a) storage_type \<Rightarrow> addr \<Rightarrow> ('c list, 'a) state" where
  "load T a = State (\<lambda>h. (case fetch T h a of None \<Rightarrow> zero T | Some v \<Rightarrow> v, h))"

definition store :: "('c, 'a) storage_type \<Rightarrow> addr \<Rightarrow> 'a \<Rightarrow> ('c list, unit) state" where
  "store T a v = State (\<lambda>h. ((), h[a := in_cell T v]))"

text \<open>\<open>new(T)\<close>, and \<open>make([]T, n)\<close> for the array type of \<open>T\<close>.\<close>

definition alloc :: "('c, 'a) storage_type \<Rightarrow> 'a \<Rightarrow> ('c list, addr) state" where
  "alloc T v = State (\<lambda>h. (length h, h @ [in_cell T v]))"

abbreviation new_cell :: "('c, 'a) storage_type \<Rightarrow> ('c list, addr) state" where
  "new_cell T \<equiv> alloc T (zero T)"

text \<open>\<open>out = new(T); *out = copy of *in\<close>, and nil for nil.\<close>

definition copy_pointer ::
  "('c, 'a) storage_type \<Rightarrow> ('a \<Rightarrow> ('c list, 'a) state) \<Rightarrow> pointer \<Rightarrow> ('c list, pointer) state" where
  "copy_pointer T DeepCopyInto p =
     (case p of
        None \<Rightarrow> State_Monad.return None
      | Some a \<Rightarrow> do { b \<leftarrow> new_cell T;
                        v \<leftarrow> load T a;
                        v' \<leftarrow> DeepCopyInto v;
                        store T b v';
                        State_Monad.return (Some b) })"

text \<open>
  \<open>out = make([]T, len(in)); for i := range in { in[i].DeepCopyInto(&out[i]) }\<close>, with the loop
  from index \<open>i\<close> on; \<open>elem\<close> is the zero value of the elements.
\<close>

fun copy_elements ::
  "('c, 'a list) storage_type \<Rightarrow> ('a \<Rightarrow> ('c list, 'a) state) \<Rightarrow> slice_header \<Rightarrow> addr \<Rightarrow> nat \<Rightarrow> nat \<Rightarrow> ('c list, unit) state" where
  "copy_elements T DeepCopyInto s b i 0 = State_Monad.return ()"
| "copy_elements T DeepCopyInto s b i (Suc n) =
     do { xs \<leftarrow> load T (hd_Array s);
          y \<leftarrow> DeepCopyInto (xs ! (hd_Offset s + i));
          ys \<leftarrow> load T b;
          store T b (ys[i := y]);
          copy_elements T DeepCopyInto s b (Suc i) n }"

definition copy_slice ::
  "('c, 'a list) storage_type \<Rightarrow> 'a \<Rightarrow> ('a \<Rightarrow> ('c list, 'a) state) \<Rightarrow> slice_ref \<Rightarrow> ('c list, slice_ref) state" where
  "copy_slice T elem DeepCopyInto r =
     (case r of
        None \<Rightarrow> State_Monad.return None
      | Some s \<Rightarrow> do { b \<leftarrow> alloc T (replicate (hd_Len s) elem);
                        copy_elements T DeepCopyInto s b 0 (hd_Len s);
                        State_Monad.return (Some \<lparr>hd_Array = b, hd_Offset = 0, hd_Len = hd_Len s\<rparr>) })"

section \<open>Views\<close>

type_synonym ('c, 'a, 'v) view = "'c list \<Rightarrow> 'a \<Rightarrow> (addr set \<times> 'v) option"

definition flat_view :: "('c, 'a, 'a) view" where
  "flat_view h x = Some ({}, x)"

fun pointer_view :: "('c, 'a) storage_type \<Rightarrow> ('c, 'a, 'v) view \<Rightarrow> ('c, pointer, 'v option) view" where
  "pointer_view T V h None = Some ({}, None)"
| "pointer_view T V h (Some a) =
     (case fetch T h a of None \<Rightarrow> None
      | Some x \<Rightarrow> map_option (\<lambda>(A, v). (insert a A, Some v)) (V h x))"

fun list_view :: "('c, 'a, 'v) view \<Rightarrow> ('c, 'a list, 'v list) view" where
  "list_view V h [] = Some ({}, [])"
| "list_view V h (x # xs) =
     (case (V h x, list_view V h xs) of
        (Some (A, v), Some (B, vs)) \<Rightarrow> Some (A \<union> B, v # vs) | _ \<Rightarrow> None)"

fun slice_view :: "('c, 'a list) storage_type \<Rightarrow> ('c, 'a, 'v) view \<Rightarrow> ('c, slice_ref, 'v slice) view" where
  "slice_view T V h None = Some ({}, None)"
| "slice_view T V h (Some s) =
     (case fetch T h (hd_Array s) of None \<Rightarrow> None
      | Some xs \<Rightarrow>
          if hd_Offset s + hd_Len s \<le> length xs
          then map_option (\<lambda>(A, vs). (insert (hd_Array s) A, Some vs)) (list_view V h (take (hd_Len s) (drop (hd_Offset s) xs)))
          else None)"

definition pair_view :: "('c, 'a, 'v) view \<Rightarrow> ('c, 'b, 'w) view \<Rightarrow> ('c, 'a \<times> 'b, 'v \<times> 'w) view" where
  "pair_view V W h p =
     (case (V h (fst p), W h (snd p)) of
        (Some (A, v), Some (B, w)) \<Rightarrow> Some (A \<union> B, (v, w)) | _ \<Rightarrow> None)"

text \<open>A struct: the view of the fields that hold references, put together with the other fields.\<close>

definition struct_view :: "('s \<Rightarrow> 'a) \<Rightarrow> ('s \<Rightarrow> 'v \<Rightarrow> 'w) \<Rightarrow> ('c, 'a, 'v) view \<Rightarrow> ('c, 's, 'w) view" where
  "struct_view refs build V h s = map_option (map_prod id (build s)) (V h (refs s))"

text \<open>Memory \<open>h'\<close> agrees with \<open>h\<close> on the cells of \<open>A\<close>.\<close>

definition agree :: "addr set \<Rightarrow> 'c list \<Rightarrow> 'c list \<Rightarrow> bool" where
  "agree A h h' \<longleftrightarrow> (\<forall>a\<in>A. a < length h' \<and> h' ! a = h ! a)"

lemma agreeD: "agree A h h' \<Longrightarrow> a \<in> A \<Longrightarrow> a < length h' \<and> h' ! a = h ! a"
  by (simp add: agree_def)

lemma agree_subset: "agree A h h' \<Longrightarrow> B \<subseteq> A \<Longrightarrow> agree B h h'"
  by (auto simp: agree_def)

lemma agree_append: "A \<subseteq> {..<length h} \<Longrightarrow> agree A h (h @ ys)"
  by (auto simp: agree_def nth_append)

lemma agree_update: "A \<subseteq> {..<length h} \<Longrightarrow> b \<notin> A \<Longrightarrow> agree A h (h[b := c])"
  unfolding agree_def by (metis length_list_update lessThan_iff nth_list_update_neq subsetD)

lemma agree_trans: "agree A h h' \<Longrightarrow> agree A h' h'' \<Longrightarrow> agree A h h''"
  by (auto simp: agree_def)

lemma fetch_agree: "fetch T h a = Some v \<Longrightarrow> agree {a} h h' \<Longrightarrow> fetch T h' a = Some v"
  by (auto simp: fetch_def agree_def split: if_splits)

lemma fetch_bound: "fetch T h a = Some v \<Longrightarrow> a < length h"
  by (simp add: fetch_def split: if_splits)

lemma fetch_append [simp]: "storage T \<Longrightarrow> fetch T (h @ [in_cell T v]) (length h) = Some v"
  by (simp add: fetch_def storage_def)

lemma fetch_update [simp]: "storage T \<Longrightarrow> b < length h \<Longrightarrow> fetch T (h[b := in_cell T v]) b = Some v"
  by (simp add: fetch_def storage_def)

lemma run_load: "fetch T h a = Some v \<Longrightarrow> run_state (load T a) h = (v, h)"
  by (simp add: load_def)

lemma run_store [simp]: "run_state (store T a v) h = ((), h[a := in_cell T v])"
  by (simp add: store_def)

lemma run_alloc [simp]: "run_state (alloc T v) h = (length h, h @ [in_cell T v])"
  by (simp add: alloc_def)

section \<open>The contract of views and of deep copies\<close>

text \<open>A view depends on the cells it reports only, and these exist.\<close>

locale view_of =
  fixes V :: "('c, 'a, 'v) view"
  assumes bounded: "V h x = Some (A, v) \<Longrightarrow> A \<subseteq> {..<length h}"
    and frame: "V h x = Some (A, v) \<Longrightarrow> agree A h h' \<Longrightarrow> V h' x = Some (A, v)"
begin

lemma view_append: "V h x = Some (A, v) \<Longrightarrow> V (h @ ys) x = Some (A, v)"
  by (rule frame[OF _ agree_append[OF bounded]])

lemma view_update: "V h x = Some (A, v) \<Longrightarrow> b \<notin> A \<Longrightarrow> V (h[b := c]) x = Some (A, v)"
  by (rule frame[OF _ agree_update[OF bounded]])

end

locale deep_copy = view_of V for V :: "('c, 'a, 'v) view" +
  fixes copy :: "'a \<Rightarrow> ('c list, 'a) state"
  assumes copies: "V h x = Some (A, v) \<Longrightarrow> run_state (copy x) h = (y, h') \<Longrightarrow>
    \<exists>B ys. V h' y = Some (B, v) \<and> B \<subseteq> {length h..<length h'} \<and> h' = h @ ys"
begin

lemma copied:
  assumes "V h x = Some (A, v)"
  obtains y B ys where "run_state (copy x) h = (y, h @ ys)" and "V (h @ ys) y = Some (B, v)"
    and "B \<subseteq> {length h..<length (h @ ys)}"
proof -
  obtain y h' where run: "run_state (copy x) h = (y, h')" by (cases "run_state (copy x) h")
  with copies[OF assms run] that show thesis by auto
qed

text \<open>Original and copy: the same value, no common cell, and no write to one shows in the other.\<close>

lemma independent:
  assumes "V h x = Some (A, v)"
  obtains y B ys where "run_state (copy x) h = (y, h @ ys)" and "V (h @ ys) y = Some (B, v)"
    and "V (h @ ys) x = Some (A, v)" and "A \<inter> B = {}"
    and "\<And>b c. b \<in> B \<Longrightarrow> V ((h @ ys)[b := c]) x = Some (A, v)"
    and "\<And>a c. a < length h \<Longrightarrow> V ((h @ ys)[a := c]) y = Some (B, v)"
proof -
  obtain y B ys where run: "run_state (copy x) h = (y, h @ ys)" and y: "V (h @ ys) y = Some (B, v)"
    and B: "B \<subseteq> {length h..<length (h @ ys)}"
    by (rule copied[OF assms])
  have x: "V (h @ ys) x = Some (A, v)" using assms by (rule view_append)
  have disj: "A \<inter> B = {}" using bounded[OF assms] B by (simp add: disjoint_iff subset_iff) fastforce
  show thesis
  proof (rule that[OF run y x disj])
    show "V ((h @ ys)[b := c]) x = Some (A, v)" if "b \<in> B" for b c
      using disj that by (intro view_update[OF x]) blast
    show "V ((h @ ys)[a := c]) y = Some (B, v)" if "a < length h" for a c
      using B that by (intro view_update[OF y]) (meson atLeastLessThan_iff leD subsetD)
  qed
qed

end

section \<open>Deep copies of flat values, pointers, slices and structs\<close>

interpretation flat: deep_copy flat_view State_Monad.return
  by unfold_locales (auto simp: flat_view_def)

lemma pointer_viewE:
  assumes "pointer_view T V h p = Some (A, w)"
  obtains "p = None" and "A = {}" and "w = None"
  | a x B v where "p = Some a" and "fetch T h a = Some x" and "V h x = Some (B, v)" and "A = insert a B" and "w = Some v"
  using assms by (cases p) (auto split: option.splits)

lemma view_of_pointer:
  assumes "view_of V"
  shows "view_of (pointer_view T V)"
proof
  fix h p A w assume "pointer_view T V h p = Some (A, w)"
  then show "A \<subseteq> {..<length h}"
    by (cases rule: pointer_viewE) (auto dest: view_of.bounded[OF assms] fetch_bound)
next
  fix h p A w h' assume "pointer_view T V h p = Some (A, w)" and agree: "agree A h h'"
  then show "pointer_view T V h' p = Some (A, w)"
  proof (cases rule: pointer_viewE)
    case (2 a x B v)
    then have "fetch T h' a = Some x" and "V h' x = Some (B, v)"
      using agree by (auto intro: fetch_agree agree_subset view_of.frame[OF assms])
    with 2 show ?thesis by simp
  qed simp
qed

lemma deep_copy_pointer:
  assumes T: "storage T" and c: "deep_copy V c"
  shows "deep_copy (pointer_view T V) (copy_pointer T c)"
proof -
  have V: "view_of V" using c by (simp add: deep_copy_def)
  show ?thesis
  proof (intro deep_copy.intro view_of_pointer V deep_copy_axioms.intro)
    fix h p A w q h' assume view: "pointer_view T V h p = Some (A, w)" and run: "run_state (copy_pointer T c p) h = (q, h')"
    from view show "\<exists>B ys. pointer_view T V h' q = Some (B, w) \<and> B \<subseteq> {length h..<length h'} \<and> h' = h @ ys"
    proof (cases rule: pointer_viewE)
      case 1
      then show ?thesis using run by (simp add: copy_pointer_def)
    next
      case (2 a x C v)
      let ?h = "h @ [in_cell T (zero T)]"
      obtain y B ys where y: "run_state (c x) ?h = (y, ?h @ ys)" "V (?h @ ys) y = Some (B, v)"
        and B: "B \<subseteq> {length ?h..<length (?h @ ys)}"
        by (rule deep_copy.copied[OF c view_of.view_append[OF V 2(3)]])
      have "fetch T ?h a = Some x" using 2(2) by (rule fetch_agree) (simp add: agree_append fetch_bound[OF 2(2)])
      then have q: "q = Some (length h)" and h': "h' = (?h @ ys)[length h := in_cell T y]"
        using run y(1) 2(1) by (simp_all add: copy_pointer_def run_load)
      have "V h' y = Some (B, v)" unfolding h' using B by (intro view_of.view_update[OF V y(2)]) fastforce
      moreover have "fetch T h' (length h) = Some y" unfolding h' by (rule fetch_update[OF T]) simp
      ultimately have "pointer_view T V h' q = Some (insert (length h) B, w)" using q 2(5) by simp
      moreover have "h' = h @ in_cell T y # ys" by (simp add: h')
      ultimately show ?thesis using B by fastforce
    qed
  qed
qed

lemma list_view_Cons:
  "list_view V h (x # xs) = Some (C, ws) \<longleftrightarrow>
     (\<exists>A v B vs. V h x = Some (A, v) \<and> list_view V h xs = Some (B, vs) \<and> C = A \<union> B \<and> ws = v # vs)"
  by (auto split: option.splits)

declare list_view.simps(2) [simp del]

lemma list_view_append:
  "list_view V h (xs @ ys) = Some (C, ws) \<longleftrightarrow>
     (\<exists>A us B vs. list_view V h xs = Some (A, us) \<and> list_view V h ys = Some (B, vs) \<and> C = A \<union> B \<and> ws = us @ vs)"
proof (induction xs arbitrary: C ws)
  case (Cons x xs)
  show ?case
    unfolding append_Cons list_view_Cons Cons.IH by (force simp: Un_assoc)
qed simp

lemma view_of_list:
  assumes "view_of V"
  shows "view_of (list_view V)"
proof
  show "list_view V h xs = Some (A, vs) \<Longrightarrow> A \<subseteq> {..<length h}" for h xs A vs
    by (induction xs arbitrary: A vs) (auto simp: list_view_Cons dest: view_of.bounded[OF assms])
  show "list_view V h xs = Some (A, vs) \<Longrightarrow> agree A h h' \<Longrightarrow> list_view V h' xs = Some (A, vs)" for h h' xs A vs
  proof (induction xs arbitrary: A vs)
    case (Cons x xs)
    from Cons.prems(1) obtain B v C us where split: "V h x = Some (B, v)" "list_view V h xs = Some (C, us)"
      "A = B \<union> C" "vs = v # us"
      by (auto simp: list_view_Cons)
    have "V h' x = Some (B, v)"
      by (rule view_of.frame[OF assms split(1)]) (rule agree_subset[OF Cons.prems(2)], simp add: split)
    moreover have "list_view V h' xs = Some (C, us)"
      by (rule Cons.IH[OF split(2)]) (rule agree_subset[OF Cons.prems(2)], simp add: split)
    ultimately show ?case using split by (auto simp: list_view_Cons)
  qed simp
qed

lemma slice_viewE:
  assumes "slice_view T V h r = Some (A, w)"
  obtains "r = None" and "A = {}" and "w = None"
  | s xs B vs where "r = Some s" and "fetch T h (hd_Array s) = Some xs" and "hd_Offset s + hd_Len s \<le> length xs"
      and "list_view V h (take (hd_Len s) (drop (hd_Offset s) xs)) = Some (B, vs)"
      and "A = insert (hd_Array s) B" and "w = Some vs"
  using assms by (cases r) (auto split: option.splits if_splits)

lemma view_of_slice:
  assumes "view_of V"
  shows "view_of (slice_view T V)"
proof
  note L = view_of_list[OF assms]
  fix h r A w assume "slice_view T V h r = Some (A, w)"
  then show "A \<subseteq> {..<length h}"
    by (cases rule: slice_viewE) (auto dest: view_of.bounded[OF L] fetch_bound)
next
  note L = view_of_list[OF assms]
  fix h r A w h' assume "slice_view T V h r = Some (A, w)" and agree: "agree A h h'"
  then show "slice_view T V h' r = Some (A, w)"
  proof (cases rule: slice_viewE)
    case (2 s xs B vs)
    have "fetch T h' (hd_Array s) = Some xs"
      by (rule fetch_agree[OF 2(2)]) (rule agree_subset[OF agree], simp add: 2)
    moreover have "list_view V h' (take (hd_Len s) (drop (hd_Offset s) xs)) = Some (B, vs)"
      by (rule view_of.frame[OF L 2(4)]) (rule agree_subset[OF agree], simp add: 2 subset_insertI)
    ultimately show ?thesis using 2 by simp
  qed simp
qed

text \<open>The loop: the elements up to \<open>i\<close> are copied, out of cells from \<open>m\<close> on other than that of the new array.\<close>

lemma copy_elements_run:
  assumes T: "storage T" and c: "deep_copy V c"
    and "fetch T h (hd_Array s) = Some xs" and "hd_Offset s + i + n \<le> length xs"
    and "list_view V h (take n (drop (hd_Offset s + i) xs)) = Some (A, vs)"
    and "fetch T h b = Some ys" and "length ys = i + n" and "b \<noteq> hd_Array s" and "b \<notin> A"
    and "list_view V h (take i ys) = Some (B, us)" and "B \<subseteq> {m..<length h} - {b}" and "m \<le> length h"
  shows "\<exists>h' ys' C. run_state (copy_elements T c s b i n) h = ((), h') \<and> fetch T h' b = Some ys' \<and>
     length ys' = i + n \<and> list_view V h' ys' = Some (C, us @ vs) \<and> C \<subseteq> {m..<length h'} - {b} \<and>
     length h \<le> length h' \<and> agree ({..<length h} - {b}) h h'"
  using assms(3-)
proof (induction n arbitrary: i h ys A vs B us)
  case 0
  then have "take i ys = ys" by simp
  with 0 show ?case by (auto simp: agree_def)
next
  case (Suc n)
  note V = conjunct1[OF c[unfolded deep_copy_def]]
  note L = view_of_list[OF V]
  let ?x = "xs ! (hd_Offset s + i)"
  have "take (Suc n) (drop (hd_Offset s + i) xs) = ?x # take n (drop (hd_Offset s + Suc i) xs)"
    using Suc.prems(2) by (simp flip: Cons_nth_drop_Suc)
  then obtain A1 v A2 vs' where x: "V h ?x = Some (A1, v)"
    and rest: "list_view V h (take n (drop (hd_Offset s + Suc i) xs)) = Some (A2, vs')"
    and A: "A = A1 \<union> A2" "vs = v # vs'"
    using Suc.prems(3) by (auto simp: list_view_Cons)
  obtain y B1 zs where run: "run_state (c ?x) h = (y, h @ zs)" and y: "V (h @ zs) y = Some (B1, v)"
    and B1: "B1 \<subseteq> {length h..<length (h @ zs)}"
    by (rule deep_copy.copied[OF c x])
  let ?ys = "ys[i := y]"
  let ?h = "(h @ zs)[b := in_cell T ?ys]"
  have b: "b < length h" using Suc.prems(4) by (rule fetch_bound)
  have agree: "agree (S - {b}) h ?h" if "S \<subseteq> {..<length h}" for S
    using that by (auto simp: agree_def nth_append)
  have step: "run_state (copy_elements T c s b i (Suc n)) h = run_state (copy_elements T c s b (Suc i) n) ?h"
    using fetch_agree[OF Suc.prems(4), of "h @ zs"] b
    by (simp add: run_load[OF Suc.prems(1)] run run_load agree_append)
  have "\<exists>h' ys' C. run_state (copy_elements T c s b (Suc i) n) ?h = ((), h') \<and> fetch T h' b = Some ys' \<and>
     length ys' = Suc i + n \<and> list_view V h' ys' = Some (C, (us @ [v]) @ vs') \<and> C \<subseteq> {m..<length h'} - {b} \<and>
     length ?h \<le> length h' \<and> agree ({..<length ?h} - {b}) ?h h'"
  proof (rule Suc.IH)
    show "fetch T ?h (hd_Array s) = Some xs"
      using Suc.prems(1,6) fetch_bound[OF Suc.prems(1)] by (intro fetch_agree[OF Suc.prems(1)]) (auto simp: agree_def nth_append)
    show "list_view V ?h (take n (drop (hd_Offset s + Suc i) xs)) = Some (A2, vs')"
      using agree[OF view_of.bounded[OF L rest]] Suc.prems(7) A by (intro view_of.frame[OF L rest]) simp
    show "fetch T ?h b = Some ?ys" using b by (intro fetch_update[OF T]) simp
    have "list_view V ?h (take i ys) = Some (B, us)"
      using agree[OF view_of.bounded[OF L Suc.prems(8)]] Suc.prems(9) by (intro view_of.frame[OF L Suc.prems(8)]) (simp add: subset_Diff_insert)
    moreover have "V ?h y = Some (B1, v)"
      using B1 b by (intro view_of.view_update[OF V y]) auto
    moreover have "take (Suc i) ?ys = take i ys @ [y]"
      using Suc.prems(5) by (simp add: take_Suc_conv_app_nth)
    ultimately show "list_view V ?h (take (Suc i) ?ys) = Some (B \<union> B1, us @ [v])"
      by (auto simp: list_view_append list_view_Cons)
    show "B \<union> B1 \<subseteq> {m..<length ?h} - {b}" using Suc.prems(9,10) B1 b by fastforce
  qed (use Suc.prems A in auto)
  then show ?case unfolding step A by (fastforce simp: agree_def nth_append)
qed

lemma deep_copy_slice:
  assumes T: "storage T" and c: "deep_copy V c"
  shows "deep_copy (slice_view T V) (copy_slice T z c)"
proof -
  have V: "view_of V" using c by (simp add: deep_copy_def)
  note L = view_of_list[OF V]
  show ?thesis
  proof (intro deep_copy.intro view_of_slice V deep_copy_axioms.intro)
    fix h r A w q h' assume view: "slice_view T V h r = Some (A, w)" and run: "run_state (copy_slice T z c r) h = (q, h')"
    from view show "\<exists>B ys. slice_view T V h' q = Some (B, w) \<and> B \<subseteq> {length h..<length h'} \<and> h' = h @ ys"
    proof (cases rule: slice_viewE)
      case 1
      then show ?thesis using run by (simp add: copy_slice_def)
    next
      case (2 s xs B vs)
      let ?n = "hd_Len s"
      let ?h = "h @ [in_cell T (replicate ?n z)]"
      have fetched: "fetch T ?h (hd_Array s) = Some xs"
        using 2(2) by (rule fetch_agree) (simp add: agree_append fetch_bound[OF 2(2)])
      have lv: "list_view V ?h (take ?n (drop (hd_Offset s + 0) xs)) = Some (B, vs)"
        using view_of.view_append[OF L 2(4)] by simp
      have "\<exists>h' ys' C. run_state (copy_elements T c s (length h) 0 ?n) ?h = ((), h') \<and> fetch T h' (length h) = Some ys' \<and>
         length ys' = 0 + ?n \<and> list_view V h' ys' = Some (C, [] @ vs) \<and> C \<subseteq> {Suc (length h)..<length h'} - {length h} \<and>
         length ?h \<le> length h' \<and> agree ({..<length ?h} - {length h}) ?h h'"
        using 2(3) fetch_bound[OF 2(2)] view_of.bounded[OF L 2(4)]
        by (intro copy_elements_run[OF T c fetched _ lv]) (auto simp: T)
      then obtain h1 ys' C where loop: "run_state (copy_elements T c s (length h) 0 ?n) ?h = ((), h1)"
        and ys': "fetch T h1 (length h) = Some ys'" "length ys' = ?n" "list_view V h1 ys' = Some (C, vs)"
        and C: "C \<subseteq> {Suc (length h)..<length h1} - {length h}" and len: "length ?h \<le> length h1"
        and agree: "agree ({..<length ?h} - {length h}) ?h h1"
        by auto
      have q: "q = Some \<lparr>hd_Array = length h, hd_Offset = 0, hd_Len = ?n\<rparr>" "h' = h1"
        using run 2(1) loop by (simp_all add: copy_slice_def)
      have "h = take (length h) h1"
        using agree len by (intro nth_equalityI) (auto simp: agree_def nth_append dest!: bspec)
      then have "h' = h @ drop (length h) h1" using q(2) by (metis append_take_drop_id)
      moreover have "slice_view T V h' q = Some (insert (length h) C, w)"
        using q ys' 2(6) by simp
      moreover have "insert (length h) C \<subseteq> {length h..<length h'}" using C len q(2) by auto
      ultimately show ?thesis by blast
    qed
  qed
qed

lemma pair_viewE:
  assumes "pair_view V W h p = Some (C, u)"
  obtains A v B w where "V h (fst p) = Some (A, v)" and "W h (snd p) = Some (B, w)" and "C = A \<union> B" and "u = (v, w)"
  using assms by (auto simp: pair_view_def split: option.splits)

lemma view_of_pair:
  assumes V: "view_of V" and W: "view_of W"
  shows "view_of (pair_view V W)"
proof
  fix h p C u assume "pair_view V W h p = Some (C, u)"
  then show "C \<subseteq> {..<length h}"
    by (cases rule: pair_viewE) (simp add: view_of.bounded[OF V] view_of.bounded[OF W])
next
  fix h p C u h' assume "pair_view V W h p = Some (C, u)" and agree: "agree C h h'"
  then show "pair_view V W h' p = Some (C, u)"
  proof (cases rule: pair_viewE)
    case (1 A v B w)
    have "V h' (fst p) = Some (A, v)" by (rule view_of.frame[OF V 1(1)]) (rule agree_subset[OF agree], simp add: 1)
    moreover have "W h' (snd p) = Some (B, w)" by (rule view_of.frame[OF W 1(2)]) (rule agree_subset[OF agree], simp add: 1)
    ultimately show ?thesis using 1 by (simp add: pair_view_def)
  qed
qed

text \<open>Two fields one after the other.\<close>

lemma deep_copy_pair:
  assumes c: "deep_copy V c" and d: "deep_copy W d"
  shows "deep_copy (pair_view V W) (\<lambda>p. do { x \<leftarrow> c (fst p); y \<leftarrow> d (snd p); State_Monad.return (x, y) })"
proof -
  have V: "view_of V" and W: "view_of W" using c d by (simp_all add: deep_copy_def)
  show ?thesis
  proof (intro deep_copy.intro view_of_pair V W deep_copy_axioms.intro)
    fix h p C u q h'
    assume view: "pair_view V W h p = Some (C, u)"
      and run: "run_state (do { x \<leftarrow> c (fst p); y \<leftarrow> d (snd p); State_Monad.return (x, y) }) h = (q, h')"
    from view show "\<exists>B ys. pair_view V W h' q = Some (B, u) \<and> B \<subseteq> {length h..<length h'} \<and> h' = h @ ys"
    proof (cases rule: pair_viewE)
      case (1 A v B w)
      obtain x A' xs where x: "run_state (c (fst p)) h = (x, h @ xs)" "V (h @ xs) x = Some (A', v)"
        and A': "A' \<subseteq> {length h..<length (h @ xs)}"
        by (rule deep_copy.copied[OF c 1(1)])
      obtain y B' ys where y: "run_state (d (snd p)) (h @ xs) = (y, (h @ xs) @ ys)" "W ((h @ xs) @ ys) y = Some (B', w)"
        and B': "B' \<subseteq> {length (h @ xs)..<length ((h @ xs) @ ys)}"
        by (rule deep_copy.copied[OF d view_of.view_append[OF W 1(2)]])
      have q: "q = (x, y)" "h' = h @ xs @ ys" using run x(1) y(1) by simp_all
      have "pair_view V W h' q = Some (A' \<union> B', u)"
        using view_of.view_append[OF V x(2), of ys] y(2) 1(4) q by (simp add: pair_view_def)
      then show ?thesis using A' B' q(2) by fastforce
    qed
  qed
qed

text \<open>A struct whose reference fields \<open>refs\<close> are copied and put back; the other fields stay.\<close>

lemma deep_copy_struct:
  assumes c: "deep_copy V c"
    and put: "\<And>t s. refs (put t s) = t" "\<And>t s v. build (put t s) v = build s v"
  shows "deep_copy (struct_view refs build V) (\<lambda>s. do { t \<leftarrow> c (refs s); State_Monad.return (put t s) })"
proof -
  have V: "view_of V" using c by (simp add: deep_copy_def)
  have "view_of (struct_view refs build V)"
    by unfold_locales (auto simp: struct_view_def dest: view_of.bounded[OF V] view_of.frame[OF V])
  then show ?thesis
  proof (intro deep_copy.intro deep_copy_axioms.intro)
    fix h s A w s' h'
    assume view: "struct_view refs build V h s = Some (A, w)"
      and run: "run_state (do { t \<leftarrow> c (refs s); State_Monad.return (put t s) }) h = (s', h')"
    obtain v where v: "V h (refs s) = Some (A, v)" "w = build s v" using view by (auto simp: struct_view_def)
    obtain t B ys where "run_state (c (refs s)) h = (t, h @ ys)" "V (h @ ys) t = Some (B, v)" "B \<subseteq> {length h..<length (h @ ys)}"
      by (rule deep_copy.copied[OF c v(1)])
    then show "\<exists>B ys. struct_view refs build V h' s' = Some (B, w) \<and> B \<subseteq> {length h..<length h'} \<and> h' = h @ ys"
      using run v(2) put by (auto simp: struct_view_def)
  qed
qed

end
