(* ===== verification/Deep_Copy.thy ===== *)
theory Deep_Copy
  imports Go_Heap
begin

text \<open>
  \<open>api/v1alpha1/zz_generated.deepcopy.go\<close>: the deep copies of the custom resource, over the
  memory of \<open>Go_Heap\<close>. A record \<open>T_mem\<close> is a struct as it lies in memory, with pointers and slices
  as references. The structs of the Kubernetes packages are values of an arbitrary type \<open>'x\<close>, and
  their \<open>DeepCopyInto\<close> and zero values are the parameter \<open>K8s\<close>. A flat copy \<open>*out = *in\<close> is \<open>ret\<close>, since a
  function that writes into \<open>out\<close> returns it here. The views give back the values of \<open>Api_Types\<close>.
\<close>

section \<open>The resource in memory\<close>

record ProbeHandler_mem =
  phm_Exec :: pointer
  phm_HTTPGet :: pointer

record ProbeSpec_mem =
  pbm_ProbeHandler :: ProbeHandler_mem
  pbm_InitialDelaySeconds :: pointer
  pbm_TimeoutSeconds :: int
  pbm_PeriodSeconds :: int
  pbm_SuccessThreshold :: int
  pbm_FailureThreshold :: int

record 'x StorageSpec_mem =
  sgm_EmptyDir :: pointer
  sgm_VolumeClaimTemplate :: 'x

record WildFlyServerSpec_mem =
  spm_ApplicationImage :: string
  spm_BootableJar :: bool
  spm_Replicas :: int
  spm_SessionAffinity :: bool
  spm_DisableHTTPRoute :: bool
  spm_DeactivateTransactionRecovery :: bool
  spm_StandaloneConfigMap :: pointer
  spm_Storage :: pointer
  spm_ServiceAccountName :: string
  spm_EnvFrom :: slice_ref
  spm_Env :: slice_ref
  spm_Secrets :: slice_ref
  spm_ConfigMaps :: slice_ref
  spm_Resources :: pointer
  spm_SecurityContext :: pointer
  spm_LivenessProbe :: pointer
  spm_ReadinessProbe :: pointer
  spm_StartupProbe :: pointer

record WildFlyServerStatus_mem =
  stm_Replicas :: int
  stm_Pods :: slice_ref
  stm_Hosts :: slice_ref
  stm_ScalingdownPods :: int
  stm_Selector :: string

record TypeMeta =
  tm_Kind :: string
  tm_APIVersion :: string

record 'x WildFlyServer_mem =
  wfm_TypeMeta :: TypeMeta
  wfm_ObjectMeta :: 'x
  wfm_Spec :: WildFlyServerSpec_mem
  wfm_Status :: WildFlyServerStatus_mem

record 'x WildFlyServerList_mem =
  wlm_TypeMeta :: TypeMeta
  wlm_ListMeta :: 'x
  wlm_Items :: slice_ref

text \<open>The structs of the Kubernetes packages that the resource contains.\<close>

datatype k8s_type = ExecActionT | HTTPGetActionT | EmptyDirT | PersistentVolumeClaimT | EnvFromSourceT
  | EnvVarT | ResourceRequirementsT | SecurityContextT | ObjectMetaT | ListMetaT

datatype 'x cell =
    is_CInt32: CInt32 (the_int32: int)
  | is_CStruct: CStruct (struct_type: k8s_type) (the_struct: 'x)
  | is_CConfigMap: CConfigMap (the_ConfigMap: StandaloneConfigMapSpec)
  | is_CStorage: CStorage (the_Storage: "'x StorageSpec_mem")
  | is_CProbeHandler: CProbeHandler (the_ProbeHandler: ProbeHandler_mem)
  | is_CProbeSpec: CProbeSpec (the_ProbeSpec: ProbeSpec_mem)
  | is_CPodStatus: CPodStatus (the_PodStatus: PodStatus)
  | is_CSpec: CSpec (the_Spec: WildFlyServerSpec_mem)
  | is_CStatus: CStatus (the_Status: WildFlyServerStatus_mem)
  | is_CServer: CServer (the_Server: "'x WildFlyServer_mem")
  | is_CServerList: CServerList (the_ServerList: "'x WildFlyServerList_mem")
  | is_CStructs: CStructs (structs_type: k8s_type) (the_structs: "'x list")
  | is_CStrings: CStrings (the_strings: "string list")
  | is_CPods: CPods (the_pods: "PodStatus list")
  | is_CServers: CServers (the_servers: "'x WildFlyServer_mem list")

type_synonym 'x memory = "'x cell list"

record 'x K8s =
  k8_zero :: "k8s_type \<Rightarrow> 'x"
  k8_DeepCopyInto :: "k8s_type \<Rightarrow> 'x \<Rightarrow> ('x memory, 'x) state"

section \<open>Zero values and cells\<close>

definition zero_ProbeHandler_mem :: ProbeHandler_mem where
  "zero_ProbeHandler_mem = \<lparr>phm_Exec = None, phm_HTTPGet = None\<rparr>"

definition zero_ProbeSpec_mem :: ProbeSpec_mem where
  "zero_ProbeSpec_mem = \<lparr>pbm_ProbeHandler = zero_ProbeHandler_mem, pbm_InitialDelaySeconds = None,
     pbm_TimeoutSeconds = 0, pbm_PeriodSeconds = 0, pbm_SuccessThreshold = 0, pbm_FailureThreshold = 0\<rparr>"

definition zero_StorageSpec_mem :: "'x K8s \<Rightarrow> 'x StorageSpec_mem" where
  "zero_StorageSpec_mem L = \<lparr>sgm_EmptyDir = None, sgm_VolumeClaimTemplate = k8_zero L PersistentVolumeClaimT\<rparr>"

definition zero_Spec_mem :: WildFlyServerSpec_mem where
  "zero_Spec_mem = \<lparr>spm_ApplicationImage = '''', spm_BootableJar = False, spm_Replicas = 0,
     spm_SessionAffinity = False, spm_DisableHTTPRoute = False, spm_DeactivateTransactionRecovery = False,
     spm_StandaloneConfigMap = None, spm_Storage = None, spm_ServiceAccountName = '''', spm_EnvFrom = None,
     spm_Env = None, spm_Secrets = None, spm_ConfigMaps = None, spm_Resources = None, spm_SecurityContext = None,
     spm_LivenessProbe = None, spm_ReadinessProbe = None, spm_StartupProbe = None\<rparr>"

definition zero_Status_mem :: WildFlyServerStatus_mem where
  "zero_Status_mem = \<lparr>stm_Replicas = 0, stm_Pods = None, stm_Hosts = None, stm_ScalingdownPods = 0, stm_Selector = ''''\<rparr>"

definition zero_Server_mem :: "'x K8s \<Rightarrow> 'x WildFlyServer_mem" where
  "zero_Server_mem L = \<lparr>wfm_TypeMeta = \<lparr>tm_Kind = '''', tm_APIVersion = ''''\<rparr>, wfm_ObjectMeta = k8_zero L ObjectMetaT,
     wfm_Spec = zero_Spec_mem, wfm_Status = zero_Status_mem\<rparr>"

definition zero_ServerList_mem :: "'x K8s \<Rightarrow> 'x WildFlyServerList_mem" where
  "zero_ServerList_mem L = \<lparr>wlm_TypeMeta = \<lparr>tm_Kind = '''', tm_APIVersion = ''''\<rparr>, wlm_ListMeta = k8_zero L ListMetaT, wlm_Items = None\<rparr>"

text \<open>The zero values of \<open>PodStatus\<close> and of its enumerated state are never read.\<close>

definition zero_PodStatus :: PodStatus where
  "zero_PodStatus = \<lparr>ps_Name = '''', ps_PodIP = '''', ps_State = PodStateActive, ps_RecoveryCounter = 0\<rparr>"

definition cell_type :: "('a \<Rightarrow> 'x cell) \<Rightarrow> ('x cell \<Rightarrow> bool) \<Rightarrow> ('x cell \<Rightarrow> 'a) \<Rightarrow> 'a \<Rightarrow> ('x cell, 'a) storage_type" where
  "cell_type wrap is unwrap z = \<lparr>in_cell = wrap, of_cell = (\<lambda>c. if is c then Some (unwrap c) else None), zero = z\<rparr>"

definition int32_cell :: "('x cell, int) storage_type" where
  "int32_cell = cell_type CInt32 is_CInt32 the_int32 0"
definition struct_cell :: "'x K8s \<Rightarrow> k8s_type \<Rightarrow> ('x cell, 'x) storage_type" where
  "struct_cell L t = cell_type (CStruct t) (\<lambda>c. is_CStruct c \<and> struct_type c = t) the_struct (k8_zero L t)"
definition ConfigMap_cell :: "('x cell, StandaloneConfigMapSpec) storage_type" where
  "ConfigMap_cell = cell_type CConfigMap is_CConfigMap the_ConfigMap \<lparr>scm_Name = '''', scm_Key = ''''\<rparr>"
definition Storage_cell :: "'x K8s \<Rightarrow> ('x cell, 'x StorageSpec_mem) storage_type" where
  "Storage_cell L = cell_type CStorage is_CStorage the_Storage (zero_StorageSpec_mem L)"
definition ProbeHandler_cell :: "('x cell, ProbeHandler_mem) storage_type" where
  "ProbeHandler_cell = cell_type CProbeHandler is_CProbeHandler the_ProbeHandler zero_ProbeHandler_mem"
definition ProbeSpec_cell :: "('x cell, ProbeSpec_mem) storage_type" where
  "ProbeSpec_cell = cell_type CProbeSpec is_CProbeSpec the_ProbeSpec zero_ProbeSpec_mem"
definition PodStatus_cell :: "('x cell, PodStatus) storage_type" where
  "PodStatus_cell = cell_type CPodStatus is_CPodStatus the_PodStatus zero_PodStatus"
definition Spec_cell :: "('x cell, WildFlyServerSpec_mem) storage_type" where
  "Spec_cell = cell_type CSpec is_CSpec the_Spec zero_Spec_mem"
definition Status_cell :: "('x cell, WildFlyServerStatus_mem) storage_type" where
  "Status_cell = cell_type CStatus is_CStatus the_Status zero_Status_mem"
definition Server_cell :: "'x K8s \<Rightarrow> ('x cell, 'x WildFlyServer_mem) storage_type" where
  "Server_cell L = cell_type CServer is_CServer the_Server (zero_Server_mem L)"
definition ServerList_cell :: "'x K8s \<Rightarrow> ('x cell, 'x WildFlyServerList_mem) storage_type" where
  "ServerList_cell L = cell_type CServerList is_CServerList the_ServerList (zero_ServerList_mem L)"
definition structs_cell :: "k8s_type \<Rightarrow> ('x cell, 'x list) storage_type" where
  "structs_cell t = cell_type (CStructs t) (\<lambda>c. is_CStructs c \<and> structs_type c = t) the_structs []"
definition strings_cell :: "('x cell, string list) storage_type" where
  "strings_cell = cell_type CStrings is_CStrings the_strings []"
definition pods_cell :: "('x cell, PodStatus list) storage_type" where
  "pods_cell = cell_type CPods is_CPods the_pods []"
definition servers_cell :: "('x cell, 'x WildFlyServer_mem list) storage_type" where
  "servers_cell = cell_type CServers is_CServers the_servers []"

lemmas cell_defs = int32_cell_def struct_cell_def ConfigMap_cell_def Storage_cell_def ProbeHandler_cell_def
  ProbeSpec_cell_def PodStatus_cell_def Spec_cell_def Status_cell_def Server_cell_def ServerList_cell_def
  structs_cell_def strings_cell_def pods_cell_def servers_cell_def

lemma storage_cells [simp]:
  "storage int32_cell" "storage (struct_cell L t)" "storage ConfigMap_cell" "storage (Storage_cell L)"
  "storage ProbeHandler_cell" "storage ProbeSpec_cell" "storage PodStatus_cell" "storage Spec_cell"
  "storage Status_cell" "storage (Server_cell L)" "storage (ServerList_cell L)" "storage (structs_cell t)"
  "storage strings_cell" "storage pods_cell" "storage servers_cell"
  by (simp_all add: cell_defs storage_def cell_type_def)

section \<open>DeepCopyInto\<close>

definition PodStatus_DeepCopyInto :: "PodStatus \<Rightarrow> ('x memory, PodStatus) state" where
  "PodStatus_DeepCopyInto src = ret src"

definition ProbeHandler_DeepCopyInto :: "'x K8s \<Rightarrow> ProbeHandler_mem \<Rightarrow> ('x memory, ProbeHandler_mem) state" where
  "ProbeHandler_DeepCopyInto L src =
     do { exec \<leftarrow> copy_pointer (struct_cell L ExecActionT) (k8_DeepCopyInto L ExecActionT) (phm_Exec src);
          httpGet \<leftarrow> copy_pointer (struct_cell L HTTPGetActionT) (k8_DeepCopyInto L HTTPGetActionT) (phm_HTTPGet src);
          ret (src\<lparr>phm_Exec := exec, phm_HTTPGet := httpGet\<rparr>) }"

definition ProbeSpec_DeepCopyInto :: "'x K8s \<Rightarrow> ProbeSpec_mem \<Rightarrow> ('x memory, ProbeSpec_mem) state" where
  "ProbeSpec_DeepCopyInto L src =
     do { handler \<leftarrow> ProbeHandler_DeepCopyInto L (pbm_ProbeHandler src);
          delay \<leftarrow> copy_pointer int32_cell ret (pbm_InitialDelaySeconds src);
          ret (src\<lparr>pbm_ProbeHandler := handler, pbm_InitialDelaySeconds := delay\<rparr>) }"

definition StandaloneConfigMapSpec_DeepCopyInto :: "StandaloneConfigMapSpec \<Rightarrow> ('x memory, StandaloneConfigMapSpec) state" where
  "StandaloneConfigMapSpec_DeepCopyInto src = ret src"

definition StorageSpec_DeepCopyInto :: "'x K8s \<Rightarrow> 'x StorageSpec_mem \<Rightarrow> ('x memory, 'x StorageSpec_mem) state" where
  "StorageSpec_DeepCopyInto L src =
     do { emptyDir \<leftarrow> copy_pointer (struct_cell L EmptyDirT) (k8_DeepCopyInto L EmptyDirT) (sgm_EmptyDir src);
          claim \<leftarrow> k8_DeepCopyInto L PersistentVolumeClaimT (sgm_VolumeClaimTemplate src);
          ret (src\<lparr>sgm_EmptyDir := emptyDir, sgm_VolumeClaimTemplate := claim\<rparr>) }"

definition WildFlyServerSpec_DeepCopyInto ::
  "'x K8s \<Rightarrow> WildFlyServerSpec_mem \<Rightarrow> ('x memory, WildFlyServerSpec_mem) state" where
  "WildFlyServerSpec_DeepCopyInto L src =
     do { configMap \<leftarrow> copy_pointer ConfigMap_cell ret (spm_StandaloneConfigMap src);
          storage \<leftarrow> copy_pointer (Storage_cell L) (StorageSpec_DeepCopyInto L) (spm_Storage src);
          envFrom \<leftarrow> copy_slice (structs_cell EnvFromSourceT) (k8_zero L EnvFromSourceT) (k8_DeepCopyInto L EnvFromSourceT) (spm_EnvFrom src);
          env \<leftarrow> copy_slice (structs_cell EnvVarT) (k8_zero L EnvVarT) (k8_DeepCopyInto L EnvVarT) (spm_Env src);
          secrets \<leftarrow> copy_slice strings_cell '''' ret (spm_Secrets src);
          configMaps \<leftarrow> copy_slice strings_cell '''' ret (spm_ConfigMaps src);
          resources \<leftarrow> copy_pointer (struct_cell L ResourceRequirementsT) (k8_DeepCopyInto L ResourceRequirementsT) (spm_Resources src);
          securityContext \<leftarrow> copy_pointer (struct_cell L SecurityContextT) (k8_DeepCopyInto L SecurityContextT) (spm_SecurityContext src);
          liveness \<leftarrow> copy_pointer ProbeSpec_cell (ProbeSpec_DeepCopyInto L) (spm_LivenessProbe src);
          readiness \<leftarrow> copy_pointer ProbeSpec_cell (ProbeSpec_DeepCopyInto L) (spm_ReadinessProbe src);
          startup \<leftarrow> copy_pointer ProbeSpec_cell (ProbeSpec_DeepCopyInto L) (spm_StartupProbe src);
          ret (src\<lparr>spm_StandaloneConfigMap := configMap, spm_Storage := storage, spm_EnvFrom := envFrom, spm_Env := env,
                 spm_Secrets := secrets, spm_ConfigMaps := configMaps, spm_Resources := resources,
                 spm_SecurityContext := securityContext, spm_LivenessProbe := liveness,
                 spm_ReadinessProbe := readiness, spm_StartupProbe := startup\<rparr>) }"

definition WildFlyServerStatus_DeepCopyInto ::
  "WildFlyServerStatus_mem \<Rightarrow> ('x memory, WildFlyServerStatus_mem) state" where
  "WildFlyServerStatus_DeepCopyInto src =
     do { pods \<leftarrow> copy_slice pods_cell zero_PodStatus ret (stm_Pods src);
          hosts \<leftarrow> copy_slice strings_cell '''' ret (stm_Hosts src);
          ret (src\<lparr>stm_Pods := pods, stm_Hosts := hosts\<rparr>) }"

definition WildFlyServer_DeepCopyInto :: "'x K8s \<Rightarrow> 'x WildFlyServer_mem \<Rightarrow> ('x memory, 'x WildFlyServer_mem) state" where
  "WildFlyServer_DeepCopyInto L src =
     do { meta \<leftarrow> k8_DeepCopyInto L ObjectMetaT (wfm_ObjectMeta src);
          spec \<leftarrow> WildFlyServerSpec_DeepCopyInto L (wfm_Spec src);
          status \<leftarrow> WildFlyServerStatus_DeepCopyInto (wfm_Status src);
          ret (src\<lparr>wfm_ObjectMeta := meta, wfm_Spec := spec, wfm_Status := status\<rparr>) }"

definition WildFlyServerList_DeepCopyInto ::
  "'x K8s \<Rightarrow> 'x WildFlyServerList_mem \<Rightarrow> ('x memory, 'x WildFlyServerList_mem) state" where
  "WildFlyServerList_DeepCopyInto L src =
     do { meta \<leftarrow> k8_DeepCopyInto L ListMetaT (wlm_ListMeta src);
          items \<leftarrow> copy_slice servers_cell (zero_Server_mem L) (WildFlyServer_DeepCopyInto L) (wlm_Items src);
          ret (src\<lparr>wlm_ListMeta := meta, wlm_Items := items\<rparr>) }"

section \<open>DeepCopy and DeepCopyObject\<close>

definition PodStatus_DeepCopy :: "pointer \<Rightarrow> ('x memory, pointer) state" where
  "PodStatus_DeepCopy = copy_pointer PodStatus_cell PodStatus_DeepCopyInto"

definition ProbeHandler_DeepCopy :: "'x K8s \<Rightarrow> pointer \<Rightarrow> ('x memory, pointer) state" where
  "ProbeHandler_DeepCopy L = copy_pointer ProbeHandler_cell (ProbeHandler_DeepCopyInto L)"

definition ProbeSpec_DeepCopy :: "'x K8s \<Rightarrow> pointer \<Rightarrow> ('x memory, pointer) state" where
  "ProbeSpec_DeepCopy L = copy_pointer ProbeSpec_cell (ProbeSpec_DeepCopyInto L)"

definition StandaloneConfigMapSpec_DeepCopy :: "pointer \<Rightarrow> ('x memory, pointer) state" where
  "StandaloneConfigMapSpec_DeepCopy = copy_pointer ConfigMap_cell StandaloneConfigMapSpec_DeepCopyInto"

definition StorageSpec_DeepCopy :: "'x K8s \<Rightarrow> pointer \<Rightarrow> ('x memory, pointer) state" where
  "StorageSpec_DeepCopy L = copy_pointer (Storage_cell L) (StorageSpec_DeepCopyInto L)"

definition WildFlyServerSpec_DeepCopy :: "'x K8s \<Rightarrow> pointer \<Rightarrow> ('x memory, pointer) state" where
  "WildFlyServerSpec_DeepCopy L = copy_pointer Spec_cell (WildFlyServerSpec_DeepCopyInto L)"

definition WildFlyServerStatus_DeepCopy :: "pointer \<Rightarrow> ('x memory, pointer) state" where
  "WildFlyServerStatus_DeepCopy = copy_pointer Status_cell WildFlyServerStatus_DeepCopyInto"

definition WildFlyServer_DeepCopy :: "'x K8s \<Rightarrow> pointer \<Rightarrow> ('x memory, pointer) state" where
  "WildFlyServer_DeepCopy L = copy_pointer (Server_cell L) (WildFlyServer_DeepCopyInto L)"

definition WildFlyServerList_DeepCopy :: "'x K8s \<Rightarrow> pointer \<Rightarrow> ('x memory, pointer) state" where
  "WildFlyServerList_DeepCopy L = copy_pointer (ServerList_cell L) (WildFlyServerList_DeepCopyInto L)"

text \<open>
  A value of the interface \<open>runtime.Object\<close>: nil, or a type with a pointer, which may itself be nil
  (then the interface is not).
\<close>

datatype runtime_Object = NilObject | ServerObject pointer | ServerListObject pointer

definition WildFlyServer_DeepCopyObject :: "'x K8s \<Rightarrow> pointer \<Rightarrow> ('x memory, runtime_Object) state" where
  "WildFlyServer_DeepCopyObject L src =
     do { c \<leftarrow> WildFlyServer_DeepCopy L src;
          ret (if c \<noteq> None then ServerObject c else NilObject) }"

definition WildFlyServerList_DeepCopyObject :: "'x K8s \<Rightarrow> pointer \<Rightarrow> ('x memory, runtime_Object) state" where
  "WildFlyServerList_DeepCopyObject L src =
     do { c \<leftarrow> WildFlyServerList_DeepCopy L src;
          ret (if c \<noteq> None then ServerListObject c else NilObject) }"

section \<open>What the memory stands for\<close>

text \<open>
  The views of the structs of the Kubernetes packages and the values of \<open>Api_Types\<close> they stand for.
  The contract on the packages is that their \<open>DeepCopyInto\<close> are deep copies.
\<close>

record ('x, 'v) K8s_views =
  kv_view :: "k8s_type \<Rightarrow> ('x cell, 'x, 'v) view"
  kv_ExecAction :: "'v \<Rightarrow> string list"
  kv_HTTPGetAction :: "'v \<Rightarrow> HTTPGetAction"
  kv_PersistentVolumeClaim :: "'v \<Rightarrow> PersistentVolumeClaim"
  kv_EnvVar :: "'v \<Rightarrow> EnvVar"
  kv_ResourceRequirements :: "'v \<Rightarrow> ResourceRequirements"
  kv_ObjectMeta :: "'v \<Rightarrow> ObjectMeta"
  kv_opaque :: "'v \<Rightarrow> opaque"

definition library_copies :: "'x K8s \<Rightarrow> ('x, 'v) K8s_views \<Rightarrow> bool" where
  "library_copies L W \<longleftrightarrow> (\<forall>t. deep_copy (kv_view W t) (k8_DeepCopyInto L t))"

abbreviation struct_pointer :: "'x K8s \<Rightarrow> ('x, 'v) K8s_views \<Rightarrow> k8s_type \<Rightarrow> ('x cell, pointer, 'v option) view" where
  "struct_pointer L W t \<equiv> pointer_view (struct_cell L t) (kv_view W t)"

abbreviation strings_view :: "('x cell, slice_ref, string slice) view" where
  "strings_view \<equiv> slice_view strings_cell flat_view"

definition ProbeHandler_view :: "'x K8s \<Rightarrow> ('x, 'v) K8s_views \<Rightarrow> ('x cell, ProbeHandler_mem, ProbeHandler) view" where
  "ProbeHandler_view L W = struct_view (\<lambda>s. (phm_Exec s, phm_HTTPGet s))
     (\<lambda>s (e, g). \<lparr>ph_Exec = map_option (kv_ExecAction W) e, ph_HTTPGet = map_option (kv_HTTPGetAction W) g\<rparr>)
     (pair_view (struct_pointer L W ExecActionT) (struct_pointer L W HTTPGetActionT))"

definition ProbeSpec_view :: "'x K8s \<Rightarrow> ('x, 'v) K8s_views \<Rightarrow> ('x cell, ProbeSpec_mem, ProbeSpec) view" where
  "ProbeSpec_view L W = struct_view (\<lambda>s. (pbm_ProbeHandler s, pbm_InitialDelaySeconds s))
     (\<lambda>s (h, d). \<lparr>pb_Handler = h, pb_InitialDelaySeconds = d, pb_TimeoutSeconds = pbm_TimeoutSeconds s,
        pb_PeriodSeconds = pbm_PeriodSeconds s, pb_SuccessThreshold = pbm_SuccessThreshold s,
        pb_FailureThreshold = pbm_FailureThreshold s\<rparr>)
     (pair_view (ProbeHandler_view L W) (pointer_view int32_cell flat_view))"

definition StorageSpec_view :: "'x K8s \<Rightarrow> ('x, 'v) K8s_views \<Rightarrow> ('x cell, 'x StorageSpec_mem, StorageSpec) view" where
  "StorageSpec_view L W = struct_view (\<lambda>s. (sgm_EmptyDir s, sgm_VolumeClaimTemplate s))
     (\<lambda>s (e, c). \<lparr>sg_EmptyDir = map_option (kv_opaque W) e, sg_VolumeClaimTemplate = kv_PersistentVolumeClaim W c\<rparr>)
     (pair_view (struct_pointer L W EmptyDirT) (kv_view W PersistentVolumeClaimT))"

abbreviation spec_refs where
  "spec_refs s \<equiv> (spm_StandaloneConfigMap s, spm_Storage s, spm_EnvFrom s, spm_Env s, spm_Secrets s, spm_ConfigMaps s,
     spm_Resources s, spm_SecurityContext s, spm_LivenessProbe s, spm_ReadinessProbe s, spm_StartupProbe s)"

definition Spec_view :: "'x K8s \<Rightarrow> ('x, 'v) K8s_views \<Rightarrow> ('x cell, WildFlyServerSpec_mem, WildFlyServerSpec) view" where
  "Spec_view L W = struct_view (\<lambda>s. spec_refs s)
     (\<lambda>s (cm, st, ef, ev, se, co, re, sc, lp, rp, sp).
        \<lparr>sp_ApplicationImage = spm_ApplicationImage s, sp_BootableJar = spm_BootableJar s, sp_Replicas = spm_Replicas s,
         sp_SessionAffinity = spm_SessionAffinity s, sp_DisableHTTPRoute = spm_DisableHTTPRoute s,
         sp_DeactivateTransactionRecovery = spm_DeactivateTransactionRecovery s, sp_StandaloneConfigMap = cm,
         sp_Storage = st, sp_ServiceAccountName = spm_ServiceAccountName s, sp_EnvFrom = map (kv_opaque W) (elems ef),
         sp_Env = map (kv_EnvVar W) (elems ev), sp_Secrets = elems se, sp_ConfigMaps = elems co,
         sp_Resources = map_option (kv_ResourceRequirements W) re, sp_SecurityContext = map_option (kv_opaque W) sc,
         sp_LivenessProbe = lp, sp_ReadinessProbe = rp, sp_StartupProbe = sp\<rparr>)
     (pair_view (pointer_view ConfigMap_cell flat_view) (pair_view (pointer_view (Storage_cell L) (StorageSpec_view L W))
       (pair_view (slice_view (structs_cell EnvFromSourceT) (kv_view W EnvFromSourceT))
       (pair_view (slice_view (structs_cell EnvVarT) (kv_view W EnvVarT)) (pair_view strings_view (pair_view strings_view
       (pair_view (struct_pointer L W ResourceRequirementsT) (pair_view (struct_pointer L W SecurityContextT)
       (pair_view (pointer_view ProbeSpec_cell (ProbeSpec_view L W)) (pair_view (pointer_view ProbeSpec_cell (ProbeSpec_view L W))
       (pointer_view ProbeSpec_cell (ProbeSpec_view L W))))))))))))"

definition Status_view :: "('x cell, WildFlyServerStatus_mem, WildFlyServerStatus) view" where
  "Status_view = struct_view (\<lambda>s. (stm_Pods s, stm_Hosts s))
     (\<lambda>s (ps, hs). \<lparr>st_Replicas = stm_Replicas s, st_Pods = ps, st_Hosts = hs,
        st_ScalingdownPods = stm_ScalingdownPods s, st_Selector = stm_Selector s\<rparr>)
     (pair_view (slice_view pods_cell flat_view) strings_view)"

definition Server_view :: "'x K8s \<Rightarrow> ('x, 'v) K8s_views \<Rightarrow> ('x cell, 'x WildFlyServer_mem, TypeMeta \<times> WildFlyServer) view" where
  "Server_view L W = struct_view (\<lambda>s. (wfm_ObjectMeta s, wfm_Spec s, wfm_Status s))
     (\<lambda>s (m, sp, st). (wfm_TypeMeta s, \<lparr>wf_Meta = kv_ObjectMeta W m, wf_Spec = sp, wf_Status = st\<rparr>))
     (pair_view (kv_view W ObjectMetaT) (pair_view (Spec_view L W) Status_view))"

definition ServerList_view ::
  "'x K8s \<Rightarrow> ('x, 'v) K8s_views \<Rightarrow> ('x cell, 'x WildFlyServerList_mem, TypeMeta \<times> 'v \<times> (TypeMeta \<times> WildFlyServer) slice) view" where
  "ServerList_view L W = struct_view (\<lambda>s. (wlm_ListMeta s, wlm_Items s)) (\<lambda>s (m, ws). (wlm_TypeMeta s, m, ws))
     (pair_view (kv_view W ListMetaT) (slice_view servers_cell (Server_view L W)))"

section \<open>The generated functions are deep copies\<close>

interpretation PodStatus: deep_copy flat_view PodStatus_DeepCopyInto
  unfolding PodStatus_DeepCopyInto_def[abs_def] by unfold_locales (auto simp: flat_view_def)

interpretation StandaloneConfigMapSpec: deep_copy flat_view StandaloneConfigMapSpec_DeepCopyInto
  unfolding StandaloneConfigMapSpec_DeepCopyInto_def[abs_def] by unfold_locales (auto simp: flat_view_def)

text \<open>A struct copied field by field: the sequence of the code is that of the pairs.\<close>

lemma deep_copy_fields:
  assumes "deep_copy V c"
    and "\<And>s. copy s = do { t \<leftarrow> c (refs s); ret (put t s) }"
    and "\<And>t s. refs (put t s) = t" and "\<And>t s v. build (put t s) v = build s v"
  shows "deep_copy (struct_view refs build V) copy"
proof -
  have "copy = (\<lambda>s. do { t \<leftarrow> c (refs s); ret (put t s) })" using assms(2) by (rule ext)
  moreover have "deep_copy (struct_view refs build V) (\<lambda>s. do { t \<leftarrow> c (refs s); ret (put t s) })"
    by (rule deep_copy_struct) (rule assms)+
  ultimately show ?thesis by simp
qed

lemmas deep_copy_flat = flat.deep_copy_axioms

lemma library: "library_copies L W \<Longrightarrow> deep_copy (kv_view W t) (k8_DeepCopyInto L t)"
  by (simp add: library_copies_def)

lemma deep_copy_ProbeHandler:
  "library_copies L W \<Longrightarrow> deep_copy (ProbeHandler_view L W) (ProbeHandler_DeepCopyInto L)"
  unfolding ProbeHandler_view_def
  by (rule deep_copy_fields[where put = "\<lambda>(e, g) s. s\<lparr>phm_Exec := e, phm_HTTPGet := g\<rparr>"])
     (rule deep_copy_pair deep_copy_pointer library storage_cells | assumption | auto simp: ProbeHandler_DeepCopyInto_def)+

lemma deep_copy_ProbeSpec:
  "library_copies L W \<Longrightarrow> deep_copy (ProbeSpec_view L W) (ProbeSpec_DeepCopyInto L)"
  unfolding ProbeSpec_view_def
  by (rule deep_copy_fields[where put = "\<lambda>(h, d) s. s\<lparr>pbm_ProbeHandler := h, pbm_InitialDelaySeconds := d\<rparr>"])
     (rule deep_copy_pair deep_copy_pointer deep_copy_ProbeHandler deep_copy_flat storage_cells | assumption | auto simp: ProbeSpec_DeepCopyInto_def)+

lemma deep_copy_StorageSpec:
  "library_copies L W \<Longrightarrow> deep_copy (StorageSpec_view L W) (StorageSpec_DeepCopyInto L)"
  unfolding StorageSpec_view_def
  by (rule deep_copy_fields[where put = "\<lambda>(e, c) s. s\<lparr>sgm_EmptyDir := e, sgm_VolumeClaimTemplate := c\<rparr>"])
     (rule deep_copy_pair deep_copy_pointer library storage_cells | assumption | auto simp: StorageSpec_DeepCopyInto_def)+

lemma deep_copy_Spec:
  "library_copies L W \<Longrightarrow> deep_copy (Spec_view L W) (WildFlyServerSpec_DeepCopyInto L)"
  unfolding Spec_view_def
  by (rule deep_copy_fields[where put = "\<lambda>(cm, st, ef, ev, se, co, re, sc, lp, rp, sp) s.
        s\<lparr>spm_StandaloneConfigMap := cm, spm_Storage := st, spm_EnvFrom := ef, spm_Env := ev,
          spm_Secrets := se, spm_ConfigMaps := co, spm_Resources := re, spm_SecurityContext := sc,
          spm_LivenessProbe := lp, spm_ReadinessProbe := rp, spm_StartupProbe := sp\<rparr>"])
     (rule deep_copy_pair deep_copy_pointer deep_copy_slice deep_copy_flat deep_copy_ProbeSpec deep_copy_StorageSpec
        library storage_cells | assumption | auto simp: WildFlyServerSpec_DeepCopyInto_def)+

lemma deep_copy_Status: "deep_copy Status_view WildFlyServerStatus_DeepCopyInto"
  unfolding Status_view_def
  by (rule deep_copy_fields[where put = "\<lambda>(ps, hs) s. s\<lparr>stm_Pods := ps, stm_Hosts := hs\<rparr>"])
     (rule deep_copy_pair deep_copy_slice deep_copy_flat storage_cells | auto simp: WildFlyServerStatus_DeepCopyInto_def)+

interpretation Status: deep_copy Status_view WildFlyServerStatus_DeepCopyInto
  by (rule deep_copy_Status)

lemma deep_copy_Server:
  "library_copies L W \<Longrightarrow> deep_copy (Server_view L W) (WildFlyServer_DeepCopyInto L)"
  unfolding Server_view_def
  by (rule deep_copy_fields[where put = "\<lambda>(m, sp, st) s. s\<lparr>wfm_ObjectMeta := m, wfm_Spec := sp, wfm_Status := st\<rparr>"])
     (rule deep_copy_pair deep_copy_Spec deep_copy_Status library | assumption | auto simp: WildFlyServer_DeepCopyInto_def)+

lemma deep_copy_ServerList:
  "library_copies L W \<Longrightarrow> deep_copy (ServerList_view L W) (WildFlyServerList_DeepCopyInto L)"
  unfolding ServerList_view_def
  by (rule deep_copy_fields[where put = "\<lambda>(m, ws) s. s\<lparr>wlm_ListMeta := m, wlm_Items := ws\<rparr>"])
     (rule deep_copy_pair deep_copy_slice deep_copy_Server library storage_cells | assumption
        | auto simp: WildFlyServerList_DeepCopyInto_def)+

text \<open>\<open>DeepCopy\<close>, on pointers.\<close>

abbreviation server_pointer :: "'x K8s \<Rightarrow> ('x, 'v) K8s_views \<Rightarrow> ('x cell, pointer, (TypeMeta \<times> WildFlyServer) option) view" where
  "server_pointer L W \<equiv> pointer_view (Server_cell L) (Server_view L W)"

abbreviation server_list_pointer ::
  "'x K8s \<Rightarrow> ('x, 'v) K8s_views \<Rightarrow> ('x cell, pointer, (TypeMeta \<times> 'v \<times> (TypeMeta \<times> WildFlyServer) slice) option) view" where
  "server_list_pointer L W \<equiv> pointer_view (ServerList_cell L) (ServerList_view L W)"

lemma deep_copy_pointers:
  assumes "library_copies L W"
  shows "deep_copy (pointer_view ProbeHandler_cell (ProbeHandler_view L W)) (ProbeHandler_DeepCopy L)"
    and "deep_copy (pointer_view ProbeSpec_cell (ProbeSpec_view L W)) (ProbeSpec_DeepCopy L)"
    and "deep_copy (pointer_view (Storage_cell L) (StorageSpec_view L W)) (StorageSpec_DeepCopy L)"
    and "deep_copy (pointer_view Spec_cell (Spec_view L W)) (WildFlyServerSpec_DeepCopy L)"
    and "deep_copy (server_pointer L W) (WildFlyServer_DeepCopy L)"
    and "deep_copy (server_list_pointer L W) (WildFlyServerList_DeepCopy L)"
  unfolding ProbeHandler_DeepCopy_def ProbeSpec_DeepCopy_def StorageSpec_DeepCopy_def WildFlyServerSpec_DeepCopy_def
    WildFlyServer_DeepCopy_def WildFlyServerList_DeepCopy_def
  by (rule deep_copy_pointer storage_cells deep_copy_ProbeHandler deep_copy_ProbeSpec deep_copy_StorageSpec
      deep_copy_Spec deep_copy_Server deep_copy_ServerList assms)+

interpretation PodStatus_pointer: deep_copy "pointer_view PodStatus_cell flat_view" PodStatus_DeepCopy
  unfolding PodStatus_DeepCopy_def by (rule deep_copy_pointer storage_cells PodStatus.deep_copy_axioms)+

interpretation ConfigMap_pointer: deep_copy "pointer_view ConfigMap_cell flat_view" StandaloneConfigMapSpec_DeepCopy
  unfolding StandaloneConfigMapSpec_DeepCopy_def
  by (rule deep_copy_pointer storage_cells StandaloneConfigMapSpec.deep_copy_axioms)+

interpretation Status_pointer: deep_copy "pointer_view Status_cell Status_view" WildFlyServerStatus_DeepCopy
  unfolding WildFlyServerStatus_DeepCopy_def by (rule deep_copy_pointer storage_cells Status.deep_copy_axioms)+

section \<open>Copies of whole objects\<close>

text \<open>
  In memory \<open>h'\<close> the pointer \<open>q\<close> is an independent copy of \<open>p\<close>, as \<open>p\<close> was in \<open>h\<close>: the same value; nothing
  that existed is changed; no cell is shared; and whatever is written through the copy does not
  show in the original, nor does any write to old memory show in the copy.
\<close>

definition independent_copy :: "('c, 'p, 'v) view \<Rightarrow> 'c list \<Rightarrow> 'p \<Rightarrow> 'p \<Rightarrow> 'c list \<Rightarrow> bool" where
  "independent_copy V h p q h' \<longleftrightarrow>
     (\<exists>A B v. V h p = Some (A, v) \<and> V h' p = Some (A, v) \<and> V h' q = Some (B, v) \<and>
        take (length h) h' = h \<and> A \<inter> B = {} \<and>
        (\<forall>b\<in>B. \<forall>c. V (h'[b := c]) p = Some (A, v)) \<and>
        (\<forall>a<length h. \<forall>c. V (h'[a := c]) q = Some (B, v)))"

lemma deep_copy_independent:
  assumes "deep_copy V copy" and "V h p = Some (A, v)" and "run_state (copy p) h = (q, h')"
  shows "independent_copy V h p q h'"
proof (rule deep_copy.independent[OF assms(1,2)])
  fix y B ys
  assume run: "run_state (copy p) h = (y, h @ ys)" and views: "V (h @ ys) y = Some (B, v)" "V (h @ ys) p = Some (A, v)" "A \<inter> B = {}"
    and writes: "\<And>b c. b \<in> B \<Longrightarrow> V ((h @ ys)[b := c]) p = Some (A, v)"
      "\<And>a c. a < length h \<Longrightarrow> V ((h @ ys)[a := c]) y = Some (B, v)"
  have "q = y" and "h' = h @ ys" using run assms(3) by simp_all
  then show ?thesis
    unfolding independent_copy_def using assms(2) views writes by (intro exI[of _ A] exI[of _ B] exI[of _ v]) auto
qed

text \<open>
  C38: \<open>DeepCopyObject\<close> refines the copy of a value. If the deep copies of the Kubernetes structs are
  deep copies, then on every valid pointer \<open>p\<close> to a WildFlyServer the result is nil (the nil
  interface, not a nil pointer in one) exactly for the nil pointer, and otherwise a pointer to an
  independent copy: it stands for the same WildFlyServer, shares no cell with the original, and
  writes to one never show in the other, although pointers and arrays may be shared within the
  original. The same holds for a list of WildFlyServers. So the rest of the model may treat a copy
  as the value itself.
\<close>

theorem DeepCopyObject_independent:
  assumes "library_copies L W"
  shows "(\<forall>h p. server_pointer L W h p \<noteq> None \<longrightarrow>
      (\<exists>q h'. run_state (WildFlyServer_DeepCopyObject L p) h = (if p = None then NilObject else ServerObject q, h') \<and>
         (q = None \<longleftrightarrow> p = None) \<and> independent_copy (server_pointer L W) h p q h')) \<and>
    (\<forall>h p. server_list_pointer L W h p \<noteq> None \<longrightarrow>
      (\<exists>q h'. run_state (WildFlyServerList_DeepCopyObject L p) h = (if p = None then NilObject else ServerListObject q, h') \<and>
         (q = None \<longleftrightarrow> p = None) \<and> independent_copy (server_list_pointer L W) h p q h'))"
proof (intro conjI allI impI)
  fix h p assume "server_pointer L W h p \<noteq> None"
  then obtain A v where view: "server_pointer L W h p = Some (A, v)" by auto
  obtain q h' where run: "run_state (WildFlyServer_DeepCopy L p) h = (q, h')"
    by (cases "run_state (WildFlyServer_DeepCopy L p) h")
  then have nil: "q = None \<longleftrightarrow> p = None"
    by (auto simp: WildFlyServer_DeepCopy_def copy_pointer_def split: option.splits prod.splits)
  show "\<exists>q h'. run_state (WildFlyServer_DeepCopyObject L p) h = (if p = None then NilObject else ServerObject q, h') \<and>
     (q = None \<longleftrightarrow> p = None) \<and> independent_copy (server_pointer L W) h p q h'"
    using run nil deep_copy_independent[OF deep_copy_pointers(5)[OF assms] view run]
    by (intro exI[of _ q] exI[of _ h']) (cases q; simp add: WildFlyServer_DeepCopyObject_def)
next
  fix h p assume "server_list_pointer L W h p \<noteq> None"
  then obtain A v where view: "server_list_pointer L W h p = Some (A, v)" by auto
  obtain q h' where run: "run_state (WildFlyServerList_DeepCopy L p) h = (q, h')"
    by (cases "run_state (WildFlyServerList_DeepCopy L p) h")
  then have nil: "q = None \<longleftrightarrow> p = None"
    by (auto simp: WildFlyServerList_DeepCopy_def copy_pointer_def split: option.splits prod.splits)
  show "\<exists>q h'. run_state (WildFlyServerList_DeepCopyObject L p) h = (if p = None then NilObject else ServerListObject q, h') \<and>
     (q = None \<longleftrightarrow> p = None) \<and> independent_copy (server_list_pointer L W) h p q h'"
    using run nil deep_copy_independent[OF deep_copy_pointers(6)[OF assms] view run]
    by (intro exI[of _ q] exI[of _ h']) (cases q; simp add: WildFlyServerList_DeepCopyObject_def)
qed

text \<open>
  An instance: every Kubernetes struct has one field, a slice of strings. The arrays of the
  secrets and of the metadata are the same, and two probes are one.
\<close>

definition sample_K8s :: "slice_ref K8s" where
  "sample_K8s = \<lparr>k8_zero = (\<lambda>_. None), k8_DeepCopyInto = (\<lambda>_. copy_slice strings_cell '''' ret)\<rparr>"

definition sample_views :: "(slice_ref, string slice) K8s_views" where
  "sample_views = \<lparr>kv_view = (\<lambda>_. strings_view), kv_ExecAction = elems,
     kv_HTTPGetAction = (\<lambda>v. \<lparr>hg_Path = concat (elems v), hg_Port = FromInt 0, hg_Host = '''', hg_Scheme = '''', hg_HTTPHeaders = Opaque ''''\<rparr>),
     kv_PersistentVolumeClaim = (\<lambda>v. \<lparr>pvc_Name = concat (elems v), pvc_AccessModes = [],
        pvc_Resources = \<lparr>rr_Limits = None, rr_Requests = None\<rparr>, pvc_Selector = None, pvc_Rest = Opaque ''''\<rparr>),
     kv_EnvVar = (\<lambda>v. \<lparr>ev_Name = concat (elems v), ev_Value = EnvLiteral ''''\<rparr>),
     kv_ResourceRequirements = (\<lambda>_. \<lparr>rr_Limits = None, rr_Requests = None\<rparr>),
     kv_ObjectMeta = (\<lambda>v. zero_ObjectMeta\<lparr>om_OwnerReferences := elems v\<rparr>), kv_opaque = (\<lambda>v. Opaque (concat (elems v)))\<rparr>"

lemma sample_library: "library_copies sample_K8s sample_views"
  unfolding library_copies_def sample_K8s_def sample_views_def
  by (simp add: deep_copy_slice deep_copy_flat)

definition sample_memory :: "slice_ref memory" where
  "sample_memory =
     [CStrings [''key''], CInt32 5, CProbeSpec (zero_ProbeSpec_mem\<lparr>pbm_InitialDelaySeconds := Some 1\<rparr>),
      CServer (zero_Server_mem sample_K8s\<lparr>wfm_ObjectMeta := Some \<lparr>hd_Array = 0, hd_Offset = 0, hd_Len = 1\<rparr>,
        wfm_Spec := zero_Spec_mem\<lparr>spm_Secrets := Some \<lparr>hd_Array = 0, hd_Offset = 0, hd_Len = 1\<rparr>,
          spm_LivenessProbe := Some 2, spm_ReadinessProbe := Some 2\<rparr>\<rparr>)]"

lemma sample_memory_valid: "server_pointer sample_K8s sample_views sample_memory (Some 3) \<noteq> None"
  by (simp add: sample_memory_def Server_view_def Spec_view_def Status_view_def ProbeSpec_view_def ProbeHandler_view_def
      struct_view_def pair_view_def fetch_def cell_defs cell_type_def zero_Server_mem_def zero_Spec_mem_def zero_Status_mem_def
      zero_ProbeSpec_mem_def zero_ProbeHandler_mem_def sample_K8s_def sample_views_def flat_view_def list_view_Cons
      list_view.simps(2))

theorem DeepCopyObject_independent_witness:
  "\<exists>q h'. run_state (WildFlyServer_DeepCopyObject sample_K8s (Some 3)) sample_memory = (ServerObject (Some q), h') \<and>
     independent_copy (server_pointer sample_K8s sample_views) sample_memory (Some 3) (Some q) h'"
  using conjunct1[OF DeepCopyObject_independent[OF sample_library], rule_format, OF sample_memory_valid] by auto

end
