(* ===== verification/Api_Schema.thy ===== *)
theory Api_Schema
  imports Go_Utilities
begin

text \<open>
  The serialised form of the custom resource: the JSON that the struct tags of
  \<open>api/v1alpha1/wildflyserver_types.go\<close> give, and the OpenAPI schemas of
  \<open>api/v1alpha1/zz_generated.openapi.go\<close>. JSON documents are the values of \<open>Go_Utilities\<close>; an object is
  the list of its members. The encodings of the Kubernetes structs are the parameter \<open>K8s_json\<close>.
  \<open>conforms\<close> is the specification: what it means for a document to satisfy a schema.
\<close>

section \<open>OpenAPI schemas\<close>

text \<open>\<open>spec.Schema\<close>, with the fields that are used; the type of references is that of the callback.\<close>

datatype 'r Schema = Schema
  (s_Description: string) (s_Type: "string list") (s_Format: string) (s_Default: "GoValue option")
  (s_Ref: "'r option") (s_Properties: "(string \<times> 'r Schema) list") (s_Required: "string list")
  (s_Items: "'r Schema option") (s_Extensions: "(string \<times> string) list")

record 'r OpenAPIDefinition =
  od_Schema :: "'r Schema"
  od_Dependencies :: "string list"

text \<open>The four shapes the generator produces: a type with its format, a reference, an array, an object.\<close>

definition value_schema :: "string \<Rightarrow> string \<Rightarrow> string \<Rightarrow> GoValue option \<Rightarrow> 'r Schema" where
  "value_schema description type format def = Schema description [type] format def None [] [] None []"

definition ref_schema :: "string \<Rightarrow> GoValue option \<Rightarrow> 'r \<Rightarrow> 'r Schema" where
  "ref_schema description def r = Schema description [] '''' def (Some r) [] [] None []"

definition array_schema :: "string \<Rightarrow> (string \<times> string) list \<Rightarrow> 'r Schema \<Rightarrow> 'r Schema" where
  "array_schema description extensions items = Schema description [''array''] '''' None None [] [] (Some items) extensions"

definition object_schema :: "string \<Rightarrow> (string \<times> 'r Schema) list \<Rightarrow> string list \<Rightarrow> 'r Schema" where
  "object_schema description properties required = Schema description [''object''] '''' None None properties required None []"

section \<open>The generated schemas\<close>

definition schema_PodStatus :: "(string \<Rightarrow> 'r) \<Rightarrow> 'r OpenAPIDefinition" where
  "schema_PodStatus ref = \<lparr>od_Schema =
     object_schema ''PodStatus defines the observed state of pods running the WildFlyServer application''
       [(''name'', value_schema '''' ''string'' '''' (Some (VString ''''))),
        (''podIP'', value_schema '''' ''string'' '''' (Some (VString ''''))),
        (''state'', value_schema ''Represent the state of the Pod, it is used especially during scale down.'' ''string'' '''' (Some (VString ''''))),
        (''recoveryCounter'', value_schema
           ''Counts the recovery attempts when there are in-doubt/heuristic transactions'' ''integer'' ''int32'' None)]
       [''name'', ''podIP'', ''state''],
     od_Dependencies = []\<rparr>"

definition schema_ProbeSpec :: "(string \<Rightarrow> 'r) \<Rightarrow> 'r OpenAPIDefinition" where
  "schema_ProbeSpec ref = \<lparr>od_Schema =
     object_schema ''ProbeSpec describes a health check to be performed against a container to determine whether it is alive or ready to receive traffic. The Operator will configure the exec/httpGet fields if they are not explicitly defined in the probe.''
       [(''exec'', ref_schema ''Exec specifies a command action to take.'' None (ref ''k8s.io/api/core/v1.ExecAction'')),
        (''httpGet'', ref_schema ''HTTPGet specifies the http request to perform.'' None (ref ''k8s.io/api/core/v1.HTTPGetAction'')),
        (''initialDelaySeconds'', value_schema
           ''Number of seconds after the container has started before probes are initiated. It defaults to 0 seconds for liveness and 10 seconds for readiness and startup probes. Minimum value is 0. Minimum value is 0.'' ''integer'' ''int32'' None),
        (''timeoutSeconds'', value_schema
           ''Number of seconds after which the probe times out. Defaults to 1 second for liveness, readiness and startup probes. Minimum value is 1. More info: https://kubernetes.io/docs/concepts/workloads/pods/pod-lifecycle#container-probes'' ''integer'' ''int32'' None),
        (''periodSeconds'', value_schema
           ''How often (in seconds) to perform the probe. Default to 10 seconds for liveness, readiness and startup probes. Minimum value is 1.'' ''integer'' ''int32'' None),
        (''successThreshold'', value_schema
           ''Minimum consecutive successes for the probe to be considered successful after having failed. Defaults to 1 for liveness, readiness and startup probes. Minimum value is 1.'' ''integer'' ''int32'' None),
        (''failureThreshold'', value_schema
           ''Minimum consecutive failures for the probe to be considered failed after having succeeded. Defaults to 3 for liveness and readiness probes and 11 for startup probe. Minimum value is 1.'' ''integer'' ''int32'' None)]
       [],
     od_Dependencies = [''k8s.io/api/core/v1.ExecAction'',
       ''k8s.io/api/core/v1.HTTPGetAction'']\<rparr>"

definition schema_StandaloneConfigMapSpec :: "(string \<Rightarrow> 'r) \<Rightarrow> 'r OpenAPIDefinition" where
  "schema_StandaloneConfigMapSpec ref = \<lparr>od_Schema =
     object_schema ''StandaloneConfigMapSpec defines the desired configMap configuration to obtain the standalone configuration for WildFlyServer''
       [(''name'', value_schema '''' ''string'' '''' (Some (VString ''''))),
        (''key'', value_schema
           ''Key of the config map whose value is the standalone XML configuration file (\"standalone.xml\" if omitted)'' ''string'' '''' None)]
       [''name''],
     od_Dependencies = []\<rparr>"

definition schema_StorageSpec :: "(string \<Rightarrow> 'r) \<Rightarrow> 'r OpenAPIDefinition" where
  "schema_StorageSpec ref = \<lparr>od_Schema =
     object_schema ''StorageSpec defines the desired storage for WildFlyServer''
       [(''emptyDir'', ref_schema '''' None (ref ''k8s.io/api/core/v1.EmptyDirVolumeSource'')),
        (''volumeClaimTemplate'', ref_schema
           (''VolumeClaimTemplate defines the template to store WildFlyServer standalone data directory. The name of the template is derived from the WildFlyServer name.'' @ [CHR 0x0A] @ '' The corresponding volume will be mounted in ReadWriteOnce access mode.'' @ [CHR 0x0A] @ ''This template should be used to specify specific Resources requirements in the template spec.'') (Some (VMap [])) (ref ''k8s.io/api/core/v1.PersistentVolumeClaim''))]
       [],
     od_Dependencies = [''k8s.io/api/core/v1.EmptyDirVolumeSource'',
       ''k8s.io/api/core/v1.PersistentVolumeClaim'']\<rparr>"

definition schema_WildFlyServer :: "(string \<Rightarrow> 'r) \<Rightarrow> 'r OpenAPIDefinition" where
  "schema_WildFlyServer ref = \<lparr>od_Schema =
     object_schema ''WildFlyServer is the Schema for the wildflyservers API''
       [(''kind'', value_schema
           ''Kind is a string value representing the REST resource this object represents. Servers may infer this from the endpoint the client submits requests to. Cannot be updated. In CamelCase. More info: https://git.k8s.io/community/contributors/devel/sig-architecture/api-conventions.md#types-kinds'' ''string'' '''' None),
        (''apiVersion'', value_schema
           ''APIVersion defines the versioned schema of this representation of an object. Servers should convert recognized schemas to the latest internal value, and may reject unrecognized values. More info: https://git.k8s.io/community/contributors/devel/sig-architecture/api-conventions.md#resources'' ''string'' '''' None),
        (''metadata'', ref_schema '''' (Some (VMap [])) (ref ''k8s.io/apimachinery/pkg/apis/meta/v1.ObjectMeta'')),
        (''spec'', ref_schema '''' (Some (VMap [])) (ref ''./api/v1alpha1.WildFlyServerSpec'')),
        (''status'', ref_schema '''' (Some (VMap [])) (ref ''./api/v1alpha1.WildFlyServerStatus''))]
       [],
     od_Dependencies = [''./api/v1alpha1.WildFlyServerSpec'',
       ''./api/v1alpha1.WildFlyServerStatus'',
       ''k8s.io/apimachinery/pkg/apis/meta/v1.ObjectMeta'']\<rparr>"

definition schema_WildFlyServerSpec :: "(string \<Rightarrow> 'r) \<Rightarrow> 'r OpenAPIDefinition" where
  "schema_WildFlyServerSpec ref = \<lparr>od_Schema =
     object_schema ''WildFlyServerSpec defines the desired state of WildFlyServer''
       [(''applicationImage'', value_schema
           ''ApplicationImage is the name of the application image to be deployed'' ''string'' '''' (Some (VString ''''))),
        (''bootableJar'', value_schema
           ''BootableJar specifies whether the application image is using S2I Builder/Runtime images or Bootable Jar. If omitted, it defaults to false (application image is expected to use S2I Builder/Runtime images)'' ''boolean'' '''' None),
        (''replicas'', value_schema ''Replicas is the desired number of replicas for the application'' ''integer'' ''int32'' (Some (VInt 0))),
        (''sessionAffinity'', value_schema
           ''SessionAffinity defines if connections from the same client ip are passed to the same WildFlyServer instance/pod each time (false if omitted)'' ''boolean'' '''' None),
        (''disableHTTPRoute'', value_schema
           ''DisableHTTPRoute disables the creation a route to the HTTP port of the application service (false if omitted)'' ''boolean'' '''' None),
        (''deactivateTransactionRecovery'', value_schema
           ''DeactivateTransactionRecovery disables the process of recovering transactions (false if omitted)'' ''boolean'' '''' None),
        (''standaloneConfigMap'', ref_schema '''' None (ref ''./api/v1alpha1.StandaloneConfigMapSpec'')),
        (''storage'', ref_schema
           ''StorageSpec defines specific storage required for the server own data directory. If omitted, an EmptyDir is used (that will not persist data across pod restart).'' None (ref ''./api/v1alpha1.StorageSpec'')),
        (''serviceAccountName'', value_schema '''' ''string'' '''' None),
        (''envFrom'', array_schema
           ''EnvFrom contains environment variables from a source such as a ConfigMap or a Secret'' [(''x-kubernetes-list-type'', ''atomic'')]
              (ref_schema '''' (Some (VMap [])) (ref ''k8s.io/api/core/v1.EnvFromSource''))),
        (''env'', array_schema
           ''Env contains environment variables for the containers running the WildFlyServer application'' [(''x-kubernetes-list-type'', ''atomic'')]
              (ref_schema '''' (Some (VMap [])) (ref ''k8s.io/api/core/v1.EnvVar''))),
        (''secrets'', array_schema
           ''Secrets is a list of Secrets in the same namespace as the WildFlyServer object, which shall be mounted into the WildFlyServer Pods. The Secrets are mounted into /etc/secrets/<secret-name>.'' [(''x-kubernetes-list-type'', ''set'')]
              (value_schema '''' ''string'' '''' (Some (VString '''')))),
        (''configMaps'', array_schema
           ''ConfigMaps is a list of ConfigMaps in the same namespace as the WildFlyServer object, which shall be mounted into the WildFlyServer Pods. The ConfigMaps are mounted into /etc/configmaps/<configmap-name>.'' [(''x-kubernetes-list-type'', ''set'')]
              (value_schema '''' ''string'' '''' (Some (VString '''')))),
        (''resources'', ref_schema
           ''ResourcesSpec defines the resources used by the WildFlyServer, ie CPU and memory, use limits and requests. More info: https://pkg.go.dev/k8s.io/api@v0.18.14/core/v1#ResourceRequirements'' None (ref ''k8s.io/api/core/v1.ResourceRequirements'')),
        (''securityContext'', ref_schema
           ''SecurityContext defines the security capabilities required to run the application.'' None (ref ''k8s.io/api/core/v1.SecurityContext'')),
        (''livenessProbe'', ref_schema
           ''LivenessProbe defines the periodic probe of container liveness. Container will be restarted if the probe fails.'' None (ref ''./api/v1alpha1.ProbeSpec'')),
        (''readinessProbe'', ref_schema
           ''ReadinessProbe defines the periodic probe of container service readiness. Container will be removed from service endpoints if the probe fails.'' None (ref ''./api/v1alpha1.ProbeSpec'')),
        (''startupProbe'', ref_schema
           ''StartupProbe indicates that the Pod has successfully initialized. If specified, no other probes are executed until this completes successfully. If this probe fails, the Pod will be restarted, just as if the livenessProbe failed. This can be used to provide different probe parameters at the beginning of a Pod's lifecycle, when it might take a long time to load data or warm a cache, than during steady-state operation.'' None (ref ''./api/v1alpha1.ProbeSpec''))]
       [''applicationImage'', ''replicas''],
     od_Dependencies = [''./api/v1alpha1.ProbeSpec'',
       ''./api/v1alpha1.StandaloneConfigMapSpec'',
       ''./api/v1alpha1.StorageSpec'',
       ''k8s.io/api/core/v1.EnvFromSource'',
       ''k8s.io/api/core/v1.EnvVar'',
       ''k8s.io/api/core/v1.ResourceRequirements'',
       ''k8s.io/api/core/v1.SecurityContext'']\<rparr>"

definition schema_WildFlyServerStatus :: "(string \<Rightarrow> 'r) \<Rightarrow> 'r OpenAPIDefinition" where
  "schema_WildFlyServerStatus ref = \<lparr>od_Schema =
     object_schema ''WildFlyServerStatus defines the observed state of WildFlyServer''
       [(''replicas'', value_schema ''Replicas is the actual number of replicas for the application'' ''integer'' ''int32'' (Some (VInt 0))),
        (''pods'', array_schema '''' [(''x-kubernetes-list-type'', ''atomic'')]
              (ref_schema '''' (Some (VMap [])) (ref ''./api/v1alpha1.PodStatus''))),
        (''hosts'', array_schema '''' [(''x-kubernetes-list-type'', ''set'')]
              (value_schema '''' ''string'' '''' (Some (VString '''')))),
        (''scalingdownPods'', value_schema
           (''Represents the number of pods which are in scaledown process what particular pod is scaling down can be verified by PodStatus'' @ [CHR 0x0A] @ [CHR 0x0A] @ ''Read-only.'') ''integer'' ''int32'' (Some (VInt 0))),
        (''selector'', value_schema ''selector for pods, used by HorizontalPodAutoscaler'' ''string'' '''' None)]
       [''replicas'', ''scalingdownPods''],
     od_Dependencies = [''./api/v1alpha1.PodStatus'']\<rparr>"

definition GetOpenAPIDefinitions :: "(string \<Rightarrow> 'r) \<Rightarrow> (string \<times> 'r OpenAPIDefinition) list" where
  "GetOpenAPIDefinitions ref =
     [(''./api/v1alpha1.PodStatus'', schema_PodStatus ref),
      (''./api/v1alpha1.ProbeSpec'', schema_ProbeSpec ref),
      (''./api/v1alpha1.StandaloneConfigMapSpec'', schema_StandaloneConfigMapSpec ref),
      (''./api/v1alpha1.StorageSpec'', schema_StorageSpec ref),
      (''./api/v1alpha1.WildFlyServer'', schema_WildFlyServer ref),
      (''./api/v1alpha1.WildFlyServerSpec'', schema_WildFlyServerSpec ref),
      (''./api/v1alpha1.WildFlyServerStatus'', schema_WildFlyServerStatus ref)]"

section \<open>JSON of the resource\<close>

text \<open>A member without and with \<open>omitempty\<close>, and an optional pointer.\<close>

definition member :: "string \<Rightarrow> GoValue \<Rightarrow> json" where
  "member k v = [(k, v)]"

definition omitempty :: "string \<Rightarrow> bool \<Rightarrow> GoValue \<Rightarrow> json" where
  "omitempty k is_empty v = (if is_empty then [] else [(k, v)])"

definition optional :: "string \<Rightarrow> ('a \<Rightarrow> GoValue) \<Rightarrow> 'a option \<Rightarrow> json" where
  "optional k enc p = (case p of None \<Rightarrow> [] | Some x \<Rightarrow> [(k, enc x)])"

definition string_member :: "string \<Rightarrow> string \<Rightarrow> json" where
  "string_member k s = omitempty k (s = '''') (VString s)"

definition bool_member :: "string \<Rightarrow> bool \<Rightarrow> json" where
  "bool_member k b = omitempty k (\<not> b) (VBool b)"

definition int_member :: "string \<Rightarrow> int \<Rightarrow> json" where
  "int_member k n = omitempty k (n = 0) (VInt n)"

definition list_member :: "string \<Rightarrow> ('a \<Rightarrow> GoValue) \<Rightarrow> 'a list \<Rightarrow> json" where
  "list_member k enc xs = omitempty k (xs = []) (VArray (map enc xs))"

record K8s_json =
  kj_ObjectMeta :: "ObjectMeta \<Rightarrow> GoValue"
  kj_ExecAction :: "string list \<Rightarrow> GoValue"
  kj_HTTPGetAction :: "HTTPGetAction \<Rightarrow> GoValue"
  kj_EmptyDir :: "opaque \<Rightarrow> GoValue"
  kj_PersistentVolumeClaim :: "PersistentVolumeClaim \<Rightarrow> GoValue"
  kj_EnvFromSource :: "opaque \<Rightarrow> GoValue"
  kj_EnvVar :: "EnvVar \<Rightarrow> GoValue"
  kj_ResourceRequirements :: "ResourceRequirements \<Rightarrow> GoValue"
  kj_SecurityContext :: "opaque \<Rightarrow> GoValue"

fun state_text :: "PodState \<Rightarrow> string" where
  "state_text PodStateActive = ''ACTIVE''"
| "state_text PodStateScalingDownRecoveryInvestigation = ''SCALING_DOWN_RECOVERY_INVESTIGATION''"
| "state_text PodStateScalingDownRecoveryProcessing = ''SCALING_DOWN_RECOVERY_PROCESSING''"
| "state_text PodStateScalingDownRecoveryHeuristic = ''SCALING_DOWN_RECOVERY_HEURISTICS''"
| "state_text PodStateScalingDownClean = ''SCALING_DOWN_CLEAN''"

definition json_PodStatus :: "PodStatus \<Rightarrow> GoValue" where
  "json_PodStatus p = VMap (member ''name'' (VString (ps_Name p)) @ member ''podIP'' (VString (ps_PodIP p)) @
     member ''state'' (VString (state_text (ps_State p))) @ int_member ''recoveryCounter'' (ps_RecoveryCounter p))"

definition json_Status :: "WildFlyServerStatus \<Rightarrow> GoValue" where
  "json_Status st = VMap (member ''replicas'' (VInt (st_Replicas st)) @ list_member ''pods'' json_PodStatus (elems (st_Pods st)) @
     list_member ''hosts'' VString (elems (st_Hosts st)) @ member ''scalingdownPods'' (VInt (st_ScalingdownPods st)) @
     string_member ''selector'' (st_Selector st))"

text \<open>The embedded \<open>ProbeHandler\<close> is inlined.\<close>

definition json_ProbeSpec :: "K8s_json \<Rightarrow> ProbeSpec \<Rightarrow> GoValue" where
  "json_ProbeSpec J p = VMap (optional ''exec'' (kj_ExecAction J) (ph_Exec (pb_Handler p)) @
     optional ''httpGet'' (kj_HTTPGetAction J) (ph_HTTPGet (pb_Handler p)) @
     optional ''initialDelaySeconds'' VInt (pb_InitialDelaySeconds p) @ int_member ''timeoutSeconds'' (pb_TimeoutSeconds p) @
     int_member ''periodSeconds'' (pb_PeriodSeconds p) @ int_member ''successThreshold'' (pb_SuccessThreshold p) @
     int_member ''failureThreshold'' (pb_FailureThreshold p))"

definition json_StandaloneConfigMapSpec :: "StandaloneConfigMapSpec \<Rightarrow> GoValue" where
  "json_StandaloneConfigMapSpec c = VMap (member ''name'' (VString (scm_Name c)) @ string_member ''key'' (scm_Key c))"

definition json_StorageSpec :: "K8s_json \<Rightarrow> StorageSpec \<Rightarrow> GoValue" where
  "json_StorageSpec J s = VMap (optional ''emptyDir'' (kj_EmptyDir J) (sg_EmptyDir s) @
     member ''volumeClaimTemplate'' (kj_PersistentVolumeClaim J (sg_VolumeClaimTemplate s)))"

definition json_Spec :: "K8s_json \<Rightarrow> WildFlyServerSpec \<Rightarrow> GoValue" where
  "json_Spec J sp = VMap (member ''applicationImage'' (VString (sp_ApplicationImage sp)) @
     bool_member ''bootableJar'' (sp_BootableJar sp) @ member ''replicas'' (VInt (sp_Replicas sp)) @
     bool_member ''sessionAffinity'' (sp_SessionAffinity sp) @ bool_member ''disableHTTPRoute'' (sp_DisableHTTPRoute sp) @
     bool_member ''deactivateTransactionRecovery'' (sp_DeactivateTransactionRecovery sp) @
     optional ''standaloneConfigMap'' json_StandaloneConfigMapSpec (sp_StandaloneConfigMap sp) @
     optional ''storage'' (json_StorageSpec J) (sp_Storage sp) @
     string_member ''serviceAccountName'' (sp_ServiceAccountName sp) @
     list_member ''envFrom'' (kj_EnvFromSource J) (sp_EnvFrom sp) @ list_member ''env'' (kj_EnvVar J) (sp_Env sp) @
     list_member ''secrets'' VString (sp_Secrets sp) @ list_member ''configMaps'' VString (sp_ConfigMaps sp) @
     optional ''resources'' (kj_ResourceRequirements J) (sp_Resources sp) @
     optional ''securityContext'' (kj_SecurityContext J) (sp_SecurityContext sp) @
     optional ''livenessProbe'' (json_ProbeSpec J) (sp_LivenessProbe sp) @
     optional ''readinessProbe'' (json_ProbeSpec J) (sp_ReadinessProbe sp) @
     optional ''startupProbe'' (json_ProbeSpec J) (sp_StartupProbe sp))"

text \<open>The type metadata of Kubernetes are two inlined members.\<close>

definition json_Server :: "K8s_json \<Rightarrow> string \<Rightarrow> string \<Rightarrow> WildFlyServer \<Rightarrow> GoValue" where
  "json_Server J kind apiVersion w = VMap (string_member ''kind'' kind @ string_member ''apiVersion'' apiVersion @
     member ''metadata'' (kj_ObjectMeta J (wf_Meta w)) @ member ''spec'' (json_Spec J (wf_Spec w)) @
     member ''status'' (json_Status (wf_Status w)))"

end
