(* ===== verification/Schema_Conformance.thy ===== *)
theory Schema_Conformance
  imports Api_Schema "HOL-Library.Sublist"
begin

text \<open>
  What it means that a JSON document conforms to a schema, and that the schemas of the operator
  describe exactly the documents that its types give: \<open>conforms\<close> is the specification, the lemmas
  run it on the four shapes of schemas, one per type, up to the whole resource.
\<close>

section \<open>Conformance\<close>

fun value_conforms :: "string \<Rightarrow> string \<Rightarrow> GoValue \<Rightarrow> bool" where
  "value_conforms ty format (VString s) \<longleftrightarrow> ty = ''string''"
| "value_conforms ty format (VBool b) \<longleftrightarrow> ty = ''boolean''"
| "value_conforms ty format (VInt n) \<longleftrightarrow> ty = ''integer'' \<and> (format = ''int32'' \<longrightarrow> in_int32 n)"
| "value_conforms ty format v \<longleftrightarrow> False"

text \<open>
  A reference is looked up among the definitions, else left to \<open>ext\<close>, which says what conforms to
  the schemas of Kubernetes. In a list of type \<open>set\<close> no item occurs twice. An object has
  its required members, each member once, and no others than its properties.
\<close>

definition items_distinct :: "(string \<times> string) list \<Rightarrow> GoValue list \<Rightarrow> bool" where
  "items_distinct extensions vs \<longleftrightarrow>
     (map_of extensions ''x-kubernetes-list-type'' = Some ''set'' \<longrightarrow> distinct vs)"

inductive conforms :: "('r \<Rightarrow> 'r Schema option) \<Rightarrow> ('r \<Rightarrow> GoValue \<Rightarrow> bool) \<Rightarrow> 'r Schema \<Rightarrow> GoValue \<Rightarrow> bool"
  for defs ext where
  local_reference: "s_Ref s = Some r \<Longrightarrow> defs r = Some t \<Longrightarrow> conforms defs ext t v \<Longrightarrow> conforms defs ext s v"
| external_reference: "s_Ref s = Some r \<Longrightarrow> defs r = None \<Longrightarrow> ext r v \<Longrightarrow> conforms defs ext s v"
| primitive_value: "s_Ref s = None \<Longrightarrow> s_Type s = [ty] \<Longrightarrow> value_conforms ty (s_Format s) v \<Longrightarrow> conforms defs ext s v"
| array: "s_Ref s = None \<Longrightarrow> s_Type s = [''array''] \<Longrightarrow> s_Items s = Some item \<Longrightarrow> items_distinct (s_Extensions s) vs \<Longrightarrow>
    (\<And>x. x \<in> set vs \<Longrightarrow> conforms defs ext item x) \<Longrightarrow> conforms defs ext s (VArray vs)"
| object: "s_Ref s = None \<Longrightarrow> s_Type s = [''object''] \<Longrightarrow> set (s_Required s) \<subseteq> fst ` set m \<Longrightarrow> distinct (map fst m) \<Longrightarrow>
    (\<And>k x. (k, x) \<in> set m \<Longrightarrow> \<exists>t. map_of (s_Properties s) k = Some t \<and> conforms defs ext t x) \<Longrightarrow>
    conforms defs ext s (VMap m)"

inductive_simps conforms_shapes:
  "conforms defs ext (Schema d [ty] format def None [] [] None []) v"
  "conforms defs ext (Schema d [] format def (Some r) [] [] None []) v"
  "conforms defs ext (Schema d [''array''] format def None [] [] (Some item) x) (VArray vs)"
  "conforms defs ext (Schema d [''object''] format def None ps req None []) (VMap m)"

lemma no_structured_value [simp]:
  "\<not> value_conforms ''array'' format v" "\<not> value_conforms ''object'' format v"
  by (cases v; simp)+

lemma conforms_value [simp]:
  assumes "ty \<notin> {''array'', ''object''}"
  shows "conforms defs ext (value_schema d ty format def) v \<longleftrightarrow> value_conforms ty format v"
  using assms by (simp add: value_schema_def conforms_shapes)

lemma conforms_ref [simp]:
  "conforms defs ext (ref_schema d def r) v \<longleftrightarrow> (case defs r of None \<Rightarrow> ext r v | Some t \<Rightarrow> conforms defs ext t v)"
  by (cases "defs r") (simp_all add: ref_schema_def conforms_shapes)

lemma conforms_array [simp]:
  "conforms defs ext (array_schema d x item) (VArray vs) \<longleftrightarrow>
     items_distinct x vs \<and> (\<forall>v\<in>set vs. conforms defs ext item v)"
  by (simp add: array_schema_def conforms_shapes Ball_def)

text \<open>The members of an object, one by one.\<close>

definition members_conform ::
  "('r \<Rightarrow> 'r Schema option) \<Rightarrow> ('r \<Rightarrow> GoValue \<Rightarrow> bool) \<Rightarrow> (string \<times> 'r Schema) list \<Rightarrow> json \<Rightarrow> bool" where
  "members_conform defs ext ps m \<longleftrightarrow> (\<forall>(k, x)\<in>set m. \<exists>t. map_of ps k = Some t \<and> conforms defs ext t x)"

definition has_key :: "json \<Rightarrow> string \<Rightarrow> bool" where
  "has_key m k \<longleftrightarrow> k \<in> fst ` set m"

definition unique_keys :: "json \<Rightarrow> bool" where
  "unique_keys m \<longleftrightarrow> distinct (map fst m)"

lemma conforms_object [simp]:
  "conforms defs ext (object_schema d ps req) (VMap m) \<longleftrightarrow>
     list_all (has_key m) req \<and> unique_keys m \<and> members_conform defs ext ps m"
  by (simp add: object_schema_def conforms_shapes members_conform_def has_key_def unique_keys_def list_all_iff) blast

lemma has_key_simps [simp]:
  "has_key (m @ n) k \<longleftrightarrow> has_key m k \<or> has_key n k" "has_key (member k' v) k \<longleftrightarrow> k = k'"
  by (auto simp: has_key_def member_def)

lemma members_conform_append [simp]:
  "members_conform defs ext ps (m @ n) \<longleftrightarrow> members_conform defs ext ps m \<and> members_conform defs ext ps n"
  by (simp add: members_conform_def ball_Un)

lemma member_conforms [simp]:
  assumes "map_of ps k = Some t"
  shows "members_conform defs ext ps (member k v) \<longleftrightarrow> conforms defs ext t v"
    and "members_conform defs ext ps (omitempty k e v) \<longleftrightarrow> e \<or> conforms defs ext t v"
    and "members_conform defs ext ps (optional k enc p) \<longleftrightarrow> (\<forall>x. p = Some x \<longrightarrow> conforms defs ext t (enc x))"
  using assms by (auto simp: members_conform_def member_def omitempty_def optional_def split: option.splits)

text \<open>The keys of an encoding are among the fields of its struct, in their order.\<close>

lemma keys_subseq:
  "subseq (map fst m) ks \<Longrightarrow> subseq (map fst n) ls \<Longrightarrow> subseq (map fst (m @ n)) (ks @ ls)"
  "subseq (map fst (member k v)) [k]" "subseq (map fst (omitempty k e v)) [k]" "subseq (map fst (optional k enc p)) [k]"
  by (auto simp: member_def omitempty_def optional_def intro: list_emb_append_mono split: option.splits)

lemma unique_keysI: "subseq (map fst m) ks \<Longrightarrow> distinct ks \<Longrightarrow> unique_keys m"
  unfolding unique_keys_def by (induction rule: list_emb.induct) (auto dest: list_emb_set)

section \<open>The documents of the operator's types\<close>

text \<open>The definitions under their names, and the contract on the encodings of Kubernetes.\<close>

definition operator_schemas :: "string \<Rightarrow> string Schema option" where
  "operator_schemas r = map_option od_Schema (map_of (GetOpenAPIDefinitions (\<lambda>r. r)) r)"

definition library_encodes :: "K8s_json \<Rightarrow> (string \<Rightarrow> GoValue \<Rightarrow> bool) \<Rightarrow> bool" where
  "library_encodes J ext \<longleftrightarrow>
     (\<forall>x. ext ''k8s.io/apimachinery/pkg/apis/meta/v1.ObjectMeta'' (kj_ObjectMeta J x)) \<and>
     (\<forall>x. ext ''k8s.io/api/core/v1.ExecAction'' (kj_ExecAction J x)) \<and>
     (\<forall>x. ext ''k8s.io/api/core/v1.HTTPGetAction'' (kj_HTTPGetAction J x)) \<and>
     (\<forall>x. ext ''k8s.io/api/core/v1.EmptyDirVolumeSource'' (kj_EmptyDir J x)) \<and>
     (\<forall>x. ext ''k8s.io/api/core/v1.PersistentVolumeClaim'' (kj_PersistentVolumeClaim J x)) \<and>
     (\<forall>x. ext ''k8s.io/api/core/v1.EnvFromSource'' (kj_EnvFromSource J x)) \<and>
     (\<forall>x. ext ''k8s.io/api/core/v1.EnvVar'' (kj_EnvVar J x)) \<and>
     (\<forall>x. ext ''k8s.io/api/core/v1.ResourceRequirements'' (kj_ResourceRequirements J x)) \<and>
     (\<forall>x. ext ''k8s.io/api/core/v1.SecurityContext'' (kj_SecurityContext J x))"

text \<open>What the schemas can say of the values: 32-bit integers, and sets without repetition.\<close>

definition valid_probe :: "ProbeSpec \<Rightarrow> bool" where
  "valid_probe p \<longleftrightarrow> (\<forall>n. pb_InitialDelaySeconds p = Some n \<longrightarrow> in_int32 n) \<and> in_int32 (pb_TimeoutSeconds p) \<and>
     in_int32 (pb_PeriodSeconds p) \<and> in_int32 (pb_SuccessThreshold p) \<and> in_int32 (pb_FailureThreshold p)"

definition valid_spec :: "WildFlyServerSpec \<Rightarrow> bool" where
  "valid_spec sp \<longleftrightarrow> in_int32 (sp_Replicas sp) \<and> distinct (sp_Secrets sp) \<and> distinct (sp_ConfigMaps sp) \<and>
     (\<forall>p. sp_LivenessProbe sp = Some p \<longrightarrow> valid_probe p) \<and> (\<forall>p. sp_ReadinessProbe sp = Some p \<longrightarrow> valid_probe p) \<and>
     (\<forall>p. sp_StartupProbe sp = Some p \<longrightarrow> valid_probe p)"

definition valid_status :: "WildFlyServerStatus \<Rightarrow> bool" where
  "valid_status st \<longleftrightarrow> in_int32 (st_Replicas st) \<and> in_int32 (st_ScalingdownPods st) \<and>
     (\<forall>p\<in>set (elems (st_Pods st)). in_int32 (ps_RecoveryCounter p)) \<and> distinct (elems (st_Hosts st))"

lemma in_int32_zero [simp]: "in_int32 0"
  by (simp add: in_int32_def)

lemma zero_or_int32 [simp]: "n = 0 \<or> in_int32 n \<longleftrightarrow> in_int32 n"
  by auto

lemma nil_or_distinct [simp]: "xs = [] \<or> distinct xs \<longleftrightarrow> distinct xs"
  by auto

lemmas members = string_member_def bool_member_def int_member_def list_member_def

text \<open>
  The schemas hold long texts, so simplification is kept out of them: a schema is looked up and
  matched, never rewritten.
\<close>

lemma key_lookup: "map_of ((k, t) # ps) k' = (if k = k' then Some t else map_of ps k')"
  by simp

lemma schema_congs:
  "k = k' \<Longrightarrow> map_of ps k = map_of ps k'"
  "v = v' \<Longrightarrow> conforms defs ext s v = conforms defs ext s v'"
  "m = m' \<Longrightarrow> members_conform defs ext ps m = members_conform defs ext ps m'"
  by simp_all

lemma conforms_PodStatus [simp]:
  "conforms operator_schemas ext (od_Schema (schema_PodStatus (\<lambda>r. r))) (json_PodStatus p) \<longleftrightarrow> in_int32 (ps_RecoveryCounter p)"
proof -
  have "unique_keys (member ''name'' (VString (ps_Name p)) @ member ''podIP'' (VString (ps_PodIP p)) @
     member ''state'' (VString (state_text (ps_State p))) @ int_member ''recoveryCounter'' (ps_RecoveryCounter p))"
    unfolding members by (rule unique_keysI, (rule keys_subseq)+) simp
  then show ?thesis
    unfolding schema_PodStatus_def json_PodStatus_def members OpenAPIDefinition.select_convs conforms_object
    by (simp add: key_lookup del: map_of.simps cong: schema_congs)
qed

lemma operator_schemas_local [simp]:
  "operator_schemas ''./api/v1alpha1.PodStatus'' = Some (od_Schema (schema_PodStatus (\<lambda>r. r)))"
  "operator_schemas ''./api/v1alpha1.ProbeSpec'' = Some (od_Schema (schema_ProbeSpec (\<lambda>r. r)))"
  "operator_schemas ''./api/v1alpha1.StandaloneConfigMapSpec'' = Some (od_Schema (schema_StandaloneConfigMapSpec (\<lambda>r. r)))"
  "operator_schemas ''./api/v1alpha1.StorageSpec'' = Some (od_Schema (schema_StorageSpec (\<lambda>r. r)))"
  "operator_schemas ''./api/v1alpha1.WildFlyServer'' = Some (od_Schema (schema_WildFlyServer (\<lambda>r. r)))"
  "operator_schemas ''./api/v1alpha1.WildFlyServerSpec'' = Some (od_Schema (schema_WildFlyServerSpec (\<lambda>r. r)))"
  "operator_schemas ''./api/v1alpha1.WildFlyServerStatus'' = Some (od_Schema (schema_WildFlyServerStatus (\<lambda>r. r)))"
  by (simp_all add: operator_schemas_def GetOpenAPIDefinitions_def)

lemma operator_schemas_external [simp]:
  "operator_schemas ''k8s.io/apimachinery/pkg/apis/meta/v1.ObjectMeta'' = None"
  "operator_schemas ''k8s.io/api/core/v1.ExecAction'' = None"
  "operator_schemas ''k8s.io/api/core/v1.HTTPGetAction'' = None"
  "operator_schemas ''k8s.io/api/core/v1.EmptyDirVolumeSource'' = None"
  "operator_schemas ''k8s.io/api/core/v1.PersistentVolumeClaim'' = None"
  "operator_schemas ''k8s.io/api/core/v1.EnvFromSource'' = None"
  "operator_schemas ''k8s.io/api/core/v1.EnvVar'' = None"
  "operator_schemas ''k8s.io/api/core/v1.ResourceRequirements'' = None"
  "operator_schemas ''k8s.io/api/core/v1.SecurityContext'' = None"
  by (simp_all add: operator_schemas_def GetOpenAPIDefinitions_def)

lemma distinct_strings [simp]: "distinct (map VString xs) \<longleftrightarrow> distinct xs"
  by (simp add: distinct_map inj_on_def)

lemma conforms_ProbeSpec [simp]:
  assumes "library_encodes J ext"
  shows "conforms operator_schemas ext (od_Schema (schema_ProbeSpec (\<lambda>r. r))) (json_ProbeSpec J p) \<longleftrightarrow> valid_probe p"
proof -
  have "\<exists>m. json_ProbeSpec J p = VMap m \<and> unique_keys m"
    unfolding json_ProbeSpec_def members by (rule exI, rule conjI, rule refl, rule unique_keysI, (rule keys_subseq)+) simp
  then show ?thesis using assms
    unfolding schema_ProbeSpec_def json_ProbeSpec_def members OpenAPIDefinition.select_convs conforms_object
    by (simp add: key_lookup valid_probe_def library_encodes_def del: map_of.simps cong: schema_congs)
qed

lemma conforms_StandaloneConfigMapSpec [simp]:
  "conforms operator_schemas ext (od_Schema (schema_StandaloneConfigMapSpec (\<lambda>r. r))) (json_StandaloneConfigMapSpec c)"
proof -
  have "\<exists>m. json_StandaloneConfigMapSpec c = VMap m \<and> unique_keys m"
    unfolding json_StandaloneConfigMapSpec_def members by (rule exI, rule conjI, rule refl, rule unique_keysI, (rule keys_subseq)+) simp
  then show ?thesis
    unfolding schema_StandaloneConfigMapSpec_def json_StandaloneConfigMapSpec_def members OpenAPIDefinition.select_convs conforms_object
    by (simp add: key_lookup del: map_of.simps cong: schema_congs)
qed

lemma conforms_StorageSpec [simp]:
  assumes "library_encodes J ext"
  shows "conforms operator_schemas ext (od_Schema (schema_StorageSpec (\<lambda>r. r))) (json_StorageSpec J s)"
proof -
  have "\<exists>m. json_StorageSpec J s = VMap m \<and> unique_keys m"
    unfolding json_StorageSpec_def members by (rule exI, rule conjI, rule refl, rule unique_keysI, (rule keys_subseq)+) simp
  then show ?thesis using assms
    unfolding schema_StorageSpec_def json_StorageSpec_def members OpenAPIDefinition.select_convs conforms_object
    by (simp add: key_lookup library_encodes_def del: map_of.simps cong: schema_congs)
qed

lemma conforms_Status [simp]:
  "conforms operator_schemas ext (od_Schema (schema_WildFlyServerStatus (\<lambda>r. r))) (json_Status st) \<longleftrightarrow> valid_status st"
proof -
  have "\<exists>m. json_Status st = VMap m \<and> unique_keys m"
    unfolding json_Status_def members by (rule exI, rule conjI, rule refl, rule unique_keysI, (rule keys_subseq)+) simp
  then show ?thesis
    unfolding schema_WildFlyServerStatus_def json_Status_def members OpenAPIDefinition.select_convs conforms_object
    by (auto simp: key_lookup valid_status_def items_distinct_def simp del: map_of.simps cong: schema_congs)
qed

lemma conforms_Spec [simp]:
  assumes "library_encodes J ext"
  shows "conforms operator_schemas ext (od_Schema (schema_WildFlyServerSpec (\<lambda>r. r))) (json_Spec J sp) \<longleftrightarrow> valid_spec sp"
proof -
  have "\<exists>m. json_Spec J sp = VMap m \<and> unique_keys m"
    unfolding json_Spec_def members by (rule exI, rule conjI, rule refl, rule unique_keysI, (rule keys_subseq)+) simp
  then show ?thesis using assms
    unfolding schema_WildFlyServerSpec_def json_Spec_def members OpenAPIDefinition.select_convs conforms_object
    by (simp add: key_lookup valid_spec_def items_distinct_def library_encodes_def del: map_of.simps cong: schema_congs)
qed

lemma conforms_Server:
  assumes "library_encodes J ext"
  shows "conforms operator_schemas ext (od_Schema (schema_WildFlyServer (\<lambda>r. r))) (json_Server J kind apiVersion w) \<longleftrightarrow>
     valid_spec (wf_Spec w) \<and> valid_status (wf_Status w)"
proof -
  have "\<exists>m. json_Server J kind apiVersion w = VMap m \<and> unique_keys m"
    unfolding json_Server_def members by (rule exI, rule conjI, rule refl, rule unique_keysI, (rule keys_subseq)+) simp
  then show ?thesis using assms
    unfolding schema_WildFlyServer_def json_Server_def members OpenAPIDefinition.select_convs conforms_object
    by (simp add: key_lookup library_encodes_def[of J ext] del: map_of.simps cong: schema_congs)
qed

text \<open>The references a schema makes, itself or in a part.\<close>

primrec refs_of :: "'r Schema \<Rightarrow> 'r list" where
  "refs_of (Schema d ty format def r ps req item x) =
     (case r of None \<Rightarrow> [] | Some q \<Rightarrow> [q]) @ concat (map snd (map (map_prod (\<lambda>k. k) refs_of) ps)) @
     (case map_option refs_of item of None \<Rightarrow> [] | Some qs \<Rightarrow> qs)"

lemma refs_of_shapes:
  "refs_of (value_schema d ty format def) = []"
  "refs_of (ref_schema d def r) = [r]"
  "refs_of (array_schema d x item) = refs_of item"
  "refs_of (object_schema d ps req) = concat (map (\<lambda>p. refs_of (snd p)) ps)"
  by (simp_all add: value_schema_def ref_schema_def array_schema_def object_schema_def comp_def)

lemma dependencies_complete:
  "(n, d) \<in> set (GetOpenAPIDefinitions (\<lambda>r. r)) \<Longrightarrow> set (refs_of (od_Schema d)) = set (od_Dependencies d)"
  unfolding GetOpenAPIDefinitions_def list.set insert_iff empty_iff prod.inject
  by (elim disjE conjE FalseE; hypsubst; simp add: insert_commute refs_of_shapes schema_PodStatus_def schema_ProbeSpec_def schema_StandaloneConfigMapSpec_def
      schema_StorageSpec_def schema_WildFlyServer_def schema_WildFlyServerSpec_def schema_WildFlyServerStatus_def)

text \<open>
  C39: The published schema describes the resource exactly. If the encodings of Kubernetes conform
  to the schemas of Kubernetes, then the JSON document of a WildFlyServer conforms to the
  generated schema if and only if all its integers are 32-bit values and the lists of secrets, of
  config maps and of hosts, which are declared as sets, have no repetition; nothing is
  required that the encoding omits, and it has no member without a property. And each
  definition declares as dependencies exactly the references it makes.
\<close>

theorem server_documents:
  assumes "library_encodes J ext"
  shows "(conforms operator_schemas ext (od_Schema (schema_WildFlyServer (\<lambda>r. r))) (json_Server J kind apiVersion w) \<longleftrightarrow>
      valid_spec (wf_Spec w) \<and> valid_status (wf_Status w)) \<and>
    (\<forall>n d. (n, d) \<in> set (GetOpenAPIDefinitions (\<lambda>r. r)) \<longrightarrow> set (refs_of (od_Schema d)) = set (od_Dependencies d))"
  using conforms_Server[OF assms] dependencies_complete by blast

text \<open>An instance in which the Kubernetes structs are empty objects.\<close>

definition empty_json :: K8s_json where
  "empty_json = \<lparr>kj_ObjectMeta = (\<lambda>_. VMap []), kj_ExecAction = (\<lambda>_. VMap []), kj_HTTPGetAction = (\<lambda>_. VMap []),
     kj_EmptyDir = (\<lambda>_. VMap []), kj_PersistentVolumeClaim = (\<lambda>_. VMap []), kj_EnvFromSource = (\<lambda>_. VMap []),
     kj_EnvVar = (\<lambda>_. VMap []), kj_ResourceRequirements = (\<lambda>_. VMap []), kj_SecurityContext = (\<lambda>_. VMap [])\<rparr>"

lemma empty_json_encodes: "library_encodes empty_json (\<lambda>r v. v = VMap [])"
  by (simp add: library_encodes_def empty_json_def)

theorem server_documents_witness:
  "conforms operator_schemas (\<lambda>r v. v = VMap []) (od_Schema (schema_WildFlyServer (\<lambda>r. r)))
     (json_Server empty_json ''WildFlyServer'' ''wildfly.org/v1alpha1'' sample_server) \<and>
   \<not> conforms operator_schemas (\<lambda>r v. v = VMap []) (od_Schema (schema_WildFlyServer (\<lambda>r. r)))
     (json_Server empty_json ''WildFlyServer'' ''wildfly.org/v1alpha1''
        (sample_server\<lparr>wf_Status := sample_status\<lparr>st_Hosts := Some [''a.example'', ''a.example'']\<rparr>\<rparr>))"
proof -
  have "valid_spec sample_spec" and "valid_status sample_status"
    by (simp_all add: valid_spec_def valid_status_def sample_spec_def sample_status_def in_int32_def)
  moreover have "\<not> valid_status (sample_status\<lparr>st_Hosts := Some [''a.example'', ''a.example'']\<rparr>)"
    by (simp add: valid_status_def)
  ultimately show ?thesis
    using server_documents[OF empty_json_encodes] by (simp add: sample_server_def)
qed

end
