(* ===== verification/Recovery_Interleaving.thy ===== *)
theory Recovery_Interleaving
  imports Recovery_Safety "HOL-Library.Multiset"
begin

text \<open>
  The goroutines of \<open>processTransactionRecoveryScaleDown\<close>, step by step and in any interleaving. What a
  goroutine gets from its server and the cluster is its record of answers; its steps are its accesses to
  the shared variables: the status entries, the map of errors, the flag, and \<open>mustReconcile\<close>, which is
  compared and assigned without synchronisation. The other theories run the goroutines one after the
  other (\<open>recoverPods\<close>); here it is shown what that is worth.
\<close>

section \<open>Goroutines\<close>

text \<open>The entry of the pod, its name, the results of \<open>setupRecoveryPropertiesAndRestart\<close> and of the two checks.\<close>

record goroutine =
  go_entry :: nat
  go_name :: string
  go_needs :: int
  go_setupErr :: "error option"
  go_checked :: "error + checkResult"

text \<open>
  Where a goroutine is: before it reads its state; after the setup, before the comparison with
  \<open>mustReconcile\<close>; before the assignment; after both; at the end.
\<close>

datatype go_pc = Ready | SetUp | Raising | Raised | Finished

fun entry_after :: "checkResult \<Rightarrow> PodStatus \<Rightarrow> PodStatus option" where
  "entry_after clean v = (if ps_State v \<noteq> PodStateScalingDownClean then Some (with_state PodStateScalingDownClean v) else None)"
| "entry_after recovery v = Some (v\<lparr>ps_State := PodStateScalingDownRecoveryProcessing,
     ps_RecoveryCounter := wrap32 (ps_RecoveryCounter v + 1)\<rparr>)"
| "entry_after heuristic v =
     (if ps_State v \<noteq> PodStateScalingDownRecoveryHeuristic then Some (with_state PodStateScalingDownRecoveryHeuristic v) else None)"
| "entry_after genericError v = None"

definition go_finish :: "goroutine \<Rightarrow> RecoveryState \<Rightarrow> RecoveryState" where
  "go_finish g s =
     (case go_setupErr g of
        Some e \<Rightarrow> store_error (go_name g) e s
      | None \<Rightarrow>
          if go_needs g \<noteq> requeueOff then s else
          (case go_checked g of
             Inl e \<Rightarrow> store_error (go_name g) e s
           | Inr outcome \<Rightarrow>
               (case entry_after outcome (rs_Pods s ! go_entry g) of
                  None \<Rightarrow> s
                | Some v \<Rightarrow> set_entry (go_entry g) (\<lambda>_. v) s)))"

fun go_next :: "goroutine \<Rightarrow> go_pc \<Rightarrow> RecoveryState \<Rightarrow> (go_pc \<times> RecoveryState) option" where
  "go_next g Ready s = Some (if ps_State (rs_Pods s ! go_entry g) \<noteq> PodStateScalingDownClean then SetUp else Finished, s)"
| "go_next g SetUp s = Some (if go_needs g > rs_mustReconcile s then Raising else Raised, s)"
| "go_next g Raising s = Some (Raised, s\<lparr>rs_mustReconcile := go_needs g\<rparr>)"
| "go_next g Raised s = Some (Finished, go_finish g s)"
| "go_next g Finished s = None"

text \<open>Any goroutine that is not at its end may take the next step.\<close>

inductive go_step :: "goroutine list \<Rightarrow> go_pc list \<times> RecoveryState \<Rightarrow> go_pc list \<times> RecoveryState \<Rightarrow> bool" for gs where
  "i < length gs \<Longrightarrow> go_next (gs ! i) (pcs ! i) s = Some (pc, s') \<Longrightarrow> go_step gs (pcs, s) (pcs[i := pc], s')"

inductive_cases go_stepE: "go_step gs c c'"

text \<open>A goroutine that runs alone.\<close>

definition go_run :: "goroutine \<Rightarrow> RecoveryState \<Rightarrow> RecoveryState" where
  "go_run g s = (if ps_State (rs_Pods s ! go_entry g) = PodStateScalingDownClean then s
     else go_finish g (raise_requeue (go_needs g) s))"

section \<open>The sequential run is a run of goroutines\<close>

text \<open>The goroutine for a pod, with the answers left open.\<close>

definition goroutine_for :: "RecoveryState \<Rightarrow> Pod \<Rightarrow> goroutine \<Rightarrow> bool" where
  "goroutine_for s pod g \<longleftrightarrow> podStatusIndex (pod_Name pod) (rs_Pods s) = Some (go_entry g) \<and>
     go_name g = pod_Name pod \<and> go_needs g \<in> {requeueOff, requeueLater, requeueNow}"

lemma recordOutcome_effect:
  "does (recordOutcome i name outcome s) (\<lambda>s' evs. list_all echoes evs \<and>
     s' = (case entry_after outcome (rs_Pods s ! i) of None \<Rightarrow> s | Some v \<Rightarrow> set_entry i (\<lambda>_. v) s))"
proof -
  have "set_entry i f s = set_entry i (\<lambda>_. f (rs_Pods s ! i)) s" for f
    by (cases "st_Pods (wf_Status (rs_Server s))") (simp_all add: set_entry_def update_entry_def)
  then show ?thesis unfolding recordOutcome_def Let_def
    by (intro does_rules) (auto split: if_splits)
qed

lemma checkRecoveryTwice_name:
  "does (checkRecoveryTwice K pod w) (\<lambda>r evs. list_all echoes evs \<longrightarrow> pod_Name (snd r) = pod_Name pod)"
  unfolding checkRecoveryTwice_def
  by (intro does_rules does_mono[OF checkRecovery_checked]) (auto simp: checked_def)

declare does_checkRecoveryTwice [does_rules del]

lemma recoverPod_goroutine:
  "does (recoverPod K pod s) (\<lambda>r evs. list_all echoes evs \<longrightarrow> (\<forall>t. r = Ret t \<longrightarrow>
     (\<exists>g. goroutine_for s pod g \<and> t = go_run g s)))"
proof (cases "podStatusIndex (pod_Name pod) (rs_Pods s)")
  case None
  then show ?thesis by (simp add: recoverPod_def getWildflyServerPodStatusByName_def does_return)
next
  case (Some i)
  let ?g = "\<lambda>n e c. \<lparr>go_entry = i, go_name = pod_Name pod, go_needs = n, go_setupErr = e, go_checked = c\<rparr>"
  have g: "n \<in> {requeueOff, requeueLater, requeueNow} \<Longrightarrow> t = go_run (?g n e c) s \<Longrightarrow>
      \<exists>g. goroutine_for s pod g \<and> t = go_run g s" for n e c t
    using Some by (intro exI[of _ "?g n e c"]) (simp add: goroutine_for_def)
  show ?thesis
  proof (cases "ps_State (rs_Pods s ! i) = PodStateScalingDownClean")
    case True
    show ?thesis
      unfolding recoverPod_def getWildflyServerPodStatusByName_def Some option.case if_P[OF True]
      by (intro does_rules impI allI, rule g[where n = requeueOff and e = None and c = "Inr clean"])
         (simp_all add: go_run_def True)
  next
    case False
    let ?is_run = "\<lambda>t. \<exists>g. goroutine_for s pod g \<and> t = go_run g s"
    have unready: "?is_run (store_error (pod_Name pod) e (raise_requeue n s))"
      if "n \<in> {requeueOff, requeueLater, requeueNow}" for n e
      by (rule g[OF that, of _ "Some e" "Inr clean"]) (simp add: go_run_def go_finish_def False)
    have waits: "?is_run (raise_requeue n s)" if "n \<in> {requeueOff, requeueLater, requeueNow}" "n \<noteq> requeueOff" for n
      by (rule g[OF that(1), of _ None "Inr clean"]) (simp add: go_run_def go_finish_def False that)
    have failed: "?is_run (store_error (pod_Name pod) e (raise_requeue requeueOff s))" for e
      by (rule unready) simp
    have recorded: "?is_run (case entry_after outcome (rs_Pods (raise_requeue requeueOff s) ! i) of
        None \<Rightarrow> raise_requeue requeueOff s | Some v \<Rightarrow> set_entry i (\<lambda>_. v) (raise_requeue requeueOff s))" for outcome
      by (rule g[of requeueOff _ None "Inr outcome"]) (simp_all add: go_run_def go_finish_def False split: option.split)
    show ?thesis
      unfolding recoverPod_def getWildflyServerPodStatusByName_def Some Let_def option.case if_not_P[OF False]
      by (intro does_rules does_mono[OF recordOutcome_effect] does_mono[OF checkRecoveryTwice_name])
         (auto simp: unready[simplified] waits[simplified] failed recorded[simplified])
  qed
qed

text \<open>What can be seen of the shared variables when all are through, \<open>mustReconcile\<close> aside.\<close>

type_synonym shared = "WildFlyServer \<times> bool \<times> (string \<rightharpoonup> error)"

definition shared :: "RecoveryState \<Rightarrow> shared" where
  "shared s = (rs_Server s, rs_needsUpdating s, map_of (rs_errors s))"

abbreviation pods_of :: "shared \<Rightarrow> PodStatus list" where
  "pods_of x \<equiv> wf_Pods (fst x)"

definition effect :: "goroutine \<Rightarrow> shared \<Rightarrow> shared" where
  "effect g x = (case x of (w, u, errs) \<Rightarrow>
     if ps_State (wf_Pods w ! go_entry g) = PodStateScalingDownClean then (w, u, errs) else
     (case go_setupErr g of
        Some e \<Rightarrow> (w, u, errs(go_name g \<mapsto> e))
      | None \<Rightarrow>
          if go_needs g \<noteq> requeueOff then (w, u, errs) else
          (case go_checked g of
             Inl e \<Rightarrow> (w, u, errs(go_name g \<mapsto> e))
           | Inr outcome \<Rightarrow>
               (case entry_after outcome (wf_Pods w ! go_entry g) of
                  None \<Rightarrow> (w, u, errs)
                | Some v \<Rightarrow> (update_entry (go_entry g) (\<lambda>_. v) w, True, errs)))))"

lemma shared_finish:
  "ps_State (rs_Pods s ! go_entry g) \<noteq> PodStateScalingDownClean \<Longrightarrow> shared (go_finish g s) = effect g (shared s)"
  by (auto simp: shared_def effect_def go_finish_def store_error_def set_entry_def update_conv split: option.split sum.split)

lemma shared_raise [simp]: "shared (raise_requeue n s) = shared s" "shared (s\<lparr>rs_mustReconcile := n\<rparr>) = shared s"
  by (simp_all add: shared_def raise_requeue_def)

lemma shared_run: "shared (go_run g s) = effect g (shared s)"
proof (cases "ps_State (rs_Pods s ! go_entry g) = PodStateScalingDownClean")
  case True
  then show ?thesis by (simp add: go_run_def effect_def shared_def)
next
  case False
  then show ?thesis using shared_finish[of "raise_requeue (go_needs g) s" g] by (simp add: go_run_def)
qed

text \<open>An effect is on the own entry only, and keeps the names.\<close>

lemma pods_effect:
  "pods_of (effect g x) ! i = (if i = go_entry g then pods_of (effect g x) ! i else pods_of x ! i)"
  "length (pods_of (effect g x)) = length (pods_of x)"
  by (auto simp: effect_def split: prod.split option.split sum.split)

lemma entry_after_name: "entry_after outcome v = Some v' \<Longrightarrow> ps_Name v' = ps_Name v"
  by (cases outcome) (auto simp: with_state_def split: if_splits)

lemma effect_names: "map ps_Name (pods_of (effect g x)) = map ps_Name (pods_of x)"
proof -
  have "map ps_Name (vs[i := v]) = map ps_Name vs" if "entry_after outcome (vs ! i) = Some v" for vs i v outcome
    using entry_after_name[OF that] by (cases "i < length vs") (simp_all add: map_update list_update_same_conv list_update_beyond)
  then show ?thesis by (auto simp: effect_def split: prod.split option.split sum.split)
qed

lemma podStatusIndex_names: "map ps_Name vs = map ps_Name vs' \<Longrightarrow> podStatusIndex n vs = podStatusIndex n vs'"
proof (induction vs arbitrary: vs')
  case (Cons v vs)
  then show ?case by (cases vs') auto
qed simp

lemma goroutine_for_run: "goroutine_for (go_run g s) pod h \<longleftrightarrow> goroutine_for s pod h"
proof -
  have "pods_of (shared (go_run g s)) = pods_of (effect g (shared s))" by (simp add: shared_run)
  then have "map ps_Name (rs_Pods (go_run g s)) = map ps_Name (rs_Pods s)"
    using effect_names[of g "shared s"] by (simp add: shared_def)
  then show ?thesis unfolding goroutine_for_def by (simp add: podStatusIndex_names[of "rs_Pods (go_run g s)" "rs_Pods s"])
qed

lemma recoverPods_goroutines:
  "does (recoverPods K pods s) (\<lambda>r evs. list_all echoes evs \<longrightarrow> (\<forall>t. r = Ret t \<longrightarrow>
     (\<exists>gs. list_all2 (goroutine_for s) pods gs \<and> t = fold go_run gs s)))"
proof (induction pods arbitrary: s)
  case Nil
  show ?case by (simp add: does_return)
next
  case (Cons pod pods)
  show ?case
    unfolding recoverPods.simps
  proof (rule does_bindI, rule does_mono[OF recoverPod_goroutine], rule does_case_outcome, goal_cases)
    case (1 r evs s')
    then show ?case
      by (intro does_mono[OF Cons.IH]) (fastforce simp: goroutine_for_run intro: exI[of _ "g # gs" for g gs])
  qed (simp add: does_return)
qed

section \<open>Interleavings\<close>

abbreviation active :: "RecoveryState \<Rightarrow> goroutine \<Rightarrow> bool" where
  "active s g \<equiv> ps_State (rs_Pods s ! go_entry g) \<noteq> PodStateScalingDownClean"

definition separate :: "goroutine list \<Rightarrow> bool" where
  "separate gs \<longleftrightarrow> distinct (map go_entry gs) \<and> distinct (map go_name gs)"

lemma effect_commute:
  assumes "go_entry g \<noteq> go_entry h" and "go_name g \<noteq> go_name h"
  shows "effect g (effect h x) = effect h (effect g x)"
proof -
  have "update_entry i f (update_entry j k w) = update_entry j k (update_entry i f w)" if "i \<noteq> j" for i j f k w
    using that by (cases "st_Pods (wf_Status w)") (simp_all add: update_entry_def list_update_swap)
  moreover have "m(a \<mapsto> v, b \<mapsto> v') = m(b \<mapsto> v', a \<mapsto> v)" if "a \<noteq> b" for m :: "string \<rightharpoonup> error" and a b v v'
    using that by (rule fun_upd_twist)
  ultimately show ?thesis
    using assms by (cases x) (auto simp: effect_def split: option.splits sum.splits)
qed

lemma separate_commute: "separate gs \<Longrightarrow> g \<in> set gs \<Longrightarrow> h \<in> set gs \<Longrightarrow> effect g \<circ> effect h = effect h \<circ> effect g"
  by (cases "g = h") (auto simp: separate_def distinct_map fun_eq_iff inj_on_def intro!: effect_commute)

text \<open>The sequential run.\<close>

lemma shared_fold_run: "shared (fold go_run gs s) = fold effect gs (shared s)"
  by (induction gs arbitrary: s) (simp_all add: shared_run)

lemma must_finish [simp]: "rs_mustReconcile (go_finish g s) = rs_mustReconcile s"
  by (auto simp: go_finish_def store_error_def set_entry_def split: option.split sum.split)

lemma must_run: "rs_mustReconcile (go_run g s) = (if active s g then max (rs_mustReconcile s) (go_needs g) else rs_mustReconcile s)"
  by (simp add: go_run_def raise_requeue_def max_def)

lemma active_run: "go_entry h \<noteq> go_entry g \<Longrightarrow> active (go_run g s) h \<longleftrightarrow> active s h"
proof -
  assume "go_entry h \<noteq> go_entry g"
  then have "pods_of (shared (go_run g s)) ! go_entry h = pods_of (shared s) ! go_entry h"
    unfolding shared_run using pods_effect(1)[of g "shared s" "go_entry h"] by simp
  then show ?thesis by (simp add: shared_def)
qed

lemma must_fold_run:
  assumes "distinct (map go_entry gs)"
  shows "rs_mustReconcile s \<le> rs_mustReconcile (fold go_run gs s) \<and>
    (\<forall>g\<in>set gs. active s g \<longrightarrow> go_needs g \<le> rs_mustReconcile (fold go_run gs s)) \<and>
    rs_mustReconcile (fold go_run gs s) \<in> insert (rs_mustReconcile s) (go_needs ` {g \<in> set gs. active s g})"
  using assms
proof (induction gs arbitrary: s)
  case (Cons g gs)
  have act: "active (go_run g s) h \<longleftrightarrow> active s h" if "h \<in> set gs" for h
    using Cons.prems that by (intro active_run) (auto simp: image_iff)
  have "{h \<in> set gs. active (go_run g s) h} = {h \<in> set gs. active s h}" using act by blast
  with Cons.IH[of "go_run g s"] Cons.prems act show ?case
    by (auto simp: must_run max_def split: if_splits)
qed simp

section \<open>The invariant of the interleavings\<close>

definition finished :: "goroutine list \<Rightarrow> go_pc list \<Rightarrow> nat set" where
  "finished gs pcs = {i. i < length gs \<and> pcs ! i = Finished}"

text \<open>The shared variables show the effects of the finished goroutines, in some order.\<close>

definition effects_done :: "goroutine list \<Rightarrow> RecoveryState \<Rightarrow> go_pc list \<Rightarrow> RecoveryState \<Rightarrow> bool" where
  "effects_done gs s0 pcs s \<longleftrightarrow>
     (\<exists>os. mset os = image_mset ((!) gs) (mset_set (finished gs pcs)) \<and> shared s = fold effect os (shared s0))"

text \<open>A goroutine that is not finished has its own entry as it was.\<close>

definition entry_untouched :: "goroutine list \<Rightarrow> RecoveryState \<Rightarrow> go_pc list \<Rightarrow> RecoveryState \<Rightarrow> bool" where
  "entry_untouched gs s0 pcs s \<longleftrightarrow> (\<forall>i<length gs. pcs ! i \<noteq> Finished \<longrightarrow>
     rs_Pods s ! go_entry (gs ! i) = rs_Pods s0 ! go_entry (gs ! i) \<and> (pcs ! i = Ready \<or> active s0 (gs ! i)))"

text \<open>A raise may be overwritten by a smaller one, but not by none.\<close>

definition raises :: "goroutine list \<Rightarrow> RecoveryState \<Rightarrow> go_pc list \<Rightarrow> RecoveryState \<Rightarrow> bool" where
  "raises gs s0 pcs s \<longleftrightarrow>
     rs_mustReconcile s \<in> insert (rs_mustReconcile s0) (go_needs ` {g \<in> set gs. active s0 g}) \<and>
     rs_mustReconcile s0 \<le> rs_mustReconcile s \<and>
     (\<forall>i<length gs. (pcs ! i = Raising \<longrightarrow> rs_mustReconcile s0 < go_needs (gs ! i)) \<and>
        (pcs ! i \<in> {Raised, Finished} \<and> active s0 (gs ! i) \<and> rs_mustReconcile s0 < go_needs (gs ! i) \<longrightarrow>
           rs_mustReconcile s0 < rs_mustReconcile s))"

definition interleaved :: "goroutine list \<Rightarrow> RecoveryState \<Rightarrow> go_pc list \<times> RecoveryState \<Rightarrow> bool" where
  "interleaved gs s0 c \<longleftrightarrow> (case c of (pcs, s) \<Rightarrow> length pcs = length gs \<and>
     effects_done gs s0 pcs s \<and> entry_untouched gs s0 pcs s \<and> raises gs s0 pcs s)"

lemma finished_update:
  assumes "i < length gs" and "length pcs = length gs"
  shows "finished gs (pcs[i := pc]) = (if pc = Finished then insert i (finished gs pcs) else finished gs pcs - {i})"
  using assms by (auto simp: finished_def nth_list_update split: if_splits)

lemma effects_done_unchanged:
  assumes "effects_done gs s0 pcs s" and "i < length gs" and "length pcs = length gs" and "pcs ! i \<noteq> Finished"
    and "pc \<noteq> Finished" and "shared s' = shared s"
  shows "effects_done gs s0 (pcs[i := pc]) s'"
proof -
  have "finished gs (pcs[i := pc]) = finished gs pcs"
    using assms by (auto simp: finished_update) (auto simp: finished_def)
  with assms(1,6) show ?thesis by (simp add: effects_done_def)
qed

lemma effects_done_finish:
  assumes "effects_done gs s0 pcs s" and "i < length gs" and "length pcs = length gs" and "pcs ! i \<noteq> Finished"
    and "shared s' = effect (gs ! i) (shared s)"
  shows "effects_done gs s0 (pcs[i := Finished]) s'"
proof -
  obtain os where os: "mset os = image_mset ((!) gs) (mset_set (finished gs pcs))" "shared s = fold effect os (shared s0)"
    using assms(1) by (auto simp: effects_done_def)
  have "finite (finished gs pcs)" and "i \<notin> finished gs pcs" using assms(4) by (simp_all add: finished_def)
  then have "mset (os @ [gs ! i]) = image_mset ((!) gs) (mset_set (finished gs (pcs[i := Finished])))"
    using assms(2,3) os(1) by (simp add: finished_update)
  moreover have "shared s' = fold effect (os @ [gs ! i]) (shared s0)" using assms(5) os(2) by simp
  ultimately show ?thesis unfolding effects_done_def by blast
qed

lemma entry_untouched_step:
  assumes inv: "entry_untouched gs s0 pcs s" and i: "i < length gs" "length pcs = length gs"
    and pods: "\<And>j. j \<noteq> i \<Longrightarrow> j < length gs \<Longrightarrow> rs_Pods s' ! go_entry (gs ! j) = rs_Pods s ! go_entry (gs ! j)"
    and own: "pc \<noteq> Finished \<Longrightarrow> rs_Pods s' ! go_entry (gs ! i) = rs_Pods s0 ! go_entry (gs ! i) \<and> active s0 (gs ! i)"
  shows "entry_untouched gs s0 (pcs[i := pc]) s'"
  unfolding entry_untouched_def
proof (intro allI impI)
  fix j assume j: "j < length gs" "pcs[i := pc] ! j \<noteq> Finished"
  show "rs_Pods s' ! go_entry (gs ! j) = rs_Pods s0 ! go_entry (gs ! j) \<and> (pcs[i := pc] ! j = Ready \<or> active s0 (gs ! j))"
  proof (cases "j = i")
    case True
    with i j own show ?thesis by auto
  next
    case False
    with i j inv pods[OF False] show ?thesis by (auto simp: entry_untouched_def)
  qed
qed

lemma raises_step:
  assumes inv: "raises gs s0 pcs s" and i: "i < length gs" "length pcs = length gs"
    and must: "rs_mustReconcile s' = rs_mustReconcile s \<or>
      rs_mustReconcile s' = go_needs (gs ! i) \<and> active s0 (gs ! i) \<and> rs_mustReconcile s0 < go_needs (gs ! i)"
    and raising: "pc = Raising \<Longrightarrow> rs_mustReconcile s0 < go_needs (gs ! i)"
    and raised: "pc \<in> {Raised, Finished} \<Longrightarrow> active s0 (gs ! i) \<Longrightarrow> rs_mustReconcile s0 < go_needs (gs ! i) \<Longrightarrow>
      rs_mustReconcile s0 < rs_mustReconcile s'"
  shows "raises gs s0 (pcs[i := pc]) s'"
proof -
  have grows: "rs_mustReconcile s0 < rs_mustReconcile s \<Longrightarrow> rs_mustReconcile s0 < rs_mustReconcile s'"
    using must by auto
  have range: "rs_mustReconcile s' \<in> insert (rs_mustReconcile s0) (go_needs ` {g \<in> set gs. active s0 g})"
    and low: "rs_mustReconcile s0 \<le> rs_mustReconcile s'"
    using inv must i by (auto simp: raises_def)
  have "(pcs[i := pc] ! j = Raising \<longrightarrow> rs_mustReconcile s0 < go_needs (gs ! j)) \<and>
      (pcs[i := pc] ! j \<in> {Raised, Finished} \<and> active s0 (gs ! j) \<and> rs_mustReconcile s0 < go_needs (gs ! j) \<longrightarrow>
         rs_mustReconcile s0 < rs_mustReconcile s')" if "j < length gs" for j
    using inv i that raising raised grows by (cases "j = i") (auto simp: raises_def)
  with range low show ?thesis by (simp add: raises_def)
qed

lemma pods_shared [simp]: "pods_of (shared s) = rs_Pods s"
  by (simp add: shared_def)

lemma pods_finish:
  "go_entry h \<noteq> go_entry g \<Longrightarrow> active s g \<Longrightarrow> rs_Pods (go_finish g s) ! go_entry h = rs_Pods s ! go_entry h"
  by (metis pods_effect(1) pods_shared shared_finish)

lemma separate_entries: "separate gs \<Longrightarrow> i < length gs \<Longrightarrow> j < length gs \<Longrightarrow> j \<noteq> i \<Longrightarrow> go_entry (gs ! j) \<noteq> go_entry (gs ! i)"
  by (simp add: separate_def distinct_conv_nth)

lemma effect_skip: "\<not> active s g \<Longrightarrow> effect g (shared s) = shared s"
  by (simp add: effect_def shared_def)

lemma interleaved_start: "interleaved gs s0 (replicate (length gs) Ready, s0)"
proof -
  have "finished gs (replicate (length gs) Ready) = {}" by (auto simp: finished_def)
  then show ?thesis by (simp add: interleaved_def effects_done_def entry_untouched_def raises_def)
qed

lemma interleaved_step:
  assumes sep: "separate gs" and "interleaved gs s0 c" and "go_step gs c c'"
  shows "interleaved gs s0 c'"
proof -
  obtain i pcs s pc s' where 1: "c = (pcs, s)" "c' = (pcs[i := pc], s')" "i < length gs" "go_next (gs ! i) (pcs ! i) s = Some (pc, s')"
    using assms(3) by (auto elim: go_stepE)
  have inv: "length pcs = length gs" "effects_done gs s0 pcs s" "entry_untouched gs s0 pcs s" "raises gs s0 pcs s"
    using assms(2) 1 by (simp_all add: interleaved_def)
  have running: "pcs ! i \<noteq> Finished" using 1(4) by auto
  then have own: "rs_Pods s ! go_entry (gs ! i) = rs_Pods s0 ! go_entry (gs ! i)" "pcs ! i = Ready \<or> active s0 (gs ! i)"
    using inv(3) 1(3) by (simp_all add: entry_untouched_def)
  have low: "rs_mustReconcile s0 \<le> rs_mustReconcile s" using inv(4) by (simp add: raises_def)
  note step = effects_done_unchanged[OF inv(2) 1(3) inv(1) running] effects_done_finish[OF inv(2) 1(3) inv(1) running]
    entry_untouched_step[OF inv(3) 1(3) inv(1)] raises_step[OF inv(4) 1(3) inv(1)]
  have "effects_done gs s0 (pcs[i := pc]) s' \<and> entry_untouched gs s0 (pcs[i := pc]) s' \<and> raises gs s0 (pcs[i := pc]) s'"
  proof (cases "pcs ! i")
    case Ready
    with 1(4) have s': "s' = s" and pc: "pc = (if active s (gs ! i) then SetUp else Finished)" by auto
    then show ?thesis using own by (auto intro!: step simp: effect_skip)
  next
    case SetUp
    with 1(4) have s': "s' = s" and pc: "pc = (if go_needs (gs ! i) > rs_mustReconcile s then Raising else Raised)" by auto
    then show ?thesis using own SetUp low by (auto intro!: step)
  next
    case Raising
    with 1(4) have s': "s' = s\<lparr>rs_mustReconcile := go_needs (gs ! i)\<rparr>" and pc: "pc = Raised" by auto
    moreover have "rs_mustReconcile s0 < go_needs (gs ! i)" using inv(4) 1(3) Raising by (simp add: raises_def)
    ultimately show ?thesis using own Raising by (auto intro!: step)
  next
    case Raised
    with 1(4) have s': "s' = go_finish (gs ! i) s" and pc: "pc = Finished" by auto
    have act: "active s (gs ! i)" using own Raised by simp
    moreover have "rs_mustReconcile s0 < go_needs (gs ! i) \<Longrightarrow> rs_mustReconcile s0 < rs_mustReconcile s"
      using inv(4) 1(3) Raised own by (simp add: raises_def)
    ultimately show ?thesis
      unfolding s' pc using own Raised separate_entries[OF sep 1(3)]
      by (intro conjI step) (auto simp: shared_finish pods_finish)
  qed (use running in simp)
  then show ?thesis using 1 inv(1) by (simp add: interleaved_def)
qed

lemma interleaved_run:
  assumes "separate gs" and "(go_step gs ^^ k) c c'" and "interleaved gs s0 c"
  shows "interleaved gs s0 c'"
  using assms(2,3) by (induction k arbitrary: c') (auto intro: interleaved_step[OF assms(1)])

section \<open>Every run ends\<close>

fun steps_left :: "go_pc \<Rightarrow> nat" where
  "steps_left Ready = 4" | "steps_left SetUp = 3" | "steps_left Raising = 2" | "steps_left Raised = 1" | "steps_left Finished = 0"

lemma go_next_left: "go_next g pc s = Some (pc', s') \<Longrightarrow> steps_left pc' < steps_left pc"
  by (cases pc) (auto split: if_splits)

lemma go_step_left:
  assumes "go_step gs (pcs, s) (pcs', s')" and "length pcs = length gs"
  shows "sum_list (map steps_left pcs') < sum_list (map steps_left pcs) \<and> length pcs' = length gs"
  using assms
proof (cases rule: go_step.cases)
  case (1 i pc)
  have "sum_list ((map steps_left pcs)[i := steps_left pc]) + steps_left (pcs ! i) = sum_list (map steps_left pcs) + steps_left pc"
    using 1 assms(2) member_le_sum_list[of "steps_left (pcs ! i)" "map steps_left pcs"] by (simp add: sum_list_update)
  then show ?thesis using 1 assms(2) go_next_left[OF 1(3)] by (simp add: map_update)
qed

lemma go_run_bound:
  "(go_step gs ^^ k) (pcs, s) (pcs', s') \<Longrightarrow> length pcs = length gs \<Longrightarrow>
     k + sum_list (map steps_left pcs') \<le> sum_list (map steps_left pcs) \<and> length pcs' = length gs"
proof (induction k arbitrary: pcs' s')
  case (Suc k)
  then obtain pcs1 s1 where "(go_step gs ^^ k) (pcs, s) (pcs1, s1)" and "go_step gs (pcs1, s1) (pcs', s')" by auto
  with Suc.IH Suc.prems(2) go_step_left show ?case by fastforce
qed simp

lemma go_step_stuck:
  assumes "length pcs = length gs"
  shows "(\<nexists>c. go_step gs (pcs, s) c) \<longleftrightarrow> set pcs \<subseteq> {Finished}"
proof
  assume stuck: "\<nexists>c. go_step gs (pcs, s) c"
  have "pcs ! i = Finished" if "i < length gs" for i
  proof (cases "go_next (gs ! i) (pcs ! i) s")
    case None
    then show ?thesis by (cases "pcs ! i") simp_all
  next
    case (Some r)
    then show ?thesis using stuck that by (cases r) (auto intro: go_step.intros)
  qed
  then show "set pcs \<subseteq> {Finished}" using assms by (auto simp: in_set_conv_nth)
next
  assume "set pcs \<subseteq> {Finished}"
  then have "pcs ! i = Finished" if "i < length gs" for i using assms that by (metis nth_mem singletonD subsetD)
  then show "\<nexists>c. go_step gs (pcs, s) c" by (auto elim!: go_stepE)
qed

section \<open>All interleavings and the sequential run\<close>

lemma interleaving_result:
  assumes sep: "separate gs" and run: "(go_step gs ^^ k) (replicate (length gs) Ready, s) (pcs, s')"
    and ended: "set pcs \<subseteq> {Finished}"
  shows "shared s' = shared (fold go_run gs s) \<and> rs_mustReconcile s' \<in> {rs_mustReconcile s..rs_mustReconcile (fold go_run gs s)} \<and>
    (rs_mustReconcile s' = rs_mustReconcile s \<longleftrightarrow> rs_mustReconcile (fold go_run gs s) = rs_mustReconcile s)"
proof -
  have inv: "length pcs = length gs" "effects_done gs s pcs s'" "raises gs s pcs s'"
    using interleaved_run[OF sep run interleaved_start] by (simp_all add: interleaved_def)
  have fin: "pcs ! i = Finished" if "i < length gs" for i using ended inv(1) that by (metis nth_mem singletonD subsetD)
  then have "finished gs pcs = {..<length gs}" by (auto simp: finished_def)
  moreover have "image_mset ((!) gs) (mset_set {..<length gs}) = mset gs"
    using mset_map[of "(!) gs" "[0..<length gs]"] by (simp add: map_nth atLeast0LessThan)
  ultimately have all: "image_mset ((!) gs) (mset_set (finished gs pcs)) = mset gs" by simp
  then obtain os where os: "mset os = mset gs" "shared s' = fold effect os (shared s)"
    using inv(2) unfolding effects_done_def all by blast
  have "fold effect os = fold effect gs"
    using os(1) separate_commute[OF sep] by (intro fold_multiset_equiv) (auto dest: mset_eq_setD)
  then have view: "shared s' = shared (fold go_run gs s)" using os(2) by (simp add: shared_fold_run)
  note seq = must_fold_run[of gs s]
  have dist: "distinct (map go_entry gs)" using sep by (simp add: separate_def)
  have le: "rs_mustReconcile s' \<le> rs_mustReconcile (fold go_run gs s)"
    using inv(3) seq[OF dist] by (auto simp: raises_def)
  have "rs_mustReconcile s < rs_mustReconcile s'" if up: "rs_mustReconcile (fold go_run gs s) \<noteq> rs_mustReconcile s"
  proof -
    obtain g where "g \<in> set gs" "active s g" "rs_mustReconcile s < go_needs g" using seq[OF dist] up by force
    then show ?thesis using inv(3) fin by (auto simp: raises_def in_set_conv_nth)
  qed
  then show ?thesis using view le inv(3) seq[OF dist] by (force simp: raises_def)
qed

lemma goroutines_separate:
  assumes "list_all2 (goroutine_for s) pods gs" and "distinct (map pod_Name pods)"
  shows "separate gs"
proof -
  have names: "map go_name gs = map pod_Name pods"
    using assms(1) by (induction rule: list_all2_induct) (auto simp: goroutine_for_def)
  have "map (\<lambda>g. ps_Name (rs_Pods s ! go_entry g)) gs = map pod_Name pods"
    using assms(1) by (induction rule: list_all2_induct) (auto simp: goroutine_for_def dest: podStatusIndex_Some)
  then have "distinct (map (\<lambda>i. ps_Name (rs_Pods s ! i)) (map go_entry gs))" using assms(2) by (simp add: comp_def)
  then have "distinct (map go_entry gs)" by (simp only: distinct_map)
  with names assms(2) show ?thesis by (simp add: separate_def)
qed

text \<open>The comparison and the assignment are not one step: a raise to \<open>requeueNow\<close> can be lost.\<close>

fun go_schedule :: "goroutine list \<Rightarrow> nat list \<Rightarrow> go_pc list \<times> RecoveryState \<Rightarrow> (go_pc list \<times> RecoveryState) option" where
  "go_schedule gs [] c = Some c"
| "go_schedule gs (i # is) (pcs, s) =
     (if i < length gs then
        (case go_next (gs ! i) (pcs ! i) s of None \<Rightarrow> None | Some (pc, s') \<Rightarrow> go_schedule gs is (pcs[i := pc], s'))
      else None)"

lemma go_schedule_run: "go_schedule gs is c = Some c' \<Longrightarrow> (go_step gs ^^ length is) c c'"
proof (induction gs "is" c rule: go_schedule.induct)
  case (2 gs i "is" pcs s)
  then obtain pc s' where step: "i < length gs" "go_next (gs ! i) (pcs ! i) s = Some (pc, s')"
    and rest: "(go_step gs ^^ length is) (pcs[i := pc], s') c'"
    by (auto split: if_splits option.splits)
  from step have "go_step gs (pcs, s) (pcs[i := pc], s')" by (rule go_step.intros)
  then show ?case using relpowp_Suc_I2[OF _ rest] by simp
qed simp

lemma raise_lost:
  "\<exists>gs s k s'. separate gs \<and> rs_mustReconcile s = requeueOff \<and>
     (go_step gs ^^ k) ([Ready, Ready], s) ([Finished, Finished], s') \<and>
     rs_mustReconcile (fold go_run gs s) = requeueNow \<and> rs_mustReconcile s' = requeueLater"
proof -
  let ?g = "\<lambda>i name n. \<lparr>go_entry = i, go_name = name, go_needs = n, go_setupErr = None, go_checked = Inr clean\<rparr>"
  let ?gs = "[?g 0 ''wf-0'' requeueNow, ?g 1 ''wf-1'' requeueLater]"
  let ?s = "\<lparr>rs_Server = with_pods [(''wf-0'', PodStateActive), (''wf-1'', PodStateActive)],
    rs_mustReconcile = requeueOff, rs_errors = [], rs_needsUpdating = False\<rparr>"
  let ?t = "?s\<lparr>rs_mustReconcile := requeueLater\<rparr>"
  have "go_schedule ?gs [0, 0, 1, 1, 0, 1, 0, 1] ([Ready, Ready], ?s) = Some ([Finished, Finished], ?t)"
    by (simp add: with_pods_def requeueNow_def requeueLater_def requeueOff_def go_finish_def)
  then have "(go_step ?gs ^^ length [0::nat, 0, 1, 1, 0, 1, 0, 1]) ([Ready, Ready], ?s) ([Finished, Finished], ?t)"
    by (rule go_schedule_run)
  moreover have "rs_mustReconcile (fold go_run ?gs ?s) = requeueNow" and "rs_mustReconcile ?t = requeueLater"
    by (simp_all add: go_run_def raise_requeue_def with_pods_def requeueNow_def requeueLater_def requeueOff_def go_finish_def)
  moreover have "separate ?gs" and "rs_mustReconcile ?s = requeueOff" by (simp_all add: separate_def)
  ultimately show ?thesis by blast
qed

text \<open>
  C40: The goroutines may be taken one after the other. Whatever \<open>recoverPods\<close> returns for pods of
  different names, it is the result of some goroutines, one for each pod, run in turn; and every
  interleaving of the steps of these goroutines has at most four steps each, stops only when all have
  ended, and then the status entries, the errors by pod and the flag are the same. Only
  \<open>mustReconcile\<close>, which is compared and assigned in two steps, may be lower (a raise to \<open>requeueNow\<close> may be
  lost, \<open>raise_lost\<close>), but it is \<open>requeueOff\<close> in no other case than before.
\<close>

theorem recovery_interleavings:
  assumes "distinct (map pod_Name pods)" and "rs_mustReconcile s = requeueOff"
  shows "does (recoverPods K pods s) (\<lambda>r evs. \<forall>t. r = Ret t \<and> list_all echoes evs \<longrightarrow>
    (\<exists>gs. list_all2 (goroutine_for s) pods gs \<and> t = fold go_run gs s \<and>
      (\<forall>k pcs s'. (go_step gs ^^ k) (replicate (length gs) Ready, s) (pcs, s') \<longrightarrow>
         k \<le> 4 * length gs \<and> ((\<nexists>c. go_step gs (pcs, s') c) \<longleftrightarrow> set pcs \<subseteq> {Finished}) \<and>
         (set pcs \<subseteq> {Finished} \<longrightarrow> shared s' = shared t \<and> rs_mustReconcile s' \<in> {requeueOff..rs_mustReconcile t} \<and>
            (rs_mustReconcile s' = requeueOff \<longleftrightarrow> rs_mustReconcile t = requeueOff)))))"
proof (rule does_mono[OF recoverPods_goroutines], intro allI impI, elim conjE)
  fix r evs t assume "list_all echoes evs \<longrightarrow> (\<forall>t. r = Ret t \<longrightarrow> (\<exists>gs. list_all2 (goroutine_for s) pods gs \<and> t = fold go_run gs s))"
    and "r = Ret t" and "list_all echoes evs"
  then obtain gs where gs: "list_all2 (goroutine_for s) pods gs" and t: "t = fold go_run gs s" by blast
  note sep = goroutines_separate[OF gs assms(1)]
  have "k \<le> 4 * length gs \<and> ((\<nexists>c. go_step gs (pcs, s') c) \<longleftrightarrow> set pcs \<subseteq> {Finished}) \<and>
      (set pcs \<subseteq> {Finished} \<longrightarrow> shared s' = shared t \<and> rs_mustReconcile s' \<in> {requeueOff..rs_mustReconcile t} \<and>
         (rs_mustReconcile s' = requeueOff \<longleftrightarrow> rs_mustReconcile t = requeueOff))"
    if run: "(go_step gs ^^ k) (replicate (length gs) Ready, s) (pcs, s')" for k pcs s'
  proof -
    have "k \<le> 4 * length gs" and len: "length pcs = length gs"
      using go_run_bound[OF run] by (simp_all add: sum_list_replicate)
    then show ?thesis using go_step_stuck[OF len] interleaving_result[OF sep run] assms(2) t by simp
  qed
  with gs t show "\<exists>gs. list_all2 (goroutine_for s) pods gs \<and> t = fold go_run gs s \<and>
      (\<forall>k pcs s'. (go_step gs ^^ k) (replicate (length gs) Ready, s) (pcs, s') \<longrightarrow>
         k \<le> 4 * length gs \<and> ((\<nexists>c. go_step gs (pcs, s') c) \<longleftrightarrow> set pcs \<subseteq> {Finished}) \<and>
         (set pcs \<subseteq> {Finished} \<longrightarrow> shared s' = shared t \<and> rs_mustReconcile s' \<in> {requeueOff..rs_mustReconcile t} \<and>
            (rs_mustReconcile s' = requeueOff \<longleftrightarrow> rs_mustReconcile t = requeueOff)))"
    by blast
qed

lemma run_pending:
  "run_state (recoverPods fake_kube [(named_pod ''wf-0'')\<lparr>pod_Phase := ''Pending''\<rparr>, (named_pod ''wf-1'')\<lparr>pod_Phase := ''Pending''\<rparr>]
     \<lparr>rs_Server = with_pods [(''wf-0'', PodStateActive), (''wf-1'', PodStateActive)],
       rs_mustReconcile = requeueOff, rs_errors = [], rs_needsUpdating = False\<rparr>) (c, tr) =
   (Ret \<lparr>rs_Server = with_pods [(''wf-0'', PodStateActive), (''wf-1'', PodStateActive)],
       rs_mustReconcile = requeueLater, rs_errors = [], rs_needsUpdating = False\<rparr>, c, tr)"
  by (simp add: recoverPod_def getWildflyServerPodStatusByName_def with_pods_def named_pod_def
      setupRecoveryPropertiesAndRestart_def raise_requeue_def requeueOff_def requeueLater_def)

theorem recovery_interleavings_witness:
  "\<exists>gs. map go_name gs = [''wf-0'', ''wf-1''] \<and>
     (\<forall>k s'. (go_step gs ^^ k) ([Ready, Ready], \<lparr>rs_Server = with_pods [(''wf-0'', PodStateActive), (''wf-1'', PodStateActive)],
          rs_mustReconcile = requeueOff, rs_errors = [], rs_needsUpdating = False\<rparr>) ([Finished, Finished], s') \<longrightarrow>
        k \<le> 8 \<and> rs_mustReconcile s' = requeueLater \<and>
        rs_Server s' = with_pods [(''wf-0'', PodStateActive), (''wf-1'', PodStateActive)])"
proof -
  let ?s = "\<lparr>rs_Server = with_pods [(''wf-0'', PodStateActive), (''wf-1'', PodStateActive)],
    rs_mustReconcile = requeueOff, rs_errors = [], rs_needsUpdating = False\<rparr>"
  let ?pods = "[(named_pod ''wf-0'')\<lparr>pod_Phase := ''Pending''\<rparr>, (named_pod ''wf-1'')\<lparr>pod_Phase := ''Pending''\<rparr>]"
  have "distinct (map pod_Name ?pods)" and "rs_mustReconcile ?s = requeueOff" by (simp_all add: named_pod_def)
  from does_run[OF recovery_interleavings[OF this] run_pending]
  obtain gs where gs: "list_all2 (goroutine_for ?s) ?pods gs"
    and runs: "\<And>k pcs s'. (go_step gs ^^ k) (replicate (length gs) Ready, ?s) (pcs, s') \<Longrightarrow> k \<le> 4 * length gs \<and>
        (set pcs \<subseteq> {Finished} \<longrightarrow> shared s' = shared (?s\<lparr>rs_mustReconcile := requeueLater\<rparr>) \<and>
         rs_mustReconcile s' \<in> {requeueOff..requeueLater} \<and> (rs_mustReconcile s' = requeueOff \<longleftrightarrow> requeueLater = requeueOff))"
    by auto
  from gs have "map go_name gs = [''wf-0'', ''wf-1'']"
    by (auto simp: list_all2_Cons1 goroutine_for_def named_pod_def)
  moreover from this have "length gs = 2" by (cases gs) auto
  then have "replicate (length gs) Ready = [Ready, Ready]" by (simp add: eval_nat_numeral)
  moreover note runs[of _ "[Finished, Finished]"] and \<open>length gs = 2\<close>
  ultimately show ?thesis
    by (intro exI[of _ gs] conjI allI impI) (force simp: shared_def requeueOff_def requeueLater_def)+
qed

end
