(* ===== verification/Operator_History.thy ===== *)
theory Operator_History
  imports Reconcile_Pass
begin

text \<open>
  The operator over its whole life: pass after pass, with anything happening to the cluster in
  between. What a pass knows of the passes before it is the status it reads; here the safety of
  one pass is carried over to all of them: a pod is given up only if some pass has seen the
  proof that it is clean.
\<close>

section \<open>Names that are marked clean\<close>

definition clean_names :: "PodStatus list \<Rightarrow> string set" where
  "clean_names vs = {ps_Name v | v. v \<in> set vs \<and> ps_State v = PodStateScalingDownClean}"

fun sent_pods :: "event \<Rightarrow> PodStatus list" where
  "sent_pods (EvUpdateStatus w _) = wf_Pods w"
| "sent_pods (EvPatchStatus _ w _) = wf_Pods w"
| "sent_pods _ = []"

text \<open>The names that the statuses sent in a trace mark as clean, and those for which it has the proof.\<close>

definition marked :: "event list \<Rightarrow> string set" where
  "marked evs = (\<Union>ev\<in>set evs. clean_names (sent_pods ev))"

definition granted :: "'e Kube \<Rightarrow> WildFlyServer \<Rightarrow> Pod list \<Rightarrow> event list \<Rightarrow> string set" where
  "granted K w items evs = {n. skip_reason K w items evs \<or> (\<exists>pod\<in>set items. pod_Name pod = n \<and> proven_clean K pod evs)}"

lemma marked_simps [simp]:
  "marked [] = {}" "marked (ev # evs) = clean_names (sent_pods ev) \<union> marked evs" "marked (xs @ ys) = marked xs \<union> marked ys"
  by (auto simp: marked_def)

lemma clean_names_simps [simp]:
  "clean_names [] = {}"
  "clean_names (v # vs) = (if ps_State v = PodStateScalingDownClean then insert (ps_Name v) (clean_names vs) else clean_names vs)"
  by (auto simp: clean_names_def)

lemma sent_pods_none: "\<not> is_status_update ev \<Longrightarrow> sent_pods ev = []"
  by (cases ev rule: sent_pods.cases) simp_all

lemma marked_none: "no_status_update evs \<Longrightarrow> marked evs = {}"
  by (auto simp: marked_def list_all_iff sent_pods_none)

lemma marked_quiet [simp]:
  "no_write evs \<Longrightarrow> marked evs = {}" "pods_only evs \<Longrightarrow> marked evs = {}" "quiet evs \<Longrightarrow> marked evs = {}"
  by (simp_all add: marked_none no_write_no_status pods_only_no_status)

lemma granted_mono: "granted K w items evs \<subseteq> granted K w items (xs @ evs @ ys)"
  unfolding granted_def using skip_reason_mono proven_clean_mono by blast

lemma clean_names_filter: "clean_names (filter P vs) \<subseteq> clean_names vs"
  by (auto simp: clean_names_def)

lemma clean_names_active [simp]: "clean_names (map (with_state PodStateActive) vs) = {}"
  by (auto simp: clean_names_def with_state_def)

lemma clean_names_podStatusOf: "clean_names (map (podStatusOf (statusMap vs)) pods) \<subseteq> clean_names vs"
proof
  fix n assume "n \<in> clean_names (map (podStatusOf (statusMap vs)) pods)"
  then obtain pod where pod: "pod_Name pod = n" "ps_State (podStatusOf (statusMap vs) pod) = PodStateScalingDownClean"
    by (auto simp: clean_names_def)
  then obtain v where "statusMap vs n = Some v" "ps_State v = PodStateScalingDownClean"
    by (auto simp: podStatusOf_def split: option.splits)
  then show "n \<in> clean_names vs" using statusMap_Some by (auto simp: clean_names_def)
qed

lemma clean_names_getPodStatus:
  assumes "getPodStatus items ps = (rq, vs)"
  shows "clean_names (elems vs) \<subseteq> clean_names (elems ps)"
proof -
  have "elems vs = map (podStatusOf (statusMap (elems ps))) items"
    using assms by (auto simp: getPodStatus_def elems_foldl_append)
  then show ?thesis using clean_names_podStatusOf by simp
qed

lemma clean_names_nth: "n \<in> clean_names vs \<longleftrightarrow> (\<exists>i<length vs. ps_Name (vs ! i) = n \<and> ps_State (vs ! i) = PodStateScalingDownClean)"
  by (auto simp: clean_names_def in_set_conv_nth)

section \<open>The scale down\<close>

text \<open>It never patches a status, so every status it sends is a link of its chain.\<close>

abbreviation no_patch :: "event list \<Rightarrow> bool" where
  "no_patch evs \<equiv> list_all (\<lambda>ev. \<forall>a b c. ev \<noteq> EvPatchStatus a b c) evs"

lemma no_status_no_patch: "no_status_update evs \<Longrightarrow> no_patch evs"
  by (auto simp: list_all_iff)

lemma recoverAndUpdate_no_patch: "does (recoverAndUpdate K w n pods) (\<lambda>r evs. no_patch evs)"
proof -
  have "no_patch evs" if "recovers K ps s r evs" for ps s r evs
    using that pods_only_no_status no_status_no_patch by (auto simp: recovers_def)
  then show ?thesis unfolding recoverAndUpdate_def by (intro does_rules) auto
qed

lemma startRecovery_no_patch: "does (startRecovery K w n items) (\<lambda>r evs. no_patch evs)"
  unfolding startRecovery_def by (intro does_rules does_mono[OF recoverAndUpdate_no_patch]) auto

lemma skipRecovery_no_patch: "does (skipRecoveryAndForceScaleDown K w n items) (\<lambda>r evs. no_patch evs)"
  unfolding skipRecoveryAndForceScaleDown_def Let_def by (intro does_rules) auto

lemma processTransactionRecovery_no_patch: "does (processTransactionRecoveryScaleDown K w n items) (\<lambda>r evs. no_patch evs)"
  unfolding processTransactionRecoveryScaleDown_def
  by (intro does_rules does_mono[OF startRecovery_no_patch] does_mono[OF skipRecovery_no_patch])
     (auto simp: no_status_no_patch no_write_no_status)

lemma chain_names:
  "status_chain vs evs \<Longrightarrow> list_all echoes evs \<Longrightarrow> EvUpdateStatus w a \<in> set evs \<Longrightarrow> map ps_Name (wf_Pods w) = map ps_Name vs"
  by (induction vs evs rule: status_after.induct) (auto dest: evolves_names split: sum.splits)

lemma justified_names:
  assumes "justified K (skip_reason K w items evs) items (wf_Pods w) vs evs" and "map ps_Name vs = map ps_Name (wf_Pods w)"
  shows "clean_names vs \<subseteq> clean_names (wf_Pods w) \<union> granted K w items evs"
proof
  fix n assume "n \<in> clean_names vs"
  then obtain i where i: "i < length vs" "ps_Name (vs ! i) = n" "ps_State (vs ! i) = PodStateScalingDownClean"
    by (auto simp: clean_names_nth)
  moreover have "length vs = length (wf_Pods w)" using assms(2) by (metis length_map)
  ultimately have "i < length (wf_Pods w)" "ps_Name (wf_Pods w ! i) = n" using assms(2) by (metis nth_map)+
  then have "ps_State (wf_Pods w ! i) = PodStateScalingDownClean \<or> skip_reason K w items evs \<or>
      (\<exists>pod\<in>set items. pod_Name pod = n \<and> proven_clean K pod evs)"
    using assms(1) i(3) unfolding justified_def by blast
  then show "n \<in> clean_names (wf_Pods w) \<union> granted K w items evs"
    using \<open>i < length (wf_Pods w)\<close> \<open>ps_Name (wf_Pods w ! i) = n\<close> by (auto simp: granted_def clean_names_nth)
qed

lemma processTransactionRecovery_marks:
  assumes "fair_schedule K"
  shows "does (processTransactionRecoveryScaleDown K w n items) (\<lambda>r evs. list_all echoes evs \<longrightarrow>
     marked evs \<subseteq> clean_names (wf_Pods w) \<union> granted K w items evs \<and>
     (\<forall>x w'. r = Ret (x, w') \<longrightarrow> clean_names (wf_Pods w') \<subseteq> clean_names (wf_Pods w) \<union> granted K w items evs))"
proof (rule does_mono[OF does_conj[OF processTransactionRecovery_justifies[OF assms]
      does_conj[OF processTransactionRecovery_tracks processTransactionRecovery_no_patch]]], intro impI, elim conjE)
  fix r :: "((int \<times> error option) \<times> WildFlyServer) outcome" and evs
  assume just: "justifies_all K w items r evs" and tracks: "tracks (wf_Pods w) r evs" and no_patch: "no_patch evs"
    and echo: "list_all echoes evs"
  have sent: "clean_names (sent_pods ev) \<subseteq> clean_names (wf_Pods w) \<union> granted K w items evs" if "ev \<in> set evs" for ev
  proof (cases ev rule: sent_pods.cases)
    case (1 w1 a)
    then have ev: "EvUpdateStatus w1 a \<in> set evs" using that by simp
    then have "map ps_Name (wf_Pods w1) = map ps_Name (wf_Pods w)"
      using tracks echo chain_names by (auto simp: tracks_def)
    moreover have "justified K (skip_reason K w items evs) items (wf_Pods w) (wf_Pods w1) evs"
      using just echo ev by (auto simp: justifies_all_def justifies_def)
    ultimately show ?thesis using justified_names 1 by simp
  qed (use that no_patch in \<open>auto simp: list_all_iff\<close>)
  have "clean_names (wf_Pods w') \<subseteq> clean_names (wf_Pods w) \<union> granted K w items evs" if "r = Ret (x, w')" for x w'
  proof (rule justified_names)
    show "justified K (skip_reason K w items evs) items (wf_Pods w) (wf_Pods w') evs"
      using that just echo by (auto simp: justifies_all_def justifies_def)
    show "map ps_Name (wf_Pods w') = map ps_Name (wf_Pods w)"
      using that tracks names_kept[OF _ echo, of "wf_Pods w"] evolves_names[of "status_after (wf_Pods w) evs" "wf_Pods w'"]
      by (simp add: tracks_def)
  qed
  with sent show "marked evs \<subseteq> clean_names (wf_Pods w) \<union> granted K w items evs \<and>
     (\<forall>x w'. r = Ret (x, w') \<longrightarrow> clean_names (wf_Pods w') \<subseteq> clean_names (wf_Pods w) \<union> granted K w items evs)"
    by (auto simp: marked_def)
qed

section \<open>The rest of a pass\<close>

lemma set_status_pods [simp]: "wf_Pods (set_hosts hosts w) = wf_Pods w" "wf_Pods (set_replicas m w) = wf_Pods w" "wf_Pods (set_pods vs w) = elems vs"
  by (simp_all add: set_hosts_def set_replicas_def set_pods_def)

lemma reconcileStatus_marks:
  "does (reconcileStatus K b w sts items route n rq_rec rq_sts) (\<lambda>r evs. marked evs \<subseteq> clean_names (wf_Pods w))"
proof -
  define ready where "ready w3 \<longleftrightarrow> clean_names (wf_Pods w3) \<subseteq> clean_names (wf_Pods w) \<and>
      (\<forall>rq vs. getPodStatus items (st_Pods (wf_Status w3)) = (rq, vs) \<longrightarrow> clean_names (elems vs) \<subseteq> clean_names (wf_Pods w))" for w3
  have ready: "ready w3" if "clean_names (wf_Pods w3) \<subseteq> clean_names (wf_Pods w)" for w3
    using that clean_names_getPodStatus unfolding ready_def by blast
  define reset where "reset w2 u2 = (if n \<le> 0 then refreshPods K items 0 (wf_Pods w2) w2 u2 else ret (w2, u2))" for w2 u2
  have middle: "does (reset w2 u2) (\<lambda>(w3, u3) evs. marked evs = {} \<and> ready w3)"
    if "updateHosts b route w = Ret (w1, u1)"
      and "w2 = (if st_ScalingdownPods (wf_Status w1) \<noteq> n then set_scalingdown n w1 else w1)" for w1 u1 w2 u2
  proof -
    have "wf_Pods w2 = wf_Pods w" using updateHosts_cases[OF that(1)] by (simp add: that(2))
    then show ?thesis unfolding reset_def
      by (intro does_if does_return does_mono[OF refreshPods_run[OF drop_0]])
         (auto intro!: ready dest: deleted_pods_quiet)
  qed
  show ?thesis unfolding reconcileStatus_def Let_def reset_def[symmetric]
    by (intro does_rules does_mono[OF middle[OF _ refl]]) (auto simp: ready_def split: if_splits)
qed

declare does_reconcileStatus [does_rules del] does_reconcileResources [does_rules del]

lemma reconcileResources_marks:
  "does (reconcileResources K b w sts items n rq_rec rq_sts) (\<lambda>r evs. marked evs \<subseteq> clean_names (wf_Pods w))"
  unfolding reconcileResources_def by (intro does_rules does_mono[OF reconcileStatus_marks]) auto

lemma checkStatefulSet_marks: "does (checkStatefulSet K b w sts items) (\<lambda>r evs. marked evs = {})"
proof (cases "sts_Replicas sts")
  case None
  then show ?thesis by (simp add: checkStatefulSet_def does_return)
next
  case (Some r)
  have writes: "marked (writes evs) = marked evs" for evs
  proof (induction evs)
    case (Cons v evs)
    then show ?case by (cases v rule: sent_pods.cases) (auto simp: writes_def)
  qed (simp add: writes_def)
  have "marked evs = {}" if "resizes w sts r items res (writes evs)" for res evs
    using that writes[of evs] by (cases rule: resizes.cases) auto
  then show ?thesis by (intro does_mono[OF checkStatefulSet_resizes[OF Some]]) blast
qed

text \<open>A part of a pass marks only what was clean before and what it has the proof for.\<close>

definition marks_proven :: "'e Kube \<Rightarrow> WildFlyServer \<Rightarrow> Pod list \<Rightarrow> event list \<Rightarrow> bool" where
  "marks_proven K w items evs \<longleftrightarrow> (list_all echoes evs \<longrightarrow> marked evs \<subseteq> clean_names (wf_Pods w) \<union> granted K w items evs)"

lemma marks_proven_none: "marked evs = {} \<Longrightarrow> marks_proven K w items evs"
  by (simp add: marks_proven_def)

lemma granted_append: "n \<in> granted K w items evs \<Longrightarrow> n \<in> granted K w items (evs @ ys)" "n \<in> granted K w items ys \<Longrightarrow> n \<in> granted K w items (xs @ ys)"
  using granted_mono[of K w items evs "[]" ys] granted_mono[of K w items ys xs "[]"] by auto

lemma marks_proven_after:
  "marks_proven K w items evs \<Longrightarrow> marked xs = {} \<Longrightarrow> marks_proven K w items (xs @ evs)"
  unfolding marks_proven_def using granted_append(2)[of _ K w items evs xs] by auto

lemma marks_proven_Cons: "sent_pods ev = [] \<Longrightarrow> marks_proven K w items evs \<Longrightarrow> marks_proven K w items (ev # evs)"
  using marks_proven_after[where xs = "[ev]"] by simp

lemma reconcileScaleDown_marks:
  assumes "fair_schedule K"
  shows "does (reconcileScaleDown K b w sts items n) (\<lambda>r evs. marks_proven K w items evs)"
  unfolding reconcileScaleDown_def
  by (intro does_rules does_mono[OF processTransactionRecovery_marks[OF assms]] does_mono[OF checkStatefulSet_marks]
      does_mono[OF reconcileResources_marks])
     (auto simp: marks_proven_def intro: granted_append)

lemma cleanUpPodStatus_marks:
  "does (cleanUpPodStatus K w items) (\<lambda>((updated, err), w') evs. marked evs \<subseteq> clean_names (wf_Pods w) \<and>
     (\<not> updated \<and> err = None \<longrightarrow> w' = w \<and> evs = []))"
  unfolding cleanUpPodStatus_def Let_def
  by (intro does_rules) (auto simp: elems_foldl_filter intro: clean_names_filter[THEN subsetD])

declare does_cleanUpPodStatus [does_rules del]

lemma reconcilePods_marks:
  assumes "fair_schedule K"
  shows "does (reconcilePods K b w sts) (\<lambda>r evs. \<exists>answer evs'.
     evs = EvListPods (wf_Namespace w) (LabelsForWildFly (k_Env K) w) answer # evs' \<and>
     (evs' \<noteq> [] \<longrightarrow> (\<exists>ps. answer = Inr ps \<and> sts_Replicas sts \<noteq> None \<and> marks_proven K w (SortPodListByName ps) evs)))"
proof -
  have only: "marks_proven K w items (ev # evs)" if "marked evs \<subseteq> clean_names (wf_Pods w)" "sent_pods ev = []" for items ev evs
    using that by (auto simp: marks_proven_def)
  show ?thesis unfolding reconcilePods_def Let_def
    by (intro does_rules does_mono[OF cleanUpPodStatus_marks] does_mono[OF reconcileScaleDown_marks[OF assms]])
       (auto intro: marks_proven_Cons only)
qed

lemma granted_selector [simp]: "granted K (with_selector s w) items evs = granted K w items evs"
  by (simp add: granted_def skip_reason_def)

lemma marks_proven_selector [simp]: "marks_proven K (with_selector s w) items evs = marks_proven K w items evs"
  by (simp add: marks_proven_def)

lemma reconcileServer_marks:
  assumes "fair_schedule K"
  shows "does (reconcileServer K b w) (\<lambda>r evs. marked evs \<noteq> {} \<longrightarrow>
     (\<exists>sts items. opened (EvGetWildFlyServer ns name (Inr w) # evs) = Some (w, sts, items) \<and> marks_proven K w items evs))"
  unfolding reconcileServer_selector Let_def GetOrCreateNewStatefulSet_def
  by (intro does_rules does_mono[OF reconcilePods_marks[OF assms]])
     (auto simp: opened_Some zero_StatefulSet_def marks_proven_Cons)

lemma Reconcile_marks:
  assumes "fair_schedule K"
  shows "does (Reconcile K b ns name) (\<lambda>r evs. marked evs \<noteq> {} \<longrightarrow>
     (\<exists>w sts items. opened evs = Some (w, sts, items) \<and> marks_proven K w items evs))"
  by (rule does_Reconcile)
     (auto intro!: does_mono[OF reconcileServer_marks[OF assms]] simp: opened_Some marks_proven_Cons)

section \<open>Histories\<close>

text \<open>
  The passes of the operator with the latest first. Each starts in any state of the environment,
  so that anything may happen to the cluster in between.
\<close>

inductive operator_history :: "'e Kube \<Rightarrow> bool \<Rightarrow> string \<Rightarrow> string \<Rightarrow> event list list \<Rightarrow> bool" for K isOpenShift ns name where
  start: "operator_history K isOpenShift ns name []"
| pass: "operator_history K isOpenShift ns name ps \<Longrightarrow>
    run_state (Reconcile K isOpenShift ns name) (e, []) = (r, e', evs) \<Longrightarrow> operator_history K isOpenShift ns name (evs # ps)"

inductive_cases operator_history_ConsE: "operator_history K isOpenShift ns name (evs # ps)"

text \<open>
  The status of the resource belongs to the operator: what a pass reads as clean was marked by a
  status that some pass before it has sent. It need not be the last one, and it need not have
  been accepted as far as the operator knows.
\<close>

fun status_owned :: "event list list \<Rightarrow> bool" where
  "status_owned [] \<longleftrightarrow> True"
| "status_owned (evs # ps) \<longleftrightarrow> list_all echoes evs \<and> status_owned ps \<and>
     (\<forall>w sts items. opened evs = Some (w, sts, items) \<longrightarrow> clean_names (wf_Pods w) \<subseteq> (\<Union>p\<in>set ps. marked p))"

text \<open>A pass that has the proof for a name, among its pods and with its specification.\<close>

definition proven_in :: "'e Kube \<Rightarrow> string \<Rightarrow> event list \<Rightarrow> bool" where
  "proven_in K n p \<longleftrightarrow> (\<exists>w sts items. opened p = Some (w, sts, items) \<and> n \<in> granted K w items p)"

lemma marked_proven:
  assumes "fair_schedule K" and "operator_history K isOpenShift ns name ps" and "status_owned ps"
    and "n \<in> (\<Union>p\<in>set ps. marked p)"
  shows "\<exists>p\<in>set ps. proven_in K n p"
  using assms(2-4)
proof induction
  case (pass ps e r e' evs)
  show ?case
  proof (cases "n \<in> (\<Union>p\<in>set ps. marked p)")
    case True
    then show ?thesis using pass by auto
  next
    case False
    then have n: "n \<in> marked evs" using pass.prems(2) by simp
    then obtain w sts items where o: "opened evs = Some (w, sts, items)" and m: "marks_proven K w items evs"
      using does_run[OF Reconcile_marks[OF assms(1)] pass.hyps(2)] by blast
    have "n \<in> granted K w items evs"
      using n m o pass.prems(1) False by (auto simp: marks_proven_def)
    then show ?thesis using o by (auto simp: proven_in_def)
  qed
qed simp

end
