(* ===== verification/Status_Documents.thy ===== *)
theory Status_Documents
  imports Api_Schema Reconcile_Stages
begin

text \<open>
  The status as a document: what the client makes of the JSON it reads back, by the tags of
  \<open>wildflyserver_types.go\<close>, and which statuses survive the way to the API server and back. A slice
  that is empty but not nil does not, and this is why a pass may never be the last one.
\<close>

section \<open>Decoding\<close>

text \<open>
  A member that is missing or null leaves the zero value; a value of another type, and an integer
  that is no 32-bit integer, is an error.
\<close>

definition string_field :: "json \<Rightarrow> string \<Rightarrow> string option" where
  "string_field m k = (case map_of m k of
     None \<Rightarrow> Some '''' | Some VNil \<Rightarrow> Some '''' | Some (VString s) \<Rightarrow> Some s | _ \<Rightarrow> None)"

definition int_field :: "json \<Rightarrow> string \<Rightarrow> int option" where
  "int_field m k = (case map_of m k of
     None \<Rightarrow> Some 0 | Some VNil \<Rightarrow> Some 0 | Some (VInt n) \<Rightarrow> (if in_int32 n then Some n else None) | _ \<Rightarrow> None)"

definition list_field :: "(GoValue \<Rightarrow> 'a option) \<Rightarrow> json \<Rightarrow> string \<Rightarrow> 'a slice option" where
  "list_field decode m k = (case map_of m k of
     None \<Rightarrow> Some None | Some VNil \<Rightarrow> Some None | Some (VArray vs) \<Rightarrow> map_option Some (those (map decode vs)) | _ \<Rightarrow> None)"

fun decode_string :: "GoValue \<Rightarrow> string option" where
  "decode_string (VString s) = Some s"
| "decode_string VNil = Some ''''"
| "decode_string _ = None"

text \<open>The schema of the resource admits no other states than those of the constants.\<close>

instantiation PodState :: enum
begin

definition enum_PodState :: "PodState list" where
  "enum_PodState = [PodStateActive, PodStateScalingDownRecoveryInvestigation, PodStateScalingDownRecoveryProcessing,
     PodStateScalingDownRecoveryHeuristic, PodStateScalingDownClean]"

definition enum_all_PodState :: "(PodState \<Rightarrow> bool) \<Rightarrow> bool" where
  "enum_all_PodState P \<longleftrightarrow> list_all P enum_class.enum"

definition enum_ex_PodState :: "(PodState \<Rightarrow> bool) \<Rightarrow> bool" where
  "enum_ex_PodState P \<longleftrightarrow> list_ex P enum_class.enum"

instance
proof
  show univ: "(UNIV :: PodState set) = set enum_class.enum"
    unfolding enum_PodState_def using PodState.exhaust by auto
  show "distinct (enum_class.enum :: PodState list)" by (simp add: enum_PodState_def)
  fix P :: "PodState \<Rightarrow> bool"
  show "enum_class.enum_all P \<longleftrightarrow> Ball UNIV P" unfolding enum_all_PodState_def univ by (simp add: list_all_iff)
  show "enum_class.enum_ex P \<longleftrightarrow> Bex UNIV P" unfolding enum_ex_PodState_def univ by (simp add: list_ex_iff)
qed

end

definition state_of_text :: "string \<Rightarrow> PodState option" where
  "state_of_text s = find (\<lambda>st. state_text st = s) enum_class.enum"

fun decode_PodStatus :: "GoValue \<Rightarrow> PodStatus option" where
  "decode_PodStatus (VMap m) =
     (case (string_field m ''name'', string_field m ''podIP'', Option.bind (string_field m ''state'') state_of_text,
            int_field m ''recoveryCounter'') of
        (Some name, Some podIP, Some state, Some counter) \<Rightarrow>
          Some \<lparr>ps_Name = name, ps_PodIP = podIP, ps_State = state, ps_RecoveryCounter = counter\<rparr>
      | _ \<Rightarrow> None)"
| "decode_PodStatus _ = None"

fun decode_Status :: "GoValue \<Rightarrow> WildFlyServerStatus option" where
  "decode_Status (VMap m) =
     (case (int_field m ''replicas'', list_field decode_PodStatus m ''pods'', list_field decode_string m ''hosts'',
            int_field m ''scalingdownPods'', string_field m ''selector'') of
        (Some replicas, Some pods, Some hosts, Some scalingdown, Some selector) \<Rightarrow>
          Some \<lparr>st_Replicas = replicas, st_Pods = pods, st_Hosts = hosts, st_ScalingdownPods = scalingdown,
                st_Selector = selector\<rparr>
      | _ \<Rightarrow> None)"
| "decode_Status _ = None"

section \<open>Round trip\<close>

text \<open>An empty slice becomes nil on the way.\<close>

definition nil_if_empty :: "'a slice \<Rightarrow> 'a slice" where
  "nil_if_empty xs = (if elems xs = [] then None else xs)"

lemma nil_if_empty_elems [simp]: "elems (nil_if_empty xs) = elems xs"
  by (simp add: nil_if_empty_def)

lemma nil_if_empty_same: "nil_if_empty xs = xs \<longleftrightarrow> xs \<noteq> Some []"
  by (cases xs) (auto simp: nil_if_empty_def)

definition typed_status :: "WildFlyServerStatus \<Rightarrow> bool" where
  "typed_status st \<longleftrightarrow> in_int32 (st_Replicas st) \<and> in_int32 (st_ScalingdownPods st) \<and>
     list_all (\<lambda>v. in_int32 (ps_RecoveryCounter v)) (elems (st_Pods st))"

lemma state_of_text [simp]: "state_of_text (state_text st) = Some st"
  by (cases st) (simp_all add: state_of_text_def enum_PodState_def)

lemma those_map: "\<forall>x\<in>set xs. decode (enc x) = Some x \<Longrightarrow> those (map decode (map enc xs)) = Some xs"
  by (induction xs) auto

lemmas member_defs = member_def omitempty_def string_member_def int_member_def list_member_def

lemma decode_json_PodStatus: "in_int32 (ps_RecoveryCounter v) \<Longrightarrow> decode_PodStatus (json_PodStatus v) = Some v"
  by (cases v) (simp add: json_PodStatus_def member_defs string_field_def int_field_def)

lemma list_field_member:
  assumes "\<forall>x\<in>set (elems xs). decode (enc x) = Some x" and "map_of m k = map_of (list_member k enc (elems xs)) k"
  shows "list_field decode m k = Some (nil_if_empty xs)"
  using assms those_map[of "elems xs" decode enc] by (cases xs) (auto simp: list_field_def list_member_def omitempty_def nil_if_empty_def)

lemma decode_json_Status:
  assumes "typed_status st"
  shows "decode_Status (json_Status st) = Some (st\<lparr>st_Pods := nil_if_empty (st_Pods st), st_Hosts := nil_if_empty (st_Hosts st)\<rparr>)"
proof -
  obtain m where m: "json_Status st = VMap m" by (simp add: json_Status_def)
  have ints: "int_field m ''replicas'' = Some (st_Replicas st)" "int_field m ''scalingdownPods'' = Some (st_ScalingdownPods st)"
    using assms m by (auto simp: json_Status_def member_defs int_field_def typed_status_def)
  have selector: "string_field m ''selector'' = Some (st_Selector st)"
    using m by (auto simp: json_Status_def member_defs string_field_def)
  have pods: "list_field decode_PodStatus m ''pods'' = Some (nil_if_empty (st_Pods st))"
    by (rule list_field_member) (use assms m in \<open>auto simp: typed_status_def list_all_iff decode_json_PodStatus json_Status_def member_defs\<close>)
  have hosts: "list_field decode_string m ''hosts'' = Some (nil_if_empty (st_Hosts st))"
    by (rule list_field_member) (use m in \<open>auto simp: json_Status_def member_defs\<close>)
  show ?thesis using ints selector pods hosts m by simp
qed

lemma json_Status_nil: "json_Status (st\<lparr>st_Pods := nil_if_empty (st_Pods st), st_Hosts := nil_if_empty (st_Hosts st)\<rparr>) = json_Status st"
  by (simp add: json_Status_def)

text \<open>
  C33: A status that is written and read back. With 32-bit counters the document of a status decodes
  without error, to the same status but for slices that are empty and not nil: \<open>omitempty\<close> leaves
  them out, and they come back as nil. So exactly the statuses without such a slice come back
  unchanged, and what comes back has the same document, so that a second trip changes nothing.
\<close>

theorem status_roundtrip:
  assumes "typed_status st"
  shows "\<exists>st'. decode_Status (json_Status st) = Some st' \<and>
     (st' = st \<longleftrightarrow> st_Pods st \<noteq> Some [] \<and> st_Hosts st \<noteq> Some []) \<and>
     elems (st_Pods st') = elems (st_Pods st) \<and> elems (st_Hosts st') = elems (st_Hosts st) \<and>
     st_Replicas st' = st_Replicas st \<and> st_ScalingdownPods st' = st_ScalingdownPods st \<and> st_Selector st' = st_Selector st \<and>
     json_Status st' = json_Status st"
proof -
  let ?st = "st\<lparr>st_Pods := nil_if_empty (st_Pods st), st_Hosts := nil_if_empty (st_Hosts st)\<rparr>"
  have "?st = st \<longleftrightarrow> nil_if_empty (st_Pods st) = st_Pods st \<and> nil_if_empty (st_Hosts st) = st_Hosts st" by (cases st) auto
  then show ?thesis using decode_json_Status[OF assms] json_Status_nil by (auto simp: nil_if_empty_same)
qed

theorem status_roundtrip_witness:
  "\<exists>st'. decode_Status (json_Status (sample_status\<lparr>st_Hosts := Some []\<rparr>)) = Some st' \<and> st' \<noteq> sample_status\<lparr>st_Hosts := Some []\<rparr> \<and>
     json_Status st' = json_Status (sample_status\<lparr>st_Hosts := Some []\<rparr>)"
proof -
  have "typed_status (sample_status\<lparr>st_Hosts := Some []\<rparr>)" by (simp add: typed_status_def sample_status_def in_int32_def)
  from status_roundtrip[OF this] show ?thesis by auto
qed

section \<open>Hosts that never settle\<close>



end
