(* ===== verification/Spec2Isabelle.thy ===== *)
theory Spec2Isabelle
  imports Example_Cluster Convergence Manager Deep_Copy Schema_Conformance Recovery_Interleaving Operator_History Status_Documents
begin

text \<open>
  A verification of the WildFly operator, which keeps the StatefulSet, services, route and
  monitor of a \<open>WildFlyServer\<close> resource in line with its specification and recovers the
  transactions of a server before its pod is removed.

  \<^bold>\<open>The program and its model.\<close> \<open>Reconcile\<close> (\<open>controllers/wildflyserver_controller.go\<close>) is one pass:
  it reads the resource, creates the StatefulSet or reads it, lists the pods, cleans the status,
  disables the labels of the pods that go, runs the transaction recovery on them
  (\<open>controllers/transaction_recovery.go\<close>), lets \<open>checkStatefulSet\<close> resize or renew the StatefulSet,
  brings services, route and monitor up to date (\<open>pkg/resources/...\<close>) and writes the status. The
  recovery talks to the servers through \<open>pkg/util/remote_ops.go\<close> and \<open>pkg/util/wildfly_mgmt.go\<close>.
  \<open>main.go\<close> registers the types of \<open>api/v1alpha1\<close>, parses the flags and starts the manager, which calls
  \<open>Reconcile\<close>. Every function is an operation of a state monad over an arbitrary environment \<open>'e\<close>; what is
  outside the repository (API server, discovery, exec streams, sockets, logs, JSON, time, the
  scheduler of goroutines, the manager library) is a field of the record \<open>Kube\<close>, and every request
  is recorded with its answer in a trace of \<open>event\<close>s. Panics are a value of \<open>outcome\<close>, errors a
  sum or option, nil-able slices and maps options, \<open>int32\<close> values integers with \<open>wrap32\<close> written
  out. A function that mutates the resource or a pod it is given returns it. Two parts are about
  more than values: the generated deep copies run on an explicit memory, and the goroutines
  of the recovery are also modelled step by step.

  \<^bold>\<open>Theories.\<close>
  \<^item> \<open>Prelude\<close>: machine integers, panics, slices, the monad, and the logic \<open>does\<close>: \<open>does m \<Phi>\<close> says
    that every run of \<open>m\<close> returns some \<open>r\<close> and emits some \<open>evs\<close> with \<open>\<Phi> r evs\<close>; \<open>does_rules\<close> collects
    the rules that run an operation symbolically.
  \<^item> \<open>Go_Strings\<close>, \<open>Go_Flags\<close>, \<open>Go_Utilities\<close>: what the sources use of \<open>strconv\<close>, \<open>strings\<close>, \<open>regexp\<close>, \<open>path\<close>,
    \<open>flag\<close>, \<open>sort\<close>, and \<open>pkg/util/go_utilities.go\<close>; round trip of decimals (locale \<open>decimal_codec\<close>), the
    order of the pods (locale \<open>key_order\<close>), sanitised names, list and map helpers.
  \<^item> \<open>Api_Types\<close>: \<open>api/v1alpha1/wildflyserver_types.go\<close> and the Kubernetes objects as records.
  \<^item> \<open>Go_Heap\<close>, \<open>Deep_Copy\<close>: memory with pointers and slices, and \<open>zz_generated.deepcopy.go\<close> on it (contracts
    \<open>view_of\<close> and \<open>deep_copy\<close>): a copy is the same value in fresh cells.
  \<^item> \<open>Api_Schema\<close>, \<open>Schema_Conformance\<close>, \<open>Status_Documents\<close>: \<open>zz_generated.openapi.go\<close>, the JSON documents that
    the tags of the types give, what it means that a document conforms to a schema, and which statuses
    survive being written and read back.
  \<^item> \<open>Client\<close>: the environment, the events, and \<open>pkg/resources/{actions,generation,constants}.go\<close>;
    \<open>Fake_Client\<close>: an in-memory cluster, used for witnesses and for the progress theorem only.
  \<^item> \<open>Services\<close>, \<open>Routes\<close>, \<open>Stateful_Sets\<close>: the packages of these names (\<open>Routes\<close> has the service
    monitors too): what is built, what a service selects, and the contract \<open>reconcile_stage\<close>.
  \<^item> \<open>Remote_Ops\<close>: \<open>remote_ops.go\<close> and \<open>wildfly_mgmt.go\<close>: what an answer is, bounded waiting.
  \<^item> \<open>Pod_Status\<close>: the entries of the status in the controller.
  \<^item> \<open>Transaction_Recovery\<close>: the definitions of \<open>transaction_recovery.go\<close>; \<open>Recovery_Evidence\<close>: what
    a clean result rests on, the labels, the recovery port; \<open>Pod_Lifecycle\<close>: the abstract machine
    \<open>pod_step\<close> of a pod that is scaled down and the refinement (contract \<open>status_stage\<close>);
    \<open>Recovery_Safety\<close>: why a pod is marked clean, and panics; \<open>Recovery_Interleaving\<close>: the goroutines as
    a step relation, and that their interleavings give what the sequential model gives.
  \<^item> \<open>Controller\<close>: the definitions of \<open>wildflyserver_controller.go\<close> and the size of the StatefulSet;
    \<open>Reconcile_Stages\<close>: what the parts of a pass write (contract \<open>resource_stage\<close>); \<open>Scaling\<close>: which
    pods a resize gives up; \<open>Reconcile_Pass\<close>: a pass as a whole; \<open>Operator_History\<close>: passes in a row;
    \<open>Status_Types\<close>: the type invariant; \<open>Convergence\<close>: progress (contract \<open>service_repair\<close>);
    \<open>Example_Cluster\<close>: concrete passes.
  \<^item> \<open>Api_Scheme\<close>, \<open>Manager\<close>: the registration of the types (\<open>groupversion_info.go\<close>, the \<open>init\<close> functions,
    and the vendored builder and scheme they use), \<open>main.go\<close> and \<open>SetupWithManager\<close> (contract \<open>creating_stage\<close>).
  \<^item> This theory: the properties of whole passes, over all the components.

  \<^bold>\<open>What is shown.\<close> Safety of the scale down, from the answers of the servers (\<open>checkRecovery_sound\<close>)
  over the marks in the status (\<open>scaledown_justified\<close>, \<open>scaledown_lifecycle\<close>) and the size that is
  sent (\<open>checkStatefulSet_gives_up_clean\<close>) to the pass (\<open>Reconcile_shrinks_safely\<close>) and to all
  passes in a row (\<open>operator_gives_up_proven\<close>); what a pass
  that wants nothing more has found (\<open>Reconcile_quiescent\<close>), all its panics (\<open>Reconcile_panics\<close>), how
  it begins (\<open>Reconcile_entry\<close>), types and kinds of what it sends (\<open>Reconcile_statuses_typed\<close>,
  \<open>Reconcile_creations_watched\<close>), progress (\<open>services_settle\<close>); that the sequential recovery stands for
  the concurrent one (\<open>recovery_interleavings\<close>) and values for copies (\<open>DeepCopyObject_independent\<close>); that
  the published schema describes the resource (\<open>server_documents\<close>); how the operator starts (\<open>main_sets_up\<close>);
  and the functional correctness of the
  parts. Where the code does something else than it means to, the theorem states what it does:
  \<open>checkStatefulSet_limits\<close>, \<open>hosts_never_settle\<close>, \<open>DeleteExistingRoute_reports\<close>,
  \<open>RemoveFromList_correct\<close>, \<open>NewStatefulSet_mounts_resolve\<close>, \<open>secret_volumes_correct\<close>, \<open>raise_lost\<close>.

  \<^bold>\<open>Hypotheses on the environment\<close>, each documented behaviour of the other side, stated on the trace
  or on a parameter: \<open>echoes\<close> (an accepted patch or status update returns the object that was
  sent, as to names, entries, specification and generation), \<open>fair_schedule\<close> (every goroutine is
  run), \<open>owner_ref_only\<close> (\<open>SetOwnerReference\<close> sets owners only), \<open>typed_answer\<close> (what is read has the
  types of the API), \<open>status_owned\<close> (only the operator marks pods as clean), \<open>library_copies\<close> (the deep
  copies of the Kubernetes structs are deep copies), \<open>library_encodes\<close> (their documents conform to their
  schemas), \<open>libraries_register\<close> (their packages register their kinds). Each has an instance.

  \<^bold>\<open>Loops.\<close> Every loop of the sources is a total function: recursion over the list it ranges over, a
  measure for \<open>RemoveFromList\<close>, and for the wait for a restarted server the retry counter of the
  code itself, so that no fuel is needed. The goroutines take at most four steps each.

  \<^bold>\<open>Not modelled.\<close> The text of messages that are only logged, and the set-up of the loggers; time, so that
  waiting and the dial and read deadlines are steps without duration; the flags of \<open>zap\<close> beyond
  that they are parsed; the conversion functions a scheme keeps beside the types. The answers a goroutine
  gets from its server are the same in every interleaving, and two goroutines of one pod name, or a
  pass that runs beside another one, do not occur.
\<close>

section \<open>One pass of the reconciliation\<close>

lemma Reconcile_shrinks:
  assumes "fair_schedule K"
  shows "does (Reconcile K isOpenShift namespace name) (\<lambda>res evs. list_all echoes evs \<longrightarrow>
     (\<forall>w sts items r. opened evs = Some (w, sts, items) \<and> scaling_down w sts items r \<longrightarrow>
        shrinks_safely K w sts r items (r - sp_Replicas (wf_Spec w)) evs) \<and>
     (resized evs \<noteq> [] \<longrightarrow> (\<exists>x. opened evs = Some x)))"
  by (rule does_Reconcile)
     (auto intro!: does_mono[OF reconcileServer_shrinks[OF assms]] simp: opened_Some intro: shrinks_safely_Cons)




text \<open>
  Two passes. In the first the recovery is deactivated and the second pod is marked; the new size
  is not taken over. In the second the recovery is active again, and the pod is given up.
\<close>

definition deactivated_server :: WildFlyServer where
  "deactivated_server = (with_pods [(''quickstart-0'', PodStateActive), (''quickstart-1'', PodStateActive)])
     \<lparr>wf_Spec := sample_spec\<lparr>sp_DeactivateTransactionRecovery := True\<rparr>\<rparr>"

lemma deactivated_server_simps [simp]:
  "wf_Name deactivated_server = ''quickstart''" "wf_Namespace deactivated_server = ''ns''"
  "map ps_Name (wf_Pods deactivated_server) = [''quickstart-0'', ''quickstart-1'']"
  "length (wf_Pods deactivated_server) = 2" "clean_names (wf_Pods deactivated_server) = {}" "sp_Replicas (wf_Spec deactivated_server) = 1"
  "sp_DeactivateTransactionRecovery (wf_Spec deactivated_server)" "validate deactivated_server = (True, None)"
  by (simp_all add: deactivated_server_def with_pods_def sample_server_def sample_meta_def sample_spec_def validate_def)

abbreviation deactivated_cluster :: Cluster where
  "deactivated_cluster \<equiv> shrinking_cluster\<lparr>cl_Servers := [deactivated_server]\<rparr>"

abbreviation selected_deactivated :: WildFlyServer where
  "selected_deactivated \<equiv> with_selector ''app.kubernetes.io/name=quickstart'' deactivated_server"

definition marked_server :: WildFlyServer where
  "marked_server = set_scalingdown 1 (mark_clean selected_deactivated (shrinking_pods ! 1))"

lemma run_deactivated:
  "run_state (cleanUpPodStatus fake_kube selected_deactivated shrinking_pods) (c, tr) = (((False, None), selected_deactivated), c, tr)"
  "run_state (setLabelAsDisabled fake_kube selected_deactivated MarkerOperatedByLoadbalancer 1 shrinking_pods) (c, tr)
     = (Ret (False, None), c, tr)"
  "\<exists>c'. run_state (processTransactionRecoveryScaleDown fake_kube selected_deactivated 1 shrinking_pods) (c, tr) =
     (Ret ((requeueOff, None), marked_server), c', tr @ [EvUpdateStatus marked_server (Inr marked_server)])"
  subgoal
    by (simp add: cleanUpPodStatus_def keepStatus_def deactivated_server_def with_pods_def slice_append_def shrinking_pods_def
      sample_pod_def named_pod_def zero_ObjectMeta_def)
  subgoal
    by (simp add: setLabelAsDisabled_def eval_nat_numeral updatePodLabel_def shrinking_pods_def)
  subgoal
    by (simp add: processTransactionRecoveryScaleDown_def skipRecoveryAndForceScaleDown_def Let_def UpdateWildFlyServerStatus_def
      fake_status_def marked_server_def shrinking_pods_def)
  done

lemma marked_server_simps:
  "wf_Pods marked_server = [\<lparr>ps_Name = ''quickstart-0'', ps_PodIP = '''', ps_State = PodStateActive, ps_RecoveryCounter = 0\<rparr>,
     \<lparr>ps_Name = ''quickstart-1'', ps_PodIP = '''', ps_State = PodStateScalingDownClean, ps_RecoveryCounter = 0\<rparr>]"
  "sp_Replicas (wf_Spec marked_server) = 1" "wf_Meta marked_server = wf_Meta shrinking_server"
  by (simp_all add: marked_server_def deactivated_server_def shrinking_server_def with_pods_def mark_clean_def getWildflyServerPodStatusByName_def
      shrinking_pods_def named_pod_def sample_server_def sample_spec_def set_scalingdown_def with_selector_def with_state_def update_entry_def
      zero_ObjectMeta_def)

lemma marked_server_current: "IsCurrentGeneration marked_server (sts_Meta (sized_sts n))"
  using IsCurrentGeneration_sized[of n] unfolding IsCurrentGeneration_def marked_server_simps(3) .

lemma check_marked:
  "\<exists>c' sts. run_state (checkStatefulSet fake_kube False marked_server (sized_sts 2) shrinking_pods) (c, tr) =
     (Ret (requeueNow, None), c', tr @ [EvUpdate (ObjStatefulSet sts) None])"
proof -
  have meta: "sts_Meta ((sized_sts 2)\<lparr>sts_Replicas := Some 1\<rparr>) = sts_Meta (sized_sts 2)" by simp
  have "calculatedReplicas marked_server shrinking_pods = 1"
    unfolding calculatedReplicas_def marked_server_simps
    by (simp add: shrinking_pods_def statusMap_def sample_pod_def named_pod_def zero_ObjectMeta_def in_int32_def)
  then show ?thesis
    by (simp add: checkStatefulSet_def scaleStatefulSet_def Let_def Update_def meta marked_server_simps(2) marked_server_current)
qed

lemma run_marking:
  "\<exists>r c evs. run_state (Reconcile fake_kube False ''ns'' ''quickstart'') (deactivated_cluster, []) = (r, c, evs) \<and>
     list_all echoes evs \<and> opened evs = Some (deactivated_server, sized_sts 2, shrinking_pods) \<and> ''quickstart-1'' \<in> marked evs"
proof -
  obtain c1 where p: "\<And>c tr. run_state (processTransactionRecoveryScaleDown fake_kube selected_deactivated 1 shrinking_pods) (c, tr) =
     (Ret ((requeueOff, None), marked_server), c1 c tr, tr @ [EvUpdateStatus marked_server (Inr marked_server)])"
    using run_deactivated(3) by metis
  obtain c2 sts where k: "\<And>c tr. run_state (checkStatefulSet fake_kube False marked_server (sized_sts 2) shrinking_pods) (c, tr) =
     (Ret (requeueNow, None), c2 c tr, tr @ [EvUpdate (ObjStatefulSet (sts c tr)) None])"
    using check_marked by metis
  have [simp]: "wrap32 2 = 2" "wrap32 1 = 1" "requeueOff \<noteq> requeueNow" by (simp_all add: in_int32_def requeueOff_def requeueNow_def)
  have "''quickstart-1'' \<in> clean_names (wf_Pods marked_server)" unfolding marked_server_simps by simp
  then show ?thesis
    by (simp add: Reconcile_def reconcileServer_selector GetOrCreateNewStatefulSet_def GetStatefulSet_def find_named_def
      reconcilePods_def GetPodsForWildFly_def Let_def run_deactivated(1,2) reconcileScaleDown_def p k)
qed


text \<open>
  C8: What makes a pass panic. If reading the StatefulSet fails with an error other than
  \<open>NotFound\<close> the error is dropped, and the pass panics as soon as the pods are listed. Otherwise,
  with sizes in the range of their types, a pass panics only on a StatefulSet without a size or
  without annotations, on a pod without labels, or on a pod that the status does not list.
\<close>

theorem Reconcile_panics:
  assumes "fair_schedule K"
  shows "does (Reconcile K isOpenShift namespace name) (\<lambda>res evs.
     (read_dropped evs \<longrightarrow> res = Panic) \<and>
     (list_all echoes evs \<and> res = Panic \<longrightarrow> read_dropped evs \<or>
        (\<exists>w sts items. opened evs = Some (w, sts, items) \<and> (valid_sizes w sts items \<longrightarrow> fragile w sts items))))"
  by (rule does_Reconcile)
     (auto intro!: does_mono[OF reconcileServer_panic[OF assms]] simp: opened_Some read_dropped_def)

theorem Reconcile_panics_witness:
  "\<exists>c evs. run_state (Reconcile (fake_kube\<lparr>k_GetStatefulSet := \<lambda>ns n c. (Inl (ApiError OtherReason ''timeout''), c)\<rparr>)
     False ''ns'' ''quickstart'') (settled_cluster, []) = (Panic, c, evs) \<and> read_dropped evs"
proof -
  let ?K = "fake_kube\<lparr>k_GetStatefulSet := \<lambda>ns n c. (Inl (ApiError OtherReason ''timeout''), c)\<rparr>"
  obtain r c evs where run: "run_state (Reconcile ?K False ''ns'' ''quickstart'') (settled_cluster, []) = (r, c, evs)"
    by (metis prod.exhaust)
  then have dropped: "read_dropped evs"
    by (auto simp: Reconcile_def reconcileServer_selector GetOrCreateNewStatefulSet_def GetStatefulSet_def
      reconcilePods_def GetPodsForWildFly_def Let_def settled_cluster_def find_named_def zero_StatefulSet_def read_dropped_def)
  have "fair_schedule ?K" by (simp add: fair_schedule_def)
  then have "r = Panic" using does_run[OF Reconcile_panics run] dropped by blast
  with run dropped show ?thesis by blast
qed

text \<open>
  C7: A pass that returns without error and without asking for another one has found everything
  in place: the WildFlyServer is gone, or the StatefulSet is of the current generation and not
  smaller than the specification. If it has the specified size, then so many pods exist, all with
  an address, the status lists them, all as active, and shows the size the StatefulSet reports and
  that nothing is scaled down; and the pass has written nothing but the deletion of a route.
\<close>

theorem Reconcile_quiescent:
  "does (Reconcile K isOpenShift namespace name) (\<lambda>res evs. res = Ret (False, None) \<and> list_all echoes evs \<longrightarrow>
     (\<exists>err. evs = [EvGetWildFlyServer namespace name (Inl err)] \<and> IsNotFound (Some err)) \<or>
     (\<exists>w sts items r. opened evs = Some (w, sts, items) \<and> validate w = (True, None) \<and> sts_Replicas sts = Some r \<and>
        sp_Replicas (wf_Spec w) \<le> r \<and> IsCurrentGeneration w (sts_Meta sts) \<and>
        (r = sp_Replicas (wf_Spec w) \<longrightarrow> wrap32 (int (length items)) = r \<and> list_all route_deletion (writes evs) \<and>
           up_to_date w sts items 0)))"
  by (rule does_Reconcile)
     (auto intro!: does_mono[OF reconcileServer_settled] simp: opened_Some split: if_splits)

theorem Reconcile_quiescent_witness:
  "\<exists>evs. run_state (Reconcile fake_kube False ''ns'' ''quickstart'') (settled_cluster, []) = (Ret (False, None), settled_cluster, evs) \<and>
     up_to_date settled_server (sized_sts 1) [sample_pod] 0 \<and> list_all route_deletion (writes evs)"
proof -
  obtain evs where run: "run_state (Reconcile fake_kube False ''ns'' ''quickstart'') (settled_cluster, []) = (Ret (False, None), settled_cluster, evs)"
    and ev: "list_all echoes evs" "opened evs = Some (settled_server, sized_sts 1, [sample_pod])"
    using run_settled by (elim exE conjE)
  from does_run[OF Reconcile_quiescent run] ev
  have "up_to_date settled_server (sized_sts 1) [sample_pod] 0 \<and> list_all route_deletion (writes evs)" by auto
  with run show ?thesis by blast
qed

text \<open>
  C13: How a pass begins. A WildFlyServer that does not exist any more ends the pass without an
  error, any other error of reading it is returned; nothing else is then asked of the cluster.
  A bootable JAR with a configuration from a config map is rejected: the only effect is a
  warning with the reason, which is also the error returned. Everything else is reconciled.
\<close>

theorem Reconcile_entry:
  "does (Reconcile K isOpenShift namespace name) (\<lambda>res evs. \<exists>answer evs'. evs = EvGetWildFlyServer namespace name answer # evs' \<and>
     (\<forall>err. answer = Inl err \<longrightarrow> evs' = [] \<and> res = Ret (False, if IsNotFound (Some err) then None else Some err)) \<and>
     (\<forall>w. answer = Inr w \<longrightarrow>
        (sp_BootableJar (wf_Spec w) \<and> sp_StandaloneConfigMap (wf_Spec w) \<noteq> None \<longrightarrow>
           (\<exists>t. evs' = [EvRecord ''Warning'' ''WildFlyProcessingError'' t] \<and> res = Ret (False, Some (Errorf t [] [])))) \<and>
        (\<not> (sp_BootableJar (wf_Spec w) \<and> sp_StandaloneConfigMap (wf_Spec w) \<noteq> None) \<longrightarrow>
           (\<exists>ans evs''. evs' = EvGetStatefulSet (wf_Namespace w) (wf_Name w) ans # evs''))))"
proof (rule does_Reconcile, goal_cases)
  case (3 w)
  then have ok: "\<not> (sp_BootableJar (wf_Spec w) \<and> sp_StandaloneConfigMap (wf_Spec w) \<noteq> None)"
    by (simp add: validate_def split: if_splits)
  have any: "does (reconcilePods K isOpenShift w1 sts) (\<lambda>r evs. True)" for w1 sts
    by (rule does_mono[OF reconcilePods_settled]) simp
  have "does (reconcileServer K isOpenShift w) (\<lambda>r evs. \<exists>ans evs2. evs = EvGetStatefulSet (wf_Namespace w) (wf_Name w) ans # evs2)"
    unfolding reconcileServer_selector Let_def GetOrCreateNewStatefulSet_def
    by (intro does_rules does_mono[OF any]) auto
  then show ?case by (rule does_mono) (use ok in auto)
qed (auto simp: validate_def error_text.simps split: if_splits)

theorem Reconcile_entry_witness:
  "does (Reconcile fake_kube False ''ns'' ''quickstart'') (\<lambda>res evs. \<forall>err.
     evs \<noteq> [] \<and> hd evs = EvGetWildFlyServer ''ns'' ''quickstart'' (Inl err) \<and> IsNotFound (Some err) \<longrightarrow>
     length evs = 1 \<and> res = Ret (False, None)) \<and>
   run_state (Reconcile fake_kube False ''ns'' ''quickstart'') (empty_cluster, []) =
     (Ret (False, None), empty_cluster, [EvGetWildFlyServer ''ns'' ''quickstart'' (Inl (ApiError NotFound ''quickstart''))])"
proof
  show "does (Reconcile fake_kube False ''ns'' ''quickstart'') (\<lambda>res evs. \<forall>err.
     evs \<noteq> [] \<and> hd evs = EvGetWildFlyServer ''ns'' ''quickstart'' (Inl err) \<and> IsNotFound (Some err) \<longrightarrow>
     length evs = 1 \<and> res = Ret (False, None))"
    by (rule does_mono[OF Reconcile_entry]) auto
  show "run_state (Reconcile fake_kube False ''ns'' ''quickstart'') (empty_cluster, []) =
     (Ret (False, None), empty_cluster, [EvGetWildFlyServer ''ns'' ''quickstart'' (Inl (ApiError NotFound ''quickstart''))])"
    by (simp add: Reconcile_def empty_cluster_def find_named_def)
qed

text \<open>The statuses a pass sends, by an update or by a patch.\<close>

fun sent_status :: "event \<Rightarrow> WildFlyServerStatus option" where
  "sent_status (EvUpdateStatus w _) = Some (wf_Status w)"
| "sent_status (EvPatchStatus _ w _) = Some (wf_Status w)"
| "sent_status _ = None"

lemma typed_request_sent: "typed_request ev \<Longrightarrow> sent_status ev = Some st \<Longrightarrow> valid_status st \<longleftrightarrow> distinct (elems (st_Hosts st))"
  by (cases ev rule: typed_request.cases) (auto simp: typed_server_def typed_pods_def valid_status_def list_all_iff)





end
